(* ===== verification/Prelude.thy ===== *)
theory Prelude
  imports Main "HOL-Library.Char_ord" "HOL-Library.List_Lexorder" "HOL-Library.Product_Lexorder"
    "HOL-Library.Multiset"
begin

text \<open>
  Shared vocabulary of the development: Python exceptions as values, early returns
  (\<open>raise_if\<close>) and sequencing (\<open>rbind\<close>, \<open>map_r\<close>), dictionaries as association lists in
  insertion order, the string predicates behind the \<^verbatim>\<open>re\<close> patterns of the code base, and the
  generic lemmas that the component theories use.

  A Python \<^verbatim>\<open>str\<close> is a list of code points; the model takes those below 256 and writes a
  string as a HOL \<^typ>\<open>string\<close>. Python compares strings by code point, lexicographically, which is
  the order that \<open>List_Lexorder\<close> and \<open>Char_ord\<close> put on \<^typ>\<open>string\<close>; tuples compare as
  \<open>Product_Lexorder\<close> does.
\<close>

named_theorems result_simps \<open>inversion of results that are not errors\<close>

section \<open>Exceptions as values\<close>

datatype exc =
    ValueError string
  | TypeError string
  | KeyError string
  | RuntimeError string

type_synonym 'a result = "exc + 'a"

fun rbind :: "'e + 'a \<Rightarrow> ('a \<Rightarrow> 'e + 'b) \<Rightarrow> 'e + 'b" where
  "rbind (Inl e) k = Inl e"
| "rbind (Inr x) k = k x"

definition raise_if :: "bool \<Rightarrow> 'e \<Rightarrow> 'e + 'a \<Rightarrow> 'e + 'a" where
  "raise_if c e k = (if c then Inl e else k)"

primrec map_r :: "('a \<Rightarrow> 'e + 'b) \<Rightarrow> 'a list \<Rightarrow> 'e + 'b list" where
  "map_r f [] = Inr []"
| "map_r f (x # xs) = rbind (f x) (\<lambda>y. rbind (map_r f xs) (\<lambda>ys. Inr (y # ys)))"

lemma rbind_Inr [result_simps]: "rbind r k = Inr y \<longleftrightarrow> (\<exists>x. r = Inr x \<and> k x = Inr y)"
  by (cases r) auto

lemma raise_if_Inr [result_simps]: "raise_if c e k = Inr y \<longleftrightarrow> \<not> c \<and> k = Inr y"
  by (simp add: raise_if_def)

lemma raise_if_simps [simp]:
  "raise_if True e k = Inl e" "raise_if False e k = k"
  by (simp_all add: raise_if_def)

lemma raise_if_cong [fundef_cong]:
  "c = c' \<Longrightarrow> e = e' \<Longrightarrow> (\<not> c' \<Longrightarrow> k = k') \<Longrightarrow> raise_if c e k = raise_if c' e' k'"
  by (simp add: raise_if_def)

lemma map_r_Inr: "map_r f xs = Inr ys \<longleftrightarrow> list_all2 (\<lambda>x y. f x = Inr y) xs ys"
  by (induction xs arbitrary: ys) (auto simp: rbind_Inr list_all2_Cons1)

lemma map_r_Inr_set: "map_r f xs = Inr ys \<Longrightarrow> y \<in> set ys \<Longrightarrow> \<exists>x \<in> set xs. f x = Inr y"
  by (fastforce simp: map_r_Inr list_all2_conv_all_nth in_set_conv_nth)

lemma map_r_ex_Inr: "(\<exists>ys. map_r f xs = Inr ys) \<longleftrightarrow> (\<forall>x \<in> set xs. \<exists>y. f x = Inr y)"
  by (induction xs) (auto simp: rbind_Inr)

lemma map_r_all_Inr: "(\<And>x. x \<in> set xs \<Longrightarrow> f x = Inr (g x)) \<Longrightarrow> map_r f xs = Inr (map g xs)"
  by (induction xs) auto

section \<open>Dictionaries in insertion order\<close>

type_synonym ('k, 'v) dict = "('k \<times> 'v) list"

definition dict_keys :: "('k, 'v) dict \<Rightarrow> 'k list" where
  "dict_keys d = map fst d"

fun dict_set :: "('k, 'v) dict \<Rightarrow> 'k \<Rightarrow> 'v \<Rightarrow> ('k, 'v) dict" where
  "dict_set [] k v = [(k, v)]"
| "dict_set ((k', v') # d) k v =
     (if k' = k then (k, v) # d else (k', v') # dict_set d k v)"

definition dict_of :: "('k \<times> 'v) list \<Rightarrow> ('k, 'v) dict" where
  "dict_of kvs = foldl (\<lambda>d (k, v). dict_set d k v) [] kvs"

abbreviation dict_get :: "('k, 'v) dict \<Rightarrow> 'k \<Rightarrow> 'v option" where
  "dict_get \<equiv> map_of"

abbreviation wf_dict :: "('k, 'v) dict \<Rightarrow> bool" where
  "wf_dict d \<equiv> distinct (map fst d)"

lemma dict_get_set [simp]: "dict_get (dict_set d k v) = (dict_get d)(k \<mapsto> v)"
  by (induction d k v rule: dict_set.induct) (auto simp: fun_eq_iff)

lemma keys_dict_set [simp]: "fst ` set (dict_set d k v) = insert k (fst ` set d)"
  by (induction d k v rule: dict_set.induct) auto

lemma wf_dict_set [simp]: "wf_dict d \<Longrightarrow> wf_dict (dict_set d k v)"
  by (induction d k v rule: dict_set.induct) auto

lemma dict_set_new: "k \<notin> fst ` set d \<Longrightarrow> dict_set d k v = d @ [(k, v)]"
  by (induction d k v rule: dict_set.induct) auto

lemma foldl_dict_set_distinct:
  "distinct (map fst (d @ kvs)) \<Longrightarrow> foldl (\<lambda>d (k, v). dict_set d k v) d kvs = d @ kvs"
proof (induction kvs arbitrary: d)
  case (Cons kv kvs)
  obtain k v where kv: "kv = (k, v)" by (cases kv)
  with Cons.prems have "k \<notin> fst ` set d" by auto
  with Cons kv show ?case by (simp add: dict_set_new)
qed simp

lemma dict_of_distinct: "wf_dict kvs \<Longrightarrow> dict_of kvs = kvs"
  using foldl_dict_set_distinct [of "[]" kvs] by (simp add: dict_of_def)

lemma dict_of_snoc: "dict_of (kvs @ [(k, v)]) = dict_set (dict_of kvs) k v"
  by (simp add: dict_of_def)

lemma wf_dict_of [simp]: "wf_dict (dict_of kvs)"
  by (induction kvs rule: rev_induct) (auto simp: dict_of_snoc dict_of_def [of "[]"])

lemma set_dict_set: "set (dict_set d k v) \<subseteq> insert (k, v) (set d)"
  by (induction d k v rule: dict_set.induct) auto

lemma set_dict_of: "set (dict_of kvs) \<subseteq> set kvs"
proof (induction kvs rule: rev_induct)
  case (snoc kv kvs)
  then show ?case using set_dict_set [of "dict_of kvs" "fst kv" "snd kv"] dict_of_snoc [of kvs "fst kv" "snd kv"] by auto
qed (simp add: dict_of_def)

section \<open>Character classes and string predicates\<close>

definition between :: "char \<Rightarrow> char \<Rightarrow> char \<Rightarrow> bool" where
  "between lo hi c \<longleftrightarrow> (of_char lo :: nat) \<le> of_char c \<and> (of_char c :: nat) \<le> of_char hi"

definition is_digit :: "char \<Rightarrow> bool" where
  "is_digit c \<longleftrightarrow> between (CHR ''0'') (CHR ''9'') c"

definition is_hexchar :: "char \<Rightarrow> bool" where
  "is_hexchar c \<longleftrightarrow> is_digit c \<or> between (CHR ''a'') (CHR ''f'') c"

definition is_lower_alnum :: "char \<Rightarrow> bool" where
  "is_lower_alnum c \<longleftrightarrow> is_digit c \<or> between (CHR ''a'') (CHR ''z'') c"

text \<open>\<^verbatim>\<open>[0-9a-f]{n}\<close>, matched against the whole string.\<close>

definition is_hex :: "nat \<Rightarrow> string \<Rightarrow> bool" where
  "is_hex n s \<longleftrightarrow> length s = n \<and> list_all is_hexchar s"

text \<open>\<^verbatim>\<open>spk_[0-9a-f]{32}\<close>: the node identities of the fleet.\<close>

definition is_node_id :: "string \<Rightarrow> bool" where
  "is_node_id s \<longleftrightarrow> take 4 s = ''spk_'' \<and> is_hex 32 (drop 4 s)"

text \<open>
  \<^verbatim>\<open>[a-z0-9](?:[P]{0,126}[a-z0-9])?\<close>: one alphanumeric, or a string of at most 128
  characters that starts and ends with one and has characters of the class \<open>P\<close> in between.
\<close>

definition is_slug :: "(char \<Rightarrow> bool) \<Rightarrow> string \<Rightarrow> bool" where
  "is_slug P s \<longleftrightarrow>
     s \<noteq> [] \<and> length s \<le> 128 \<and> is_lower_alnum (hd s) \<and> is_lower_alnum (last s) \<and>
     list_all P (butlast (tl s))"

text \<open>
  The canonical form of a UUID, as \<^verbatim>\<open>str(uuid.UUID(value)) == value\<close> tests it: groups of
  8, 4, 4, 4 and 12 lower-case hexadecimal digits.
\<close>

definition is_uuid :: "string \<Rightarrow> bool" where
  "is_uuid s \<longleftrightarrow>
     length s = 36 \<and>
     list_all (\<lambda>(i, c). if i \<in> {8, 13, 18, 23} then c = CHR ''-'' else is_hexchar c)
       (zip [0..<36] s)"

text \<open>The characters that \<^verbatim>\<open>str.strip\<close> and \<^verbatim>\<open>str.isspace\<close> take for white space.\<close>

definition py_space :: "char \<Rightarrow> bool" where
  "py_space c \<longleftrightarrow> (of_char c :: nat) \<in> {9, 10, 11, 12, 13, 28, 29, 30, 31, 32, 133, 160}"

definition py_strip :: "string \<Rightarrow> string" where
  "py_strip s = rev (dropWhile py_space (rev (dropWhile py_space s)))"

definition is_blank :: "string \<Rightarrow> bool" where
  "is_blank s \<longleftrightarrow> py_strip s = []"

definition starts_with :: "string \<Rightarrow> string \<Rightarrow> bool" where
  "starts_with p s \<longleftrightarrow> take (length p) s = p"

text \<open>\<^verbatim>\<open>sep.join(parts)\<close>.\<close>

fun join_with :: "'a list \<Rightarrow> 'a list list \<Rightarrow> 'a list" where
  "join_with sep [] = []"
| "join_with sep [x] = x"
| "join_with sep (x # y # zs) = x @ sep @ join_with sep (y # zs)"

lemma dropWhile_rev_Nil: "dropWhile P (rev (dropWhile P xs)) = [] \<longleftrightarrow> list_all P xs"
  by (induction xs) (auto simp: list_all_iff dropWhile_eq_Nil_conv)

lemma is_blank_iff: "is_blank s \<longleftrightarrow> list_all py_space s"
  by (simp add: is_blank_def py_strip_def dropWhile_rev_Nil del: dropWhile_eq_Nil_conv)

section \<open>Keys of a table\<close>

lemma distinct_map_unique: "distinct (map f xs) \<Longrightarrow> x \<in> set xs \<Longrightarrow> y \<in> set xs \<Longrightarrow> f x = f y \<Longrightarrow> x = y"
  by (auto simp: distinct_map dest: inj_onD)

section \<open>Sorting\<close>

lemma sort_eq_iff_mset: "sort xs = sort ys \<longleftrightarrow> mset xs = mset ys" for xs :: "'a::linorder list"
  by (metis mset_sort properties_for_sort sorted_sort)

lemma sort_Nil_iff [simp]: "sort_key f xs = [] \<longleftrightarrow> xs = []"
  by (metis length_0_conv length_sort)

lemma sort_distinct_set_eq:
  "distinct xs \<Longrightarrow> distinct ys \<Longrightarrow> set xs = set ys \<Longrightarrow> sort xs = sort ys"
  for xs :: "'a::linorder list"
  by (simp add: sort_eq_iff_mset set_eq_iff_mset_eq_distinct)

lemma map_of_map_prod: "map_of (map (map_prod id f) kvs) k = map_option f (map_of kvs k)"
  by (induction kvs) auto

lemma map_of_sort_key: "wf_dict kvs \<Longrightarrow> map_of (sort_key fst kvs) = map_of kvs"
  by (rule map_of_inject_set [THEN iffD2]) (auto simp: distinct_map)

end
