(* ===== verification/Json.thy ===== *)
theory Json
  imports Prelude
begin

text \<open>
  The JSON documents the control plane stores and hashes, and the part of Python's
  \<^verbatim>\<open>json\<close> module that it uses: \<^verbatim>\<open>dumps(sort_keys=True, separators=(",", ":"))\<close> with and without
  \<^verbatim>\<open>ensure_ascii\<close>, \<^verbatim>\<open>loads\<close> of a compact document, and UTF-8 encoding. A dictionary is an
  association list in insertion order; Python's \<^verbatim>\<open>==\<close> on documents ignores that order and
  identifies \<^verbatim>\<open>True\<close> with 1, which \<open>py_eq\<close> reproduces. Floating-point numbers do not occur in
  the documents of the modelled components and are left out.

  The main result is the round trip \<open>json_loads_dumps\<close>: the canonical text of a document
  determines the document up to the order of keys.
\<close>

section \<open>Documents\<close>

datatype json =
    JNull
  | JBool bool
  | JInt int
  | JStr string
  | JList "json list"
  | JObj "(string \<times> json) list"

abbreviation is_mapping :: "json \<Rightarrow> bool" where
  "is_mapping v \<equiv> (case v of JObj _ \<Rightarrow> True | _ \<Rightarrow> False)"

fun the_obj :: "json \<Rightarrow> (string, json) dict" where
  "the_obj (JObj kvs) = kvs"
| "the_obj _ = []"

primrec json_wf :: "json \<Rightarrow> bool" where
  "json_wf JNull = True"
| "json_wf (JBool b) = True"
| "json_wf (JInt i) = True"
| "json_wf (JStr s) = True"
| "json_wf (JList xs) = list_all id (map json_wf xs)"
| "json_wf (JObj kvs) = (wf_dict kvs \<and> list_all snd (map (map_prod id json_wf) kvs))"

text \<open>Keys sorted at every level: what \<^verbatim>\<open>loads(dumps(x, sort_keys=True))\<close> leaves of \<^verbatim>\<open>x\<close>.\<close>

primrec json_canon :: "json \<Rightarrow> json" where
  "json_canon JNull = JNull"
| "json_canon (JBool b) = JBool b"
| "json_canon (JInt i) = JInt i"
| "json_canon (JStr s) = JStr s"
| "json_canon (JList xs) = JList (map json_canon xs)"
| "json_canon (JObj kvs) = JObj (sort_key fst (map (map_prod id json_canon) kvs))"

primrec json_unbool :: "json \<Rightarrow> json" where
  "json_unbool JNull = JNull"
| "json_unbool (JBool b) = JInt (if b then 1 else 0)"
| "json_unbool (JInt i) = JInt i"
| "json_unbool (JStr s) = JStr s"
| "json_unbool (JList xs) = JList (map json_unbool xs)"
| "json_unbool (JObj kvs) = JObj (map (map_prod id json_unbool) kvs)"

definition py_eq :: "json \<Rightarrow> json \<Rightarrow> bool" where
  "py_eq a b \<longleftrightarrow> json_canon (json_unbool a) = json_canon (json_unbool b)"

section \<open>Serialisation\<close>

definition digit_char :: "nat \<Rightarrow> char" where
  "digit_char n = char_of (48 + n)"

fun dec_nat :: "nat \<Rightarrow> string" where
  "dec_nat n = (if n < 10 then [digit_char n] else dec_nat (n div 10) @ [digit_char (n mod 10)])"

declare dec_nat.simps [simp del]

definition dec_int :: "int \<Rightarrow> string" where
  "dec_int i = (if i < 0 then CHR ''-'' # dec_nat (nat (- i)) else dec_nat (nat i))"

definition hex_char :: "nat \<Rightarrow> char" where
  "hex_char n = (if n < 10 then char_of (48 + n) else char_of (87 + n))"

text \<open>
  \<^verbatim>\<open>json.encoder.py_encode_basestring_ascii\<close> (for \<open>ascii\<close>) and \<^verbatim>\<open>py_encode_basestring\<close>.
\<close>

definition esc_char :: "bool \<Rightarrow> char \<Rightarrow> string" where
  "esc_char ascii c =
     (let n = of_char c :: nat in
      if c = CHR 0x22 then [CHR 0x5C, CHR 0x22]
      else if c = CHR 0x5C then [CHR 0x5C, CHR 0x5C]
      else if c = CHR 0x0A then [CHR 0x5C, CHR ''n'']
      else if c = CHR 0x0D then [CHR 0x5C, CHR ''r'']
      else if c = CHR 0x09 then [CHR 0x5C, CHR ''t'']
      else if c = CHR 0x0C then [CHR 0x5C, CHR ''f'']
      else if c = CHR 0x08 then [CHR 0x5C, CHR ''b'']
      else if n < 32 \<or> (ascii \<and> 126 < n)
        then [CHR 0x5C, CHR ''u'', CHR ''0'', CHR ''0'', hex_char (n div 16), hex_char (n mod 16)]
      else [c])"

definition json_string :: "bool \<Rightarrow> string \<Rightarrow> string" where
  "json_string ascii s = CHR 0x22 # concat (map (esc_char ascii) s) @ [CHR 0x22]"

definition member_text :: "bool \<Rightarrow> string \<times> string \<Rightarrow> string" where
  "member_text ascii kt = json_string ascii (fst kt) @ CHR '':'' # snd kt"

primrec json_dumps :: "bool \<Rightarrow> json \<Rightarrow> string" where
  "json_dumps ascii JNull = ''null''"
| "json_dumps ascii (JBool b) = (if b then ''true'' else ''false'')"
| "json_dumps ascii (JInt i) = dec_int i"
| "json_dumps ascii (JStr s) = json_string ascii s"
| "json_dumps ascii (JList xs) = CHR ''['' # join_with '','' (map (json_dumps ascii) xs) @ '']''"
| "json_dumps ascii (JObj kvs) =
     CHR ''{'' #
       join_with '','' (map (member_text ascii)
         (sort_key fst (map (map_prod id (json_dumps ascii)) kvs))) @ ''}''"

text \<open>UTF-8 of the code points below 256.\<close>

definition utf8_char :: "char \<Rightarrow> string" where
  "utf8_char c =
     (let n = of_char c :: nat in
      if n < 128 then [c] else [char_of (192 + n div 64), char_of (128 + n mod 64)])"

definition utf8 :: "string \<Rightarrow> string" where
  "utf8 s = concat (map utf8_char s)"

section \<open>Parsing\<close>

definition hex_val :: "char \<Rightarrow> nat option" where
  "hex_val c =
     (if is_digit c then Some (of_char c - 48)
      else if between (CHR ''a'') (CHR ''f'') c then Some (of_char c - 87) else None)"

text \<open>One escape after the backslash: the character and the rest of the input.\<close>

fun parse_escape :: "string \<Rightarrow> (char \<times> string) option" where
  "parse_escape (c # r) =
     (if c = CHR 0x22 then Some (CHR 0x22, r)
      else if c = CHR 0x5C then Some (CHR 0x5C, r)
      else if c = CHR ''n'' then Some (CHR 0x0A, r)
      else if c = CHR ''r'' then Some (CHR 0x0D, r)
      else if c = CHR ''t'' then Some (CHR 0x09, r)
      else if c = CHR ''f'' then Some (CHR 0x0C, r)
      else if c = CHR ''b'' then Some (CHR 0x08, r)
      else if c = CHR ''u'' then
        (case r of
           a # b # h # l # r' \<Rightarrow>
             (case (hex_val h, hex_val l) of
                (Some x, Some y) \<Rightarrow>
                  if a = CHR ''0'' \<and> b = CHR ''0'' then Some (char_of (16 * x + y), r') else None
              | _ \<Rightarrow> None)
         | _ \<Rightarrow> None)
      else None)"
| "parse_escape [] = None"

lemma parse_escape_length: "parse_escape s = Some (c, r) \<Longrightarrow> length r < length s"
  by (cases s) (auto split: if_splits list.splits option.splits)

text \<open>The characters of a string up to its closing quote.\<close>

function parse_chars :: "string \<Rightarrow> (string \<times> string) option" where
  "parse_chars [] = None"
| "parse_chars (c # r) =
     (if c = CHR 0x22 then Some ([], r)
      else if c = CHR 0x5C then
        (case parse_escape r of
           None \<Rightarrow> None
         | Some (x, r') \<Rightarrow> map_option (\<lambda>(xs, r''). (x # xs, r'')) (parse_chars r'))
      else map_option (\<lambda>(xs, r'). (c # xs, r')) (parse_chars r))"
  by pat_completeness auto
termination
  by (relation "measure length") (auto dest: parse_escape_length)

definition dec_val :: "string \<Rightarrow> nat" where
  "dec_val s = foldl (\<lambda>a c. 10 * a + (of_char c - 48)) 0 s"

definition parse_nat :: "string \<Rightarrow> (nat \<times> string) option" where
  "parse_nat s =
     (case takeWhile is_digit s of
        [] \<Rightarrow> None
      | ds \<Rightarrow> Some (dec_val ds, dropWhile is_digit s))"

definition parse_lit :: "string \<Rightarrow> json \<Rightarrow> string \<Rightarrow> (json \<times> string) option" where
  "parse_lit w v s = (if starts_with w s then Some (v, drop (length w) s) else None)"

fun parse_value :: "nat \<Rightarrow> string \<Rightarrow> (json \<times> string) option"
  and parse_items :: "nat \<Rightarrow> string \<Rightarrow> (json list \<times> string) option"
  and parse_members :: "nat \<Rightarrow> string \<Rightarrow> ((string \<times> json) list \<times> string) option" where
  "parse_value 0 s = None"
| "parse_value (Suc f) [] = None"
| "parse_value (Suc f) (c # r) =
     (if c = CHR ''n'' then parse_lit ''ull'' JNull r
      else if c = CHR ''t'' then parse_lit ''rue'' (JBool True) r
      else if c = CHR ''f'' then parse_lit ''alse'' (JBool False) r
      else if c = CHR 0x22 then map_option (\<lambda>(t, r'). (JStr t, r')) (parse_chars r)
      else if c = CHR ''['' then
        (if starts_with '']'' r then Some (JList [], tl r)
         else map_option (\<lambda>(vs, r'). (JList vs, r')) (parse_items f r))
      else if c = CHR ''{'' then
        (if starts_with ''}'' r then Some (JObj [], tl r)
         else map_option (\<lambda>(kvs, r'). (JObj (dict_of kvs), r')) (parse_members f r))
      else if c = CHR ''-'' then map_option (\<lambda>(n, r'). (JInt (- int n), r')) (parse_nat r)
      else map_option (\<lambda>(n, r'). (JInt (int n), r')) (parse_nat (c # r)))"
| "parse_items 0 s = None"
| "parse_items (Suc f) s =
     (case parse_value f s of
        Some (v, c # r) \<Rightarrow>
          if c = CHR '','' then map_option (\<lambda>(vs, r'). (v # vs, r')) (parse_items f r)
          else if c = CHR '']'' then Some ([v], r) else None
      | _ \<Rightarrow> None)"
| "parse_members 0 s = None"
| "parse_members (Suc f) s =
     (case s of
        [] \<Rightarrow> None
      | q # t \<Rightarrow>
          if q \<noteq> CHR 0x22 then None
          else
            (case parse_chars t of
               Some (k, d # t') \<Rightarrow>
                 if d \<noteq> CHR '':'' then None
                 else
                   (case parse_value f t' of
                      Some (v, c # r) \<Rightarrow>
                        if c = CHR '','' then
                          map_option (\<lambda>(kvs, r'). ((k, v) # kvs, r')) (parse_members f r)
                        else if c = CHR ''}'' then Some ([(k, v)], r) else None
                    | _ \<Rightarrow> None)
             | _ \<Rightarrow> None))"

definition json_loads :: "string \<Rightarrow> json option" where
  "json_loads s =
     (case parse_value (Suc (length s)) s of Some (v, []) \<Rightarrow> Some v | _ \<Rightarrow> None)"

section \<open>Decimal numbers and strings read back\<close>

lemma is_digit_digit_char: "n < 10 \<Longrightarrow> is_digit (digit_char n)"
  by (simp add: is_digit_def between_def digit_char_def)

lemma digit_char_val: "n < 10 \<Longrightarrow> of_char (digit_char n) = n + (48 :: nat)"
  by (simp add: digit_char_def)

lemma dec_nat_nonempty: "dec_nat n \<noteq> []"
  by (subst dec_nat.simps) simp

lemma dec_nat_digits: "c \<in> set (dec_nat n) \<Longrightarrow> is_digit c"
proof (induction n rule: dec_nat.induct)
  case (1 n)
  then show ?case
    by (cases "n < 10") (auto simp: dec_nat.simps [of n] is_digit_digit_char)
qed

lemma dec_val_snoc: "dec_val (s @ [c]) = 10 * dec_val s + (of_char c - 48)"
  by (simp add: dec_val_def)

lemma dec_val_dec_nat: "dec_val (dec_nat n) = n"
proof (induction n rule: dec_nat.induct)
  case (1 n)
  show ?case
  proof (cases "n < 10")
    case True
    then show ?thesis
      by (simp add: dec_nat.simps [of n] dec_val_def digit_char_val)
  next
    case False
    with 1 show ?thesis
      by (simp add: dec_nat.simps [of n] dec_val_snoc digit_char_val)
  qed
qed

definition no_digit_first :: "string \<Rightarrow> bool" where
  "no_digit_first r \<longleftrightarrow> (case r of [] \<Rightarrow> True | c # _ \<Rightarrow> \<not> is_digit c)"

lemma digits_prefix:
  assumes "list_all is_digit ds" "no_digit_first r"
  shows "takeWhile is_digit (ds @ r) = ds" "dropWhile is_digit (ds @ r) = r"
  using assms by (induction ds) (auto simp: no_digit_first_def split: list.splits)

lemma parse_nat_dec: "no_digit_first r \<Longrightarrow> parse_nat (dec_nat n @ r) = Some (n, r)"
proof -
  assume r: "no_digit_first r"
  have ds: "list_all is_digit (dec_nat n)"
    by (simp add: list_all_iff dec_nat_digits)
  obtain d t where dt: "dec_nat n = d # t"
    using dec_nat_nonempty [of n] by (cases "dec_nat n") auto
  show ?thesis
    using digits_prefix [OF ds r] dec_val_dec_nat [of n] dt by (simp add: parse_nat_def)
qed

lemma hex_val_hex_char: "n < 16 \<Longrightarrow> hex_val (hex_char n) = Some n"
  by (auto simp: hex_val_def hex_char_def is_digit_def between_def)

lemma of_char_lt: "of_char c < (256 :: nat)"
  by (metis nat_of_char_less_256)

lemma parse_chars_esc:
  "parse_chars (esc_char ascii c @ r) = map_option (\<lambda>(xs, r'). (c # xs, r')) (parse_chars r)"
proof -
  let ?n = "of_char c :: nat"
  have lt: "?n < 256" by (rule of_char_lt)
  have inv16: "char_of (16 * (?n div 16) + ?n mod 16) = c" by simp
  have hv: "hex_val (hex_char (?n div 16)) = Some (?n div 16)"
    "hex_val (hex_char (?n mod 16)) = Some (?n mod 16)"
    by (rule hex_val_hex_char, use lt in linarith) (simp add: hex_val_hex_char)
  show ?thesis
    unfolding esc_char_def Let_def
    by (simp add: hv inv16)
qed

lemma parse_chars_concat:
  "parse_chars (concat (map (esc_char ascii) s) @ CHR 0x22 # r) = Some (s, r)"
  by (induction s) (simp_all add: parse_chars_esc)


section \<open>Canonical text determines the document\<close>

text \<open>How much fuel the parser needs; never more than the length of the text.\<close>

primrec json_need :: "json \<Rightarrow> nat" where
  "json_need JNull = 1"
| "json_need (JBool b) = 1"
| "json_need (JInt i) = 1"
| "json_need (JStr s) = 1"
| "json_need (JList xs) = Suc (sum_list (map Suc (map json_need xs)))"
| "json_need (JObj kvs) = Suc (sum_list (map (\<lambda>kn. Suc (snd kn)) (map (map_prod id json_need) kvs)))"

lemma sort_key_map_prod:
  "sort_key fst (map (map_prod id f) kvs) = map (map_prod id f) (sort_key fst kvs)"
proof -
  have ins: "insort_key fst (map_prod id f x) (map (map_prod id f) ys) =
      map (map_prod id f) (insort_key fst x ys)" for x ys
    by (induction ys) auto
  show ?thesis by (induction kvs) (simp_all only: list.map sort_key_simps ins)
qed

lemma parse_items_join:
  assumes "\<And>x r f. x \<in> set xs \<Longrightarrow> json_need x \<le> f \<Longrightarrow> no_digit_first r \<Longrightarrow>
      parse_value f (json_dumps ascii x @ r) = Some (json_canon x, r)"
    and "xs \<noteq> []" and "sum_list (map (\<lambda>x. Suc (json_need x)) xs) \<le> f"
  shows "parse_items f (join_with '','' (map (json_dumps ascii) xs) @ CHR '']'' # r) =
      Some (map json_canon xs, r)"
  using assms
proof (induction xs arbitrary: f)
  case (Cons x xs)
  from Cons.prems(3) obtain g where f: "f = Suc g" "json_need x \<le> g" by (cases f) auto
  have pv: "parse_value g (json_dumps ascii x @ c # r') = Some (json_canon x, c # r')"
    if "\<not> is_digit c" for c r'
    using Cons.prems(1) [of x g "c # r'"] f that by (simp add: no_digit_first_def)
  show ?case
  proof (cases xs)
    case Nil
    with f pv [of "CHR '']''"] show ?thesis by (simp add: is_digit_def between_def)
  next
    case (Cons y ys)
    have "parse_items g (join_with '','' (map (json_dumps ascii) xs) @ CHR '']'' # r) =
        Some (map json_canon xs, r)"
    proof (rule Cons.IH)
      show "parse_value f' (json_dumps ascii x' @ r') = Some (json_canon x', r')"
        if "x' \<in> set xs" "json_need x' \<le> f'" "no_digit_first r'" for x' r' f'
        using Cons.prems(1) that by simp
      show "xs \<noteq> []" using Cons by simp
      show "sum_list (map (\<lambda>x. Suc (json_need x)) xs) \<le> g"
        using Cons.prems(3) f by simp
    qed
    with f Cons pv [of "CHR '',''"] show ?thesis by (simp add: is_digit_def between_def)
  qed
qed simp

lemma parse_members_step:
  "parse_members (Suc g) (member_text ascii (k, t) @ r) =
     (case parse_value g (t @ r) of
        Some (v, c # r') \<Rightarrow>
          if c = CHR '','' then map_option (\<lambda>(kvs, r''). ((k, v) # kvs, r'')) (parse_members g r')
          else if c = CHR ''}'' then Some ([(k, v)], r') else None
      | _ \<Rightarrow> None)"
  by (simp add: member_text_def json_string_def parse_chars_concat)

lemma parse_members_join:
  assumes "\<And>k x r f. (k, x) \<in> set kvs \<Longrightarrow> json_need x \<le> f \<Longrightarrow> no_digit_first r \<Longrightarrow>
      parse_value f (json_dumps ascii x @ r) = Some (json_canon x, r)"
    and "kvs \<noteq> []" and "sum_list (map (\<lambda>kv. Suc (json_need (snd kv))) kvs) \<le> f"
  shows "parse_members f
      (join_with '','' (map (member_text ascii) (map (map_prod id (json_dumps ascii)) kvs)) @ CHR ''}'' # r) =
      Some (map (map_prod id json_canon) kvs, r)"
  using assms
proof (induction kvs arbitrary: f)
  case (Cons kv kvs)
  obtain k x where kv: "kv = (k, x)" by (cases kv)
  from Cons.prems(3) kv obtain g where f: "f = Suc g" "json_need x \<le> g" by (cases f) auto
  have pv: "parse_value g (json_dumps ascii x @ c # r') = Some (json_canon x, c # r')"
    if "\<not> is_digit c" for c r'
    using Cons.prems(1) [of k x g "c # r'"] kv f that by (simp add: no_digit_first_def)
  show ?case
  proof (cases kvs)
    case Nil
    with f kv pv [of "CHR ''}''"] show ?thesis
      by (simp add: is_digit_def between_def parse_members_step id_def del: parse_members.simps)
  next
    case (Cons y ys)
    have "parse_members g
        (join_with '','' (map (member_text ascii) (map (map_prod id (json_dumps ascii)) kvs)) @ CHR ''}'' # r) =
        Some (map (map_prod id json_canon) kvs, r)"
    proof (rule Cons.IH)
      show "parse_value f' (json_dumps ascii x' @ r') = Some (json_canon x', r')"
        if "(k', x') \<in> set kvs" "json_need x' \<le> f'" "no_digit_first r'" for k' x' r' f'
        by (rule Cons.prems(1) [of k']) (use that in simp_all)
      show "kvs \<noteq> []" using Cons by simp
      show "sum_list (map (\<lambda>kv. Suc (json_need (snd kv))) kvs) \<le> g"
        using Cons.prems(3) f kv by simp
    qed
    with f Cons kv pv [of "CHR '',''"] show ?thesis
      by (simp add: is_digit_def between_def parse_members_step id_def del: parse_members.simps)
  qed
qed simp

lemma json_dumps_not_bracket:
  "json_dumps ascii v = c # r \<Longrightarrow> c \<noteq> CHR '']'' \<and> c \<noteq> CHR ''}''"
proof (cases v)
  case (JInt i)
  assume "json_dumps ascii v = c # r"
  with JInt have "c = CHR ''-'' \<or> is_digit c"
    using dec_nat_digits [of c "nat i"] by (auto simp: dec_int_def split: if_splits)
  then show ?thesis by (auto simp: is_digit_def between_def)
qed (auto simp: json_string_def split: if_splits)

lemma json_dumps_nonempty: "json_dumps ascii v \<noteq> []"
  by (cases v) (auto simp: dec_int_def dec_nat_nonempty json_string_def)

lemma join_items_no_bracket:
  assumes "xs \<noteq> []"
  shows "\<not> starts_with '']'' (join_with '','' (map (json_dumps ascii) xs) @ r)"
proof -
  obtain x xs' where x: "xs = x # xs'" using assms by (cases xs) auto
  obtain c t where "json_dumps ascii x = c # t"
    using json_dumps_nonempty by (cases "json_dumps ascii x") auto
  with x json_dumps_not_bracket show ?thesis
    by (cases xs') (auto simp: starts_with_def)
qed

lemma join_members_no_brace:
  assumes "kvs \<noteq> []"
  shows "\<not> starts_with ''}'' (join_with '','' (map (member_text ascii) kvs) @ r)"
proof -
  obtain kv kvs' where "kvs = kv # kvs'" using assms by (cases kvs) auto
  then show ?thesis
    by (cases kvs') (auto simp: starts_with_def member_text_def json_string_def)
qed

lemma sum_list_sort_key:
  "sum_list (map f (sort_key g xs)) = sum_list (map f xs)" for f :: "'a \<Rightarrow> nat"
  by (metis mset_map mset_sort sum_mset_sum_list)

lemma parse_int_dumps:
  assumes "no_digit_first r"
  shows "parse_value (Suc f) (dec_int i @ r) = Some (JInt i, r)"
proof (cases "i < 0")
  case True
  with parse_nat_dec [OF assms, of "nat (- i)"] show ?thesis by (simp add: dec_int_def)
next
  case False
  obtain d t where dt: "dec_nat (nat i) = d # t"
    using dec_nat_nonempty [of "nat i"] by (cases "dec_nat (nat i)") auto
  then have "is_digit d" using dec_nat_digits [of d "nat i"] by simp
  then have "d \<noteq> CHR ''n''" "d \<noteq> CHR ''t''" "d \<noteq> CHR ''f''" "d \<noteq> CHR 0x22" "d \<noteq> CHR ''[''"
    "d \<noteq> CHR ''{''" "d \<noteq> CHR ''-''"
    by (auto simp: is_digit_def between_def)
  with False dt parse_nat_dec [OF assms, of "nat i"] show ?thesis by (simp add: dec_int_def)
qed

lemma parse_value_dumps:
  "json_wf v \<Longrightarrow> json_need v \<le> f \<Longrightarrow> no_digit_first r \<Longrightarrow>
     parse_value f (json_dumps ascii v @ r) = Some (json_canon v, r)"
proof (induction v arbitrary: f r)
  case JNull
  then show ?case by (cases f) (simp_all add: parse_lit_def starts_with_def)
next
  case (JBool b)
  then show ?case by (cases f) (simp_all add: parse_lit_def starts_with_def)
next
  case (JInt i)
  then show ?case by (cases f) (simp_all add: parse_int_dumps)
next
  case (JStr s)
  then show ?case by (cases f) (simp_all add: json_string_def parse_chars_concat)
next
  case (JList xs)
  then obtain g where f: "f = Suc g" "sum_list (map (\<lambda>x. Suc (json_need x)) xs) \<le> g"
    by (cases f) (auto simp: comp_def)
  show ?case
  proof (cases "xs = []")
    case False
    have "parse_items g (join_with '','' (map (json_dumps ascii) xs) @ CHR '']'' # r) =
        Some (map json_canon xs, r)"
      using JList False f by (intro parse_items_join) (auto simp: list_all_iff)
    with False f join_items_no_bracket [OF False] show ?thesis by simp
  qed (use f in \<open>simp add: starts_with_def\<close>)
next
  case (JObj kvs)
  let ?ks = "sort_key fst kvs"
  from JObj.prems(2) obtain g where f: "f = Suc g"
    and need: "sum_list (map (\<lambda>kv. Suc (json_need (snd kv))) ?ks) \<le> g"
    by (cases f) (auto simp: comp_def sum_list_sort_key)
  show ?case
  proof (cases "kvs = []")
    case False
    then have ne: "?ks \<noteq> []" by (metis length_0_conv length_sort)
    have "parse_members g
        (join_with '','' (map (member_text ascii) (map (map_prod id (json_dumps ascii)) ?ks)) @ CHR ''}'' # r) =
        Some (map (map_prod id json_canon) ?ks, r)"
    proof (rule parse_members_join [OF _ ne need])
      fix k x r f
      assume "(k, x) \<in> set ?ks" "json_need x \<le> f" "no_digit_first r"
      with JObj.IH [of "(k, x)" x f r] JObj.prems(1)
      show "parse_value f (json_dumps ascii x @ r) = Some (json_canon x, r)"
        by (auto simp: list_all_iff)
    qed
    moreover have "wf_dict (map (map_prod id json_canon) ?ks)"
      using JObj.prems(1) by (simp add: comp_def distinct_map inj_on_def)
    ultimately show ?thesis
      using f ne join_members_no_brace [of "map (map_prod id (json_dumps ascii)) ?ks" ascii]
      by (simp add: sort_key_map_prod dict_of_distinct)
  qed (use f in \<open>simp add: starts_with_def\<close>)
qed

lemma join_length:
  "xs \<noteq> [] \<Longrightarrow> Suc (length (join_with [c] xs)) = sum_list (map (\<lambda>x. Suc (length x)) xs)"
  by (induction "[c]" xs rule: join_with.induct) auto

lemma sum_list_mono_set:
  "(\<And>x. x \<in> set xs \<Longrightarrow> f x \<le> g x) \<Longrightarrow> sum_list (map f xs) \<le> sum_list (map g xs)"
  for f g :: "'a \<Rightarrow> nat"
  by (rule sum_list_mono)

lemma json_need_le_length: "json_need v \<le> length (json_dumps ascii v)"
proof (induction v)
  case (JInt i)
  then show ?case using json_dumps_nonempty [of ascii "JInt i"] by (cases "dec_int i") auto
next
  case (JList xs)
  show ?case
  proof (cases "xs = []")
    case False
    have "sum_list (map (\<lambda>x. Suc (json_need x)) xs)
        \<le> sum_list (map (\<lambda>x. Suc (length (json_dumps ascii x))) xs)"
      using JList by (intro sum_list_mono_set) simp
    with False join_length [of "map (json_dumps ascii) xs" "CHR '',''"] show ?thesis
      by (simp add: comp_def)
  qed simp
next
  case (JObj kvs)
  let ?ks = "map (map_prod id (json_dumps ascii)) (sort_key fst kvs)"
  show ?case
  proof (cases "kvs = []")
    case False
    then have ne: "sort_key fst kvs \<noteq> []" by (metis length_0_conv length_sort)
    have "sum_list (map (\<lambda>kv. Suc (json_need (snd kv))) (sort_key fst kvs))
        \<le> sum_list (map (\<lambda>kv. Suc (length (member_text ascii (map_prod id (json_dumps ascii) kv))))
             (sort_key fst kvs))"
      using JObj by (intro sum_list_mono_set) (fastforce simp: member_text_def)
    with ne join_length [of "map (member_text ascii) ?ks" "CHR '',''"] show ?thesis
      by (simp add: comp_def sum_list_sort_key sort_key_map_prod)
  qed simp
qed (auto simp: json_string_def)

theorem json_loads_dumps:
  assumes "json_wf v"
  shows "json_loads (json_dumps ascii v) = Some (json_canon v)"
  using parse_value_dumps [OF assms, of "Suc (length (json_dumps ascii v))" "[]" ascii]
    json_need_le_length [of v ascii]
  by (simp add: json_loads_def no_digit_first_def)

corollary json_dumps_inject:
  "json_wf v \<Longrightarrow> json_wf w \<Longrightarrow> json_dumps ascii v = json_dumps ascii w \<Longrightarrow>
     json_canon v = json_canon w"
  by (metis json_loads_dumps option.inject)

lemma sort_key_fst_id: "sorted (map fst xs) \<Longrightarrow> sort_key fst xs = xs"
proof (induction xs)
  case (Cons x xs)
  then show ?case by (cases xs) auto
qed simp

lemma sort_key_fst_idem: "sort_key fst (sort_key fst kvs) = sort_key fst kvs"
  by (simp add: sort_key_fst_id)

lemma json_canon_obj: "json_canon (JObj kvs) = JObj (map (map_prod id json_canon) (sort_key fst kvs))"
  by (simp add: sort_key_map_prod)

lemma json_canon_idem: "json_canon (json_canon v) = json_canon v"
proof (induction v)
  case (JObj kvs)
  have "sorted (map fst (map (map_prod id json_canon) (sort_key fst kvs)))"
    by (simp add: comp_def)
  moreover have "map (map_prod id json_canon) (map (map_prod id json_canon) (sort_key fst kvs)) =
      map (map_prod id json_canon) (sort_key fst kvs)"
    using JObj by (fastforce simp: map_prod_def)
  ultimately show ?case by (simp only: json_canon_obj sort_key_fst_id)
qed simp_all

lemma json_dumps_canon: "json_dumps ascii (json_canon v) = json_dumps ascii v"
proof (induction v)
  case (JList xs)
  then show ?case by (simp add: comp_def cong: map_cong)
next
  case (JObj kvs)
  let ?ks = "sort_key fst kvs"
  have "map (map_prod id (json_dumps ascii)) (map (map_prod id json_canon) ?ks) =
      map (map_prod id (json_dumps ascii)) ?ks"
    using JObj by (fastforce simp: map_prod_def)
  then show ?case
    by (simp only: json_canon_obj json_dumps.simps sort_key_map_prod sort_key_fst_idem)
qed simp_all

lemma json_wf_canon: "json_wf v \<Longrightarrow> json_wf (json_canon v)"
proof (induction v)
  case (JObj kvs)
  then show ?case
    by (auto simp: json_canon_obj list_all_iff distinct_map inj_on_def image_iff simp del: json_canon.simps)
qed (auto simp: list_all_iff)

lemma json_loads_canon:
  "json_wf v \<Longrightarrow> json_loads (json_dumps ascii (json_canon v)) = Some (json_canon v)"
  by (simp add: json_dumps_canon json_loads_dumps)

section \<open>UTF-8\<close>

lemma char_of_inject_nat: "m < 256 \<Longrightarrow> n < 256 \<Longrightarrow> char_of m = char_of n \<longleftrightarrow> m = n" for m n :: nat
  by (metis of_char_of mod_less)

lemma utf8_char_cases:
  "(utf8_char c = [c] \<and> (of_char c :: nat) < 128) \<or>
   (\<exists>a b. utf8_char c = [char_of (192 + a), char_of (128 + b)] \<and> of_char c = 64 * a + b \<and>
      a < (4::nat) \<and> b < 64)"
proof (cases "(of_char c :: nat) < 128")
  case False
  have "of_char c div 64 < (4::nat)" using of_char_lt [of c] by linarith
  with False show ?thesis
    by (intro disjI2, rule_tac x = "of_char c div 64" in exI, rule_tac x = "of_char c mod 64" in exI)
      (simp add: utf8_char_def Let_def)
qed (simp add: utf8_char_def)

lemma utf8_char_prefix:
  assumes "utf8_char c @ s = utf8_char d @ t"
  shows "c = d \<and> s = t"
proof -
  have eq: "of_char x = (of_char y :: nat) \<Longrightarrow> x = y" for x y by simp
  have low: "x = char_of (192 + a) \<Longrightarrow> a < 4 \<Longrightarrow> \<not> (of_char x :: nat) < 128" for x and a :: nat by simp
  from utf8_char_cases [of c] utf8_char_cases [of d] assms show ?thesis
    by (elim disjE exE conjE) (auto simp: char_of_inject_nat dest: low intro: eq)
qed

lemma utf8_inject: "utf8 s = utf8 t \<Longrightarrow> s = t"
proof (induction s arbitrary: t)
  case Nil
  then show ?case by (cases t) (auto simp: utf8_def utf8_char_def Let_def split: if_splits)
next
  case (Cons c s)
  then obtain d t' where t: "t = d # t'"
    by (cases t) (auto simp: utf8_def utf8_char_def Let_def split: if_splits)
  with Cons.prems utf8_char_prefix [of c "utf8 s" d "utf8 t'"] Cons.IH show ?case
    by (simp add: utf8_def)
qed

section \<open>What is parsed is well formed\<close>

lemma json_wf_dict_of: "list_all (\<lambda>(k, v). json_wf v) kvs \<Longrightarrow> json_wf (JObj (dict_of kvs))"
  using set_dict_of [of kvs] by (fastforce simp: list_all_iff)

lemma parse_wf:
  "parse_value f s = Some (v, r) \<Longrightarrow> json_wf v"
  "parse_items f s = Some (vs, r) \<Longrightarrow> list_all json_wf vs"
  "parse_members f s = Some (kvs, r) \<Longrightarrow> list_all (\<lambda>(k, v). json_wf v) kvs"
proof (induction f s and f s and f s arbitrary: v r and vs r and kvs r rule: parse_value_parse_items_parse_members.induct)
  case (3 f c s)
  consider "c \<in> {CHR ''n'', CHR ''t'', CHR ''f'', CHR 0x22, CHR ''-''}" | "c = CHR ''[''" | "c = CHR ''{''"
    | "c \<notin> {CHR ''n'', CHR ''t'', CHR ''f'', CHR 0x22, CHR ''-'', CHR ''['', CHR ''{''}" by auto
  then show ?case
  proof cases
    case 1
    then show ?thesis using 3(3) by (auto simp: parse_lit_def split: if_splits)
  next
    case 2
    then show ?thesis using 3(1,3) by (auto simp: list_all_iff split: if_splits)
  next
    case 3
    then show ?thesis using "3.IH"(2) "3.prems" by (auto split: if_splits dest: json_wf_dict_of simp del: json_wf.simps(6)) simp
  next
    case 4
    then show ?thesis using 3(3) by auto
  qed
next
  case (5 f s)
  then show ?case by (fastforce split: option.splits list.splits if_splits)
next
  case (7 f s)
  then show ?case by (fastforce split: option.splits list.splits if_splits)
qed auto

lemma json_loads_wf: "json_loads s = Some v \<Longrightarrow> json_wf v"
  by (auto simp: json_loads_def dest: parse_wf(1) split: option.splits list.splits)

section \<open>Equality\<close>

lemma py_eq_str: "py_eq v (JStr s) \<longleftrightarrow> v = JStr s" "py_eq (JStr s) v \<longleftrightarrow> v = JStr s"
  by (cases v; auto simp: py_eq_def)+

lemma py_eq_null: "py_eq v JNull \<longleftrightarrow> v = JNull"
  by (cases v) (auto simp: py_eq_def)

lemma py_eq_refl [simp]: "py_eq v v"
  by (simp add: py_eq_def)

section \<open>Length of a text\<close>

lemma esc_char_length: "length (esc_char True c) \<le> 6"
  by (auto simp: esc_char_def Let_def)

lemma json_string_length: "length (json_string True s) \<le> 2 + 6 * length s"
proof -
  have "length (concat (map (esc_char True) s)) \<le> 6 * length s"
  proof (induction s)
    case (Cons c s)
    then show ?case using esc_char_length [of c] by simp
  qed simp
  then show ?thesis by (simp add: json_string_def)
qed

text \<open>A bound on the length of a text that does not depend on the escapes.\<close>

primrec json_bound :: "json \<Rightarrow> nat" where
  "json_bound JNull = 4"
| "json_bound (JBool b) = 5"
| "json_bound (JInt i) = length (dec_int i)"
| "json_bound (JStr s) = 2 + 6 * length s"
| "json_bound (JList vs) = 2 + sum_list (map (\<lambda>n. n + 1) (map json_bound vs))"
| "json_bound (JObj kvs) = 2 + sum_list (map (\<lambda>(k, n). 6 * length k + n + 4) (map (map_prod id json_bound) kvs))"

lemma length_join_with: "length (join_with [c] xs) \<le> sum_list (map (\<lambda>x. length x + 1) xs)"
  by (induction "[c]" xs rule: join_with.induct) auto

lemma json_dumps_bound: "length (json_dumps True v) \<le> json_bound v"
proof (induction v)
  case (JStr s)
  then show ?case using json_string_length [of s] by simp
next
  case (JList vs)
  have "length (join_with '','' (map (json_dumps True) vs)) \<le> sum_list (map (\<lambda>v. length (json_dumps True v) + 1) vs)"
    using length_join_with [of "CHR '',''" "map (json_dumps True) vs"] by (simp add: comp_def)
  also have "\<dots> \<le> sum_list (map (\<lambda>v. json_bound v + 1) vs)"
    using JList by (intro sum_list_mono) auto
  finally show ?case by (simp add: comp_def)
next
  case (JObj kvs)
  let ?t = "sort_key fst (map (map_prod id (json_dumps True)) kvs)"
  have "length (join_with '','' (map (member_text True) ?t)) \<le> sum_list (map (\<lambda>kt. length (member_text True kt) + 1) ?t)"
    using length_join_with [of "CHR '',''" "map (member_text True) ?t"] by (simp add: comp_def)
  also have "\<dots> = sum_list (map (\<lambda>kv. length (member_text True (fst kv, json_dumps True (snd kv))) + 1) kvs)"
    unfolding sum_list_sort_key by (simp add: comp_def map_prod_def case_prod_unfold)
  also have "\<dots> \<le> sum_list (map (\<lambda>(k, v). 6 * length k + json_bound v + 4) kvs)"
  proof (intro sum_list_mono)
    fix kv assume "kv \<in> set kvs"
    then have "length (json_dumps True (snd kv)) \<le> json_bound (snd kv)" by (intro JObj) (auto intro: snds.intros)
    then show "length (member_text True (fst kv, json_dumps True (snd kv))) + 1 \<le> (case kv of (k, v) \<Rightarrow> 6 * length k + json_bound v + 4)"
      using json_string_length [of "fst kv"] by (simp add: member_text_def case_prod_unfold)
  qed
  finally show ?case by (simp add: comp_def map_prod_def case_prod_unfold)
qed auto

lemma json_bound_canon: "json_bound (json_canon v) = json_bound v"
proof (induction v)
  case (JList vs)
  then show ?case by (simp add: comp_def cong: map_cong)
next
  case (JObj kvs)
  have "map (\<lambda>x. case x of (k, v) \<Rightarrow> 6 * length k + json_bound (json_canon v) + 4) kvs = map (\<lambda>(k, v). 6 * length k + json_bound v + 4) kvs"
    using JObj by (intro map_cong refl) (auto intro: snds.intros)
  from arg_cong [OF this, of sum_list] show ?case
    by (simp add: comp_def sum_list_sort_key map_prod_def case_prod_unfold del: map_eq_conv)
qed auto

end
