(* ===== verification/Operation_Graph.thy ===== *)
theory Operation_Graph
  imports Json
begin

text \<open>
  The operation graphs of \<^verbatim>\<open>control/src/vonk_control/orchestration.py\<close>: one immutable,
  dependency-fenced operation per node (\<open>operation_node\<close>), the parser of a reconciliation plan
  (\<open>parse_plan\<close> and its helpers), and the level-by-level topological order that makes the
  persisted graph independent of the order of the input (\<open>topological\<close>).

  The lemmas show that the order lists every operation once with its dependencies before it,
  that the parser fails exactly on cyclic graphs, that the result does not depend on the order
  of operations in the input, and that a persisted graph parses back to itself.
\<close>

section \<open>Reading JSON fields\<close>

text \<open>\<^verbatim>\<open>raw.get(k)\<close>, and \<^verbatim>\<open>raw[k]\<close> where the keys have been checked.\<close>

definition jget :: "(string, json) dict \<Rightarrow> string \<Rightarrow> json" where
  "jget d k = (case dict_get d k of Some v \<Rightarrow> v | None \<Rightarrow> JNull)"

definition is_str_with :: "(string \<Rightarrow> bool) \<Rightarrow> json \<Rightarrow> bool" where
  "is_str_with P v = (case v of JStr s \<Rightarrow> P s | _ \<Rightarrow> False)"

fun the_str :: "json \<Rightarrow> string" where
  "the_str (JStr s) = s"
| "the_str _ = []"

fun the_list :: "json \<Rightarrow> json list" where
  "the_list (JList xs) = xs"
| "the_list _ = []"

abbreviation is_list :: "json \<Rightarrow> bool" where
  "is_list v \<equiv> (case v of JList _ \<Rightarrow> True | _ \<Rightarrow> False)"

text \<open>\<^verbatim>\<open>set(raw) == fields\<close>.\<close>

definition has_fields :: "string list \<Rightarrow> (string, json) dict \<Rightarrow> bool" where
  "has_fields fs d \<longleftrightarrow> set (map fst d) = set fs"

section \<open>Operation kinds\<close>

definition implemented_operations :: "string list" where
  "implemented_operations =
    [''node.probe'', ''release.install'', ''workload.prepare'', ''workload.start'',
     ''workload.stop'', ''workload.health'', ''workload.verify'', ''package.prepare'',
     ''package.activate'', ''package.health'', ''package.stop'', ''package.rollback'',
     ''package.remove'', ''package.repair'', ''package.gc'']"

definition operation_id_char :: "char \<Rightarrow> bool" where
  "operation_id_char c \<longleftrightarrow> is_lower_alnum c \<or> c \<in> set ''._:-''"

definition workload_id_char :: "char \<Rightarrow> bool" where
  "workload_id_char c \<longleftrightarrow> is_lower_alnum c \<or> c \<in> set ''._-''"

abbreviation is_operation_id :: "string \<Rightarrow> bool" where
  "is_operation_id \<equiv> is_slug operation_id_char"

abbreviation is_workload_id :: "string \<Rightarrow> bool" where
  "is_workload_id \<equiv> is_slug workload_id_char"

section \<open>Nodes of the graph\<close>

record operation_node =
  on_operation_id :: string
  on_node_id :: string
  on_workload_id :: string
  on_kind :: string
  on_dependencies :: "string list"
  on_compensation_kind :: "string option"
  on_payload_digest :: string

definition to_document :: "operation_node \<Rightarrow> json" where
  "to_document n = JObj
     [(''operation_id'', JStr (on_operation_id n)),
      (''node_id'', JStr (on_node_id n)),
      (''workload_id'', JStr (on_workload_id n)),
      (''kind'', JStr (on_kind n)),
      (''dependencies'', JList (map JStr (on_dependencies n))),
      (''compensation_kind'',
        case on_compensation_kind n of None \<Rightarrow> JNull | Some c \<Rightarrow> JStr c),
      (''payload_digest'', JStr (on_payload_digest n))]"

definition operation_fields :: "string list" where
  "operation_fields =
    [''operation_id'', ''node_id'', ''workload_id'', ''kind'', ''dependencies'',
     ''compensation_kind'', ''payload_digest'']"

definition operation :: "json \<Rightarrow> operation_node result" where
  "operation raw =
    (case raw of
       JObj d \<Rightarrow>
         raise_if (\<not> has_fields operation_fields d)
           (ValueError ''reconciliation operation fields are invalid'') (
         let operation_id = jget d ''operation_id''; node_id = jget d ''node_id'';
             workload_id = jget d ''workload_id''; kind = jget d ''kind'';
             dependencies = jget d ''dependencies''; compensation = jget d ''compensation_kind'';
             payload_digest = jget d ''payload_digest'' in
         raise_if (\<not> is_str_with is_operation_id operation_id)
           (ValueError ''reconciliation operation ID is invalid'') (
         raise_if (\<not> is_str_with is_node_id node_id)
           (ValueError ''reconciliation operation target is invalid'') (
         raise_if (\<not> is_str_with is_workload_id workload_id)
           (ValueError ''reconciliation workload ID is invalid'') (
         raise_if (\<not> is_str_with (\<lambda>k. k \<in> set implemented_operations) kind)
           (ValueError ''reconciliation operation kind is absent from the agent registry'') (
         raise_if (compensation \<noteq> JNull \<and>
             \<not> is_str_with (\<lambda>k. k \<in> set implemented_operations) compensation)
           (ValueError ''reconciliation compensation kind is absent from the agent registry'') (
         raise_if (\<not> is_str_with (is_hex 64) payload_digest)
           (ValueError ''reconciliation payload digest is invalid'') (
         raise_if (\<not> (is_list dependencies \<and>
             list_all (is_str_with is_operation_id) (the_list dependencies)))
           (ValueError ''reconciliation operation dependencies are invalid'') (
         let ordered_dependencies = sort (map the_str (the_list dependencies)) in
         raise_if (\<not> distinct ordered_dependencies)
           (ValueError ''reconciliation operation dependency is duplicate'') (
         Inr \<lparr>on_operation_id = the_str operation_id, on_node_id = the_str node_id,
              on_workload_id = the_str workload_id, on_kind = the_str kind,
              on_dependencies = ordered_dependencies,
              on_compensation_kind =
                (case compensation of JStr c \<Rightarrow> Some c | _ \<Rightarrow> None),
              on_payload_digest = the_str payload_digest\<rparr>)))))))))
     | _ \<Rightarrow> Inl (ValueError ''reconciliation operation fields are invalid''))"

definition targets :: "json \<Rightarrow> string list result" where
  "targets value =
    raise_if (\<not> is_list value \<or> the_list value = [])
      (ValueError ''reconciliation targets are required'') (
    raise_if (\<not> list_all (is_str_with is_node_id) (the_list value))
      (ValueError ''reconciliation target is invalid'') (
    let ts = sort (map the_str (the_list value)) in
    raise_if (\<not> distinct ts) (ValueError ''reconciliation target is duplicate'') (
    Inr ts)))"

text \<open>An \<^verbatim>\<open>int\<close> that is not a \<^verbatim>\<open>bool\<close> and not negative.\<close>

definition generation :: "json \<Rightarrow> int result" where
  "generation value =
    (case value of
       JInt i \<Rightarrow>
         raise_if (i < 0) (ValueError ''route withdrawal generation is invalid'') (Inr i)
     | _ \<Rightarrow> Inl (ValueError ''route withdrawal generation is invalid''))"

section \<open>Topological order\<close>

text \<open>The operations whose dependencies have all been emitted, sorted by identity.\<close>

definition ready_ids :: "(string \<times> string list) list \<Rightarrow> string list" where
  "ready_ids unresolved = sort (map fst (filter (\<lambda>(i, ds). ds = []) unresolved))"

text \<open>\<^verbatim>\<open>del unresolved[id]\<close> for the ready ones, then \<^verbatim>\<open>difference_update(ready)\<close> on the rest.\<close>

definition drop_ready :: "string list \<Rightarrow> (string \<times> string list) list \<Rightarrow> (string \<times> string list) list" where
  "drop_ready ready unresolved =
     map (\<lambda>(i, ds). (i, filter (\<lambda>d. d \<notin> set ready) ds))
       (filter (\<lambda>(i, ds). i \<notin> set ready) unresolved)"

definition node_of :: "(string, operation_node) dict \<Rightarrow> string \<Rightarrow> operation_node result" where
  "node_of by_id i = (case dict_get by_id i of None \<Rightarrow> Inl (KeyError i) | Some n \<Rightarrow> Inr n)"

lemma ready_ids_subset: "set (ready_ids u) = {i. (i, []) \<in> set u}"
  by (force simp: ready_ids_def)

lemma drop_ready_shorter: "ready_ids u \<noteq> [] \<Longrightarrow> length (drop_ready (ready_ids u) u) < length u"
proof -
  assume "ready_ids u \<noteq> []"
  then obtain i where "i \<in> set (ready_ids u)" by (cases "ready_ids u") auto
  moreover from this have "(i, []) \<in> set u" by (simp add: ready_ids_subset)
  ultimately show ?thesis
    by (auto simp: drop_ready_def intro!: length_filter_less)
qed

function topo_loop :: "(string, operation_node) dict \<Rightarrow> (string \<times> string list) list \<Rightarrow>
    operation_node list \<Rightarrow> operation_node list result" where
  "topo_loop by_id unresolved ordered =
    (if unresolved = [] then Inr ordered
     else
       let ready = ready_ids unresolved in
       if ready = [] then Inl (ValueError ''reconciliation operation graph contains a cycle'')
       else rbind (map_r (node_of by_id) ready)
              (\<lambda>ns. topo_loop by_id (drop_ready ready unresolved) (ordered @ ns)))"
  by pat_completeness auto
termination
  by (relation "measure (\<lambda>(b, u, o'). length u)") (auto simp: drop_ready_shorter)

declare topo_loop.simps [simp del]

definition topological :: "(string, operation_node) dict \<Rightarrow> operation_node list result" where
  "topological by_id = topo_loop by_id (map (\<lambda>(i, n). (i, on_dependencies n)) by_id) []"

section \<open>Parsing a plan\<close>

fun index_operations :: "string list \<Rightarrow> operation_node list \<Rightarrow> (string, operation_node) dict \<Rightarrow>
    (string, operation_node) dict result" where
  "index_operations ts [] by_id = Inr by_id"
| "index_operations ts (n # ns) by_id =
     raise_if (on_operation_id n \<in> fst ` set by_id)
       (ValueError ''reconciliation operation ID is duplicate'') (
     let by_id' = dict_set by_id (on_operation_id n) n in
     raise_if (on_node_id n \<notin> set ts)
       (ValueError ''reconciliation operation target is unknown'') (
     index_operations ts ns by_id'))"

definition cross_workload_gate :: "operation_node \<Rightarrow> operation_node \<Rightarrow> bool" where
  "cross_workload_gate node required \<longleftrightarrow>
     (on_kind node = ''node.probe'' \<and> on_workload_id node = ''node-gate'' \<and>
      on_kind required = ''workload.stop'') \<or>
     (on_kind node = ''release.install'' \<and> on_kind required = ''node.probe'' \<and>
      on_workload_id required = ''node-gate'')"

definition check_dependency ::
    "(string, operation_node) dict \<Rightarrow> operation_node \<Rightarrow> string \<Rightarrow> unit result" where
  "check_dependency by_id node dependency =
    (case dict_get by_id dependency of
       None \<Rightarrow> Inl (ValueError ''reconciliation operation dependency is unknown'')
     | Some required \<Rightarrow>
         raise_if (on_workload_id required \<noteq> on_workload_id node \<and>
             \<not> cross_workload_gate node required)
           (ValueError ''cross-workload dependency is invalid'') (Inr ()))"

definition check_dependencies ::
    "(string, operation_node) dict \<Rightarrow> operation_node list \<Rightarrow> unit list list result" where
  "check_dependencies by_id ns =
     map_r (\<lambda>n. map_r (check_dependency by_id n) (on_dependencies n)) ns"

definition order_operations :: "string list \<Rightarrow> operation_node list \<Rightarrow> operation_node list result" where
  "order_operations ts parsed =
     rbind (index_operations ts parsed []) (\<lambda>by_id.
     rbind (check_dependencies by_id parsed) (\<lambda>_.
     topological by_id))"

definition plan_fields :: "string list" where
  "plan_fields = [''base_commit'', ''targets'', ''route_withdrawal_generation'', ''operations'']"

type_synonym parsed_plan = "string \<times> string list \<times> int \<times> operation_node list"

definition parse_plan :: "json \<Rightarrow> parsed_plan result" where
  "parse_plan document =
    (case document of
       JObj d \<Rightarrow>
         raise_if (\<not> has_fields plan_fields d)
           (ValueError ''reconciliation plan fields are invalid'') (
         let base_commit = jget d ''base_commit'' in
         raise_if (\<not> is_str_with (is_hex 40) base_commit) (ValueError ''base commit is invalid'') (
         rbind (targets (jget d ''targets'')) (\<lambda>ts.
         rbind (generation (jget d ''route_withdrawal_generation'')) (\<lambda>g.
         let raw_operations = jget d ''operations'' in
         raise_if (\<not> is_list raw_operations \<or> the_list raw_operations = [])
           (ValueError ''reconciliation operations are required'') (
         rbind (map_r operation (the_list raw_operations)) (\<lambda>parsed.
         rbind (order_operations ts parsed) (\<lambda>ns.
         Inr (the_str base_commit, ts, g, ns))))))))
     | _ \<Rightarrow> Inl (ValueError ''reconciliation plan fields are invalid''))"

definition graph_document :: "string \<Rightarrow> string list \<Rightarrow> operation_node list \<Rightarrow> json" where
  "graph_document base_commit ts ns = JObj
     [(''schema_version'', JInt 1),
      (''base_commit'', JStr base_commit),
      (''targets'', JList (map JStr ts)),
      (''nodes'', JList (map to_document ns))]"

text \<open>The plan that a persisted graph is parsed as when it is loaded again.\<close>

definition plan_document :: "json \<Rightarrow> json \<Rightarrow> json \<Rightarrow> json \<Rightarrow> json" where
  "plan_document base_commit ts g ops = JObj
     [(''base_commit'', base_commit), (''targets'', ts),
      (''route_withdrawal_generation'', g), (''operations'', ops)]"

text \<open>
  \<^verbatim>\<open>_digest\<close>: the hexadecimal SHA-256 of the canonical UTF-8 text. The hash function is the
  parameter \<open>sha\<close>, from bytes to their digest.
\<close>

definition digest :: "(string \<Rightarrow> string) \<Rightarrow> json \<Rightarrow> string" where
  "digest sha document = sha (utf8 (json_dumps False document))"

section \<open>The order is topological\<close>

abbreviation ids :: "operation_node list \<Rightarrow> string set" where
  "ids ns \<equiv> on_operation_id ` set ns"

text \<open>Each operation comes after everything it depends on.\<close>

fun dep_ordered_from :: "string set \<Rightarrow> operation_node list \<Rightarrow> bool" where
  "dep_ordered_from seen [] = True"
| "dep_ordered_from seen (n # ns) =
     (set (on_dependencies n) \<subseteq> seen \<and> dep_ordered_from (insert (on_operation_id n) seen) ns)"

abbreviation dep_ordered :: "operation_node list \<Rightarrow> bool" where
  "dep_ordered \<equiv> dep_ordered_from {}"

lemma dep_ordered_append:
  "dep_ordered_from S (xs @ ys) \<longleftrightarrow> dep_ordered_from S xs \<and> dep_ordered_from (S \<union> ids xs) ys"
  by (induction xs arbitrary: S) auto

lemma dep_ordered_from_closed:
  "\<forall>n \<in> set ns. set (on_dependencies n) \<subseteq> S \<Longrightarrow> dep_ordered_from S ns"
  by (induction ns arbitrary: S) (auto, blast)

lemma dep_ordered_split:
  "dep_ordered (xs @ n # ys) \<Longrightarrow> set (on_dependencies n) \<subseteq> ids xs"
  by (simp add: dep_ordered_append)

text \<open>What the loop of \<^verbatim>\<open>_topological\<close> maintains between its iterations.\<close>

definition keyed :: "(string, operation_node) dict \<Rightarrow> bool" where
  "keyed by_id \<longleftrightarrow> wf_dict by_id \<and> (\<forall>(i, n) \<in> set by_id. on_operation_id n = i)"

definition topo_inv :: "(string, operation_node) dict \<Rightarrow> (string \<times> string list) list \<Rightarrow>
    operation_node list \<Rightarrow> bool" where
  "topo_inv by_id u acc \<longleftrightarrow>
     distinct (map fst u) \<and> distinct (map on_operation_id acc) \<and>
     set acc \<subseteq> snd ` set by_id \<and>
     fst ` set u = fst ` set by_id - ids acc \<and>
     (\<forall>(i, ds) \<in> set u. \<forall>n. dict_get by_id i = Some n \<longrightarrow>
        set ds = set (on_dependencies n) - ids acc) \<and>
     dep_ordered acc"

lemma keyed_get: "keyed by_id \<Longrightarrow> dict_get by_id i = Some n \<Longrightarrow> on_operation_id n = i"
  by (auto simp: keyed_def dest: map_of_SomeD)

lemma node_of_Inr: "node_of by_id i = Inr n \<longleftrightarrow> dict_get by_id i = Some n"
  by (simp add: node_of_def split: option.splits)

lemma map_r_node_of:
  assumes "keyed by_id" and "map_r (node_of by_id) is = Inr ns"
  shows "map on_operation_id ns = is" and "\<forall>n \<in> set ns. dict_get by_id (on_operation_id n) = Some n"
  using assms
  by (induction "is" arbitrary: ns) (auto simp: rbind_Inr node_of_Inr keyed_get)

lemma map_r_node_of_total:
  assumes "set is \<subseteq> fst ` set by_id"
  obtains ns where "map_r (node_of by_id) is = Inr ns"
proof -
  have "node_of by_id i = Inr (the (dict_get by_id i))" if "i \<in> set is" for i
    using that assms by (force simp: node_of_def map_of_eq_None_iff split: option.splits)
  then have "map_r (node_of by_id) is = Inr (map (\<lambda>i. the (dict_get by_id i)) is)"
    by (rule map_r_all_Inr)
  then show thesis by (rule that)
qed

lemma topo_inv_start:
  assumes "keyed by_id"
  shows "topo_inv by_id (map (\<lambda>(i, n). (i, on_dependencies n)) by_id) []"
proof -
  let ?u = "map (\<lambda>(i, n). (i, on_dependencies n)) by_id"
  have wf: "wf_dict by_id" using assms by (simp add: keyed_def)
  have fsts: "map fst ?u = map fst by_id" by (induction by_id) auto
  have "set ds = set (on_dependencies n)" if "(i, ds) \<in> set ?u" "dict_get by_id i = Some n" for i ds n
  proof -
    from that(1) obtain m where "(i, m) \<in> set by_id" "ds = on_dependencies m" by auto
    with wf map_of_SomeD [OF that(2)] show ?thesis using eq_key_imp_eq_value by fastforce
  qed
  then have "\<forall>(i, ds) \<in> set ?u. \<forall>n. dict_get by_id i = Some n \<longrightarrow>
      set ds = set (on_dependencies n) - ids []" by (auto simp del: set_map)
  moreover have "fst ` set ?u = fst ` set by_id - ids []"
    using arg_cong [OF fsts, of set] by (simp only: set_map list.set image_empty Diff_empty)
  ultimately show ?thesis
    using wf fsts by (simp only: topo_inv_def) simp
qed

lemma topo_inv_step:
  assumes inv: "topo_inv by_id u acc" and k: "keyed by_id"
    and ns: "map_r (node_of by_id) (ready_ids u) = Inr ns"
  shows "topo_inv by_id (drop_ready (ready_ids u) u) (acc @ ns)"
proof -
  let ?r = "ready_ids u"
  note nodes = map_r_node_of [OF k ns]
  have ids_ns: "ids ns = set ?r" using nodes(1) by (metis set_map)
  have r_u: "set ?r \<subseteq> fst ` set u" by (force simp: ready_ids_subset)
  have deps: "\<forall>(i, ds) \<in> set u. \<forall>n. dict_get by_id i = Some n \<longrightarrow>
        set ds = set (on_dependencies n) - ids acc"
    using inv by (simp add: topo_inv_def)
  have "distinct ?r"
    using inv by (auto simp: topo_inv_def ready_ids_def distinct_map intro: distinct_filter inj_on_subset)
  moreover have "ids acc \<inter> set ?r = {}"
    using inv r_u by (auto simp: topo_inv_def)
  ultimately have d: "distinct (map on_operation_id (acc @ ns))"
    using inv nodes(1) ids_ns by (auto simp: topo_inv_def)
  have "set (on_dependencies n) \<subseteq> ids acc" if "n \<in> set ns" for n
  proof -
    have "on_operation_id n \<in> set ?r" using that ids_ns by auto
    then have "(on_operation_id n, []) \<in> set u" by (simp add: ready_ids_subset)
    with deps nodes(2) that show ?thesis by fastforce
  qed
  then have ord: "dep_ordered (acc @ ns)"
    using inv by (simp add: topo_inv_def dep_ordered_append dep_ordered_from_closed)
  have sub: "set (acc @ ns) \<subseteq> snd ` set by_id"
  proof -
    have "n \<in> snd ` set by_id" if "n \<in> set ns" for n
      using nodes(2) that map_of_SomeD [of by_id "on_operation_id n" n] by (simp add: rev_image_eqI)
    then show ?thesis using inv by (auto simp: topo_inv_def)
  qed
  have fsts: "map fst (drop_ready ?r u) = filter (\<lambda>i. i \<notin> set ?r) (map fst u)"
    by (simp add: drop_ready_def comp_def split_def filter_map)
  have "fst ` set (drop_ready ?r u) = fst ` set u - set ?r"
    using arg_cong [OF fsts, of set] by auto
  then have keys: "fst ` set (drop_ready ?r u) = fst ` set by_id - ids (acc @ ns)"
    using inv ids_ns by (auto simp: topo_inv_def)
  have "\<forall>(i, ds) \<in> set (drop_ready ?r u). \<forall>n. dict_get by_id i = Some n \<longrightarrow>
        set ds = set (on_dependencies n) - ids (acc @ ns)"
  proof (clarify)
    fix i ds n
    assume "(i, ds) \<in> set (drop_ready ?r u)" and n: "dict_get by_id i = Some n"
    then obtain ds' where "(i, ds') \<in> set u" and ds: "ds = filter (\<lambda>d. d \<notin> set ?r) ds'"
      by (auto simp: drop_ready_def)
    with deps n have "set ds' = set (on_dependencies n) - ids acc" by blast
    then show "set ds = set (on_dependencies n) - ids (acc @ ns)"
      using ds ids_ns by auto
  qed
  moreover have "distinct (map fst (drop_ready ?r u))"
    using inv fsts by (simp add: topo_inv_def)
  ultimately show ?thesis
    using d ord sub keys by (simp only: topo_inv_def)
qed

lemma topo_loop_sound:
  "topo_inv by_id u acc \<Longrightarrow> keyed by_id \<Longrightarrow> topo_loop by_id u acc = Inr ns \<Longrightarrow> topo_inv by_id [] ns"
proof (induction by_id u acc rule: topo_loop.induct)
  case (1 by_id u acc)
  show ?case
  proof (cases "u = []")
    case True
    with 1 show ?thesis by (simp add: topo_loop.simps)
  next
    case False
    with "1.prems"(3) have r: "ready_ids u \<noteq> []"
      by (auto simp: topo_loop.simps [of by_id u acc] Let_def split: if_splits)
    with False "1.prems"(3) obtain ms where ms: "map_r (node_of by_id) (ready_ids u) = Inr ms"
      and rest: "topo_loop by_id (drop_ready (ready_ids u) u) (acc @ ms) = Inr ns"
      by (auto simp: topo_loop.simps [of by_id u acc] Let_def rbind_Inr)
    show ?thesis
      by (rule "1.IH" [OF False refl r topo_inv_step [OF "1.prems"(1,2) ms] "1.prems"(2) rest])
  qed
qed

lemma keyed_ids: "keyed by_id \<Longrightarrow> on_operation_id ` snd ` set by_id = fst ` set by_id"
  by (force simp: keyed_def)

lemma topological_sound:
  assumes "keyed by_id" and "topological by_id = Inr ns"
  shows "set ns = snd ` set by_id" and "distinct (map on_operation_id ns)" and "dep_ordered ns"
proof -
  have inv: "topo_inv by_id [] ns"
    using assms topo_inv_start topo_loop_sound unfolding topological_def by blast
  then show "distinct (map on_operation_id ns)" "dep_ordered ns" by (auto simp: topo_inv_def)
  have sub: "set ns \<subseteq> snd ` set by_id" and cover: "fst ` set by_id \<subseteq> ids ns"
    using inv by (auto simp: topo_inv_def)
  have "n \<in> set ns" if "(i, n) \<in> set by_id" for i n
  proof -
    have "on_operation_id n = i" using that assms(1) by (auto simp: keyed_def)
    moreover from cover that have "i \<in> ids ns" by force
    then obtain m where m: "m \<in> set ns" "on_operation_id m = i" by auto
    from m(1) sub obtain j where "(j, m) \<in> set by_id" by auto
    with m(2) assms(1) have "(i, m) \<in> set by_id" by (auto simp: keyed_def)
    with that assms(1) have "m = n" unfolding keyed_def using eq_key_imp_eq_value by metis
    with m show ?thesis by simp
  qed
  with sub show "set ns = snd ` set by_id" by auto
qed

section \<open>The loop fails exactly on cycles\<close>

definition dep_rel :: "operation_node list \<Rightarrow> (string \<times> string) set" where
  "dep_rel ns = {(d, i). \<exists>n \<in> set ns. i = on_operation_id n \<and> d \<in> set (on_dependencies n)}"

lemma finite_dep_rel: "finite (dep_rel ns)"
proof -
  have "dep_rel ns \<subseteq> (\<Union>n \<in> set ns. set (on_dependencies n) \<times> {on_operation_id n})"
    by (auto simp: dep_rel_def)
  then show ?thesis by (rule finite_subset) simp
qed

lemma no_source_not_acyclic:
  assumes "finite R" "A \<noteq> {}" "\<And>i. i \<in> A \<Longrightarrow> \<exists>d \<in> A. (d, i) \<in> R"
  shows "\<not> acyclic R"
proof
  assume "acyclic R"
  with assms(1) have "wf R" by (rule finite_acyclic_wf)
  with assms(2) obtain z where "z \<in> A" "\<And>y. (y, z) \<in> R \<Longrightarrow> y \<notin> A"
    by (metis ex_in_conv wfE_min)
  with assms(3) show False by blast
qed

lemma topo_inv_ready:
  assumes inv: "topo_inv by_id u acc" and "u \<noteq> []" and k: "keyed by_id"
    and closed: "\<And>i n. (i, n) \<in> set by_id \<Longrightarrow> set (on_dependencies n) \<subseteq> fst ` set by_id"
    and acyc: "acyclic (dep_rel (map snd by_id))"
  shows "ready_ids u \<noteq> []"
proof
  assume none: "ready_ids u = []"
  have keys: "fst ` set u = fst ` set by_id - ids acc" using inv by (simp add: topo_inv_def)
  have "\<exists>d \<in> fst ` set u. (d, i) \<in> dep_rel (map snd by_id)" if "i \<in> fst ` set u" for i
  proof -
    from that obtain ds where ds: "(i, ds) \<in> set u" by auto
    with none have "ds \<noteq> []" using ready_ids_subset [of u] by auto
    from that keys obtain n where n: "(i, n) \<in> set by_id" by auto
    then have "dict_get by_id i = Some n" using k by (simp add: keyed_def)
    with inv ds have eq: "set ds = set (on_dependencies n) - ids acc" by (auto simp: topo_inv_def)
    obtain d where d: "d \<in> set ds" using \<open>ds \<noteq> []\<close> by (cases ds) auto
    then have dn: "d \<in> set (on_dependencies n)" "d \<notin> ids acc" using eq by auto
    then have "d \<in> fst ` set u" using closed [OF n] keys by auto
    moreover have "on_operation_id n = i" using n k by (auto simp: keyed_def)
    then have "(d, i) \<in> dep_rel (map snd by_id)"
      using dn(1) by (auto simp: dep_rel_def intro: bexI [OF _ n])
    ultimately show ?thesis by blast
  qed
  moreover have "fst ` set u \<noteq> {}" using \<open>u \<noteq> []\<close> by simp
  ultimately show False using no_source_not_acyclic [OF finite_dep_rel] acyc by metis
qed

lemma topo_loop_total:
  assumes "topo_inv by_id u acc" and k: "keyed by_id"
    and closed: "\<And>i n. (i, n) \<in> set by_id \<Longrightarrow> set (on_dependencies n) \<subseteq> fst ` set by_id"
    and acyc: "acyclic (dep_rel (map snd by_id))"
  shows "\<exists>ns. topo_loop by_id u acc = Inr ns"
  using assms(1)
proof (induction "length u" arbitrary: u acc rule: less_induct)
  case less
  show ?case
  proof (cases "u = []")
    case True
    then show ?thesis by (simp add: topo_loop.simps)
  next
    case False
    have r: "ready_ids u \<noteq> []" by (rule topo_inv_ready [OF less.prems False k closed acyc])
    have "set (ready_ids u) \<subseteq> fst ` set by_id"
    proof
      fix i
      assume "i \<in> set (ready_ids u)"
      then have "i \<in> fst ` set u" by (force simp: ready_ids_subset)
      with less.prems show "i \<in> fst ` set by_id" by (simp add: topo_inv_def)
    qed
    then obtain ms where ms: "map_r (node_of by_id) (ready_ids u) = Inr ms"
      by (rule map_r_node_of_total)
    from less.hyps [OF drop_ready_shorter [OF r] topo_inv_step [OF less.prems k ms]]
    show ?thesis using False r ms by (simp add: topo_loop.simps [of by_id u acc] Let_def)
  qed
qed

lemma dep_ordered_acyclic:
  assumes "distinct (map on_operation_id ns)" "dep_ordered ns"
  shows "acyclic (dep_rel ns)"
proof -
  define pos where "pos i = length (takeWhile (\<lambda>n. on_operation_id n \<noteq> i) ns)" for i
  have "pos d < pos i" if "(d, i) \<in> dep_rel ns" for d i
  proof -
    from that obtain n where n: "n \<in> set ns" "i = on_operation_id n" "d \<in> set (on_dependencies n)"
      by (auto simp: dep_rel_def)
    from split_list [OF n(1)] obtain xs ys where ns: "ns = xs @ n # ys" by blast
    have "i \<notin> ids xs" using assms(1) ns n(2) by simp
    then have "on_operation_id m \<noteq> i" if "m \<in> set xs" for m using that by blast
    then have "takeWhile (\<lambda>n. on_operation_id n \<noteq> i) ns = xs"
      using ns n(2) by (simp add: takeWhile_append2)
    then have i: "pos i = length xs" by (simp add: pos_def)
    have "d \<in> ids xs" using dep_ordered_split assms(2) ns n(3) by blast
    then obtain m xs1 xs2 where "xs = xs1 @ m # xs2" "on_operation_id m = d"
      by (metis (no_types, lifting) imageE split_list)
    then have "pos d \<le> length xs1"
      unfolding pos_def ns by (induction xs1 arbitrary: xs) auto
    with i \<open>xs = xs1 @ m # xs2\<close> show ?thesis by simp
  qed
  then have "dep_rel ns \<subseteq> measure pos" by auto
  then show ?thesis by (meson acyclic_subset wf_acyclic wf_measure)
qed

lemma topological_iff_acyclic:
  assumes k: "keyed by_id"
    and closed: "\<And>i n. (i, n) \<in> set by_id \<Longrightarrow> set (on_dependencies n) \<subseteq> fst ` set by_id"
  shows "(\<exists>ns. topological by_id = Inr ns) \<longleftrightarrow> acyclic (dep_rel (map snd by_id))"
proof
  assume "\<exists>ns. topological by_id = Inr ns"
  then obtain ns where ns: "topological by_id = Inr ns" ..
  have "dep_rel ns = dep_rel (map snd by_id)"
    using topological_sound(1) [OF k ns] by (simp add: dep_rel_def)
  with dep_ordered_acyclic [OF topological_sound(2,3) [OF k ns]]
  show "acyclic (dep_rel (map snd by_id))" by simp
next
  assume "acyclic (dep_rel (map snd by_id))"
  with topo_loop_total [OF topo_inv_start [OF k] k closed] show "\<exists>ns. topological by_id = Inr ns"
    by (simp add: topological_def)
qed

section \<open>The result does not depend on the order of the input\<close>

lemma ready_ids_mset: "mset u = mset u' \<Longrightarrow> ready_ids u = ready_ids u'"
  by (simp add: ready_ids_def sort_eq_iff_mset)

lemma drop_ready_mset: "mset u = mset u' \<Longrightarrow> mset (drop_ready r u) = mset (drop_ready r u')"
  by (simp add: drop_ready_def)

lemma topo_loop_perm:
  assumes "dict_get b = dict_get b'"
  shows "mset u = mset u' \<Longrightarrow> topo_loop b u acc = topo_loop b' u' acc"
proof (induction "length u" arbitrary: u u' acc rule: less_induct)
  case less
  have n: "node_of b = node_of b'" using assms by (simp add: node_of_def fun_eq_iff)
  have e: "u = [] \<longleftrightarrow> u' = []" using less.prems by (metis mset_zero_iff)
  note r = ready_ids_mset [OF less.prems]
  show ?case
  proof (cases "u = [] \<or> ready_ids u = []")
    case True
    with e r show ?thesis by (auto simp: topo_loop.simps [of b u acc] topo_loop.simps [of b' u' acc])
  next
    case False
    have "topo_loop b (drop_ready (ready_ids u) u) acc' =
        topo_loop b' (drop_ready (ready_ids u) u') acc'" for acc'
      using less.hyps drop_ready_shorter drop_ready_mset [OF less.prems] False by blast
    with False e r n show ?thesis
      by (simp add: topo_loop.simps [of b u acc] topo_loop.simps [of b' u' acc] Let_def)
  qed
qed

lemma map_of_perm:
  "distinct (map fst xs) \<Longrightarrow> mset xs = mset ys \<Longrightarrow> map_of xs = map_of ys"
  by (metis distinct_map map_of_inject_set mset_eq_imp_distinct_iff mset_eq_setD mset_map)

lemma topological_perm: "wf_dict b \<Longrightarrow> mset b = mset b' \<Longrightarrow> topological b = topological b'"
  unfolding topological_def by (rule topo_loop_perm) (simp_all add: map_of_perm)

definition indexed :: "operation_node list \<Rightarrow> (string, operation_node) dict" where
  "indexed ns = map (\<lambda>n. (on_operation_id n, n)) ns"

lemma fst_indexed: "map fst (indexed ns) = map on_operation_id ns"
  by (simp add: indexed_def comp_def)

lemma keyed_indexed: "distinct (map on_operation_id ns) \<Longrightarrow> keyed (indexed ns)"
  by (auto simp: keyed_def fst_indexed) (simp add: indexed_def image_iff)

lemma set_indexed: "snd ` set (indexed ns) = set ns"
  by (force simp: indexed_def)

lemma index_operations_Inr:
  "index_operations ts ns (indexed ms) = Inr by_id \<longleftrightarrow>
     by_id = indexed (ms @ ns) \<and> (\<forall>n \<in> set ns. on_node_id n \<in> set ts) \<and>
     distinct (map on_operation_id ns) \<and> ids ms \<inter> ids ns = {}"
proof (induction ns arbitrary: ms)
  case Nil
  then show ?case by auto
next
  case (Cons n ns)
  have keys: "fst ` set (indexed ms) = ids ms" by (metis fst_indexed set_map)
  show ?case
  proof (cases "on_operation_id n \<in> ids ms")
    case True
    with keys show ?thesis by auto
  next
    case False
    then have "dict_set (indexed ms) (on_operation_id n) n = indexed (ms @ [n])"
      using keys by (simp add: dict_set_new) (simp add: indexed_def)
    with False keys Cons.IH [of "ms @ [n]"] show ?thesis
      by (auto simp: raise_if_Inr)
  qed
qed

lemma check_dependency_Inr:
  "check_dependency b n d = Inr x \<longleftrightarrow>
     (\<exists>m. dict_get b d = Some m \<and> (on_workload_id m = on_workload_id n \<or> cross_workload_gate n m))"
  by (auto simp: check_dependency_def raise_if_Inr split: option.splits)

lemma check_dependencies_Inr:
  "(\<exists>x. check_dependencies b ns = Inr x) \<longleftrightarrow>
     (\<forall>n \<in> set ns. \<forall>d \<in> set (on_dependencies n).
        \<exists>m. dict_get b d = Some m \<and> (on_workload_id m = on_workload_id n \<or> cross_workload_gate n m))"
  by (simp add: check_dependencies_def map_r_ex_Inr check_dependency_Inr)

lemma order_operations_Inr:
  "order_operations ts parsed = Inr ns \<longleftrightarrow>
     (\<forall>n \<in> set parsed. on_node_id n \<in> set ts) \<and> distinct (map on_operation_id parsed) \<and>
     (\<forall>n \<in> set parsed. \<forall>d \<in> set (on_dependencies n).
        \<exists>m. dict_get (indexed parsed) d = Some m \<and>
          (on_workload_id m = on_workload_id n \<or> cross_workload_gate n m)) \<and>
     topological (indexed parsed) = Inr ns"
proof -
  have "index_operations ts parsed [] = Inr b \<longleftrightarrow> b = indexed parsed \<and>
      (\<forall>n \<in> set parsed. on_node_id n \<in> set ts) \<and> distinct (map on_operation_id parsed)" for b
    using index_operations_Inr [of ts parsed "[]" b] by (simp add: indexed_def)
  then show ?thesis
    unfolding order_operations_def rbind_Inr check_dependencies_Inr [symmetric] by auto
qed

lemma order_operations_perm:
  assumes "mset parsed = mset parsed'" "set ts = set ts'"
  shows "order_operations ts parsed = Inr ns \<longleftrightarrow> order_operations ts' parsed' = Inr ns"
proof -
  have sets: "set parsed = set parsed'" using assms(1) by (rule mset_eq_setD)
  have d: "distinct (map on_operation_id parsed) \<longleftrightarrow> distinct (map on_operation_id parsed')"
    using assms(1) by (metis mset_eq_imp_distinct_iff mset_map)
  have m: "mset (indexed parsed) = mset (indexed parsed')" using assms(1) by (simp add: indexed_def)
  show ?thesis
  proof (cases "distinct (map on_operation_id parsed)")
    case True
    then have wf: "wf_dict (indexed parsed)" by (simp add: fst_indexed)
    show ?thesis
      unfolding order_operations_Inr map_of_perm [OF wf m] topological_perm [OF wf m] sets assms(2) d ..
  next
    case False
    with d show ?thesis by (simp add: order_operations_Inr)
  qed
qed

lemma map_r_perm:
  assumes "mset xs = mset ys" "map_r f xs = Inr us"
  obtains vs where "map_r f ys = Inr vs" "mset us = mset vs"
proof -
  have "\<exists>vs. map_r f ys = Inr vs"
    using assms map_r_ex_Inr [of f xs] map_r_ex_Inr [of f ys] mset_eq_setD [OF assms(1)] by blast
  then obtain vs where vs: "map_r f ys = Inr vs" ..
  have img: "map_r f zs = Inr ws \<Longrightarrow> mset ws = image_mset (\<lambda>x. projr (f x)) (mset zs)" for zs ws
    by (induction zs arbitrary: ws) (auto simp: rbind_Inr)
  from img [OF assms(2)] img [OF vs] assms(1) vs that show thesis by simp
qed

text \<open>What a successful parse returns, in terms of the parts of the document.\<close>

lemma parse_plan_document_Inr:
  "parse_plan (plan_document c ts g ops) = Inr r \<longleftrightarrow>
     (\<exists>cs tg i xs parsed ns. c = JStr cs \<and> is_hex 40 cs \<and> targets ts = Inr tg \<and>
        generation g = Inr i \<and> ops = JList xs \<and> xs \<noteq> [] \<and> map_r operation xs = Inr parsed \<and>
        order_operations tg parsed = Inr ns \<and> r = (cs, tg, i, ns))"
  by (cases c; cases ops)
    (auto simp: parse_plan_def plan_document_def has_fields_def plan_fields_def jget_def
       raise_if_Inr rbind_Inr is_str_with_def Let_def)

lemma targets_perm:
  assumes "mset ts = mset ts'" "targets (JList ts) = Inr tg"
  shows "targets (JList ts') = Inr tg"
proof -
  have "sort (map the_str ts) = sort (map the_str ts')"
    using assms(1) by (simp add: sort_eq_iff_mset)
  moreover have "ts = [] \<longleftrightarrow> ts' = []" "set ts = set ts'"
    using assms(1) mset_eq_setD by (auto simp: mset_zero_iff [symmetric] simp del: mset_zero_iff) 
  moreover have "distinct (map the_str ts) \<longleftrightarrow> distinct (map the_str ts')"
    using assms(1) by (metis mset_eq_imp_distinct_iff mset_map)
  ultimately show ?thesis
    using assms(2) by (auto simp: targets_def raise_if_Inr Let_def list_all_iff)
qed

lemma parse_plan_order_independent:
  assumes "parse_plan (plan_document c (JList ts) g (JList ops)) = Inr r"
    and "mset ts = mset ts'" and "mset ops = mset ops'"
  shows "parse_plan (plan_document c (JList ts') g (JList ops')) = Inr r"
proof -
  from assms(1) obtain cs tg i parsed ns where
    p: "c = JStr cs" "is_hex 40 cs" "targets (JList ts) = Inr tg" "generation g = Inr i"
      "ops \<noteq> []" "map_r operation ops = Inr parsed" "order_operations tg parsed = Inr ns"
      "r = (cs, tg, i, ns)"
    by (auto simp: parse_plan_document_Inr)
  obtain parsed' where "map_r operation ops' = Inr parsed'" "mset parsed = mset parsed'"
    using map_r_perm [OF assms(3) p(6)] by blast
  moreover from this p(7) have "order_operations tg parsed' = Inr ns"
    using order_operations_perm by blast
  moreover have "ops' \<noteq> []" using assms(3) p(5) by (metis mset_zero_iff)
  ultimately show ?thesis
    using p targets_perm [OF assms(2) p(3)] by (auto simp: parse_plan_document_Inr)
qed

section \<open>A persisted graph parses back to itself\<close>

definition wf_operation :: "operation_node \<Rightarrow> bool" where
  "wf_operation n \<longleftrightarrow>
     is_operation_id (on_operation_id n) \<and> is_node_id (on_node_id n) \<and>
     is_workload_id (on_workload_id n) \<and> on_kind n \<in> set implemented_operations \<and>
     (\<forall>c. on_compensation_kind n = Some c \<longrightarrow> c \<in> set implemented_operations) \<and>
     is_hex 64 (on_payload_digest n) \<and> list_all is_operation_id (on_dependencies n) \<and>
     sorted (on_dependencies n) \<and> distinct (on_dependencies n)"

lemma is_str_with_iff: "is_str_with P v \<longleftrightarrow> (\<exists>s. v = JStr s \<and> P s)"
  by (cases v) (auto simp: is_str_with_def)

lemma list_all_the_str: "list_all (is_str_with P) vs \<Longrightarrow> list_all P (sort (map the_str vs))"
  by (force simp: list_all_iff is_str_with_iff)

lemma operation_wf: "operation raw = Inr n \<Longrightarrow> wf_operation n"
proof -
  assume "operation raw = Inr n"
  then obtain d where raw: "raw = JObj d" by (cases raw) (simp_all add: operation_def)
  with \<open>operation raw = Inr n\<close> show ?thesis
    by (cases "jget d ''compensation_kind''")
      (auto simp: operation_def raise_if_Inr Let_def is_str_with_def wf_operation_def
        list_all_the_str split: json.splits)
qed

lemma map_the_str_JStr: "map the_str (map JStr ss) = ss"
  by (induction ss) auto

lemma operation_to_document: "wf_operation n \<Longrightarrow> operation (to_document n) = Inr n"
  by (cases n; cases "on_compensation_kind n")
    (simp_all add: operation_def to_document_def has_fields_def operation_fields_def jget_def
      wf_operation_def is_str_with_def list_all_iff sorted_sort_id comp_def insert_commute)

lemma targets_wf:
  "targets v = Inr ts \<Longrightarrow> ts \<noteq> [] \<and> list_all is_node_id ts \<and> sorted ts \<and> distinct ts"
  by (cases v) (auto simp: targets_def raise_if_Inr Let_def list_all_the_str)

lemma targets_round_trip: "targets v = Inr ts \<Longrightarrow> targets (JList (map JStr ts)) = Inr ts"
  using targets_wf [of v ts]
  by (simp add: targets_def list_all_iff is_str_with_def comp_def sorted_sort_id)

lemma generation_round_trip: "generation v = Inr g \<Longrightarrow> generation (JInt g) = Inr g"
  by (cases v) (auto simp: generation_def raise_if_Inr)

lemma order_operations_mset:
  assumes "order_operations ts parsed = Inr ns"
  shows "mset ns = mset parsed"
proof -
  from assms have d: "distinct (map on_operation_id parsed)"
    and t: "topological (indexed parsed) = Inr ns" by (auto simp: order_operations_Inr)
  note sound = topological_sound [OF keyed_indexed [OF d] t]
  have "distinct ns" "distinct parsed" using sound(2) d by (auto simp: distinct_map)
  with sound(1) show ?thesis by (simp add: set_indexed set_eq_iff_mset_eq_distinct)
qed

lemma parse_plan_round_trip:
  assumes "parse_plan (plan_document c ts g ops) = Inr (cs, tg, i, ns)"
  shows "parse_plan (plan_document (JStr cs) (JList (map JStr tg)) (JInt i)
      (JList (map to_document ns))) = Inr (cs, tg, i, ns)"
proof -
  from assms obtain xs parsed where
    p: "is_hex 40 cs" "targets ts = Inr tg" "generation g = Inr i" "ops = JList xs" "xs \<noteq> []"
      "map_r operation xs = Inr parsed" "order_operations tg parsed = Inr ns"
    by (auto simp: parse_plan_document_Inr)
  note m = order_operations_mset [OF p(7)]
  have "wf_operation n" if "n \<in> set ns" for n
    using that mset_eq_setD [OF m] map_r_Inr_set [OF p(6)] operation_wf by blast
  then have "map_r operation (map to_document ns) = Inr ns"
    by (induction ns) (simp_all add: operation_to_document)
  moreover have "ns \<noteq> []"
    using m p(5,6) by (cases xs) (auto simp: rbind_Inr)
  moreover have "order_operations tg ns = Inr ns"
    using order_operations_perm [OF m refl] p(7) by blast
  ultimately show ?thesis
    using p targets_round_trip [OF p(2)] generation_round_trip [OF p(3)]
    by (simp add: parse_plan_document_Inr)
qed

abbreviation cycle_error :: exc where
  "cycle_error \<equiv> ValueError ''reconciliation operation graph contains a cycle''"

lemma topo_loop_error:
  assumes k: "keyed by_id"
  shows "topo_inv by_id u acc \<Longrightarrow> topo_loop by_id u acc = Inl e \<Longrightarrow> e = cycle_error"
proof (induction "length u" arbitrary: u acc rule: less_induct)
  case less
  show ?case
  proof (cases "u = [] \<or> ready_ids u = []")
    case True
    with less.prems(2) show ?thesis by (auto simp: topo_loop.simps [of by_id u acc] Let_def split: if_splits)
  next
    case False
    have "fst ` set u \<subseteq> fst ` set by_id" using less.prems(1) by (auto simp: topo_inv_def)
    then have "set (ready_ids u) \<subseteq> fst ` set by_id" by (force simp: ready_ids_subset)
    then obtain ms where ms: "map_r (node_of by_id) (ready_ids u) = Inr ms"
      by (rule map_r_node_of_total)
    have "topo_loop by_id (drop_ready (ready_ids u) u) (acc @ ms) = Inl e"
      using less.prems(2) False ms by (simp add: topo_loop.simps [of by_id u acc] Let_def)
    with less.hyps [OF drop_ready_shorter topo_inv_step [OF less.prems(1) k ms]] False
    show ?thesis by blast
  qed
qed

lemma topological_error: "keyed by_id \<Longrightarrow> topological by_id = Inl e \<Longrightarrow> e = cycle_error"
  using topo_loop_error topo_inv_start unfolding topological_def by blast

lemma order_operations_checked:
  assumes "\<forall>n \<in> set parsed. on_node_id n \<in> set ts" "distinct (map on_operation_id parsed)"
    and "\<forall>n \<in> set parsed. \<forall>d \<in> set (on_dependencies n).
        \<exists>m. dict_get (indexed parsed) d = Some m \<and>
          (on_workload_id m = on_workload_id n \<or> cross_workload_gate n m)"
  shows "order_operations ts parsed = topological (indexed parsed)"
proof -
  have "index_operations ts parsed [] = Inr (indexed parsed)"
    using index_operations_Inr [of ts parsed "[]" "indexed parsed"] assms(1,2) by (simp add: indexed_def)
  moreover obtain x where "check_dependencies (indexed parsed) parsed = Inr x"
    using assms(3) check_dependencies_Inr [of "indexed parsed" parsed] by blast
  ultimately show ?thesis by (simp add: order_operations_def)
qed

text \<open>A concrete plan: stop the old workload, then start the new one on each of two nodes.\<close>

definition ex_op :: "string \<Rightarrow> string \<Rightarrow> string \<Rightarrow> string list \<Rightarrow> operation_node" where
  "ex_op i node kind deps = \<lparr>on_operation_id = i, on_node_id = node, on_workload_id = ''llm'',
     on_kind = kind, on_dependencies = deps, on_compensation_kind = Some ''workload.stop'',
     on_payload_digest = replicate 64 CHR ''a''\<rparr>"

definition ex_ops :: "operation_node list" where
  "ex_ops = [ex_op ''start'' (''spk_'' @ replicate 32 CHR ''1'') ''workload.start'' [''prepare''],
     ex_op ''prepare'' (''spk_'' @ replicate 32 CHR ''1'') ''workload.prepare'' []]"

definition ex_target :: json where
  "ex_target = JStr (''spk_'' @ replicate 32 CHR ''1'')"

definition ex_plan :: "operation_node list \<Rightarrow> json" where
  "ex_plan ns = plan_document (JStr (replicate 40 CHR ''0'')) (JList [ex_target]) (JInt 4)
     (JList (map to_document ns))"

definition ex_parsed :: parsed_plan where
  "ex_parsed = (replicate 40 CHR ''0'', [''spk_'' @ replicate 32 CHR ''1''], 4, rev ex_ops)"

lemma ex_plan_parsed: "parse_plan (ex_plan ex_ops) = Inr ex_parsed"
  by code_simp

section \<open>Properties\<close>

text \<open>C4: the operations that \<^verbatim>\<open>parse_plan\<close> returns are the operations of the input, each once, every one
  of them after all the operations it depends on and targeted at a node of the plan.\<close>

theorem parse_plan_topological:
  assumes "parse_plan (plan_document c ts g (JList ops)) = Inr (cs, tg, i, ns)"
  shows "(\<exists>parsed. map_r operation ops = Inr parsed \<and> mset ns = mset parsed) \<and>
    distinct (map on_operation_id ns) \<and> (\<forall>n \<in> set ns. on_node_id n \<in> set tg) \<and>
    (\<forall>xs n ys. ns = xs @ n # ys \<longrightarrow> set (on_dependencies n) \<subseteq> ids xs)"
proof -
  from assms obtain parsed where
    p: "map_r operation ops = Inr parsed" "order_operations tg parsed = Inr ns"
    by (auto simp: parse_plan_document_Inr)
  from p(2) have d: "distinct (map on_operation_id parsed)" and t: "topological (indexed parsed) = Inr ns"
    and nodes: "\<forall>n \<in> set parsed. on_node_id n \<in> set tg"
    by (auto simp: order_operations_Inr)
  note sound = topological_sound [OF keyed_indexed [OF d] t]
  from order_operations_mset [OF p(2)] sound nodes p(1) dep_ordered_split show ?thesis
    by (metis set_mset_mset)
qed

theorem parse_plan_topological_witness:
  "set (on_dependencies (hd ex_ops)) \<subseteq> ids [ex_op ''prepare'' (''spk_'' @ replicate 32 CHR ''1'') ''workload.prepare'' []]"
  by (rule parse_plan_topological [OF ex_plan_parsed [unfolded ex_plan_def ex_parsed_def],
        THEN conjunct2, THEN conjunct2, THEN conjunct2, rule_format]) (simp add: ex_ops_def)

text \<open>C11: for operations with known targets, distinct identities and admissible dependencies, ordering
  raises the cycle error exactly when the dependency relation has a cycle, and otherwise returns.\<close>

theorem order_operations_cycle:
  assumes "\<forall>n \<in> set parsed. on_node_id n \<in> set ts" and d: "distinct (map on_operation_id parsed)"
    and deps: "\<forall>n \<in> set parsed. \<forall>i \<in> set (on_dependencies n). \<exists>m \<in> set parsed.
      on_operation_id m = i \<and> (on_workload_id m = on_workload_id n \<or> cross_workload_gate n m)"
  shows "(order_operations ts parsed = Inl cycle_error \<longleftrightarrow> \<not> acyclic (dep_rel parsed)) \<and>
    ((\<exists>ns. order_operations ts parsed = Inr ns) \<longleftrightarrow> acyclic (dep_rel parsed))"
proof -
  have k: "keyed (indexed parsed)" by (rule keyed_indexed [OF d])
  have get: "dict_get (indexed parsed) (on_operation_id m) = Some m" if "m \<in> set parsed" for m
  proof -
    have "(on_operation_id m, m) \<in> set (indexed parsed)" using that by (simp add: indexed_def)
    with k show ?thesis by (simp add: keyed_def)
  qed
  have "order_operations ts parsed = topological (indexed parsed)"
    by (rule order_operations_checked [OF assms(1,2)]) (metis deps get)
  moreover have "dep_rel (map snd (indexed parsed)) = dep_rel parsed"
    by (simp add: dep_rel_def set_indexed)
  moreover have "set (on_dependencies n) \<subseteq> fst ` set (indexed parsed)" if "(i, n) \<in> set (indexed parsed)" for i n
  proof -
    from that have n: "n \<in> set parsed" by (auto simp: indexed_def)
    have "j \<in> ids parsed" if "j \<in> set (on_dependencies n)" for j
      using deps [rule_format, OF n that] by blast
    then show ?thesis by (metis fst_indexed set_map subsetI)
  qed
  ultimately show ?thesis
    using topological_iff_acyclic [OF k] topological_error [OF k]
    by (cases "topological (indexed parsed)") auto
qed

theorem order_operations_cycle_witness:
  "order_operations [''n''] [ex_op ''a'' ''n'' ''workload.stop'' [''b''], ex_op ''b'' ''n'' ''workload.stop'' [''a'']] =
     Inl cycle_error \<and> (\<exists>ns. order_operations [''n''] [ex_op ''a'' ''n'' ''workload.stop'' []] = Inr ns)"
proof -
  let ?loop = "[ex_op ''a'' ''n'' ''workload.stop'' [''b''], ex_op ''b'' ''n'' ''workload.stop'' [''a'']]"
  have "(''a'', ''b'') \<in> dep_rel ?loop" "(''b'', ''a'') \<in> dep_rel ?loop"
    by (auto simp: dep_rel_def ex_op_def)
  then have "(''a'', ''a'') \<in> (dep_rel ?loop)\<^sup>+" by (rule trancl_into_trancl [OF r_into_trancl])
  then have "\<not> acyclic (dep_rel ?loop)" by (auto simp: acyclic_def)
  then have "order_operations [''n''] ?loop = Inl cycle_error"
    using order_operations_cycle [of ?loop "[''n'']"] by (simp add: ex_op_def)
  moreover have "dep_rel [ex_op ''a'' ''n'' ''workload.stop'' []] = {}"
    by (simp add: dep_rel_def ex_op_def)
  then have "acyclic (dep_rel [ex_op ''a'' ''n'' ''workload.stop'' []])"
    by (simp add: acyclic_def)
  ultimately show ?thesis
    using order_operations_cycle [of "[ex_op ''a'' ''n'' ''workload.stop'' []]" "[''n'']"]
    by (simp add: ex_op_def)
qed

text \<open>C13: the parsed plan does not depend on the order in which the input lists its targets and its
  operations.\<close>

theorem parse_plan_permutation:
  assumes "parse_plan (plan_document c (JList ts) g (JList ops)) = Inr r"
    and "mset ts = mset ts'" and "mset ops = mset ops'"
  shows "parse_plan (plan_document c (JList ts') g (JList ops')) = Inr r"
  by (rule parse_plan_order_independent [OF assms])

theorem parse_plan_permutation_witness: "parse_plan (ex_plan (rev ex_ops)) = Inr ex_parsed"
  unfolding ex_plan_def
  by (rule parse_plan_permutation [OF ex_plan_parsed [unfolded ex_plan_def]]) simp_all

text \<open>C12: a persisted graph loads as itself: when the nodes of a parsed plan are written as documents and
  parsed again, with the recorded commit, targets and generation, the same plan comes back.\<close>

theorem persisted_graph_round_trip:
  assumes "parse_plan (plan_document c ts g ops) = Inr (cs, tg, i, ns)"
  shows "parse_plan (plan_document (JStr cs) (JList (map JStr tg)) (JInt i)
      (JList (map to_document ns))) = Inr (cs, tg, i, ns)"
  by (rule parse_plan_round_trip [OF assms])

theorem persisted_graph_round_trip_witness: "parse_plan (ex_plan (rev ex_ops)) = Inr ex_parsed"
proof -
  have t: "[ex_target] = map JStr [''spk_'' @ replicate 32 CHR ''1'']" by (simp add: ex_target_def)
  show ?thesis
    unfolding ex_plan_def ex_parsed_def t
    by (rule persisted_graph_round_trip [OF ex_plan_parsed [unfolded ex_plan_def ex_parsed_def]])
qed

end
