(* ===== verification/Fencing.thy ===== *)
theory Fencing
  imports Prelude
begin

text \<open>
  The contract of a fencing token, which the node mutation leases and the job queue both
  promise. A system moves by \<open>step\<close>; a token \<open>f\<close> may own a resource \<open>r\<close> in a state, and the
  states remember which tokens have been issued. The provider promises that a resource has one
  owner at most, and that a token gains a resource only in the step that issues it.

  The lemmas are what clients rely on: along every run, two tokens never own the same resource,
  and a token that has lost a resource never owns it again, so a delayed worker cannot act on
  stale authority.
\<close>

locale fenced_resource =
  fixes step :: "'s \<Rightarrow> 's \<Rightarrow> bool"
    and inv :: "'s \<Rightarrow> bool"
    and owns :: "'s \<Rightarrow> 'f \<Rightarrow> 'r \<Rightarrow> bool"
    and issued :: "'s \<Rightarrow> 'f \<Rightarrow> bool"
  assumes inv_step: "inv s \<Longrightarrow> step s t \<Longrightarrow> inv t"
    and owner_unique: "inv s \<Longrightarrow> owns s f r \<Longrightarrow> owns s g r \<Longrightarrow> f = g"
    and owner_issued: "inv s \<Longrightarrow> owns s f r \<Longrightarrow> issued s f"
    and issued_step: "inv s \<Longrightarrow> step s t \<Longrightarrow> issued s f \<Longrightarrow> issued t f"
    and gain_fresh: "inv s \<Longrightarrow> step s t \<Longrightarrow> owns t f r \<Longrightarrow> \<not> owns s f r \<Longrightarrow> \<not> issued s f"
begin

lemma inv_run: "step\<^sup>*\<^sup>* s t \<Longrightarrow> inv s \<Longrightarrow> inv t"
  by (induction rule: rtranclp_induct) (auto intro: inv_step)

lemma run_exclusive: "step\<^sup>*\<^sup>* s t \<Longrightarrow> inv s \<Longrightarrow> owns t f r \<Longrightarrow> owns t g r \<Longrightarrow> f = g"
  using inv_run owner_unique by blast

lemma issued_run: "step\<^sup>*\<^sup>* s t \<Longrightarrow> inv s \<Longrightarrow> issued s f \<Longrightarrow> issued t f"
  by (induction rule: rtranclp_induct) (auto intro: inv_run issued_step)

lemma stale_forever:
  assumes "step\<^sup>*\<^sup>* s t" "inv s" "issued s f" "\<not> owns s f r"
  shows "\<not> owns t f r"
  using assms
proof (induction rule: rtranclp_induct)
  case (step t u)
  then have "inv t" "issued t f" by (auto intro: inv_run issued_run)
  with step show ?case using gain_fresh by blast
qed

lemma superseded_forever:
  assumes "step\<^sup>*\<^sup>* s t" "inv s" "issued s f" "owns s g r" "f \<noteq> g"
  shows "\<not> owns t f r"
  using assms stale_forever owner_unique by blast

end

end
