(* ===== verification/Node_Leases.thy ===== *)
theory Node_Leases
  imports Fencing
begin

text \<open>
  \<^verbatim>\<open>control/src/vonk_control/node_leases.py\<close>: durable ownership of node mutations. One row per
  leased node; a group of rows that share a fence is one grant. The functions run inside a
  caller's transaction, so each returns its outcome together with the tables it leaves behind,
  also when it raises.

  After the locking read of \<open>acquire_in_session\<close> and before its insert, other transactions may
  commit lease rows for the same nodes; they are the argument \<open>concurrent\<close>, and the tables
  that the function returns contain them. The UUID that
  \<^verbatim>\<open>uuid.uuid4\<close> draws is the argument \<open>fence\<close>, the clock reading the argument \<open>now\<close>.
\<close>

section \<open>Tables\<close>

record lease_row =
  ml_node_id :: string
  ml_owner_kind :: string
  ml_owner_id :: string
  ml_fence :: string
  ml_state :: string
  ml_acquired_at :: int
  ml_updated_at :: int

record lease_db =
  leases :: "lease_row list"
  agent_nodes :: "string list"

record node_lease_grant =
  gr_owner_kind :: string
  gr_owner_id :: string
  gr_fence :: string
  gr_node_ids :: "string list"
  gr_state :: string

datatype lease_error =
    NodeLeaseConflict "string list"
  | LeaseExc exc

text \<open>\<^verbatim>\<open>NodeLeaseConflict(ids)\<close> keeps the sorted set of the identities.\<close>

definition node_lease_conflict :: "string list \<Rightarrow> lease_error" where
  "node_lease_conflict node_ids = NodeLeaseConflict (sort (remdups node_ids))"

section \<open>Validation\<close>

definition owner_kinds :: "string list" where
  "owner_kinds = [''reconciliation'', ''update-rollout'']"

definition nodes :: "string list \<Rightarrow> lease_error + string list" where
  "nodes values =
    (let ns = sort values in
     raise_if (ns = [] \<or> \<not> distinct ns \<or> list_ex (\<lambda>v. v = []) ns)
       (LeaseExc (ValueError ''node mutation lease targets are invalid'')) (Inr ns))"

definition uuid_check :: "string \<Rightarrow> string \<Rightarrow> lease_error + unit" where
  "uuid_check value name =
     raise_if (\<not> is_uuid value) (LeaseExc (ValueError (name @ '' is invalid''))) (Inr ())"

definition owner_check :: "string \<Rightarrow> string \<Rightarrow> lease_error + unit" where
  "owner_check kind owner_id =
     raise_if (kind \<notin> set owner_kinds)
       (LeaseExc (ValueError ''node mutation lease owner kind is invalid'')) (
     uuid_check owner_id ''node mutation lease owner'')"

section \<open>Queries\<close>

definition rows :: "lease_row list \<Rightarrow> string list \<Rightarrow> lease_row list" where
  "rows ls node_ids = sort_key ml_node_id (filter (\<lambda>r. ml_node_id r \<in> set node_ids) ls)"

definition matching_grant ::
    "lease_row list \<Rightarrow> string list \<Rightarrow> string \<Rightarrow> string \<Rightarrow> node_lease_grant option" where
  "matching_grant rs ns owner_kind owner_id =
    (let fences = remdups (map ml_fence rs) in
     if length rs = length ns \<and> map ml_node_id rs = ns \<and> length fences = 1 \<and>
        list_all (\<lambda>r. ml_owner_kind r = owner_kind \<and> ml_owner_id r = owner_id \<and>
          ml_state r = ''held'') rs
     then Some \<lparr>gr_owner_kind = owner_kind, gr_owner_id = owner_id, gr_fence = hd fences,
                gr_node_ids = ns, gr_state = ''held''\<rparr>
     else None)"

definition grant_rows :: "lease_row list \<Rightarrow> node_lease_grant \<Rightarrow> lease_error + lease_row list" where
  "grant_rows ls grant =
     rbind (owner_check (gr_owner_kind grant) (gr_owner_id grant)) (\<lambda>_.
     rbind (nodes (gr_node_ids grant)) (\<lambda>ns.
     rbind (uuid_check (gr_fence grant) ''node mutation lease fence'') (\<lambda>_.
     let rs = rows ls ns in
     raise_if (length rs \<noteq> length ns \<or>
         list_ex (\<lambda>r. ml_owner_kind r \<noteq> gr_owner_kind grant \<or>
           ml_owner_id r \<noteq> gr_owner_id grant \<or> ml_fence r \<noteq> gr_fence grant) rs)
       (node_lease_conflict ns) (Inr rs))))"

section \<open>Operations\<close>

definition new_lease :: "string \<Rightarrow> string \<Rightarrow> string \<Rightarrow> int \<Rightarrow> string \<Rightarrow> lease_row" where
  "new_lease owner_kind owner_id fence now node_id =
     \<lparr>ml_node_id = node_id, ml_owner_kind = owner_kind, ml_owner_id = owner_id,
      ml_fence = fence, ml_state = ''held'', ml_acquired_at = now, ml_updated_at = now\<rparr>"

text \<open>
  \<^verbatim>\<open>INSERT ... ON CONFLICT (node_id) DO NOTHING RETURNING node_id\<close>, and the clean-up when some
  node was already taken.
\<close>

definition insert_leases :: "lease_row list \<Rightarrow> string list \<Rightarrow> (string \<Rightarrow> lease_row) \<Rightarrow> string \<Rightarrow>
    lease_row list \<times> (lease_error + unit)" where
  "insert_leases ls ns mk fence =
    (let inserted = filter (\<lambda>n. n \<notin> ml_node_id ` set ls) ns;
         ls' = ls @ map mk inserted in
     if length inserted \<noteq> length ns then
       let ls'' = (if inserted \<noteq> []
             then filter (\<lambda>r. \<not> (ml_fence r = fence \<and> ml_node_id r \<in> set inserted)) ls'
             else ls');
           conflicts = sort (map ml_node_id (filter (\<lambda>r. ml_node_id r \<in> set ns) ls'')) in
       (ls'', Inl (node_lease_conflict (if conflicts \<noteq> [] then conflicts else ns)))
     else (ls', Inr ()))"

text \<open>The part of an acquisition that runs when no row was found for any of the nodes.\<close>

definition acquire_free :: "string \<Rightarrow> string \<Rightarrow> int \<Rightarrow> lease_db \<Rightarrow> string list \<Rightarrow> string \<Rightarrow> string \<Rightarrow>
    lease_db \<times> (lease_error + node_lease_grant)" where
  "acquire_free dialect fence now db ns owner_kind owner_id =
    (let known = sort (filter (\<lambda>n. n \<in> set ns) (agent_nodes db)) in
     if known \<noteq> ns then
       (db, Inl (LeaseExc (KeyError (join_with '', '' (filter (\<lambda>n. n \<notin> set known) ns)))))
     else if dialect \<noteq> ''sqlite'' \<and> dialect \<noteq> ''postgresql'' then
       (db, Inl (LeaseExc (RuntimeError (''node mutation leases do not support '' @ dialect))))
     else
       let (ls, outcome) = insert_leases (leases db) ns (new_lease owner_kind owner_id fence now) fence in
       (db\<lparr>leases := ls\<rparr>,
        rbind outcome (\<lambda>_.
          Inr \<lparr>gr_owner_kind = owner_kind, gr_owner_id = owner_id, gr_fence = fence,
               gr_node_ids = ns, gr_state = ''held''\<rparr>)))"

definition acquire_in_session :: "string \<Rightarrow> string \<Rightarrow> int \<Rightarrow> lease_row list \<Rightarrow> lease_db \<Rightarrow>
    string list \<Rightarrow> string \<Rightarrow> string \<Rightarrow> lease_db \<times> (lease_error + node_lease_grant)" where
  "acquire_in_session dialect fence now concurrent db node_ids owner_kind owner_id =
    (let after = db\<lparr>leases := leases db @ concurrent\<rparr> in
     case rbind (nodes node_ids) (\<lambda>ns. rbind (owner_check owner_kind owner_id) (\<lambda>_. Inr ns)) of
       Inl e \<Rightarrow> (after, Inl e)
     | Inr ns \<Rightarrow>
         let existing = rows (leases db) ns in
         (case matching_grant existing ns owner_kind owner_id of
            Some grant \<Rightarrow> (after, Inr grant)
          | None \<Rightarrow>
              if existing \<noteq> [] then (after, Inl (node_lease_conflict (map ml_node_id existing)))
              else acquire_free dialect fence now after ns owner_kind owner_id))"

definition owned_grant_in_session :: "lease_db \<Rightarrow> string list \<Rightarrow> string \<Rightarrow> string \<Rightarrow>
    lease_error + node_lease_grant option" where
  "owned_grant_in_session db node_ids owner_kind owner_id =
     rbind (nodes node_ids) (\<lambda>ns.
     rbind (owner_check owner_kind owner_id) (\<lambda>_.
     let rs = rows (leases db) ns in
     if rs = [] then Inr None
     else
       let fences = remdups (map ml_fence rs); states = remdups (map ml_state rs) in
       raise_if (length rs \<noteq> length ns \<or> map ml_node_id rs \<noteq> ns \<or> length fences \<noteq> 1 \<or>
           length states \<noteq> 1 \<or>
           list_ex (\<lambda>r. ml_owner_kind r \<noteq> owner_kind \<or> ml_owner_id r \<noteq> owner_id) rs)
         (node_lease_conflict (map ml_node_id rs)) (
       Inr (Some \<lparr>gr_owner_kind = owner_kind, gr_owner_id = owner_id, gr_fence = hd fences,
                  gr_node_ids = ns, gr_state = hd states\<rparr>))))"

definition mark_releasing_in_session :: "int \<Rightarrow> lease_db \<Rightarrow> node_lease_grant \<Rightarrow>
    lease_db \<times> (lease_error + unit)" where
  "mark_releasing_in_session now db grant =
    (case grant_rows (leases db) grant of
       Inl e \<Rightarrow> (db, Inl e)
     | Inr rs \<Rightarrow>
         if list_ex (\<lambda>r. ml_state r \<notin> {''held'', ''releasing''}) rs
         then (db, Inl (node_lease_conflict (gr_node_ids grant)))
         else
           (db\<lparr>leases := map (\<lambda>r. if r \<in> set rs
                 then r\<lparr>ml_state := ''releasing'', ml_updated_at := now\<rparr> else r) (leases db)\<rparr>,
            Inr ()))"

definition release_in_session :: "lease_db \<Rightarrow> node_lease_grant \<Rightarrow>
    lease_db \<times> (lease_error + unit)" where
  "release_in_session db grant =
    (case grant_rows (leases db) grant of
       Inl e \<Rightarrow> (db, Inl e)
     | Inr rs \<Rightarrow>
         if list_ex (\<lambda>r. ml_state r \<noteq> ''releasing'') rs
         then (db, Inl (node_lease_conflict (gr_node_ids grant)))
         else (db\<lparr>leases := filter (\<lambda>r. r \<notin> set rs) (leases db)\<rparr>, Inr ()))"

section \<open>What the queries return\<close>

lemma set_rows [simp]: "set (rows ls ns) = {r \<in> set ls. ml_node_id r \<in> set ns}"
  by (auto simp: rows_def)

lemma nodes_Inr:
  "nodes values = Inr ns \<longleftrightarrow> ns = sort values \<and> values \<noteq> [] \<and> distinct values \<and> [] \<notin> set values"
  by (auto simp: nodes_def raise_if_Inr Let_def list_ex_iff)

lemma owner_check_Inr:
  "owner_check kind owner_id = Inr u \<longleftrightarrow> kind \<in> set owner_kinds \<and> is_uuid owner_id"
  by (auto simp: owner_check_def uuid_check_def raise_if_Inr)

lemma uuid_check_Inr: "uuid_check v name = Inr u \<longleftrightarrow> is_uuid v"
  by (simp add: uuid_check_def raise_if_Inr)

text \<open>At most one lease row per node: the primary key of the table.\<close>

abbreviation lease_keys :: "lease_row list \<Rightarrow> bool" where
  "lease_keys ls \<equiv> distinct (map ml_node_id ls)"

lemma map_rows_sorted: "lease_keys ls \<Longrightarrow> sorted (map ml_node_id (rows ls ns)) \<and> distinct (map ml_node_id (rows ls ns))"
proof -
  assume "lease_keys ls"
  then have "distinct (map ml_node_id (filter (\<lambda>r. ml_node_id r \<in> set ns) ls))"
    by (rule distinct_map_filter)
  then show ?thesis unfolding rows_def by (simp add: distinct_map)
qed

lemma rows_cover:
  assumes "lease_keys ls" "distinct ns" "length (rows ls ns) = length ns"
  shows "ml_node_id ` set (rows ls ns) = set ns"
proof (rule card_subset_eq)
  have "card (ml_node_id ` set (rows ls ns)) = length (rows ls ns)"
    using map_rows_sorted [OF assms(1), of ns] distinct_card by force
  with assms(2,3) show "card (ml_node_id ` set (rows ls ns)) = card (set ns)"
    by (simp add: distinct_card)
qed auto

text \<open>A grant is accepted exactly when every one of its nodes is leased under its fence.\<close>

lemma grant_rows_owned:
  assumes "lease_keys ls" "grant_rows ls g = Inr rs" "n \<in> set (gr_node_ids g)"
  shows "\<exists>r \<in> set ls. ml_node_id r = n \<and> ml_fence r = gr_fence g \<and>
    ml_owner_kind r = gr_owner_kind g \<and> ml_owner_id r = gr_owner_id g"
proof -
  from assms(2) have d: "distinct (gr_node_ids g)"
    and rs: "rs = rows ls (sort (gr_node_ids g))" "length rs = length (gr_node_ids g)"
    and all: "\<forall>r \<in> set rs. ml_owner_kind r = gr_owner_kind g \<and> ml_owner_id r = gr_owner_id g \<and>
      ml_fence r = gr_fence g"
    by (auto simp: grant_rows_def rbind_Inr raise_if_Inr nodes_Inr Let_def list_ex_iff)
  have "ml_node_id ` set rs = set (gr_node_ids g)"
    using rows_cover [OF assms(1), of "sort (gr_node_ids g)"] d rs by simp
  with assms(3) have "n \<in> ml_node_id ` set rs" by simp
  then obtain r where "r \<in> set rs" "ml_node_id r = n" by blast
  with all rs(1) show ?thesis by auto
qed

lemma grant_rows_subset: "grant_rows ls g = Inr rs \<Longrightarrow> set rs \<subseteq> set ls"
  by (auto simp: grant_rows_def rbind_Inr raise_if_Inr Let_def)

lemma grant_rows_fence: "grant_rows ls g = Inr rs \<Longrightarrow> r \<in> set rs \<Longrightarrow> ml_fence r = gr_fence g"
  by (auto simp: grant_rows_def rbind_Inr raise_if_Inr Let_def list_ex_iff)

section \<open>Acquiring is all or nothing\<close>

lemma insert_leases_cases:
  assumes "insert_leases ls ns (new_lease k o' fence now) fence = (ls', res)"
    and "fence \<notin> ml_fence ` set ls"
  shows "(\<exists>c. res = Inl c \<and> ls' = ls) \<or>
    (res = Inr () \<and> ls' = ls @ map (new_lease k o' fence now) ns \<and>
     set ns \<inter> ml_node_id ` set ls = {})"
proof -
  let ?ins = "filter (\<lambda>n. n \<notin> ml_node_id ` set ls) ns"
  have keep: "filter (\<lambda>r. \<not> (ml_fence r = fence \<and> ml_node_id r \<in> set ?ins))
      (ls @ map (new_lease k o' fence now) ?ins) = ls"
    using assms(2) by (auto simp: new_lease_def image_iff filter_empty_conv intro!: filter_True)
  have "?ins = ns \<longleftrightarrow> length ?ins = length ns"
    by (metis filter_id_conv length_filter_less linorder_neq_iff)
  then have all: "length ?ins = length ns \<longleftrightarrow> set ns \<inter> ml_node_id ` set ls = {}"
    by (auto simp: filter_id_conv)
  show ?thesis
  proof (cases "length ?ins = length ns")
    case True
    with all have "?ins = ns" by (metis filter_True disjoint_iff)
    with True all assms(1) show ?thesis by (simp add: insert_leases_def)
  next
    case False
    with assms(1) keep show ?thesis
      by (auto simp: insert_leases_def Let_def split: if_splits)
  qed
qed

definition with_concurrent :: "lease_db \<Rightarrow> lease_row list \<Rightarrow> lease_db" where
  "with_concurrent db concurrent = db\<lparr>leases := leases db @ concurrent\<rparr>"

lemma acquire_free_cases:
  assumes "acquire_free dialect fence now db ns k o' = (db', res)"
    and fresh: "fence \<notin> ml_fence ` set (leases db)"
  shows "(\<exists>e. res = Inl e \<and> db' = db) \<or>
    (res = Inr \<lparr>gr_owner_kind = k, gr_owner_id = o', gr_fence = fence, gr_node_ids = ns,
        gr_state = ''held''\<rparr> \<and> set ns \<subseteq> set (agent_nodes db) \<and>
     set ns \<inter> ml_node_id ` set (leases db) = {} \<and>
     db' = db\<lparr>leases := leases db @ map (new_lease k o' fence now) ns\<rparr>)"
proof -
  obtain ls r where ins: "insert_leases (leases db) ns (new_lease k o' fence now) fence = (ls, r)"
    by (cases "insert_leases (leases db) ns (new_lease k o' fence now) fence")
  have known: "sort (filter (\<lambda>n. n \<in> set ns) (agent_nodes db)) = ns \<Longrightarrow> set ns \<subseteq> set (agent_nodes db)"
    by (metis (no_types, lifting) filter_is_subset set_sort)
  from assms(1) insert_leases_cases [OF ins fresh] known ins show ?thesis
    by (auto simp: acquire_free_def Let_def split: if_splits)
qed

text \<open>The three outcomes of an acquisition: refused, already held, newly held.\<close>

lemma acquire_outcome:
  assumes acq: "acquire_in_session dialect fence now concurrent db node_ids k o' = (db', res)"
    and fresh: "fence \<notin> ml_fence ` set (leases (with_concurrent db concurrent))"
  shows "(\<exists>e. res = Inl e \<and> db' = with_concurrent db concurrent) \<or>
    (\<exists>g. res = Inr g \<and> db' = with_concurrent db concurrent \<and>
       matching_grant (rows (leases db) (sort node_ids)) (sort node_ids) k o' = Some g) \<or>
    (res = Inr \<lparr>gr_owner_kind = k, gr_owner_id = o', gr_fence = fence,
        gr_node_ids = sort node_ids, gr_state = ''held''\<rparr> \<and>
     node_ids \<noteq> [] \<and> distinct node_ids \<and> [] \<notin> set node_ids \<and> k \<in> set owner_kinds \<and> is_uuid o' \<and>
     set node_ids \<subseteq> set (agent_nodes db) \<and>
     set node_ids \<inter> ml_node_id ` set (leases (with_concurrent db concurrent)) = {} \<and>
     db' = (with_concurrent db concurrent)\<lparr>leases :=
       leases (with_concurrent db concurrent) @ map (new_lease k o' fence now) (sort node_ids)\<rparr>)"
proof (cases "rbind (nodes node_ids) (\<lambda>ns. rbind (owner_check k o') (\<lambda>_. Inr ns))")
  case (Inl e)
  with acq have "res = Inl e \<and> db' = with_concurrent db concurrent"
    by (simp add: acquire_in_session_def with_concurrent_def Let_def)
  then show ?thesis by blast
next
  case (Inr ns)
  then have v: "ns = sort node_ids" "node_ids \<noteq> []" "distinct node_ids" "[] \<notin> set node_ids"
    "k \<in> set owner_kinds" "is_uuid o'"
    by (auto simp: rbind_Inr nodes_Inr owner_check_Inr)
  have nodes: "agent_nodes (with_concurrent db concurrent) = agent_nodes db"
    by (simp add: with_concurrent_def)
  consider (refused) e where "res = Inl e" "db' = with_concurrent db concurrent"
    | (held) g where "res = Inr g" "db' = with_concurrent db concurrent"
        "matching_grant (rows (leases db) ns) ns k o' = Some g"
    | (free) "acquire_free dialect fence now (with_concurrent db concurrent) ns k o' = (db', res)"
    using acq Inr by (auto simp: acquire_in_session_def with_concurrent_def Let_def
        split: option.splits if_splits)
  then show ?thesis
  proof cases
    case free
    from acquire_free_cases [OF this fresh] v nodes show ?thesis by auto
  next
    case refused
    then show ?thesis by blast
  next
    case held
    then show ?thesis using v(1) by blast
  qed
qed

section \<open>Runs of the lease service\<close>

text \<open>
  The state of a run: the tables, and the fences that have been drawn so far. A step is one
  call; a fence is drawn once (\<^verbatim>\<open>uuid4\<close>). In the first rule, \<open>concurrent\<close> are rows that other
  calls of the run have committed after this one's locking read.
\<close>

type_synonym lease_state = "lease_db \<times> string set"

inductive lease_step :: "lease_state \<Rightarrow> lease_state \<Rightarrow> bool" where
  acquire: "acquire_in_session dialect fence now concurrent db ids k o' = (db', res) \<Longrightarrow>
      is_uuid fence \<Longrightarrow> fence \<notin> issued \<Longrightarrow>
      lease_step (with_concurrent db concurrent, issued) (db', insert fence issued)"
| mark: "mark_releasing_in_session now db g = (db', res) \<Longrightarrow> lease_step (db, issued) (db', issued)"
| release: "release_in_session db g = (db', res) \<Longrightarrow> lease_step (db, issued) (db', issued)"

definition lease_row_ok :: "string set \<Rightarrow> lease_row \<Rightarrow> bool" where
  "lease_row_ok issued r \<longleftrightarrow>
     ml_node_id r \<noteq> [] \<and> ml_owner_kind r \<in> set owner_kinds \<and> is_uuid (ml_owner_id r) \<and>
     is_uuid (ml_fence r) \<and> ml_fence r \<in> issued \<and> ml_state r \<in> {''held'', ''releasing''}"

abbreviation row_owner :: "lease_row \<Rightarrow> string \<times> string" where
  "row_owner r \<equiv> (ml_owner_kind r, ml_owner_id r)"

text \<open>A fence names one owner: rows with the same fence were inserted by one acquisition.\<close>

definition fence_owner :: "lease_row list \<Rightarrow> bool" where
  "fence_owner ls \<longleftrightarrow> (\<forall>r \<in> set ls. \<forall>r' \<in> set ls. ml_fence r = ml_fence r' \<longrightarrow> row_owner r = row_owner r')"

definition lease_inv :: "lease_state \<Rightarrow> bool" where
  "lease_inv s \<longleftrightarrow> lease_keys (leases (fst s)) \<and>
     list_all (lease_row_ok (snd s)) (leases (fst s)) \<and> fence_owner (leases (fst s))"

definition lease_owns :: "lease_state \<Rightarrow> string \<Rightarrow> string \<Rightarrow> bool" where
  "lease_owns s f n \<longleftrightarrow> (\<exists>r \<in> set (leases (fst s)). ml_node_id r = n \<and> ml_fence r = f)"

abbreviation lease_issued :: "lease_state \<Rightarrow> string \<Rightarrow> bool" where
  "lease_issued s f \<equiv> f \<in> snd s"

lemma lease_row_ok_mono: "lease_row_ok issued r \<Longrightarrow> lease_row_ok (insert fence issued) r"
  by (simp add: lease_row_ok_def)

lemma lease_inv_fresh: "lease_inv (db, issued) \<Longrightarrow> fence \<notin> issued \<Longrightarrow> fence \<notin> ml_fence ` set (leases db)"
  by (auto simp: lease_inv_def list_all_iff lease_row_ok_def)

lemma lease_inv_issue: "lease_inv (db, issued) \<Longrightarrow> lease_inv (db, insert fence issued)"
  by (simp add: lease_inv_def list_all_iff lease_row_ok_mono)

lemma fence_owner_append:
  assumes "fence_owner ls" "f \<notin> ml_fence ` set ls"
    and "\<And>r. r \<in> set rs \<Longrightarrow> ml_fence r = f \<and> row_owner r = own"
  shows "fence_owner (ls @ rs)"
  unfolding fence_owner_def
proof (intro ballI impI)
  fix r r' assume "r \<in> set (ls @ rs)" "r' \<in> set (ls @ rs)" "ml_fence r = ml_fence r'"
  then consider "r \<in> set ls" "r' \<in> set ls" | "r \<in> set rs" "r' \<in> set rs"
    using assms(2,3) by (metis (no_types, lifting) UnE image_eqI set_append)
  then show "row_owner r = row_owner r'"
  proof cases
    case 1
    with assms(1) \<open>ml_fence r = ml_fence r'\<close> show ?thesis unfolding fence_owner_def by blast
  next
    case 2
    then show ?thesis using assms(3) [of r] assms(3) [of r'] by metis
  qed
qed

lemma fence_owner_rows:
  assumes "fence_owner ls" "\<And>r. r \<in> set ls' \<Longrightarrow> \<exists>r0 \<in> set ls. ml_fence r = ml_fence r0 \<and> row_owner r = row_owner r0"
  shows "fence_owner ls'"
  using assms unfolding fence_owner_def by metis

lemma lease_inv_insert:
  assumes inv: "lease_inv (db, issued)" and f: "is_uuid fence" "fence \<notin> issued"
    and new: "distinct node_ids" "[] \<notin> set node_ids" "k \<in> set owner_kinds" "is_uuid o'"
      "set node_ids \<inter> ml_node_id ` set (leases db) = {}"
  shows "lease_inv (db\<lparr>leases := leases db @ map (new_lease k o' fence now) (sort node_ids)\<rparr>,
      insert fence issued)"
proof -
  let ?new = "map (new_lease k o' fence now) (sort node_ids)"
  have "map ml_node_id ?new = sort node_ids"
    by (simp add: new_lease_def comp_def)
  with inv new(1,5) have "lease_keys (leases db @ ?new)"
    by (auto simp: lease_inv_def simp del: map_map)
  moreover have "list_all (lease_row_ok (insert fence issued)) ?new"
    using f(1) new by (auto simp: list_all_iff lease_row_ok_def new_lease_def)
  moreover have "fence_owner (leases db @ ?new)"
    by (rule fence_owner_append [OF _ lease_inv_fresh [OF inv f(2)], of _ "(k, o')"])
      (use inv in \<open>auto simp: lease_inv_def new_lease_def\<close>)
  ultimately show ?thesis
    using lease_inv_issue [OF inv, of fence] by (simp add: lease_inv_def)
qed

lemma mark_releasing_cases:
  assumes "mark_releasing_in_session now db g = (db', res)"
  shows "db' = db \<or> (\<exists>rs. grant_rows (leases db) g = Inr rs \<and> res = Inr () \<and>
    db' = db\<lparr>leases := map (\<lambda>r. if r \<in> set rs
      then r\<lparr>ml_state := ''releasing'', ml_updated_at := now\<rparr> else r) (leases db)\<rparr>)"
  using assms by (auto simp: mark_releasing_in_session_def split: sum.splits if_splits)

lemma release_cases:
  assumes "release_in_session db g = (db', res)"
  shows "db' = db \<or> (\<exists>rs. grant_rows (leases db) g = Inr rs \<and> res = Inr () \<and>
    db' = db\<lparr>leases := filter (\<lambda>r. r \<notin> set rs) (leases db)\<rparr>)"
  using assms by (auto simp: release_in_session_def split: sum.splits if_splits)

lemma lease_inv_step: "lease_step s t \<Longrightarrow> lease_inv s \<Longrightarrow> lease_inv t"
proof (induction rule: lease_step.induct)
  case (acquire dialect fence now concurrent db ids k o' db' res issued)
  note fresh = lease_inv_fresh [OF acquire.prems acquire.hyps(3)]
  from acquire_outcome [OF acquire.hyps(1) fresh] show ?case
    using acquire lease_inv_insert [of "with_concurrent db concurrent" issued fence ids k o' now]
      lease_inv_issue by (elim disjE exE conjE) simp_all
next
  case (mark now db g db' res issued)
  have keys: "map ml_node_id (map (\<lambda>r. if r \<in> set rs
      then r\<lparr>ml_state := ''releasing'', ml_updated_at := now\<rparr> else r) ls) = map ml_node_id ls" for rs ls
    by (induction ls) auto
  have ok: "lease_row_ok issued (r\<lparr>ml_state := ''releasing'', ml_updated_at := now\<rparr>)"
    if "lease_row_ok issued r" for r
    using that by (simp add: lease_row_ok_def)
  have owner: "fence_owner (map (\<lambda>r. if r \<in> set rs
      then r\<lparr>ml_state := ''releasing'', ml_updated_at := now\<rparr> else r) (leases db))" for rs
    by (rule fence_owner_rows [of "leases db"]) (use mark.prems in \<open>auto simp: lease_inv_def\<close>)
  from mark_releasing_cases [OF mark.hyps] mark.prems show ?case
    by (auto simp: lease_inv_def keys ok owner list_all_iff simp del: map_map)
next
  case (release db g db' res issued)
  have owner: "fence_owner (filter P (leases db))" for P
    by (rule fence_owner_rows [of "leases db"]) (use release.prems in \<open>auto simp: lease_inv_def\<close>)
  from release_cases [OF release.hyps] release.prems owner show ?case
    by (auto simp: lease_inv_def distinct_map_filter list_all_iff)
qed

lemma lease_gain_fresh:
  "lease_step s t \<Longrightarrow> lease_inv s \<Longrightarrow> lease_owns t f n \<Longrightarrow> \<not> lease_owns s f n \<Longrightarrow> \<not> lease_issued s f"
proof (induction rule: lease_step.induct)
  case (acquire dialect fence now concurrent db ids k o' db' res issued)
  note fresh = lease_inv_fresh [OF acquire.prems(1) acquire.hyps(3)]
  from acquire_outcome [OF acquire.hyps(1) fresh] acquire.prems(2,3) acquire.hyps(3) show ?case
    by (elim disjE exE conjE) (auto simp: lease_owns_def new_lease_def)
next
  case (mark now db g db' res issued)
  from mark_releasing_cases [OF mark.hyps] have "lease_owns (db', issued) f n \<Longrightarrow> lease_owns (db, issued) f n"
    by (fastforce simp: lease_owns_def split: if_splits)
  with mark.prems(2,3) show ?case by blast
next
  case (release db g db' res issued)
  from release_cases [OF release.hyps] release.prems(2,3) show ?case
    by (auto simp: lease_owns_def)
qed

interpretation node_fence: fenced_resource lease_step lease_inv lease_owns lease_issued
proof unfold_locales
  show "lease_inv s \<Longrightarrow> lease_owns s f r \<Longrightarrow> lease_owns s g r \<Longrightarrow> f = g" for s f r g
    by (auto simp: lease_inv_def lease_owns_def dest: distinct_map_unique)
  show "lease_inv s \<Longrightarrow> lease_step s t \<Longrightarrow> lease_issued s f \<Longrightarrow> lease_issued t f" for s t f
    by (erule lease_step.cases) simp_all
  show "lease_inv s \<Longrightarrow> lease_step s t \<Longrightarrow> lease_inv t" for s t
    by (rule lease_inv_step)
  show "lease_inv s \<Longrightarrow> lease_owns s f r \<Longrightarrow> lease_issued s f" for s f r
    by (auto simp: lease_inv_def lease_owns_def list_all_iff lease_row_ok_def)
  show "lease_inv s \<Longrightarrow> lease_step s t \<Longrightarrow> lease_owns t f r \<Longrightarrow> \<not> lease_owns s f r \<Longrightarrow> \<not> lease_issued s f"
    for s t f r by (rule lease_gain_fresh)
qed

section \<open>Life cycle of a grant\<close>

abbreviation fresh_grant :: "string \<Rightarrow> string \<Rightarrow> string \<Rightarrow> string list \<Rightarrow> node_lease_grant" where
  "fresh_grant k o' fence ids \<equiv> \<lparr>gr_owner_kind = k, gr_owner_id = o', gr_fence = fence,
     gr_node_ids = sort ids, gr_state = ''held''\<rparr>"

lemma sort_key_sorted: "sorted (map f xs) \<Longrightarrow> sort_key f xs = xs"
  by (rule sort_key_id_if_sorted)

lemma rows_inserted:
  assumes "set ids \<inter> ml_node_id ` set ls = {}"
    and "\<And>n. ml_node_id (mk n) = n"
  shows "rows (ls @ map mk (sort ids)) (sort ids) = map mk (sort ids)"
proof -
  have "filter (\<lambda>r. ml_node_id r \<in> set ids) ls = []"
    using assms(1) by (auto simp: filter_empty_conv)
  moreover have "filter (\<lambda>r. ml_node_id r \<in> set ids) (map mk (sort ids)) = map mk (sort ids)"
    by (rule filter_True) (auto simp: assms(2))
  moreover have "map (\<lambda>n. ml_node_id (mk n)) (sort ids) = sort ids" by (simp add: assms(2))
  ultimately show ?thesis by (simp add: rows_def sort_key_sorted comp_def)
qed

lemma new_lease_simps [simp]:
  "ml_node_id (new_lease k o' f t n) = n" "ml_owner_kind (new_lease k o' f t n) = k"
  "ml_owner_id (new_lease k o' f t n) = o'" "ml_fence (new_lease k o' f t n) = f"
  "ml_state (new_lease k o' f t n) = ''held''"
  by (simp_all add: new_lease_def)

lemma remdups_map_const: "xs \<noteq> [] \<Longrightarrow> remdups (map (\<lambda>_. c) xs) = [c]"
  by (induction xs rule: list_nonempty_induct) (auto simp: image_constant_conv)

lemma matching_grant_inserted:
  assumes "ids \<noteq> []"
  shows "matching_grant (map (new_lease k o' f t) (sort ids)) (sort ids) k o' = Some (fresh_grant k o' f ids)"
  using assms remdups_map_const [of "sort ids" f]
  by (simp add: matching_grant_def comp_def list_all_iff)

lemma grant_rows_inserted:
  assumes "ids \<noteq> []" "distinct ids" "[] \<notin> set ids" "k \<in> set owner_kinds" "is_uuid o'" "is_uuid f"
    and "\<And>n. ml_node_id (mk n) = n \<and> ml_owner_kind (mk n) = k \<and> ml_owner_id (mk n) = o' \<and> ml_fence (mk n) = f"
    and "set ids \<inter> ml_node_id ` set ls = {}"
  shows "grant_rows (ls @ map mk (sort ids)) (fresh_grant k o' f ids) = Inr (map mk (sort ids))"
proof -
  have "nodes (sort ids) = Inr (sort ids)" using assms(1-3) by (simp add: nodes_Inr sorted_sort_id)
  moreover have "owner_check k o' = Inr ()" using assms(4,5) by (simp add: owner_check_Inr)
  moreover have "uuid_check f ''node mutation lease fence'' = Inr ()" using assms(6) by (simp add: uuid_check_Inr)
  moreover have "rows (ls @ map mk (sort ids)) (sort ids) = map mk (sort ids)"
    by (rule rows_inserted) (use assms in auto)
  ultimately show ?thesis
    using assms(7,8) by (auto simp: grant_rows_def Let_def list_ex_iff raise_if_Inr)
qed

lemma acquire_granted:
  assumes "lease_inv (db, issued)" "fence \<notin> issued"
    and "acquire_in_session dialect fence now [] db ids k o' = (db', Inr g)"
  shows "ids \<noteq> [] \<and> distinct ids \<and> [] \<notin> set ids \<and> k \<in> set owner_kinds \<and> is_uuid o' \<and>
    (matching_grant (rows (leases db) (sort ids)) (sort ids) k o' = Some g \<and> db' = db \<or>
     g = fresh_grant k o' fence ids \<and> set ids \<inter> ml_node_id ` set (leases db) = {} \<and>
     db' = db\<lparr>leases := leases db @ map (new_lease k o' fence now) (sort ids)\<rparr>)"
proof -
  have valid: "ids \<noteq> [] \<and> distinct ids \<and> [] \<notin> set ids \<and> k \<in> set owner_kinds \<and> is_uuid o'"
  proof (cases "rbind (nodes ids) (\<lambda>ns. rbind (owner_check k o') (\<lambda>_. Inr ns))")
    case (Inl e)
    with assms(3) show ?thesis by (simp add: acquire_in_session_def Let_def)
  next
    case (Inr ns)
    then show ?thesis by (auto simp: rbind_Inr nodes_Inr owner_check_Inr)
  qed
  have "with_concurrent db [] = db" by (simp add: with_concurrent_def)
  with acquire_outcome [OF assms(3)] lease_inv_fresh [OF assms(1,2)] valid show ?thesis by auto
qed

lemma acquire_matching:
  assumes "ids \<noteq> []" "distinct ids" "[] \<notin> set ids" "k \<in> set owner_kinds" "is_uuid o'"
    and "matching_grant (rows (leases db) (sort ids)) (sort ids) k o' = Some g"
  shows "acquire_in_session dialect fence now [] db ids k o' = (db, Inr g)"
proof -
  have "nodes ids = Inr (sort ids)" "owner_check k o' = Inr ()"
    using assms(1-5) by (simp_all add: nodes_Inr owner_check_Inr)
  with assms(6) show ?thesis by (simp add: acquire_in_session_def Let_def)
qed

lemma release_restores:
  assumes "set ids \<inter> ml_node_id ` set (leases db) = {}" "\<And>n. ml_node_id (mk n) = n"
  shows "filter (\<lambda>r. r \<notin> set (map mk (sort ids))) (leases db @ map mk (sort ids)) = leases db"
proof -
  have "r \<notin> mk ` set ids" if "r \<in> set (leases db)" for r
    using assms that by (metis disjoint_iff image_iff)
  then show ?thesis by (simp add: filter_empty_conv)
qed

lemma released_rows:
  assumes keys: "lease_keys ls" and "grant_rows ls g = Inr rs" "n \<in> set (gr_node_ids g)"
    and "r \<in> set ls" "ml_node_id r = n"
  shows "r \<in> set rs"
  using assms by (auto simp: grant_rows_def rbind_Inr raise_if_Inr nodes_Inr Let_def)

lemma matching_grant_fence:
  assumes "matching_grant (rows ls ns) ns k o' = Some g"
  shows "gr_fence g \<in> ml_fence ` set ls"
proof -
  let ?fs = "remdups (map ml_fence (rows ls ns))"
  from assms have "length ?fs = 1" and g: "gr_fence g = hd ?fs"
    by (auto simp: matching_grant_def Let_def split: if_splits)
  then have "hd ?fs \<in> set ?fs" by (metis hd_in_set length_0_conv zero_neq_one)
  with g show ?thesis by auto
qed

text \<open>A concrete run: two nodes, acquired, marked, released, acquired again under a new fence.\<close>

definition ex_uuid :: "char \<Rightarrow> string" where
  "ex_uuid c = ''00000000-0000-0000-0000-00000000000'' @ [c]"

definition ex_lease_start :: lease_db where
  "ex_lease_start = \<lparr>leases = [], agent_nodes = [''spark-a'', ''spark-b'']\<rparr>"

definition ex_acquire :: "char \<Rightarrow> lease_db \<Rightarrow> lease_db \<times> (lease_error + node_lease_grant)" where
  "ex_acquire f db = acquire_in_session ''sqlite'' (ex_uuid f) 5 [] db [''spark-b'', ''spark-a'']
     ''reconciliation'' (ex_uuid CHR ''e'')"

definition ex_grant :: "char \<Rightarrow> node_lease_grant" where
  "ex_grant f = fresh_grant ''reconciliation'' (ex_uuid CHR ''e'') (ex_uuid f) [''spark-a'', ''spark-b'']"

definition ex_leased :: "char \<Rightarrow> lease_db" where
  "ex_leased f = fst (ex_acquire f ex_lease_start)"

definition ex_marked :: "char \<Rightarrow> lease_db" where
  "ex_marked f = fst (mark_releasing_in_session 6 (ex_leased f) (ex_grant f))"

lemma ex_uuid_ok: "is_uuid (ex_uuid CHR ''1'')" "is_uuid (ex_uuid CHR ''2'')"
  by code_simp+

lemma ex_calls:
  "ex_acquire CHR ''1'' ex_lease_start = (ex_leased CHR ''1'', Inr (ex_grant CHR ''1''))"
  "ex_acquire CHR ''2'' ex_lease_start = (ex_leased CHR ''2'', Inr (ex_grant CHR ''2''))"
  "mark_releasing_in_session 6 (ex_leased CHR ''1'') (ex_grant CHR ''1'') = (ex_marked CHR ''1'', Inr ())"
  "release_in_session (ex_marked CHR ''1'') (ex_grant CHR ''1'') = (ex_lease_start, Inr ())"
  by code_simp+

lemma ex_uuid_inj: "ex_uuid c = ex_uuid d \<longleftrightarrow> c = d"
  by (simp add: ex_uuid_def)

lemma ex_run:
  "lease_step\<^sup>*\<^sup>* (ex_lease_start, {}) (ex_leased CHR ''1'', {ex_uuid CHR ''1''})"
  "lease_step\<^sup>*\<^sup>* (ex_lease_start, {}) (ex_marked CHR ''1'', {ex_uuid CHR ''1''})"
  "lease_step\<^sup>*\<^sup>* (ex_lease_start, {ex_uuid CHR ''1''})
     (ex_leased CHR ''2'', {ex_uuid CHR ''2'', ex_uuid CHR ''1''})"
proof -
  have w: "with_concurrent ex_lease_start [] = ex_lease_start" by (simp add: with_concurrent_def)
  have a: "lease_step (ex_lease_start, {}) (ex_leased CHR ''1'', {ex_uuid CHR ''1''})"
    using lease_step.acquire [OF ex_calls(1) [unfolded ex_acquire_def] ex_uuid_ok(1), of "{}"] w by simp
  then show "lease_step\<^sup>*\<^sup>* (ex_lease_start, {}) (ex_leased CHR ''1'', {ex_uuid CHR ''1''})" by blast
  have b: "lease_step (ex_leased CHR ''1'', {ex_uuid CHR ''1''}) (ex_marked CHR ''1'', {ex_uuid CHR ''1''})"
    by (rule lease_step.mark [OF ex_calls(3)])
  from a b show "lease_step\<^sup>*\<^sup>* (ex_lease_start, {}) (ex_marked CHR ''1'', {ex_uuid CHR ''1''})"
    by (meson converse_rtranclp_into_rtranclp r_into_rtranclp)
  show "lease_step\<^sup>*\<^sup>* (ex_lease_start, {ex_uuid CHR ''1''})
     (ex_leased CHR ''2'', {ex_uuid CHR ''2'', ex_uuid CHR ''1''})"
    using lease_step.acquire [OF ex_calls(2) [unfolded ex_acquire_def] ex_uuid_ok(2), of "{ex_uuid CHR ''1''}"] w
    by (simp add: ex_uuid_inj r_into_rtranclp)
qed

lemma ex_lease_inv: "lease_inv (ex_lease_start, {})"
  by (simp add: lease_inv_def fence_owner_def ex_lease_start_def)

section \<open>Properties\<close>

text \<open>C3: two grants that the service accepts at the same time and that share a node are the same
  grant: same fence and same owner. So no two holders ever mutate a node at once, in every state
  that any sequence of acquire, mark and release calls reaches from an empty table.\<close>

theorem lease_grants_exclusive:
  assumes "lease_step\<^sup>*\<^sup>* (\<lparr>leases = [], agent_nodes = ns\<rparr>, {}) (db, issued)"
    and "grant_rows (leases db) g = Inr rs" and "grant_rows (leases db) g' = Inr rs'"
    and "n \<in> set (gr_node_ids g)" and "n \<in> set (gr_node_ids g')"
  shows "gr_fence g = gr_fence g' \<and> gr_owner_kind g = gr_owner_kind g' \<and>
    gr_owner_id g = gr_owner_id g'"
proof -
  have inv: "lease_inv (db, issued)"
    by (rule node_fence.inv_run [OF assms(1)]) (simp add: lease_inv_def fence_owner_def)
  then have keys: "lease_keys (leases db)" by (simp add: lease_inv_def)
  from grant_rows_owned [OF keys assms(2,4)] grant_rows_owned [OF keys assms(3,5)]
  show ?thesis using distinct_map_unique [OF keys] by metis
qed

theorem lease_grants_exclusive_witness:
  "gr_fence (ex_grant CHR ''1'') = ex_uuid CHR ''1'' \<and>
   gr_owner_kind (ex_grant CHR ''1'') = ''reconciliation''"
proof -
  have run: "lease_step\<^sup>*\<^sup>* (\<lparr>leases = [], agent_nodes = [''spark-a'', ''spark-b'']\<rparr>, {})
      (ex_leased CHR ''1'', {ex_uuid CHR ''1''})"
    using ex_run(1) by (simp add: ex_lease_start_def)
  have g: "\<exists>rs. grant_rows (leases (ex_leased CHR ''1'')) (ex_grant CHR ''1'') = Inr rs"
    using ex_calls(3) by (auto simp: mark_releasing_in_session_def split: sum.splits if_splits)
  have "grant_rows (leases (ex_leased CHR ''1'')) ((ex_grant CHR ''1'')\<lparr>gr_node_ids := [''spark-a'']\<rparr>) =
      Inr [new_lease ''reconciliation'' (ex_uuid CHR ''e'') (ex_uuid CHR ''1'') 5 ''spark-a'']"
    by code_simp
  with g lease_grants_exclusive [OF run, of "ex_grant CHR ''1''" _ _ _ "''spark-a''"] show ?thesis
    by (auto simp: ex_grant_def)
qed

text \<open>C10: a grant that has been released stays dead. Whatever calls follow, no grant with its fence
  is ever accepted again for any of its nodes: marking and releasing raise and change nothing.\<close>

theorem released_grant_stays_dead:
  assumes "lease_step\<^sup>*\<^sup>* (\<lparr>leases = [], agent_nodes = ns\<rparr>, {}) (db, issued)"
    and "release_in_session db g = (db', Inr ())"
    and "lease_step\<^sup>*\<^sup>* (db', issued) (db'', issued')"
    and "gr_fence g' = gr_fence g" and "n \<in> set (gr_node_ids g)" and "n \<in> set (gr_node_ids g')"
  shows "\<exists>e. mark_releasing_in_session now db'' g' = (db'', Inl e) \<and>
    release_in_session db'' g' = (db'', Inl e)"
proof -
  have inv: "lease_inv (db, issued)"
    by (rule node_fence.inv_run [OF assms(1)]) (simp add: lease_inv_def fence_owner_def)
  have step: "lease_step (db, issued) (db', issued)" using assms(2) by (rule lease_step.release)
  have inv': "lease_inv (db', issued)" by (rule lease_inv_step [OF step inv])
  have inv'': "lease_inv (db'', issued')" by (rule node_fence.inv_run [OF assms(3) inv'])
  obtain rs where rs: "grant_rows (leases db) g = Inr rs" "leases db' = filter (\<lambda>r. r \<notin> set rs) (leases db)"
    using assms(2) by (auto simp: release_in_session_def split: sum.splits if_splits)
  have keys: "lease_keys (leases db)" using inv by (simp add: lease_inv_def)
  have owned: "lease_owns (db, issued) (gr_fence g) n"
    using grant_rows_owned [OF keys rs(1) assms(5)] by (auto simp: lease_owns_def)
  then have iss: "gr_fence g \<in> issued" using node_fence.owner_issued [OF inv] by simp
  have "\<not> lease_owns (db', issued) (gr_fence g) n"
    using released_rows [OF keys rs(1) assms(5)] rs(2) by (auto simp: lease_owns_def)
  then have "\<not> lease_owns (db'', issued') (gr_fence g) n"
    using node_fence.stale_forever [OF assms(3) inv'] iss by simp
  moreover have "lease_keys (leases db'')" using inv'' by (simp add: lease_inv_def)
  ultimately have "\<not> (\<exists>rs. grant_rows (leases db'') g' = Inr rs)"
    using grant_rows_owned [of "leases db''" g' _ n] assms(4,6) by (auto simp: lease_owns_def)
  then obtain e where "grant_rows (leases db'') g' = Inl e" by (cases "grant_rows (leases db'') g'") auto
  then show ?thesis by (simp add: mark_releasing_in_session_def release_in_session_def)
qed

theorem released_grant_stays_dead_witness:
  "\<exists>e. mark_releasing_in_session 9 (ex_leased CHR ''2'') (ex_grant CHR ''1'') = (ex_leased CHR ''2'', Inl e) \<and>
    release_in_session (ex_leased CHR ''2'') (ex_grant CHR ''1'') = (ex_leased CHR ''2'', Inl e)"
  by (rule released_grant_stays_dead [OF ex_run(2) [unfolded ex_lease_start_def] ex_calls(4) ex_run(3),
        of _ "''spark-a''"]) (simp_all add: ex_grant_def)

text \<open>acquiring is idempotent: an owner that holds a grant and asks again, with the nodes in any
  order, gets the same grant back and the tables do not change.\<close>

theorem acquire_idempotent:
  assumes "lease_inv (db, issued)" and "fence \<notin> issued"
    and "acquire_in_session dialect fence now [] db ids k o' = (db', Inr g)"
    and "mset ids' = mset ids"
  shows "acquire_in_session dialect' fence' now' [] db' ids' k o' = (db', Inr g)"
proof -
  note granted = acquire_granted [OF assms(1-3)]
  have s: "sort ids' = sort ids" using assms(4) by (simp add: sort_eq_iff_mset)
  have ids': "ids' \<noteq> []" "distinct ids'" "[] \<notin> set ids'" "k \<in> set owner_kinds" "is_uuid o'"
    using granted s mset_eq_setD [OF assms(4)] mset_eq_imp_distinct_iff [OF assms(4)] by auto
  have "matching_grant (rows (leases db') (sort ids)) (sort ids) k o' = Some g"
    using granted rows_inserted [of ids "leases db" "new_lease k o' fence now"]
      matching_grant_inserted [of ids k o' fence now] by auto
  then show ?thesis using acquire_matching [OF ids'] s by simp
qed

theorem acquire_idempotent_witness:
  "acquire_in_session ''postgresql'' (ex_uuid CHR ''7'') 8 [] (ex_leased CHR ''1'')
     [''spark-a'', ''spark-b''] ''reconciliation'' (ex_uuid CHR ''e'') =
     (ex_leased CHR ''1'', Inr (ex_grant CHR ''1''))"
  by (rule acquire_idempotent [OF ex_lease_inv _ ex_calls(1) [unfolded ex_acquire_def]]) simp_all



end
