(* ===== verification/Python_Text.thy ===== *)
theory Python_Text
  imports Json
begin

text \<open>
  Text operations of the Python library that the components share: substring search and removal,
  case-insensitive matching, and \<^verbatim>\<open>str(uuid.UUID(value))\<close>, which reads any of the spellings of a
  UUID that the library accepts and writes the canonical one.
\<close>

section \<open>Searching\<close>

definition ascii_lower :: "char \<Rightarrow> char" where
  "ascii_lower c = (if between CHR ''A'' CHR ''Z'' c then char_of ((of_char c :: nat) + 32) else c)"

text \<open>\<^verbatim>\<open>re.search\<close> of a pattern whose matches at a position are given by \<open>m\<close>.\<close>

fun re_search :: "(string \<Rightarrow> bool) \<Rightarrow> string \<Rightarrow> bool" where
  "re_search m [] = m []"
| "re_search m (c # s) = (m (c # s) \<or> re_search m s)"

definition py_contains :: "string \<Rightarrow> string \<Rightarrow> bool" where
  "py_contains p s = re_search (starts_with p) s"

text \<open>\<^verbatim>\<open>s.replace(p, '')\<close> for a non-empty \<open>p\<close>.\<close>

function py_remove :: "string \<Rightarrow> string \<Rightarrow> string" where
  "py_remove p [] = []"
| "py_remove p (c # s) =
     (if p \<noteq> [] \<and> starts_with p (c # s) then py_remove p (drop (length p - 1) s)
      else c # py_remove p s)"
  by pat_completeness auto
termination
  by (relation "measure (\<lambda>(p, s). length s)") auto

definition strip_chars :: "string \<Rightarrow> string \<Rightarrow> string" where
  "strip_chars cs s = rev (dropWhile (\<lambda>c. c \<in> set cs) (rev (dropWhile (\<lambda>c. c \<in> set cs) s)))"

section \<open>Hexadecimal numbers\<close>

definition hex_digit_val :: "char \<Rightarrow> nat option" where
  "hex_digit_val c =
    (if is_digit c then Some (of_char c - 48)
     else if between CHR ''a'' CHR ''f'' c then Some (of_char c - 87)
     else if between CHR ''A'' CHR ''F'' c then Some (of_char c - 55)
     else None)"

text \<open>The digits that \<^verbatim>\<open>int(s, 16)\<close> accepts after the first one: single underscores may separate them.\<close>

fun hex_body :: "nat \<Rightarrow> string \<Rightarrow> nat option" where
  "hex_body acc [] = Some acc"
| "hex_body acc (c # s) =
    (case hex_digit_val c of
       Some d \<Rightarrow> hex_body (16 * acc + d) s
     | None \<Rightarrow>
         if c = CHR ''_'' then
           (case s of
              [] \<Rightarrow> None
            | d # s' \<Rightarrow> (case hex_digit_val d of None \<Rightarrow> None | Some v \<Rightarrow> hex_body (16 * acc + v) s'))
         else None)"

definition hex_number :: "string \<Rightarrow> nat option" where
  "hex_number s =
    (case s of
       [] \<Rightarrow> None
     | c # s' \<Rightarrow> (case hex_digit_val c of None \<Rightarrow> None | Some d \<Rightarrow> hex_body d s'))"

text \<open>\<^verbatim>\<open>int(s, 16)\<close> of a text without a minus sign.\<close>

definition int16 :: "string \<Rightarrow> nat option" where
  "int16 s =
    (let t = py_strip s;
         u = (if take 1 t = ''+'' then drop 1 t else t);
         v = (if take 2 u = ''0x'' \<or> take 2 u = ''0X'' then
                (if take 1 (drop 2 u) = ''_'' then drop 3 u else drop 2 u)
              else u) in
     hex_number v)"

text \<open>\<^verbatim>\<open>'%032x' % n\<close>, for \<open>n\<close> below \<open>2 ^ 128\<close>.\<close>

fun hex_fixed :: "nat \<Rightarrow> nat \<Rightarrow> string" where
  "hex_fixed 0 n = []"
| "hex_fixed (Suc k) n = hex_fixed k (n div 16) @ [hex_char (n mod 16)]"

definition uuid_text :: "nat \<Rightarrow> string" where
  "uuid_text n =
    (let h = hex_fixed 32 n in
     take 8 h @ ''-'' @ take 4 (drop 8 h) @ ''-'' @ take 4 (drop 12 h) @ ''-'' @
     take 4 (drop 16 h) @ ''-'' @ drop 20 h)"

text \<open>\<^verbatim>\<open>str(uuid.UUID(value))\<close>; \<open>None\<close> is its \<^verbatim>\<open>ValueError\<close>.\<close>

definition uuid_norm :: "string \<Rightarrow> string option" where
  "uuid_norm value =
    (let hex = py_remove ''-'' (strip_chars ''{}'' (py_remove ''uuid:'' (py_remove ''urn:'' value))) in
     if length hex \<noteq> 32 then None
     else case int16 hex of None \<Rightarrow> None | Some n \<Rightarrow> Some (uuid_text n))"

section \<open>Canonical UUIDs are fixed points\<close>

lemma length_hex_fixed [simp]: "length (hex_fixed k n) = k"
  by (induction k arbitrary: n) auto

lemma hex_char_is_hex: "n < 16 \<Longrightarrow> is_hexchar (hex_char n)"
  by (auto simp: hex_char_def is_hexchar_def is_digit_def between_def of_char_of)

lemma hex_fixed_is_hex: "list_all is_hexchar (hex_fixed k n)"
  by (induction k arbitrary: n) (auto simp: hex_char_is_hex)

lemma is_uuid_nth:
  "is_uuid s \<longleftrightarrow> length s = 36 \<and>
     (\<forall>i < 36. if i \<in> {8, 13, 18, 23} then s ! i = CHR ''-'' else is_hexchar (s ! i))"
proof (cases "length s = 36")
  case True
  then show ?thesis by (simp add: is_uuid_def list_all_length del: upt_rec_numeral)
qed (simp add: is_uuid_def)

lemma is_uuid_groups:
  "is_uuid (a @ CHR ''-'' # b @ CHR ''-'' # c @ CHR ''-'' # d @ CHR ''-'' # e)"
  if "length a = 8" "length b = 4" "length c = 4" "length d = 4" "length e = 12"
    "list_all is_hexchar (a @ b @ c @ d @ e)"
proof -
  have z: "zip [0..<36] (a @ CHR ''-'' # b @ CHR ''-'' # c @ CHR ''-'' # d @ CHR ''-'' # e) =
      zip [0..<8] a @ (8, CHR ''-'') # zip [9..<13] b @ (13, CHR ''-'') # zip [14..<18] c @
      (18, CHR ''-'') # zip [19..<23] d @ (23, CHR ''-'') # zip [24..<36] e"
  proof -
    have "[0..<36] = [0..<8] @ 8 # [9..<13] @ 13 # [14..<18] @ 18 # [19..<23] @ 23 # [24..<36]"
      by (simp add: upt_rec)
    then show ?thesis using that(1-5) by (simp del: upt_rec_numeral)
  qed
  let ?P = "\<lambda>(i, c). if i \<in> {8, 13, 18, 23} then c = CHR ''-'' else is_hexchar c"
  have part: "list_all ?P (zip ns x)"
    if "list_all is_hexchar x" "set ns \<inter> {8, 13, 18, 23} = {}" for ns :: "nat list" and x
    using that by (auto simp: list_all_iff dest: set_zip_leftD set_zip_rightD)
  have hs: "list_all is_hexchar a" "list_all is_hexchar b" "list_all is_hexchar c"
    "list_all is_hexchar d" "list_all is_hexchar e"
    using that(6) by simp_all
  have "list_all ?P (zip [0..<8] a)" by (rule part [OF hs(1)]) auto
  moreover have "list_all ?P (zip [9..<13] b)" by (rule part [OF hs(2)]) auto
  moreover have "list_all ?P (zip [14..<18] c)" by (rule part [OF hs(3)]) auto
  moreover have "list_all ?P (zip [19..<23] d)" by (rule part [OF hs(4)]) auto
  moreover have "list_all ?P (zip [24..<36] e)" by (rule part [OF hs(5)]) auto
  ultimately have "list_all ?P (zip [0..<36] (a @ CHR ''-'' # b @ CHR ''-'' # c @ CHR ''-'' # d @ CHR ''-'' # e))"
    unfolding z by (simp only: list_all_append list.pred_inject) simp
  then show ?thesis unfolding is_uuid_def using that(1-5) by simp
qed

lemma is_uuid_split:
  assumes "is_uuid s"
  obtains a b c d e where "s = a @ CHR ''-'' # b @ CHR ''-'' # c @ CHR ''-'' # d @ CHR ''-'' # e"
    "length a = 8" "length b = 4" "length c = 4" "length d = 4" "length e = 12"
    "list_all is_hexchar (a @ b @ c @ d @ e)"
proof -
  have len: "length s = 36" and at: "\<And>i. i < 36 \<Longrightarrow> i \<notin> {8, 13, 18, 23} \<Longrightarrow> is_hexchar (s ! i)"
    and dash: "s ! 8 = CHR ''-''" "s ! 13 = CHR ''-''" "s ! 18 = CHR ''-''" "s ! 23 = CHR ''-''"
    using assms by (auto simp: is_uuid_nth split: if_splits)
  have cut: "drop k s = take n (drop k s) @ CHR ''-'' # drop (Suc (k + n)) s"
    if "s ! (k + n) = CHR ''-''" "k + n < 36" for k n
    using id_take_nth_drop [of n "drop k s"] that len by (simp add: add.commute)
  have eq: "s = take 8 s @ CHR ''-'' # take 4 (drop 9 s) @ CHR ''-'' # take 4 (drop 14 s) @ CHR ''-'' #
      take 4 (drop 19 s) @ CHR ''-'' # drop 24 s"
    using cut [of 0 8] cut [of 9 4] cut [of 14 4] cut [of 19 4] dash by simp
  have hex: "list_all is_hexchar (take n (drop k s))"
    if "\<And>i. k \<le> i \<Longrightarrow> i < k + n \<Longrightarrow> is_hexchar (s ! i)" for k n
    using that by (auto simp: list_all_length)
  have hexs: "list_all is_hexchar (take 8 s @ take 4 (drop 9 s) @ take 4 (drop 14 s) @ take 4 (drop 19 s) @ drop 24 s)"
    using hex [of 0 8] hex [of 9 4] hex [of 14 4] hex [of 19 4] hex [of 24 12] at len by simp
  show thesis by (rule that [OF eq]) (use len hexs in simp_all)
qed

lemma uuid_text_is_uuid: "is_uuid (uuid_text n)"
proof -
  let ?h = "hex_fixed 32 n"
  have h: "list_all is_hexchar ?h" by (rule hex_fixed_is_hex)
  then have "list_all is_hexchar (take 8 ?h @ take 4 (drop 8 ?h) @ take 4 (drop 12 ?h) @
      take 4 (drop 16 ?h) @ drop 20 ?h)"
    by (auto simp: list_all_iff dest: in_set_takeD in_set_dropD)
  from is_uuid_groups [OF _ _ _ _ _ this] show ?thesis by (simp add: uuid_text_def Let_def)
qed

lemma uuid_norm_is_uuid: "uuid_norm v = Some u \<Longrightarrow> is_uuid u"
  by (auto simp: uuid_norm_def Let_def uuid_text_is_uuid split: if_splits option.splits)

lemma py_remove_absent: "p \<noteq> [] \<Longrightarrow> hd p \<notin> set s \<Longrightarrow> py_remove p s = s"
proof (induction s)
  case (Cons c s)
  then have "\<not> starts_with p (c # s)" by (cases p) (auto simp: starts_with_def)
  with Cons show ?case by simp
qed simp

lemma py_remove_char: "py_remove [d] s = filter (\<lambda>c. c \<noteq> d) s"
  by (induction s) (auto simp: starts_with_def)

lemma strip_chars_absent: "set cs \<inter> set s = {} \<Longrightarrow> strip_chars cs s = s"
proof -
  assume d: "set cs \<inter> set s = {}"
  have keep: "dropWhile (\<lambda>c. c \<in> set cs) t = t" if "set t \<subseteq> set s" for t
    using d that by (cases t) auto
  show ?thesis by (simp add: strip_chars_def keep)
qed

definition hex_value :: "string \<Rightarrow> nat" where
  "hex_value s = foldl (\<lambda>a c. 16 * a + the (hex_digit_val c)) 0 s"

lemma hex_digit_val_hexchar:
  "is_hexchar c \<Longrightarrow> \<exists>d < 16. hex_digit_val c = Some d \<and> hex_char d = c"
proof -
  assume "is_hexchar c"
  then consider "is_digit c" | "\<not> is_digit c" "between CHR ''a'' CHR ''f'' c" by (auto simp: is_hexchar_def)
  then show ?thesis
  proof cases
    case 1
    then have "48 \<le> (of_char c :: nat)" "of_char c \<le> (57 :: nat)" by (auto simp: is_digit_def between_def)
    moreover from this have "of_char c - 48 < (10 :: nat)" by linarith
    ultimately have "hex_char (of_char c - 48) = c" by (simp add: hex_char_def)
    with 1 \<open>of_char c \<le> (57 :: nat)\<close> show ?thesis by (auto simp: hex_digit_val_def)
  next
    case 2
    then have "97 \<le> (of_char c :: nat)" "of_char c \<le> (102 :: nat)" by (auto simp: between_def)
    moreover from this have "\<not> of_char c - 87 < (10 :: nat)" by linarith
    ultimately have "hex_char (of_char c - 87) = c" by (simp add: hex_char_def)
    with 2 \<open>of_char c \<le> (102 :: nat)\<close> show ?thesis by (auto simp: hex_digit_val_def)
  qed
qed

lemma hex_body_value:
  "list_all is_hexchar s \<Longrightarrow> hex_body acc s = Some (foldl (\<lambda>a c. 16 * a + the (hex_digit_val c)) acc s)"
proof (induction s arbitrary: acc)
  case (Cons c s)
  then obtain d where "hex_digit_val c = Some d" using hex_digit_val_hexchar [of c] by auto
  with Cons show ?case by simp
qed simp

lemma hex_number_value: "list_all is_hexchar s \<Longrightarrow> s \<noteq> [] \<Longrightarrow> hex_number s = Some (hex_value s)"
proof -
  assume h: "list_all is_hexchar s" "s \<noteq> []"
  then obtain c t where s: "s = c # t" by (cases s) auto
  with h obtain d where "hex_digit_val c = Some d" using hex_digit_val_hexchar [of c] by auto
  with s h show ?thesis by (simp add: hex_number_def hex_value_def hex_body_value)
qed

lemma hex_fixed_value: "list_all is_hexchar s \<Longrightarrow> hex_fixed (length s) (hex_value s) = s"
proof (induction s rule: rev_induct)
  case (snoc c s)
  then obtain d where d: "d < 16" "hex_digit_val c = Some d" "hex_char d = c"
    using hex_digit_val_hexchar [of c] by auto
  then have "hex_value (s @ [c]) = 16 * hex_value s + d" by (simp add: hex_value_def)
  with d snoc show ?case by simp
qed simp

lemma hexchar_not:
  "is_hexchar c \<Longrightarrow> c \<noteq> CHR ''-'' \<and> c \<noteq> CHR ''u'' \<and> c \<noteq> CHR ''{'' \<and> c \<noteq> CHR ''}'' \<and>
     c \<noteq> CHR ''+'' \<and> c \<noteq> CHR ''x'' \<and> c \<noteq> CHR ''X'' \<and> \<not> py_space c"
  by (auto simp: is_hexchar_def is_digit_def between_def py_space_def)

lemma py_strip_id: "(\<And>c. c \<in> set s \<Longrightarrow> \<not> py_space c) \<Longrightarrow> py_strip s = s"
proof -
  assume n: "\<And>c. c \<in> set s \<Longrightarrow> \<not> py_space c"
  have "dropWhile py_space t = t" if "set t \<subseteq> set s" for t using n that by (cases t) auto
  then show ?thesis by (simp add: py_strip_def)
qed

lemma int16_hex:
  assumes h: "list_all is_hexchar s" and "s \<noteq> []"
  shows "int16 s = Some (hex_value s)"
proof -
  have n: "c \<noteq> CHR ''+'' \<and> c \<noteq> CHR ''x'' \<and> c \<noteq> CHR ''X'' \<and> \<not> py_space c" if "c \<in> set s" for c
    using h that hexchar_not [of c] by (auto simp: list_all_iff)
  then have "py_strip s = s" by (auto intro: py_strip_id)
  moreover have "take 1 s \<noteq> ''+''" using n by (cases s) auto
  moreover have "take 2 s \<noteq> ''0x'' \<and> take 2 s \<noteq> ''0X''"
  proof -
    have "x \<notin> set (take 2 s)" if "x \<in> {CHR ''x'', CHR ''X''}" for x
      using n that by (auto dest: in_set_takeD)
    then show ?thesis by fastforce
  qed
  ultimately show ?thesis using hex_number_value [OF assms] by (simp add: int16_def Let_def)
qed

lemma uuid_norm_canonical:
  assumes "is_uuid s"
  shows "uuid_norm s = Some s"
proof -
  obtain a b c d e where s: "s = a @ CHR ''-'' # b @ CHR ''-'' # c @ CHR ''-'' # d @ CHR ''-'' # e"
    and len: "length a = 8" "length b = 4" "length c = 4" "length d = 4" "length e = 12"
    and hex: "list_all is_hexchar (a @ b @ c @ d @ e)"
    by (rule is_uuid_split [OF assms])
  let ?h = "a @ b @ c @ d @ e"
  have n: "x \<in> set ?h \<Longrightarrow> x \<noteq> CHR ''-'' \<and> x \<noteq> CHR ''u'' \<and> x \<noteq> CHR ''{'' \<and> x \<noteq> CHR ''}''" for x
    using hex hexchar_not by (auto simp: list_all_iff)
  have absent: "CHR ''u'' \<notin> set s" "CHR ''{'' \<notin> set s" "CHR ''}'' \<notin> set s"
    using s n by auto
  have r: "py_remove ''urn:'' s = s" "py_remove ''uuid:'' s = s"
    using absent by (simp_all add: py_remove_absent)
  have "strip_chars ''{}'' s = s" using absent by (simp add: strip_chars_absent)
  moreover have "py_remove ''-'' s = ?h"
  proof -
    have keep: "filter (\<lambda>x. x \<noteq> CHR ''-'') t = t" if "set t \<subseteq> set ?h" for t
      using n that by (auto simp: filter_id_conv)
    have "filter (\<lambda>x. x \<noteq> CHR ''-'') a = a" "filter (\<lambda>x. x \<noteq> CHR ''-'') b = b"
      "filter (\<lambda>x. x \<noteq> CHR ''-'') c = c" "filter (\<lambda>x. x \<noteq> CHR ''-'') d = d"
      "filter (\<lambda>x. x \<noteq> CHR ''-'') e = e"
      using keep [of a] keep [of b] keep [of c] keep [of d] keep [of e] by auto
    then show ?thesis by (simp add: py_remove_char s)
  qed
  moreover have "int16 ?h = Some (hex_value ?h)" by (rule int16_hex [OF hex]) (use len in auto)
  moreover have "uuid_text (hex_value ?h) = s"
    using hex_fixed_value [OF hex] len s by (simp add: uuid_text_def Let_def)
  ultimately show ?thesis using r len by (simp add: uuid_norm_def Let_def)
qed

end
