(* ===== verification/Job_Queue.thy ===== *)
theory Job_Queue
  imports Operation_Graph Python_Text Fencing
begin

text \<open>
  \<^verbatim>\<open>control/src/vonk_control/jobs.py\<close>: the durable job queue. Jobs are claimed by workers under a
  lease; each claim is an attempt with a fence of its own, and every later report of the worker is
  accepted only while that attempt is the running one and its lease has not run out.

  Each method runs in one transaction that is rolled back when it raises, so a method is a function
  from the tables to an error or to the new tables. Times are microseconds; the clock readings, the
  UUIDs that \<^verbatim>\<open>uuid.uuid4\<close> draws, the identities of jobs that other transactions have locked, the
  hash function and the log redaction (\<^verbatim>\<open>logging.py\<close>) are arguments.
\<close>

section \<open>Tables\<close>

record job =
  jb_id :: string
  jb_request_id :: string
  jb_kind :: string
  jb_state :: string
  jb_actor :: string
  jb_base_commit :: string
  jb_targets :: "string list"
  jb_payload_digest :: string
  jb_payload :: json
  jb_result :: "json option"
  jb_status_reason :: "string option"
  jb_current_attempt :: nat
  jb_created_at :: int
  jb_updated_at :: int
  jb_reconciliation_id :: "string option"

record job_attempt =
  at_job_id :: string
  at_attempt :: nat
  at_fence :: string
  at_worker_id :: string
  at_lease_deadline :: int
  at_state :: string

record job_db =
  jobs :: "job list"
  attempts :: "job_attempt list"
  reconciliations :: "string list"

record attempt_fence =
  af_job_id :: string
  af_attempt :: nat
  af_fence :: string
  af_worker_id :: string
  af_lease_deadline :: int
  af_kind :: string
  af_payload :: json
  af_base_commit :: string
  af_targets :: "string list"

datatype job_error = StaleAttempt | IntegrityError | JobExc exc

section \<open>Payloads\<close>

text \<open>\<^verbatim>\<open>(?i)(password|secret|token|private.?key|authorization)\<close> at one position of a lower-cased text.\<close>

definition sensitive_at :: "string \<Rightarrow> bool" where
  "sensitive_at s \<longleftrightarrow>
     list_ex (\<lambda>p. starts_with p s) [''password'', ''secret'', ''token'', ''privatekey'', ''authorization''] \<or>
     starts_with ''private'' s \<and>
       (case drop 7 s of [] \<Rightarrow> False | c # t \<Rightarrow> c \<noteq> CHR 0x0A \<and> starts_with ''key'' t)"

definition sensitive :: "string \<Rightarrow> bool" where
  "sensitive key = re_search sensitive_at (map ascii_lower key)"

definition hashable :: "json \<Rightarrow> bool" where
  "hashable v = (case v of JList _ \<Rightarrow> False | JObj _ \<Rightarrow> False | _ \<Rightarrow> True)"

fun py_distinct :: "json list \<Rightarrow> bool" where
  "py_distinct [] = True"
| "py_distinct (v # vs) = (\<not> list_ex (py_eq v) vs \<and> py_distinct vs)"

definition int_between :: "int \<Rightarrow> int \<Rightarrow> json \<Rightarrow> bool" where
  "int_between lo hi v = (case v of JInt i \<Rightarrow> lo \<le> i \<and> i \<le> hi | _ \<Rightarrow> False)"

definition is_obj :: "json \<Rightarrow> bool" where
  "is_obj v = (case v of JObj _ \<Rightarrow> True | _ \<Rightarrow> False)"

definition route_fields :: "string list" where
  "route_fields = [''workload_id'', ''nodes'', ''entrypoint_node_id'', ''scheme'', ''port'', ''path'',
     ''quota'', ''quota_digest'']"

definition quota_fields :: "string list" where
  "quota_fields = [''requests_per_minute'', ''tokens_per_minute'']"

text \<open>
  One iteration of the loop over the routes: whether the quota of the route is accepted. Building
  the set of node identities, and looking up the scheme in a set, raise for unhashable values.
\<close>

definition route_quota :: "(string \<Rightarrow> string) \<Rightarrow> json \<Rightarrow> bool result" where
  "route_quota sha raw_route =
    (case raw_route of
       JObj r \<Rightarrow>
         let quota = jget r ''quota''; nodes = jget r ''nodes''; scheme = jget r ''scheme'' in
         if \<not> has_fields route_fields r \<or> \<not> is_str_with (\<lambda>_. True) (jget r ''workload_id'') \<or>
            \<not> is_list nodes \<or> the_list nodes = [] then Inr False
         else raise_if (\<not> list_all hashable (the_list nodes)) (TypeError ''unhashable type'') (
         if \<not> py_distinct (the_list nodes) \<or> \<not> list_all (is_str_with (\<lambda>_. True)) (the_list nodes) \<or>
            \<not> list_ex (py_eq (jget r ''entrypoint_node_id'')) (the_list nodes) then Inr False
         else raise_if (\<not> hashable scheme) (TypeError ''unhashable type'') (
         if \<not> is_str_with (\<lambda>s. s \<in> {''http'', ''https''}) scheme \<or>
            \<not> int_between 1 65535 (jget r ''port'') \<or>
            \<not> is_str_with (starts_with ''/'') (jget r ''path'') \<or>
            \<not> is_obj quota \<or> \<not> has_fields quota_fields (the_obj quota) then Inr False
         else
           Inr (int_between 1 100000 (jget (the_obj quota) ''requests_per_minute'') \<and>
                int_between 1 100000000 (jget (the_obj quota) ''tokens_per_minute'') \<and>
                jget r ''quota_digest'' = JStr (sha (utf8 (json_dumps True quota))))))
     | _ \<Rightarrow> Inr False)"

text \<open>The paths at which a sensitive-looking key is allowed.\<close>

definition validated_quota_fields ::
    "(string \<Rightarrow> string) \<Rightarrow> string option \<Rightarrow> (string, json) dict \<Rightarrow> string list list result" where
  "validated_quota_fields sha kind payload =
    (if kind \<noteq> Some ''reconcile'' then Inr []
     else case jget payload ''routes'' of
       JObj routes \<Rightarrow>
         rbind (map_r (\<lambda>(alias, raw). rbind (route_quota sha raw) (\<lambda>ok.
             Inr (if ok then [[''routes'', alias, ''quota'', ''tokens_per_minute'']] else []))) routes)
           (\<lambda>ps. Inr (concat ps))
     | _ \<Rightarrow> Inr [])"

text \<open>\<^verbatim>\<open>inspect\<close>: whether some key on the way down is sensitive and not at an allowed path.\<close>

primrec has_sensitive :: "string list list \<Rightarrow> json \<Rightarrow> string list \<Rightarrow> bool" where
  "has_sensitive safe JNull = (\<lambda>path. False)"
| "has_sensitive safe (JBool b) = (\<lambda>path. False)"
| "has_sensitive safe (JInt i) = (\<lambda>path. False)"
| "has_sensitive safe (JStr s) = (\<lambda>path. False)"
| "has_sensitive safe (JList vs) = (\<lambda>path. list_ex (\<lambda>f. f path) (map (has_sensitive safe) vs))"
| "has_sensitive safe (JObj kvs) =
     (\<lambda>path. list_ex (\<lambda>(k, f). sensitive k \<and> path @ [k] \<notin> set safe \<or> f (path @ [k]))
        (map (map_prod id (has_sensitive safe)) kvs))"

definition max_payload :: nat where
  "max_payload = 65536"

definition canonical_payload ::
    "(string \<Rightarrow> string) \<Rightarrow> string option \<Rightarrow> (string, json) dict \<Rightarrow> (json \<times> string) result" where
  "canonical_payload sha kind payload =
     rbind (validated_quota_fields sha kind payload) (\<lambda>safe.
     raise_if (has_sensitive safe (JObj payload) [])
       (ValueError ''job payload contains a sensitive field'') (
     case json_loads (json_dumps True (JObj payload)) of
       None \<Rightarrow> Inl (ValueError ''JSONDecodeError'')
     | Some copied \<Rightarrow>
         let encoded = utf8 (json_dumps True copied) in
         raise_if (length encoded > max_payload) (ValueError ''job payload is too large'') (
         Inr (copied, encoded))))"

section \<open>Creating jobs\<close>

text \<open>The constraints of the table \<^verbatim>\<open>jobs\<close>: primary key, unique columns, foreign key.\<close>

definition insert_job :: "job_db \<Rightarrow> job \<Rightarrow> job_error + job_db" where
  "insert_job db j =
    (if jb_id j \<in> jb_id ` set (jobs db) \<or> jb_request_id j \<in> jb_request_id ` set (jobs db) \<or>
        (case jb_reconciliation_id j of None \<Rightarrow> False
         | Some r \<Rightarrow> Some r \<in> jb_reconciliation_id ` set (jobs db) \<or> r \<notin> set (reconciliations db))
     then Inl IntegrityError
     else Inr (db\<lparr>jobs := jobs db @ [j]\<rparr>))"

definition normalized_reconciliation :: "string option \<Rightarrow> string option result" where
  "normalized_reconciliation r =
    (case r of
       None \<Rightarrow> Inr None
     | Some v \<Rightarrow>
         (case uuid_norm v of
            None \<Rightarrow> Inl (ValueError ''reconciliation identity is invalid'')
          | Some u \<Rightarrow> Inr (Some u)))"

fun lift_exc :: "'a result \<Rightarrow> job_error + 'a" where
  "lift_exc (Inl e) = Inl (JobExc e)"
| "lift_exc (Inr x) = Inr x"

text \<open>The new row that both ways of enqueuing build, from validated arguments.\<close>

definition new_job :: "(string \<Rightarrow> string) \<Rightarrow> string \<Rightarrow> string \<Rightarrow> int \<Rightarrow> string \<Rightarrow> string \<Rightarrow> string \<Rightarrow>
    string list \<Rightarrow> (string, json) dict \<Rightarrow> string option \<Rightarrow> string option \<Rightarrow> job result" where
  "new_job sha job_uuid request_uuid now kind actor base_commit tgts payload request_id reconciliation_id =
     raise_if (list_ex is_blank [kind, actor, base_commit])
       (ValueError ''job kind, actor, and base commit are required'') (
     rbind (normalized_reconciliation reconciliation_id) (\<lambda>rid.
     rbind (canonical_payload sha (Some kind) payload) (\<lambda>(clean, encoded).
     Inr \<lparr>jb_id = job_uuid,
          jb_request_id = (case request_id of None \<Rightarrow> request_uuid
            | Some r \<Rightarrow> if r = [] then request_uuid else r),
          jb_kind = kind, jb_state = ''queued'', jb_actor = actor, jb_base_commit = base_commit,
          jb_targets = tgts, jb_payload_digest = sha encoded, jb_payload = clean,
          jb_result = None, jb_status_reason = None, jb_current_attempt = 0,
          jb_created_at = now, jb_updated_at = now, jb_reconciliation_id = rid\<rparr>)))"

definition enqueue :: "(string \<Rightarrow> string) \<Rightarrow> string \<Rightarrow> string \<Rightarrow> int \<Rightarrow> job_db \<Rightarrow> string \<Rightarrow> string \<Rightarrow> string \<Rightarrow>
    string list \<Rightarrow> (string, json) dict \<Rightarrow> string option \<Rightarrow> string option \<Rightarrow> job_error + job_db \<times> job" where
  "enqueue sha job_uuid request_uuid now db kind actor base_commit tgts payload request_id reconciliation_id =
     rbind (lift_exc (new_job sha job_uuid request_uuid now kind actor base_commit tgts payload
         request_id reconciliation_id)) (\<lambda>j.
     rbind (insert_job db j) (\<lambda>db'. Inr (db', j)))"

text \<open>\<open>before\<close> and \<open>after\<close> are the two answers of \<^verbatim>\<open>authority_check\<close>.\<close>

definition enqueue_guarded :: "(string \<Rightarrow> string) \<Rightarrow> string \<Rightarrow> string \<Rightarrow> int \<Rightarrow> bool \<Rightarrow> bool \<Rightarrow> job_db \<Rightarrow>
    string \<Rightarrow> string \<Rightarrow> string \<Rightarrow> string list \<Rightarrow> (string, json) dict \<Rightarrow> string option \<Rightarrow> string option \<Rightarrow>
    job_error + job_db \<times> job" where
  "enqueue_guarded sha job_uuid request_uuid now before after db kind actor base_commit tgts payload
      request_id reconciliation_id =
     rbind (lift_exc (new_job sha job_uuid request_uuid now kind actor base_commit tgts payload
         request_id reconciliation_id)) (\<lambda>j.
     raise_if (\<not> before) (JobExc (ValueError ''fleet acceptance evidence is stale'')) (
     rbind (insert_job db j) (\<lambda>db'.
     raise_if (\<not> after) (JobExc (ValueError ''fleet acceptance evidence is stale'')) (
     Inr (db', j)))))"

definition get_job :: "job_db \<Rightarrow> string \<Rightarrow> job_error + job" where
  "get_job db job_id =
    (case find (\<lambda>j. jb_id j = job_id) (jobs db) of
       None \<Rightarrow> Inl (JobExc (KeyError job_id)) | Some j \<Rightarrow> Inr j)"

section \<open>Claiming\<close>

definition seconds :: "int \<Rightarrow> int" where
  "seconds n = n * 1000000"

text \<open>The \<^verbatim>\<open>where\<close> clause of the claim and of the quarantine.\<close>

definition eligible :: "int \<Rightarrow> job_db \<Rightarrow> job \<Rightarrow> bool" where
  "eligible now db j \<longleftrightarrow>
     jb_reconciliation_id j = None \<and> jb_kind j \<noteq> ''platform.update'' \<and>
     (jb_state j = ''queued'' \<or>
      list_ex (\<lambda>a. at_job_id a = jb_id j \<and> at_state a = ''running'' \<and> at_lease_deadline a < now)
        (attempts db))"

text \<open>\<^verbatim>\<open>ORDER BY created_at, id ... FOR UPDATE SKIP LOCKED LIMIT 1\<close>.\<close>

definition next_job :: "string list \<Rightarrow> int \<Rightarrow> job_db \<Rightarrow> job option" where
  "next_job locked now db =
    (case sort_key (\<lambda>j. (jb_created_at j, jb_id j))
        (filter (\<lambda>j. eligible now db j \<and> jb_id j \<notin> set locked) (jobs db)) of
       [] \<Rightarrow> None | j # _ \<Rightarrow> Some j)"

definition put_job :: "job_db \<Rightarrow> job \<Rightarrow> job_db" where
  "put_job db j = db\<lparr>jobs := map (\<lambda>j'. if jb_id j' = jb_id j then j else j') (jobs db)\<rparr>"

text \<open>Update of the attempt row that \<^verbatim>\<open>(job_id, attempt)\<close> selects.\<close>

definition update_attempt :: "string \<Rightarrow> nat \<Rightarrow> (job_attempt \<Rightarrow> job_attempt) \<Rightarrow> job_db \<Rightarrow> job_db" where
  "update_attempt job_id n f db = db\<lparr>attempts := map (\<lambda>a. if at_job_id a = job_id \<and> at_attempt a = n
     then f a else a) (attempts db)\<rparr>"

definition insert_attempt :: "job_db \<Rightarrow> job_attempt \<Rightarrow> job_error + job_db" where
  "insert_attempt db a =
    (if at_fence a \<in> at_fence ` set (attempts db) \<or>
        (at_job_id a, at_attempt a) \<in> (\<lambda>x. (at_job_id x, at_attempt x)) ` set (attempts db)
     then Inl IntegrityError else Inr (db\<lparr>attempts := attempts db @ [a]\<rparr>))"

text \<open>The rows that a claim writes, and the fence it hands out.\<close>

definition claimed_job :: "int \<Rightarrow> job \<Rightarrow> job" where
  "claimed_job now j = j\<lparr>jb_current_attempt := jb_current_attempt j + 1, jb_state := ''running'',
     jb_updated_at := now\<rparr>"

definition claimed_attempt :: "string \<Rightarrow> string \<Rightarrow> int \<Rightarrow> job \<Rightarrow> job_attempt" where
  "claimed_attempt fence worker_id deadline j =
     \<lparr>at_job_id = jb_id j, at_attempt = jb_current_attempt j, at_fence = fence,
      at_worker_id = worker_id, at_lease_deadline = deadline, at_state = ''running''\<rparr>"

definition claimed_fence :: "string \<Rightarrow> string \<Rightarrow> int \<Rightarrow> job \<Rightarrow> attempt_fence" where
  "claimed_fence fence worker_id deadline j =
     \<lparr>af_job_id = jb_id j, af_attempt = jb_current_attempt j, af_fence = fence,
      af_worker_id = worker_id, af_lease_deadline = deadline, af_kind = jb_kind j,
      af_payload = jb_payload j, af_base_commit = jb_base_commit j, af_targets = jb_targets j\<rparr>"

definition expire_current :: "job \<Rightarrow> job_db \<Rightarrow> job_db" where
  "expire_current j = update_attempt (jb_id j) (jb_current_attempt j) (\<lambda>a. a\<lparr>at_state := ''expired''\<rparr>)"

definition claim :: "string \<Rightarrow> string list \<Rightarrow> int \<Rightarrow> job_db \<Rightarrow> string \<Rightarrow> int \<Rightarrow>
    job_error + job_db \<times> attempt_fence option" where
  "claim fence locked now db worker_id lease_seconds =
     raise_if (is_blank worker_id \<or> lease_seconds \<le> 0)
       (JobExc (ValueError ''worker and positive lease are required'')) (
     case next_job locked now db of
       None \<Rightarrow> Inr (db, None)
     | Some j \<Rightarrow>
         let db1 = (if jb_current_attempt j \<noteq> 0 then expire_current j db else db);
             j' = claimed_job now j;
             deadline = now + seconds lease_seconds in
         rbind (insert_attempt (put_job db1 j') (claimed_attempt fence worker_id deadline j')) (\<lambda>db2.
         Inr (db2, Some (claimed_fence fence worker_id deadline j'))))"

definition quarantine_unlinked :: "(string \<Rightarrow> string) \<Rightarrow> string list \<Rightarrow> int \<Rightarrow> job_db \<Rightarrow> string \<Rightarrow>
    job_error + job_db \<times> bool" where
  "quarantine_unlinked redact locked now db reason =
     raise_if (is_blank reason) (JobExc (ValueError ''quarantine reason is required'')) (
     case next_job locked now db of
       None \<Rightarrow> Inr (db, False)
     | Some j \<Rightarrow>
         let db1 = (if jb_current_attempt j \<noteq> 0
               then update_attempt (jb_id j) (jb_current_attempt j)
                 (\<lambda>a. if at_state a = ''running'' then a\<lparr>at_state := ''expired''\<rparr> else a) db
               else db) in
         Inr (put_job db1 (j\<lparr>jb_state := ''waiting-for-operator'',
           jb_status_reason := Some (take 1024 (redact reason)), jb_updated_at := now\<rparr>), True))"

section \<open>Reports of a worker\<close>

definition active :: "int \<Rightarrow> job_db \<Rightarrow> attempt_fence \<Rightarrow> job_error + job \<times> job_attempt" where
  "active now db f =
    (case (find (\<lambda>j. jb_id j = af_job_id f) (jobs db), find (\<lambda>a. at_fence a = af_fence f) (attempts db)) of
       (Some j, Some a) \<Rightarrow>
         raise_if (jb_current_attempt j \<noteq> af_attempt f \<or> at_state a \<noteq> ''running'' \<or>
             at_worker_id a \<noteq> af_worker_id f \<or> at_lease_deadline a \<le> now)
           StaleAttempt (Inr (j, a))
     | _ \<Rightarrow> Inl StaleAttempt)"

text \<open>Update of the attempt row with a fence.\<close>

definition update_fence :: "string \<Rightarrow> (job_attempt \<Rightarrow> job_attempt) \<Rightarrow> job_db \<Rightarrow> job_db" where
  "update_fence fence f db =
     db\<lparr>attempts := map (\<lambda>a. if at_fence a = fence then f a else a) (attempts db)\<rparr>"

text \<open>The clock is read three times: for the check, for the new deadline and for the job row.\<close>

definition heartbeat :: "int \<times> int \<times> int \<Rightarrow> job_db \<Rightarrow> attempt_fence \<Rightarrow> int \<Rightarrow>
    job_error + job_db \<times> attempt_fence" where
  "heartbeat clock db f lease_seconds =
    (case clock of (now1, now2, now3) \<Rightarrow>
     raise_if (lease_seconds \<le> 0) (JobExc (ValueError ''lease must be positive'')) (
     rbind (active now1 db f) (\<lambda>(j, a).
     let deadline = now2 + seconds lease_seconds;
         db1 = update_fence (at_fence a) (\<lambda>x. x\<lparr>at_lease_deadline := deadline\<rparr>) db;
         db2 = put_job db1 (j\<lparr>jb_updated_at := now3\<rparr>) in
     Inr (db2, f\<lparr>af_lease_deadline := deadline\<rparr>))))"

definition finish :: "(string \<Rightarrow> string) \<Rightarrow> int \<times> int \<Rightarrow> job_db \<Rightarrow> attempt_fence \<Rightarrow> string \<Rightarrow>
    json option \<Rightarrow> string option \<Rightarrow> job_error + job_db" where
  "finish redact clock db f state result reason =
    (case clock of (now1, now2) \<Rightarrow>
     rbind (active now1 db f) (\<lambda>(j, a).
     let db1 = update_fence (at_fence a) (\<lambda>x. x\<lparr>at_state := state\<rparr>) db in
     Inr (put_job db1 (j\<lparr>jb_state := state, jb_result := result,
       jb_status_reason := (case reason of None \<Rightarrow> None
         | Some r \<Rightarrow> if r = [] then None else Some (take 1024 (redact r))),
       jb_updated_at := now2\<rparr>))))"

definition succeed :: "(string \<Rightarrow> string) \<Rightarrow> (string \<Rightarrow> string) \<Rightarrow> int \<times> int \<Rightarrow> job_db \<Rightarrow> attempt_fence \<Rightarrow>
    (string, json) dict \<Rightarrow> job_error + job_db" where
  "succeed sha redact clock db f result =
     rbind (lift_exc (canonical_payload sha None result)) (\<lambda>(clean, _).
     finish redact clock db f ''succeeded'' (Some clean) None)"

definition fail :: "(string \<Rightarrow> string) \<Rightarrow> int \<times> int \<Rightarrow> job_db \<Rightarrow> attempt_fence \<Rightarrow> string \<Rightarrow>
    job_error + job_db" where
  "fail redact clock db f reason = finish redact clock db f ''failed'' None (Some reason)"

definition wait_for_operator :: "(string \<Rightarrow> string) \<Rightarrow> int \<times> int \<Rightarrow> job_db \<Rightarrow> attempt_fence \<Rightarrow> string \<Rightarrow>
    job_error + job_db" where
  "wait_for_operator redact clock db f reason =
     finish redact clock db f ''waiting-for-operator'' None (Some reason)"

definition resume :: "int \<Rightarrow> job_db \<Rightarrow> string \<Rightarrow> job_error + job_db" where
  "resume now db job_id =
    (let hit = (\<lambda>j. jb_id j = job_id \<and> jb_state j = ''waiting-for-operator'') in
     raise_if (length (filter hit (jobs db)) \<noteq> 1) (JobExc (ValueError ''job is not waiting for operator'')) (
     Inr (db\<lparr>jobs := map (\<lambda>j. if hit j
       then j\<lparr>jb_state := ''queued'', jb_status_reason := None, jb_updated_at := now\<rparr> else j) (jobs db)\<rparr>)))"

section \<open>Invariant\<close>

definition job_states :: "string set" where
  "job_states = {''queued'', ''running'', ''succeeded'', ''failed'', ''waiting-for-operator''}"

abbreviation attempt_key :: "job_attempt \<Rightarrow> string \<times> nat" where
  "attempt_key a \<equiv> (at_job_id a, at_attempt a)"

definition attempt_ok :: "job list \<Rightarrow> job_attempt \<Rightarrow> bool" where
  "attempt_ok js a \<longleftrightarrow> (\<exists>j \<in> set js. jb_id j = at_job_id a \<and> 1 \<le> at_attempt a \<and>
     at_attempt a \<le> jb_current_attempt j \<and>
     (at_state a = ''running'' \<longrightarrow> at_attempt a = jb_current_attempt j \<and> jb_state j = ''running''))"

definition job_ok :: "job_attempt list \<Rightarrow> job \<Rightarrow> bool" where
  "job_ok ats j \<longleftrightarrow> jb_state j \<in> job_states \<and> (jb_state j = ''running'' \<longrightarrow>
     (\<exists>a \<in> set ats. attempt_key a = (jb_id j, jb_current_attempt j) \<and> at_state a = ''running''))"

definition job_inv :: "job_db \<Rightarrow> bool" where
  "job_inv db \<longleftrightarrow> distinct (map jb_id (jobs db)) \<and> distinct (map at_fence (attempts db)) \<and>
     distinct (map attempt_key (attempts db)) \<and>
     list_all (attempt_ok (jobs db)) (attempts db) \<and> list_all (job_ok (attempts db)) (jobs db)"

lemma job_inv_keys:
  assumes "job_inv db"
  shows "distinct (map jb_id (jobs db))" "distinct (map at_fence (attempts db))"
    "distinct (map attempt_key (attempts db))"
  using assms by (simp_all add: job_inv_def)

lemma job_inv_attempt: "job_inv db \<Longrightarrow> a \<in> set (attempts db) \<Longrightarrow> attempt_ok (jobs db) a"
  by (simp add: job_inv_def list_all_iff)

lemma job_inv_job: "job_inv db \<Longrightarrow> j \<in> set (jobs db) \<Longrightarrow> job_ok (attempts db) j"
  by (simp add: job_inv_def list_all_iff)

lemma job_unique: "job_inv db \<Longrightarrow> i \<in> set (jobs db) \<Longrightarrow> j \<in> set (jobs db) \<Longrightarrow> jb_id i = jb_id j \<Longrightarrow> i = j"
  using job_inv_keys(1) distinct_map_unique by metis

lemma running_attempt_current:
  assumes "job_inv db" "a \<in> set (attempts db)" "at_state a = ''running''" "j \<in> set (jobs db)"
    "jb_id j = at_job_id a"
  shows "at_attempt a = jb_current_attempt j" "jb_state j = ''running''"
proof -
  obtain i where "i \<in> set (jobs db)" "jb_id i = at_job_id a" "at_attempt a = jb_current_attempt i"
    "jb_state i = ''running''"
    using job_inv_attempt [OF assms(1,2)] assms(3) by (auto simp: attempt_ok_def)
  moreover from this have "i = j" using job_unique [OF assms(1)] assms(4,5) by simp
  ultimately show "at_attempt a = jb_current_attempt j" "jb_state j = ''running''" by auto
qed

lemma attempt_ok_put:
  assumes "attempt_ok js a" "distinct (map jb_id js)" "j \<in> set js" "jb_id j' = jb_id j"
    and "at_job_id a = jb_id j \<Longrightarrow> jb_current_attempt j \<le> jb_current_attempt j' \<and>
      (at_state a = ''running'' \<longrightarrow> at_attempt a = jb_current_attempt j' \<and> jb_state j' = ''running'')"
  shows "attempt_ok (map (\<lambda>i. if jb_id i = jb_id j' then j' else i) js) a"
proof -
  from assms(1) obtain i where i: "i \<in> set js" "jb_id i = at_job_id a" "1 \<le> at_attempt a"
    "at_attempt a \<le> jb_current_attempt i"
    "at_state a = ''running'' \<longrightarrow> at_attempt a = jb_current_attempt i \<and> jb_state i = ''running''"
    by (auto simp: attempt_ok_def)
  show ?thesis
  proof (cases "at_job_id a = jb_id j")
    case True
    then have "i = j" using i assms(2,3) distinct_map_unique by metis
    with True i assms(5) have "jb_id j' = at_job_id a \<and> 1 \<le> at_attempt a \<and> at_attempt a \<le> jb_current_attempt j' \<and>
        (at_state a = ''running'' \<longrightarrow> at_attempt a = jb_current_attempt j' \<and> jb_state j' = ''running'')"
      using assms(4) by auto
    moreover have "j' \<in> (\<lambda>i. if jb_id i = jb_id j' then j' else i) ` set js"
      using assms(3,4) by force
    ultimately show ?thesis unfolding attempt_ok_def set_map by blast
  next
    case False
    with i(1,2) assms(4) have "i \<in> (\<lambda>i. if jb_id i = jb_id j' then j' else i) ` set js" by force
    with i show ?thesis unfolding attempt_ok_def set_map by blast
  qed
qed

text \<open>Rewriting the row of one job and of its current attempt, the attempt number unchanged.\<close>

definition touched :: "job \<Rightarrow> (job_attempt \<Rightarrow> job_attempt) \<Rightarrow> job_attempt \<Rightarrow> job_attempt" where
  "touched j g a = (if at_job_id a = jb_id j \<and> at_attempt a = jb_current_attempt j then g a else a)"

definition row_change :: "job_db \<Rightarrow> job \<Rightarrow> job \<Rightarrow> (job_attempt \<Rightarrow> job_attempt) \<Rightarrow> bool" where
  "row_change db j j' g \<longleftrightarrow>
     j \<in> set (jobs db) \<and> jb_id j' = jb_id j \<and> jb_current_attempt j' = jb_current_attempt j \<and> jb_state j' \<in> job_states \<and>
     (\<forall>a. attempt_key (g a) = attempt_key a \<and> at_fence (g a) = at_fence a) \<and>
     (\<forall>a \<in> set (attempts db). attempt_key a = (jb_id j, jb_current_attempt j) \<longrightarrow>
        (at_state (g a) = ''running'' \<longleftrightarrow> jb_state j' = ''running'')) \<and>
     (jb_state j' = ''running'' \<longrightarrow> jb_state j = ''running'')"

lemma touched_keys:
  assumes "row_change db j j' g"
  shows "attempt_key (touched j g a) = attempt_key a" "at_fence (touched j g a) = at_fence a"
  using assms by (auto simp: touched_def row_change_def)

lemma touched_cases:
  "attempt_key a = (jb_id j, jb_current_attempt j) \<Longrightarrow> touched j g a = g a"
  "attempt_key a \<noteq> (jb_id j, jb_current_attempt j) \<Longrightarrow> touched j g a = a"
  by (auto simp: touched_def)

lemma touched_running:
  assumes inv: "job_inv db" and c: "row_change db j j' g" and a: "a \<in> set (attempts db)"
    and run: "at_state (touched j g a) = ''running''" "at_job_id a = jb_id j"
  shows "at_attempt a = jb_current_attempt j \<and> jb_state j' = ''running''"
proof (cases "attempt_key a = (jb_id j, jb_current_attempt j)")
  case True
  then show ?thesis using c a run(1) touched_cases(1) [OF True] by (auto simp: row_change_def)
next
  case False
  then have "at_state a = ''running''" using run(1) touched_cases(2) [OF False] by simp
  then have "at_attempt a = jb_current_attempt j" using running_attempt_current(1) [OF inv a] c run(2) by (auto simp: row_change_def)
  with False run(2) show ?thesis by simp
qed

lemma touched_attempt_ok:
  assumes inv: "job_inv db" and c: "row_change db j j' g" and a: "a \<in> set (attempts db)"
  shows "attempt_ok (map (\<lambda>i. if jb_id i = jb_id j' then j' else i) (jobs db)) (touched j g a)"
proof (rule attempt_ok_put)
  show "distinct (map jb_id (jobs db))" "j \<in> set (jobs db)" "jb_id j' = jb_id j"
    using job_inv_keys(1) [OF inv] c by (auto simp: row_change_def)
  show "attempt_ok (jobs db) (touched j g a)"
  proof (cases "attempt_key a = (jb_id j, jb_current_attempt j)")
    case True
    have "at_state (touched j g a) = ''running'' \<Longrightarrow> jb_state j = ''running''"
      using touched_running [OF inv c a] True c by (auto simp: row_change_def)
    then show ?thesis using job_inv_attempt [OF inv a] True touched_keys(1) [OF c, of a] c
      by (auto simp: attempt_ok_def row_change_def intro!: bexI [of _ j])
  next
    case False
    then show ?thesis using job_inv_attempt [OF inv a] by (simp add: touched_cases)
  qed
  show "jb_current_attempt j \<le> jb_current_attempt j' \<and> (at_state (touched j g a) = ''running'' \<longrightarrow>
      at_attempt (touched j g a) = jb_current_attempt j' \<and> jb_state j' = ''running'')"
    if "at_job_id (touched j g a) = jb_id j"
    using that touched_running [OF inv c a] touched_keys(1) [OF c, of a] c by (simp add: row_change_def)
qed

lemma touched_job_ok:
  assumes inv: "job_inv db" and c: "row_change db j j' g" and i: "i \<in> set (jobs db)"
  shows "job_ok (map (touched j g) (attempts db)) (if jb_id i = jb_id j' then j' else i)" (is "job_ok ?as ?i")
proof -
  have ij: "jb_id i = jb_id j \<Longrightarrow> i = j" using job_unique [OF inv i] c by (simp add: row_change_def)
  have key: "(jb_id ?i, jb_current_attempt ?i) = (jb_id i, jb_current_attempt i)"
    using ij c by (auto simp: row_change_def)
  have "\<exists>a \<in> set ?as. attempt_key a = (jb_id i, jb_current_attempt i) \<and> at_state a = ''running''" if run: "jb_state ?i = ''running''"
  proof -
    have "jb_state i = ''running''" using run ij c by (auto simp: row_change_def split: if_splits)
    then obtain a where a: "a \<in> set (attempts db)" "attempt_key a = (jb_id i, jb_current_attempt i)" "at_state a = ''running''"
      using job_inv_job [OF inv i] by (auto simp: job_ok_def)
    have "at_state (touched j g a) = ''running''"
    proof (cases "jb_id i = jb_id j")
      case True
      with ij a run c show ?thesis by (auto simp: row_change_def touched_cases)
    next
      case False
      with a show ?thesis by (simp add: touched_cases)
    qed
    moreover have "touched j g a \<in> set ?as" using a(1) by simp
    ultimately show ?thesis using a(2) touched_keys(1) [OF c, of a] by metis
  qed
  moreover have "jb_state ?i \<in> job_states" using job_inv_job [OF inv i] c by (simp add: row_change_def job_ok_def)
  ultimately show ?thesis using key by (simp add: job_ok_def)
qed

lemma job_inv_update:
  assumes inv: "job_inv db" and j: "j \<in> set (jobs db)" "jb_id j' = jb_id j"
      "jb_current_attempt j' = jb_current_attempt j" "jb_state j' \<in> job_states"
    and g: "\<And>a. attempt_key (g a) = attempt_key a \<and> at_fence (g a) = at_fence a"
    and run: "\<And>a. a \<in> set (attempts db) \<Longrightarrow> attempt_key a = (jb_id j, jb_current_attempt j) \<Longrightarrow>
      at_state (g a) = ''running'' \<longleftrightarrow> jb_state j' = ''running''"
    and live: "jb_state j' = ''running'' \<Longrightarrow> jb_state j = ''running''"
  shows "job_inv (put_job (update_attempt (jb_id j) (jb_current_attempt j) g db) j')"
proof -
  have c: "row_change db j j' g" using j g run live by (simp add: row_change_def)
  define p where "p i = (if jb_id i = jb_id j' then j' else i)" for i
  have db': "put_job (update_attempt (jb_id j) (jb_current_attempt j) g db) j' =
      db\<lparr>attempts := map (touched j g) (attempts db), jobs := map p (jobs db)\<rparr>"
    by (simp add: put_job_def update_attempt_def touched_def [abs_def] p_def)
  have "job_ok (map (touched j g) (attempts db)) (p i)" if "i \<in> set (jobs db)" for i
    using touched_job_ok [OF inv c that] by (simp only: p_def)
  then have "list_all (job_ok (map (touched j g) (attempts db))) (map p (jobs db))" by (auto simp: list_all_iff)
  moreover have "attempt_ok (map p (jobs db)) (touched j g a)" if "a \<in> set (attempts db)" for a
    using touched_attempt_ok [OF inv c that] by (simp only: p_def [abs_def])
  then have "list_all (attempt_ok (map p (jobs db))) (map (touched j g) (attempts db))" by (auto simp: list_all_iff)
  moreover have "map jb_id (map p (jobs db)) = map jb_id (jobs db)" by (simp add: p_def)
  moreover have "map at_fence (map (touched j g) (attempts db)) = map at_fence (attempts db)"
    "map attempt_key (map (touched j g) (attempts db)) = map attempt_key (attempts db)"
    using touched_keys [OF c] by simp_all
  ultimately show ?thesis
    using job_inv_keys [OF inv] unfolding db' by (simp add: job_inv_def del: map_map)
qed

text \<open>Starting the next attempt of a job that has no running one.\<close>

lemma job_inv_start:
  assumes inv: "job_inv db" and j: "j \<in> set (jobs db)" "jb_state j \<noteq> ''running''"
    and j': "jb_id j' = jb_id j" "jb_current_attempt j' = jb_current_attempt j + 1" "jb_state j' = ''running''"
    and a: "attempt_key a = (jb_id j', jb_current_attempt j')" "at_state a = ''running''"
    and ins: "insert_attempt (put_job db j') a = Inr db'"
  shows "job_inv db'"
proof -
  let ?p = "\<lambda>i. if jb_id i = jb_id j' then j' else i"
  have db': "jobs db' = map ?p (jobs db)" "attempts db' = attempts db @ [a]"
    and new: "at_fence a \<notin> at_fence ` set (attempts db)" "attempt_key a \<notin> attempt_key ` set (attempts db)"
    using ins by (auto simp: insert_attempt_def put_job_def split: if_splits)
  have ids: "map jb_id (jobs db') = map jb_id (jobs db)" by (simp add: db')
  have old: "attempt_ok (jobs db') x" if "x \<in> set (attempts db)" for x
    unfolding db'(1)
  proof (rule attempt_ok_put [OF job_inv_attempt [OF inv that] job_inv_keys(1) [OF inv] j(1) j'(1)])
    assume "at_job_id x = jb_id j"
    then have "at_state x \<noteq> ''running''" using running_attempt_current(2) [OF inv that _ j(1)] j(2) by auto
    then show "jb_current_attempt j \<le> jb_current_attempt j' \<and> (at_state x = ''running'' \<longrightarrow>
        at_attempt x = jb_current_attempt j' \<and> jb_state j' = ''running'')" using j'(2) by simp
  qed
  have cur: "attempt_ok (jobs db') a"
  proof -
    have "j' \<in> set (jobs db')" using j(1) j'(1) by (force simp: db')
    with a j' show ?thesis by (auto simp: attempt_ok_def intro!: bexI [of _ j'])
  qed
  have "job_ok (attempts db') (?p i)" if "i \<in> set (jobs db)" for i
    using job_inv_job [OF inv that] a j'(3) by (auto simp: job_ok_def db' job_states_def)
  then have "list_all (job_ok (attempts db')) (jobs db')" unfolding db'(1) list_all_iff set_map by blast
  moreover have "list_all (attempt_ok (jobs db')) (attempts db')"
    using old cur by (simp add: db'(2) list_all_iff)
  moreover have "distinct (map at_fence (attempts db'))" "distinct (map attempt_key (attempts db'))"
    using job_inv_keys [OF inv] new by (simp_all add: db'(2))
  ultimately show ?thesis
    using job_inv_keys(1) [OF inv] ids by (simp only: job_inv_def)
qed

lemma update_attempt_id:
  assumes inv: "job_inv db"
  shows "update_attempt job_id 0 f db = db"
proof -
  have "at_attempt a \<noteq> 0" if "a \<in> set (attempts db)" for a
    using job_inv_attempt [OF inv that] by (auto simp: attempt_ok_def)
  then have "map (\<lambda>a. if at_job_id a = job_id \<and> at_attempt a = 0 then f a else a) (attempts db) = attempts db"
    by (intro map_idI) (metis (no_types, lifting))
  then show ?thesis by (simp add: update_attempt_def)
qed

lemma put_put: "jb_id j = jb_id j' \<Longrightarrow> put_job (put_job db j) j' = put_job db j'"
  by (auto simp: put_job_def)

lemma next_job_mem: "next_job locked now db = Some j \<Longrightarrow> j \<in> set (jobs db) \<and> eligible now db j \<and> jb_id j \<notin> set locked"
proof -
  let ?c = "sort_key (\<lambda>j. (jb_created_at j, jb_id j)) (filter (\<lambda>j. eligible now db j \<and> jb_id j \<notin> set locked) (jobs db))"
  assume "next_job locked now db = Some j"
  then obtain js where c: "?c = j # js" by (auto simp: next_job_def split: list.splits)
  have "j \<in> set ?c" unfolding c by simp
  then show ?thesis by simp
qed

lemma expire_current_0: "job_inv db \<Longrightarrow> (if 0 < jb_current_attempt j then expire_current j db else db) = expire_current j db"
  by (simp add: expire_current_def update_attempt_id)

lemma claim_cases:
  assumes "job_inv db" and "claim fence locked now db w secs = Inr (db', r)"
  shows "(db' = db \<and> r = None \<and> next_job locked now db = None) \<or>
    (\<exists>j. next_job locked now db = Some j \<and>
       insert_attempt (put_job (expire_current j db) (claimed_job now j))
         (claimed_attempt fence w (now + seconds secs) (claimed_job now j)) = Inr db' \<and>
       r = Some (claimed_fence fence w (now + seconds secs) (claimed_job now j)))"
proof (cases "next_job locked now db")
  case None
  with assms(2) show ?thesis by (simp add: claim_def raise_if_Inr)
next
  case (Some j)
  with assms(2) show ?thesis
    by (auto simp: claim_def raise_if_Inr rbind_Inr Let_def expire_current_0 [OF assms(1)])
qed

lemma job_inv_claim:
  assumes inv: "job_inv db" and claim: "claim fence locked now db w secs = Inr (db', r)"
  shows "job_inv db'"
  using claim_cases [OF assms]
proof (elim disjE exE conjE)
  assume "db' = db"
  then show ?thesis using inv by simp
next
  fix j
  assume "next_job locked now db = Some j"
    and ins: "insert_attempt (put_job (expire_current j db) (claimed_job now j))
         (claimed_attempt fence w (now + seconds secs) (claimed_job now j)) = Inr db'"
  then have j: "j \<in> set (jobs db)" using next_job_mem by blast
  let ?q = "j\<lparr>jb_state := ''queued''\<rparr>"
  have e: "job_inv (put_job (expire_current j db) ?q)"
    unfolding expire_current_def by (rule job_inv_update [OF inv j]) (simp_all add: job_states_def)
  have q: "?q \<in> set (jobs (put_job (expire_current j db) ?q))"
    using j by (force simp: put_job_def update_attempt_def expire_current_def)
  show ?thesis
    by (rule job_inv_start [OF e q, of "claimed_job now j"])
      (use ins in \<open>simp_all add: claimed_job_def claimed_attempt_def put_put\<close>)
qed
section \<open>Steps\<close>

text \<open>A fence value that a claim has handed out: its attempt row exists.\<close>

definition genuine :: "job_db \<Rightarrow> attempt_fence \<Rightarrow> bool" where
  "genuine db f \<longleftrightarrow> (\<exists>a \<in> set (attempts db). at_fence a = af_fence f \<and>
     attempt_key a = (af_job_id f, af_attempt f) \<and> at_worker_id a = af_worker_id f)"

text \<open>
  One call of the queue that commits. Calls that raise leave the tables as they are. Workers
  present fences that a claim has handed out.
\<close>

inductive job_step :: "job_db \<Rightarrow> job_db \<Rightarrow> bool" where
  enqueue: "enqueue sha i r now db kind actor commit tgts payload rid rec = Inr (db', j) \<Longrightarrow> job_step db db'"
| guarded: "enqueue_guarded sha i r now b1 b2 db kind actor commit tgts payload rid rec = Inr (db', j) \<Longrightarrow>
    job_step db db'"
| claim: "claim fence locked now db w secs = Inr (db', res) \<Longrightarrow> job_step db db'"
| quarantine: "quarantine_unlinked redact locked now db reason = Inr (db', b) \<Longrightarrow> job_step db db'"
| heartbeat: "genuine db f \<Longrightarrow> heartbeat clock db f secs = Inr (db', f') \<Longrightarrow> job_step db db'"
| succeed: "genuine db f \<Longrightarrow> succeed sha redact clk db f result = Inr db' \<Longrightarrow> job_step db db'"
| fail: "genuine db f \<Longrightarrow> fail redact clk db f reason = Inr db' \<Longrightarrow> job_step db db'"
| wait: "genuine db f \<Longrightarrow> wait_for_operator redact clk db f reason = Inr db' \<Longrightarrow> job_step db db'"
| resume: "resume now db job_id = Inr db' \<Longrightarrow> job_step db db'"

text \<open>What enqueuing does to the tables, and the row it adds.\<close>

lemma new_job_fields:
  "new_job sha i r now kind actor commit tgts payload rid rec = Inr j \<Longrightarrow>
     jb_id j = i \<and> jb_state j = ''queued'' \<and> jb_current_attempt j = 0 \<and> jb_kind j = kind \<and>
     (\<exists>encoded. canonical_payload sha (Some kind) payload = Inr (jb_payload j, encoded) \<and>
        jb_payload_digest j = sha encoded)"
  by (auto simp: new_job_def raise_if_Inr rbind_Inr)

lemma lift_exc_Inr [simp]: "lift_exc r = Inr x \<longleftrightarrow> r = Inr x"
  by (cases r) auto

lemma enqueue_cases:
  "enqueue sha i r now db kind actor commit tgts payload rid rec = Inr (db', j) \<Longrightarrow>
     new_job sha i r now kind actor commit tgts payload rid rec = Inr j \<and> insert_job db j = Inr db'"
  by (auto simp: enqueue_def rbind_Inr)

lemma guarded_cases:
  "enqueue_guarded sha i r now b1 b2 db kind actor commit tgts payload rid rec = Inr (db', j) \<Longrightarrow>
     b1 \<and> b2 \<and> new_job sha i r now kind actor commit tgts payload rid rec = Inr j \<and> insert_job db j = Inr db'"
  by (auto simp: enqueue_guarded_def rbind_Inr raise_if_Inr)

lemma insert_job_cases:
  "insert_job db j = Inr db' \<Longrightarrow> jb_id j \<notin> jb_id ` set (jobs db) \<and> db' = db\<lparr>jobs := jobs db @ [j]\<rparr>"
  by (auto simp: insert_job_def split: if_splits)

lemma job_inv_insert:
  assumes inv: "job_inv db" and ins: "insert_job db j = Inr db'"
    and j: "jb_state j = ''queued''"
  shows "job_inv db'"
proof -
  from insert_job_cases [OF ins] have new: "jb_id j \<notin> jb_id ` set (jobs db)"
    and db': "db' = db\<lparr>jobs := jobs db @ [j]\<rparr>" by auto
  have "attempt_ok (jobs db @ [j]) a" if "a \<in> set (attempts db)" for a
    using job_inv_attempt [OF inv that] by (auto simp: attempt_ok_def)
  moreover have "job_ok (attempts db) j" using j by (simp add: job_ok_def job_states_def)
  ultimately show ?thesis
    using inv new by (simp add: job_inv_def db' list_all_iff)
qed

text \<open>What an accepted report shows about the tables.\<close>

lemma active_cases:
  assumes inv: "job_inv db" and gen: "genuine db f" and act: "active now db f = Inr (j, a)"
  shows "j \<in> set (jobs db) \<and> a \<in> set (attempts db) \<and> jb_id j = af_job_id f \<and>
    at_fence a = af_fence f \<and> attempt_key a = (jb_id j, jb_current_attempt j) \<and>
    at_state a = ''running'' \<and> jb_state j = ''running'' \<and> now < at_lease_deadline a"
proof -
  from act have f: "find (\<lambda>j. jb_id j = af_job_id f) (jobs db) = Some j"
      "find (\<lambda>a. at_fence a = af_fence f) (attempts db) = Some a"
    and c: "jb_current_attempt j = af_attempt f" "at_state a = ''running''" "now < at_lease_deadline a"
    by (auto simp: active_def raise_if_Inr split: option.splits)
  have j: "j \<in> set (jobs db)" "jb_id j = af_job_id f" and a: "a \<in> set (attempts db)" "at_fence a = af_fence f"
    using f by (auto simp: find_Some_iff)
  from gen obtain b where b: "b \<in> set (attempts db)" "at_fence b = af_fence f"
    "attempt_key b = (af_job_id f, af_attempt f)" by (auto simp: genuine_def)
  have "b = a" using job_inv_keys(2) [OF inv] a b distinct_map_unique by metis
  then have key: "attempt_key a = (jb_id j, jb_current_attempt j)" using b(3) j(2) c(1) by simp
  then have "jb_state j = ''running''" using running_attempt_current(2) [OF inv a(1) c(2) j(1)] by simp
  with j a key c show ?thesis by simp
qed

text \<open>Updating by fence and updating by attempt number reach the same row.\<close>

lemma update_fence_attempt:
  assumes inv: "job_inv db" and a: "a \<in> set (attempts db)"
  shows "update_fence (at_fence a) g db = update_attempt (at_job_id a) (at_attempt a) g db"
proof -
  have "at_fence x = at_fence a \<longleftrightarrow> at_job_id x = at_job_id a \<and> at_attempt x = at_attempt a"
    if "x \<in> set (attempts db)" for x
    using distinct_map_unique [OF job_inv_keys(2) [OF inv] that a]
      distinct_map_unique [OF job_inv_keys(3) [OF inv] that a] by auto
  then show ?thesis by (simp add: update_fence_def update_attempt_def cong: map_cong)
qed

lemma finish_cases:
  assumes inv: "job_inv db" and gen: "genuine db f"
    and fin: "finish redact (t1, t2) db f st result reason = Inr db'"
  shows "\<exists>j a. active t1 db f = Inr (j, a) \<and>
    db' = put_job (update_attempt (jb_id j) (jb_current_attempt j) (\<lambda>x. x\<lparr>at_state := st\<rparr>) db)
      (j\<lparr>jb_state := st, jb_result := result,
         jb_status_reason := (case reason of None \<Rightarrow> None
           | Some r \<Rightarrow> if r = [] then None else Some (take 1024 (redact r))),
         jb_updated_at := t2\<rparr>)"
proof -
  from fin obtain j a where act: "active t1 db f = Inr (j, a)"
    by (auto simp: finish_def rbind_Inr)
  with active_cases [OF inv gen act] update_fence_attempt [OF inv, of a] fin show ?thesis
    by (auto simp: finish_def Let_def)
qed

lemma job_inv_finish:
  assumes inv: "job_inv db" and gen: "genuine db f"
    and fin: "finish redact (t1, t2) db f st result reason = Inr db'"
    and st: "st \<in> job_states" "st \<noteq> ''running''"
  shows "job_inv db'"
proof -
  obtain j a where act: "active t1 db f = Inr (j, a)"
    and db': "db' = put_job (update_attempt (jb_id j) (jb_current_attempt j) (\<lambda>x. x\<lparr>at_state := st\<rparr>) db)
      (j\<lparr>jb_state := st, jb_result := result,
         jb_status_reason := (case reason of None \<Rightarrow> None
           | Some r \<Rightarrow> if r = [] then None else Some (take 1024 (redact r))),
         jb_updated_at := t2\<rparr>)"
    using finish_cases [OF inv gen fin] by blast
  from active_cases [OF inv gen act] have "j \<in> set (jobs db)" by simp
  then show ?thesis unfolding db' by (rule job_inv_update [OF inv]) (use st in simp_all)
qed

lemma heartbeat_cases:
  assumes inv: "job_inv db" and gen: "genuine db f" and hb: "heartbeat (t1, t2, t3) db f secs = Inr (db', f')"
  shows "\<exists>j a. active t1 db f = Inr (j, a) \<and> f' = f\<lparr>af_lease_deadline := t2 + seconds secs\<rparr> \<and>
    db' = put_job (update_attempt (jb_id j) (jb_current_attempt j)
      (\<lambda>x. x\<lparr>at_lease_deadline := t2 + seconds secs\<rparr>) db) (j\<lparr>jb_updated_at := t3\<rparr>)"
proof -
  from hb obtain j a where act: "active t1 db f = Inr (j, a)"
    by (auto simp: heartbeat_def rbind_Inr raise_if_Inr)
  with active_cases [OF inv gen act] update_fence_attempt [OF inv, of a] hb show ?thesis
    by (auto simp: heartbeat_def Let_def raise_if_Inr)
qed

lemma job_inv_heartbeat:
  assumes inv: "job_inv db" and gen: "genuine db f" and hb: "heartbeat (t1, t2, t3) db f secs = Inr (db', f')"
  shows "job_inv db'"
proof -
  obtain j a where act: "active t1 db f = Inr (j, a)"
    and db': "db' = put_job (update_attempt (jb_id j) (jb_current_attempt j)
      (\<lambda>x. x\<lparr>at_lease_deadline := t2 + seconds secs\<rparr>) db) (j\<lparr>jb_updated_at := t3\<rparr>)"
    using heartbeat_cases [OF assms] by blast
  note c = active_cases [OF inv gen act]
  show ?thesis unfolding db'
  proof (rule job_inv_update [OF inv])
    fix x assume x: "x \<in> set (attempts db)" "attempt_key x = (jb_id j, jb_current_attempt j)"
    then have "x = a" using c distinct_map_unique [OF job_inv_keys(3) [OF inv] x(1), of a] by simp
    with c show "at_state (x\<lparr>at_lease_deadline := t2 + seconds secs\<rparr>) = ''running'' \<longleftrightarrow>
        jb_state (j\<lparr>jb_updated_at := t3\<rparr>) = ''running''" by simp
  qed (use c in \<open>simp_all add: job_states_def\<close>)
qed

lemma quarantine_cases:
  assumes inv: "job_inv db" and q: "quarantine_unlinked redact locked now db reason = Inr (db', b)"
  shows "(db' = db \<and> \<not> b \<and> next_job locked now db = None) \<or>
    (\<exists>j. b \<and> next_job locked now db = Some j \<and>
       db' = put_job (update_attempt (jb_id j) (jb_current_attempt j)
         (\<lambda>a. if at_state a = ''running'' then a\<lparr>at_state := ''expired''\<rparr> else a) db)
         (j\<lparr>jb_state := ''waiting-for-operator'', jb_status_reason := Some (take 1024 (redact reason)),
            jb_updated_at := now\<rparr>))"
proof (cases "next_job locked now db")
  case None
  with q show ?thesis by (auto simp: quarantine_unlinked_def raise_if_Inr)
next
  case (Some j)
  with q update_attempt_id [OF inv] show ?thesis
    by (cases "jb_current_attempt j = 0") (auto simp: quarantine_unlinked_def raise_if_Inr Let_def)
qed

lemma job_inv_quarantine:
  assumes inv: "job_inv db" and q: "quarantine_unlinked redact locked now db reason = Inr (db', b)"
  shows "job_inv db'"
  using quarantine_cases [OF assms]
proof (elim disjE exE conjE)
  fix j assume j: "next_job locked now db = Some j"
    and db': "db' = put_job (update_attempt (jb_id j) (jb_current_attempt j)
         (\<lambda>a. if at_state a = ''running'' then a\<lparr>at_state := ''expired''\<rparr> else a) db)
         (j\<lparr>jb_state := ''waiting-for-operator'', jb_status_reason := Some (take 1024 (redact reason)),
            jb_updated_at := now\<rparr>)"
  show ?thesis unfolding db'
    by (rule job_inv_update [OF inv]) (use next_job_mem [OF j] in \<open>simp_all add: job_states_def\<close>)
qed (use inv in simp)
lemma resume_cases:
  assumes inv: "job_inv db" and r: "resume now db job_id = Inr db'"
  shows "\<exists>j \<in> set (jobs db). jb_id j = job_id \<and> jb_state j = ''waiting-for-operator'' \<and>
    db' = put_job db (j\<lparr>jb_state := ''queued'', jb_status_reason := None, jb_updated_at := now\<rparr>)"
proof -
  let ?hit = "\<lambda>j. jb_id j = job_id \<and> jb_state j = ''waiting-for-operator''"
  from r have one: "length (filter ?hit (jobs db)) = 1"
    and db': "db' = db\<lparr>jobs := map (\<lambda>j. if ?hit j
       then j\<lparr>jb_state := ''queued'', jb_status_reason := None, jb_updated_at := now\<rparr> else j) (jobs db)\<rparr>"
    by (auto simp: resume_def raise_if_Inr Let_def)
  from one obtain j where "j \<in> set (filter ?hit (jobs db))" by (cases "filter ?hit (jobs db)") auto
  then have j: "j \<in> set (jobs db)" "?hit j" by auto
  have "?hit i \<longleftrightarrow> jb_id i = job_id" "?hit i \<Longrightarrow> i = j" if "i \<in> set (jobs db)" for i
    using job_unique [OF inv that j(1)] j(2) by auto
  then have "db' = put_job db (j\<lparr>jb_state := ''queued'', jb_status_reason := None, jb_updated_at := now\<rparr>)"
    unfolding db' put_job_def using j(2) by (auto intro!: map_cong job_db.equality)
  with j show ?thesis by blast
qed

lemma job_inv_resume:
  assumes inv: "job_inv db" and r: "resume now db job_id = Inr db'"
  shows "job_inv db'"
proof -
  obtain j where j: "j \<in> set (jobs db)" "jb_state j = ''waiting-for-operator''"
    and db': "db' = put_job db (j\<lparr>jb_state := ''queued'', jb_status_reason := None, jb_updated_at := now\<rparr>)"
    using resume_cases [OF assms] by blast
  have "update_attempt (jb_id j) (jb_current_attempt j) (\<lambda>a. a) db = db" by (simp add: update_attempt_def)
  moreover have "job_inv (put_job (update_attempt (jb_id j) (jb_current_attempt j) (\<lambda>a. a) db)
      (j\<lparr>jb_state := ''queued'', jb_status_reason := None, jb_updated_at := now\<rparr>))"
  proof (rule job_inv_update [OF inv j(1)])
    fix a assume a: "a \<in> set (attempts db)" "attempt_key a = (jb_id j, jb_current_attempt j)"
    then have "at_state a \<noteq> ''running''" using running_attempt_current(2) [OF inv a(1) _ j(1)] j(2) by auto
    then show "at_state a = ''running'' \<longleftrightarrow>
        jb_state (j\<lparr>jb_state := ''queued'', jb_status_reason := None, jb_updated_at := now\<rparr>) = ''running''" by simp
  qed (simp_all add: job_states_def)
  ultimately show ?thesis by (simp add: db')
qed

lemmas report_defs = succeed_def fail_def wait_for_operator_def

lemma finish_forms:
  "succeed sha redact clk db f result = Inr db' \<Longrightarrow> \<exists>r. finish redact clk db f ''succeeded'' r None = Inr db'"
  "fail redact clk db f reason = Inr db' \<Longrightarrow> finish redact clk db f ''failed'' None (Some reason) = Inr db'"
  "wait_for_operator redact clk db f reason = Inr db' \<Longrightarrow>
     finish redact clk db f ''waiting-for-operator'' None (Some reason) = Inr db'"
  by (auto simp: report_defs rbind_Inr)

lemma job_inv_step: "job_step db db' \<Longrightarrow> job_inv db \<Longrightarrow> job_inv db'"
proof (induction rule: job_step.induct)
  case (enqueue sha i r now db kind actor commit tgts payload rid rec db' j)
  then show ?case using enqueue_cases new_job_fields job_inv_insert by metis
next
  case (guarded sha i r now b1 b2 db kind actor commit tgts payload rid rec db' j)
  then show ?case using guarded_cases new_job_fields job_inv_insert by metis
next
  case (claim fence locked now db w secs db' res)
  show ?case by (rule job_inv_claim [OF claim.prems claim.hyps])
next
  case (quarantine redact locked now db reason db' b)
  show ?case by (rule job_inv_quarantine [OF quarantine.prems quarantine.hyps])
next
  case (heartbeat db f clock secs db' f')
  then show ?case by (cases clock) (auto intro: job_inv_heartbeat)
next
  case (succeed db f sha redact clk result db')
  then obtain r where "finish redact (fst clk, snd clk) db f ''succeeded'' r None = Inr db'"
    using finish_forms(1) by fastforce
  then show ?case by (rule job_inv_finish [OF succeed.prems succeed.hyps(1)]) (simp_all add: job_states_def)
next
  case (fail db f redact clk reason db')
  then have "finish redact (fst clk, snd clk) db f ''failed'' None (Some reason) = Inr db'"
    using finish_forms(2) by fastforce
  then show ?case by (rule job_inv_finish [OF fail.prems fail.hyps(1)]) (simp_all add: job_states_def)
next
  case (wait db f redact clk reason db')
  then have "finish redact (fst clk, snd clk) db f ''waiting-for-operator'' None (Some reason) = Inr db'"
    using finish_forms(3) by fastforce
  then show ?case by (rule job_inv_finish [OF wait.prems wait.hyps(1)]) (simp_all add: job_states_def)
next
  case (resume now db job_id db')
  show ?case by (rule job_inv_resume [OF resume.prems resume.hyps])
qed

section \<open>What a step leaves alone\<close>

definition same_attempt :: "job_attempt \<Rightarrow> job_attempt \<Rightarrow> bool" where
  "same_attempt a b \<longleftrightarrow> at_fence a = at_fence b \<and> attempt_key a = attempt_key b \<and>
     at_worker_id a = at_worker_id b \<and> (at_state b = ''running'' \<longrightarrow> at_state a = ''running'')"

text \<open>
  The identity of an attempt never changes, an attempt that has stopped running does not run again,
  finished jobs keep their rows, and a new attempt has a new fence.
\<close>

definition job_frame :: "job_db \<Rightarrow> job_db \<Rightarrow> bool" where
  "job_frame db db' \<longleftrightarrow>
     (\<forall>a \<in> set (attempts db). \<exists>b \<in> set (attempts db'). same_attempt a b) \<and>
     (\<forall>b \<in> set (attempts db'). (\<exists>a \<in> set (attempts db). same_attempt a b) \<or>
        at_fence b \<notin> at_fence ` set (attempts db)) \<and>
     (\<forall>j \<in> set (jobs db). jb_state j \<in> {''succeeded'', ''failed''} \<longrightarrow> j \<in> set (jobs db'))"

lemma same_attempt_refl [simp]: "same_attempt a a"
  by (simp add: same_attempt_def)

lemma put_job_mem:
  assumes "i \<in> set (jobs db)" "jb_id i \<noteq> jb_id j'"
  shows "i \<in> set (jobs (put_job db j'))"
  using assms by (force simp: put_job_def)

lemma job_frame_update:
  assumes inv: "job_inv db" and j: "j \<in> set (jobs db)" "jb_state j \<notin> {''succeeded'', ''failed''}" "jb_id j' = jb_id j"
    and g: "\<And>a. same_attempt a (g a)"
  shows "job_frame db (put_job (update_attempt (jb_id j) n g db) j')"
proof -
  define u where "u a = (if at_job_id a = jb_id j \<and> at_attempt a = n then g a else a)" for a
  have u: "same_attempt a (u a)" for a using g by (simp add: u_def)
  have ats: "attempts (put_job (update_attempt (jb_id j) n g db) j') = map u (attempts db)"
    by (simp add: put_job_def update_attempt_def u_def)
  have "i \<in> set (jobs (put_job (update_attempt (jb_id j) n g db) j'))"
    if "i \<in> set (jobs db)" "jb_state i \<in> {''succeeded'', ''failed''}" for i
  proof (rule put_job_mem)
    show "jb_id i \<noteq> jb_id j'" using that j job_unique [OF inv that(1) j(1)] by auto
  qed (use that in \<open>simp add: update_attempt_def\<close>)
  then show ?thesis using u unfolding job_frame_def ats set_map by blast
qed

lemma job_frame_jobs: "attempts db' = attempts db \<Longrightarrow> set (jobs db) \<subseteq> set (jobs db') \<Longrightarrow> job_frame db db'"
  by (auto simp: job_frame_def intro: same_attempt_refl)

lemma eligible_open:
  assumes inv: "job_inv db" and j: "j \<in> set (jobs db)" "eligible now db j"
  shows "jb_state j \<notin> {''succeeded'', ''failed''}"
proof -
  from j(2) consider "jb_state j = ''queued''"
    | a where "a \<in> set (attempts db)" "at_job_id a = jb_id j" "at_state a = ''running''"
    by (auto simp: eligible_def list_ex_iff)
  then show ?thesis
    by cases (use running_attempt_current(2) [OF inv _ _ j(1)] in auto)
qed

lemma job_frame_claim:
  assumes inv: "job_inv db" and claim: "claim fence locked now db w secs = Inr (db', r)"
  shows "job_frame db db'"
  using claim_cases [OF assms]
proof (elim disjE exE conjE)
  fix j
  assume n: "next_job locked now db = Some j"
    and ins: "insert_attempt (put_job (expire_current j db) (claimed_job now j))
         (claimed_attempt fence w (now + seconds secs) (claimed_job now j)) = Inr db'"
  let ?m = "put_job (expire_current j db) (claimed_job now j)"
  let ?a = "claimed_attempt fence w (now + seconds secs) (claimed_job now j)"
  have j: "j \<in> set (jobs db)" "jb_state j \<notin> {''succeeded'', ''failed''}"
    using next_job_mem [OF n] eligible_open [OF inv] by blast+
  have fr: "job_frame db ?m" unfolding expire_current_def
    by (rule job_frame_update [OF inv j]) (simp_all add: claimed_job_def same_attempt_def)
  have db': "jobs db' = jobs ?m" "attempts db' = attempts ?m @ [?a]"
    and new: "at_fence ?a \<notin> at_fence ` set (attempts ?m)"
    using ins by (auto simp: insert_attempt_def split: if_splits)
  have "at_fence ` set (attempts db) \<subseteq> at_fence ` set (attempts ?m)"
    using fr by (force simp: job_frame_def same_attempt_def)
  with new have "at_fence ?a \<notin> at_fence ` set (attempts db)" by blast
  with fr show ?thesis unfolding job_frame_def db' by auto
qed (simp add: job_frame_jobs)

lemma job_frame_finish:
  assumes inv: "job_inv db" and gen: "genuine db f"
    and fin: "finish redact clk db f st result reason = Inr db'" and st: "st \<noteq> ''running''"
  shows "job_frame db db'"
proof -
  obtain t1 t2 where clk: "clk = (t1, t2)" by (cases clk)
  obtain j a where act: "active t1 db f = Inr (j, a)"
    and db': "db' = put_job (update_attempt (jb_id j) (jb_current_attempt j) (\<lambda>x. x\<lparr>at_state := st\<rparr>) db)
      (j\<lparr>jb_state := st, jb_result := result,
         jb_status_reason := (case reason of None \<Rightarrow> None
           | Some r \<Rightarrow> if r = [] then None else Some (take 1024 (redact r))),
         jb_updated_at := t2\<rparr>)"
    using finish_cases [OF inv gen fin [unfolded clk]] by blast
  note c = active_cases [OF inv gen act]
  show ?thesis unfolding db'
    by (rule job_frame_update [OF inv]) (use c st in \<open>simp_all add: same_attempt_def\<close>)
qed

lemma job_frame_step: "job_step db db' \<Longrightarrow> job_inv db \<Longrightarrow> job_frame db db'"
proof (induction rule: job_step.induct)
  case (enqueue sha i r now db kind actor commit tgts payload rid rec db' j)
  then show ?case by (auto dest!: enqueue_cases insert_job_cases intro!: job_frame_jobs)
next
  case (guarded sha i r now b1 b2 db kind actor commit tgts payload rid rec db' j)
  then show ?case by (auto dest!: guarded_cases insert_job_cases intro!: job_frame_jobs)
next
  case (claim fence locked now db w secs db' res)
  show ?case by (rule job_frame_claim [OF claim.prems claim.hyps])
next
  case (quarantine redact locked now db reason db' b)
  from quarantine_cases [OF quarantine.prems quarantine.hyps] show ?case
  proof (elim disjE exE conjE)
    fix j assume j: "next_job locked now db = Some j"
      and db': "db' = put_job (update_attempt (jb_id j) (jb_current_attempt j)
         (\<lambda>a. if at_state a = ''running'' then a\<lparr>at_state := ''expired''\<rparr> else a) db)
         (j\<lparr>jb_state := ''waiting-for-operator'', jb_status_reason := Some (take 1024 (redact reason)),
            jb_updated_at := now\<rparr>)"
    have "j \<in> set (jobs db)" "jb_state j \<notin> {''succeeded'', ''failed''}"
      using next_job_mem [OF j] eligible_open [OF quarantine.prems] by blast+
    then show ?thesis unfolding db'
      by (rule job_frame_update [OF quarantine.prems]) (simp_all add: same_attempt_def)
  qed (simp add: job_frame_jobs)
next
  case (heartbeat db f clock secs db' f')
  obtain t1 t2 t3 where clock: "clock = (t1, t2, t3)" by (cases clock) auto
  obtain j a where act: "active t1 db f = Inr (j, a)"
    and db': "db' = put_job (update_attempt (jb_id j) (jb_current_attempt j)
      (\<lambda>x. x\<lparr>at_lease_deadline := t2 + seconds secs\<rparr>) db) (j\<lparr>jb_updated_at := t3\<rparr>)"
    using heartbeat_cases [OF heartbeat.prems heartbeat.hyps [unfolded clock]] by blast
  show ?case unfolding db'
    by (rule job_frame_update [OF heartbeat.prems])
      (use active_cases [OF heartbeat.prems heartbeat.hyps(1) act] in \<open>simp_all add: same_attempt_def\<close>)
next
  case (succeed db f sha redact clk result db')
  then obtain r where "finish redact clk db f ''succeeded'' r None = Inr db'"
    using finish_forms(1) by blast
  then show ?case by (rule job_frame_finish [OF succeed.prems succeed.hyps(1)]) simp
next
  case (fail db f redact clk reason db')
  show ?case
    by (rule job_frame_finish [OF fail.prems fail.hyps(1) finish_forms(2) [OF fail.hyps(2)]]) simp
next
  case (wait db f redact clk reason db')
  show ?case
    by (rule job_frame_finish [OF wait.prems wait.hyps(1) finish_forms(3) [OF wait.hyps(2)]]) simp
next
  case (resume now db job_id db')
  obtain j where j: "j \<in> set (jobs db)" "jb_state j = ''waiting-for-operator''"
    and db': "db' = put_job db (j\<lparr>jb_state := ''queued'', jb_status_reason := None, jb_updated_at := now\<rparr>)"
    using resume_cases [OF resume.prems resume.hyps] by blast
  have "update_attempt (jb_id j) 0 (\<lambda>a. a) db = db" by (simp add: update_attempt_def)
  with job_frame_update [OF resume.prems j(1), of _ "\<lambda>a. a" 0] j db' show ?case by simp
qed
section \<open>The queue keeps the fencing contract\<close>

definition job_owns :: "job_db \<Rightarrow> string \<Rightarrow> string \<Rightarrow> bool" where
  "job_owns db f r \<longleftrightarrow> (\<exists>a \<in> set (attempts db). at_fence a = f \<and> at_job_id a = r \<and> at_state a = ''running'')"

definition job_issued :: "job_db \<Rightarrow> string \<Rightarrow> bool" where
  "job_issued db f \<longleftrightarrow> f \<in> at_fence ` set (attempts db)"

interpretation job_fence: fenced_resource job_step job_inv job_owns job_issued
proof unfold_locales
  show "job_inv s \<Longrightarrow> job_step s t \<Longrightarrow> job_inv t" for s t by (rule job_inv_step)
  show "job_owns s f r \<Longrightarrow> job_issued s f" for s f r by (auto simp: job_owns_def job_issued_def)
  show "f = g" if "job_inv s" "job_owns s f r" "job_owns s g r" for s f r g
  proof -
    from that(2,3) obtain a b where a: "a \<in> set (attempts s)" "at_fence a = f" "at_job_id a = r" "at_state a = ''running''"
      and b: "b \<in> set (attempts s)" "at_fence b = g" "at_job_id b = r" "at_state b = ''running''"
      by (auto simp: job_owns_def)
    from job_inv_attempt [OF that(1) a(1)] obtain j where j: "j \<in> set (jobs s)" "jb_id j = r"
      using a(3) by (auto simp: attempt_ok_def)
    have "attempt_key a = attempt_key b"
      using running_attempt_current(1) [OF that(1) _ _ j(1)] a b j(2) by metis
    then have "a = b" using distinct_map_unique [OF job_inv_keys(3) [OF that(1)] a(1) b(1)] by simp
    with a b show ?thesis by simp
  qed
  show "job_issued t f" if "job_inv s" "job_step s t" "job_issued s f" for s t f
    using job_frame_step [OF that(2,1)] that(3) by (force simp: job_frame_def job_issued_def same_attempt_def)
  show "\<not> job_issued s f" if "job_inv s" "job_step s t" "job_owns t f r" "\<not> job_owns s f r" for s t f r
  proof -
    from that(3) obtain b where b: "b \<in> set (attempts t)" "at_fence b = f" "at_job_id b = r" "at_state b = ''running''"
      by (auto simp: job_owns_def)
    have "\<not> (\<exists>a \<in> set (attempts s). same_attempt a b)"
      using that(4) b by (auto simp: job_owns_def same_attempt_def)
    with job_frame_step [OF that(2,1)] b(1,2) show ?thesis by (auto simp: job_frame_def job_issued_def)
  qed
qed

lemma job_run_finished:
  assumes "job_step\<^sup>*\<^sup>* s t" "job_inv s" "j \<in> set (jobs s)" "jb_state j \<in> {''succeeded'', ''failed''}"
  shows "j \<in> set (jobs t)"
  using assms
proof (induction rule: rtranclp_induct)
  case (step t u)
  then have "job_frame t u" using job_frame_step job_fence.inv_run by blast
  with step show ?case by (auto simp: job_frame_def)
qed

lemma active_owns: "active now db f = Inr (j, a) \<Longrightarrow> job_owns db (af_fence f) (at_job_id a)"
  by (auto simp: active_def job_owns_def raise_if_Inr find_Some_iff split: option.splits)

lemma job_inv_empty: "job_inv \<lparr>jobs = [], attempts = [], reconciliations = rs\<rparr>"
  by (simp add: job_inv_def)

text \<open>Right after a claim, its fence owns the job.\<close>

lemma claim_owns:
  assumes "job_inv db" "claim fence locked now db w secs = Inr (db', Some f)"
  shows "job_owns db' (af_fence f) (af_job_id f) \<and> genuine db' f"
  using claim_cases [OF assms]
  by (auto simp: insert_attempt_def job_owns_def genuine_def claimed_attempt_def claimed_fence_def split: if_splits)

lemma stale_report:
  assumes "\<And>r. \<not> job_owns db (af_fence f) r"
  shows "active now db f = Inl StaleAttempt"
proof (cases "active now db f")
  case (Inl e)
  then show ?thesis by (auto simp: active_def raise_if_def split: option.splits if_splits)
next
  case (Inr p)
  with active_owns [of now db f "fst p" "snd p"] assms show ?thesis by simp
qed

lemma stale_reports:
  assumes "\<And>now. active now db f = Inl StaleAttempt"
  shows "0 < secs \<Longrightarrow> heartbeat clock db f secs = Inl StaleAttempt"
    and "fail redact clk db f reason = Inl StaleAttempt"
    and "wait_for_operator redact clk db f reason = Inl StaleAttempt"
    and "canonical_payload sha None result = Inr p \<Longrightarrow> succeed sha redact clk db f result = Inl StaleAttempt"
  using assms by (auto simp: heartbeat_def report_defs finish_def split: prod.splits)
section \<open>Payloads\<close>

text \<open>The paths of all keys of a document, in the order \<^verbatim>\<open>inspect\<close> visits them.\<close>

primrec key_paths :: "json \<Rightarrow> string list \<Rightarrow> string list list" where
  "key_paths JNull = (\<lambda>path. [])"
| "key_paths (JBool b) = (\<lambda>path. [])"
| "key_paths (JInt i) = (\<lambda>path. [])"
| "key_paths (JStr s) = (\<lambda>path. [])"
| "key_paths (JList vs) = (\<lambda>path. concat (map (\<lambda>f. f path) (map key_paths vs)))"
| "key_paths (JObj kvs) = (\<lambda>path. concat (map (\<lambda>(k, f). (path @ [k]) # f (path @ [k]))
     (map (map_prod id key_paths) kvs)))"

lemma has_sensitive_obj:
  "has_sensitive safe (JObj kvs) path \<longleftrightarrow>
     (\<exists>e \<in> set kvs. sensitive (fst e) \<and> path @ [fst e] \<notin> set safe \<or> has_sensitive safe (snd e) (path @ [fst e]))"
  by (simp add: list_ex_iff split_def map_prod_def)

lemma key_paths_obj:
  "set (key_paths (JObj kvs) path) =
     (\<Union>e \<in> set kvs. insert (path @ [fst e]) (set (key_paths (snd e) (path @ [fst e]))))"
  by (simp add: split_def map_prod_def)

lemma has_sensitive_paths:
  "has_sensitive safe v path \<longleftrightarrow> (\<exists>p \<in> set (key_paths v path). sensitive (last p) \<and> p \<notin> set safe)"
proof (induction v arbitrary: path)
  case (JList vs)
  then show ?case by (auto simp: list_ex_iff)
next
  case (JObj kvs)
  have "has_sensitive safe (snd e) q \<longleftrightarrow> (\<exists>p \<in> set (key_paths (snd e) q). sensitive (last p) \<and> p \<notin> set safe)"
    if "e \<in> set kvs" for e q
    using JObj that by (cases e) auto
  then show ?case unfolding has_sensitive_obj key_paths_obj by (simp cong: bex_cong)
qed auto

lemma validated_quota_paths:
  assumes "validated_quota_fields sha kind payload = Inr safe" "p \<in> set safe"
  shows "kind = Some ''reconcile'' \<and> (\<exists>alias. p = [''routes'', alias, ''quota'', ''tokens_per_minute''])"
proof (cases "kind = Some ''reconcile'' \<and> is_obj (jget payload ''routes'')")
  case True
  then obtain routes where r: "jget payload ''routes'' = JObj routes"
    by (cases "jget payload ''routes''") (auto simp: is_obj_def)
  with True assms(1) obtain ps where
    ps: "map_r (\<lambda>(alias, raw). rbind (route_quota sha raw) (\<lambda>ok.
        Inr (if ok then [[''routes'', alias, ''quota'', ''tokens_per_minute'']] else []))) routes = Inr ps"
    and safe: "safe = concat ps"
    by (auto simp: validated_quota_fields_def rbind_Inr)
  from assms(2) safe obtain q where "q \<in> set ps" "p \<in> set q" by auto
  with map_r_Inr_set [OF ps] True show ?thesis by (fastforce simp: rbind_Inr split: if_splits)
next
  case False
  with assms show ?thesis
    by (auto simp: validated_quota_fields_def is_obj_def split: if_splits json.splits)
qed

lemma canonical_payload_Inr:
  assumes "canonical_payload sha kind payload = Inr (clean, encoded)" and wf: "json_wf (JObj payload)"
  shows "clean = json_canon (JObj payload)" "encoded = utf8 (json_dumps True (JObj payload))"
    "length encoded \<le> max_payload"
    "\<exists>safe. validated_quota_fields sha kind payload = Inr safe \<and> \<not> has_sensitive safe (JObj payload) []"
  using assms json_loads_dumps [OF wf, of True]
  by (auto simp: canonical_payload_def rbind_Inr raise_if_Inr Let_def json_dumps_canon
      simp del: json_canon.simps json_dumps.simps)

section \<open>Claims and fences\<close>

lemma expired_attempts:
  "map at_fence (attempts (put_job (expire_current j db) i)) = map at_fence (attempts db)"
  "map attempt_key (attempts (put_job (expire_current j db) i)) = map attempt_key (attempts db)"
  by (simp_all add: put_job_def expire_current_def update_attempt_def)

lemma expired_attempt_sets:
  "at_fence ` set (attempts (put_job (expire_current j db) i)) = at_fence ` set (attempts db)"
  "attempt_key ` set (attempts (put_job (expire_current j db) i)) = attempt_key ` set (attempts db)"
  using expired_attempts [of j db i] by (metis set_map)+

lemma claim_fence_fresh:
  assumes "job_inv db" "claim fence locked now db w secs = Inr (db', Some f)"
  shows "\<not> job_issued db (af_fence f)"
proof -
  from claim_cases [OF assms] obtain j where
    "insert_attempt (put_job (expire_current j db) (claimed_job now j))
       (claimed_attempt fence w (now + seconds secs) (claimed_job now j)) = Inr db'"
    "f = claimed_fence fence w (now + seconds secs) (claimed_job now j)" by auto
  then show ?thesis
    by (simp add: insert_attempt_def job_issued_def claimed_attempt_def claimed_fence_def
        expired_attempt_sets split: if_splits)
qed

lemma job_owns_unique:
  assumes "job_inv db" "job_owns db f r" "job_owns db f r'"
  shows "r = r'"
proof -
  from assms(2,3) obtain a b where "a \<in> set (attempts db)" "at_fence a = f" "at_job_id a = r"
    "b \<in> set (attempts db)" "at_fence b = f" "at_job_id b = r'" by (auto simp: job_owns_def)
  then show ?thesis using distinct_map_unique [OF job_inv_keys(2) [OF assms(1)], of a b] by simp
qed

lemma next_job_oldest:
  assumes "i \<in> set (jobs db)" "eligible now db i" "jb_id i \<notin> set locked"
  shows "\<exists>j. next_job locked now db = Some j \<and> (jb_created_at j, jb_id j) \<le> (jb_created_at i, jb_id i)"
proof -
  let ?k = "\<lambda>j. (jb_created_at j, jb_id j)"
  let ?c = "sort_key ?k (filter (\<lambda>j. eligible now db j \<and> jb_id j \<notin> set locked) (jobs db))"
  have i: "i \<in> set ?c" using assms by simp
  then obtain j js where c: "?c = j # js" by (cases ?c) auto
  have "sorted (map ?k ?c)" by simp
  with i have "?k j \<le> ?k i" unfolding c by auto
  moreover have "next_job locked now db = Some j" using c by (simp add: next_job_def)
  ultimately show ?thesis by blast
qed

lemma claim_insert_ok:
  assumes inv: "job_inv db" and j: "j \<in> set (jobs db)" and new: "\<not> job_issued db fence"
  shows "\<exists>db'. insert_attempt (put_job (expire_current j db) (claimed_job now j))
      (claimed_attempt fence w deadline (claimed_job now j)) = Inr db'"
proof -
  have "(jb_id j, jb_current_attempt j + 1) \<notin> attempt_key ` set (attempts db)"
  proof
    assume "(jb_id j, jb_current_attempt j + 1) \<in> attempt_key ` set (attempts db)"
    then obtain a where a: "a \<in> set (attempts db)" "attempt_key a = (jb_id j, jb_current_attempt j + 1)" by auto
    then obtain i where "i \<in> set (jobs db)" "jb_id i = jb_id j" "at_attempt a \<le> jb_current_attempt i"
      using job_inv_attempt [OF inv a(1)] by (auto simp: attempt_ok_def)
    then show False using job_unique [OF inv _ j] a(2) by force
  qed
  with new show ?thesis
    by (simp add: expired_attempt_sets insert_attempt_def claimed_attempt_def claimed_job_def job_issued_def)
qed

end
