(* ===== verification/Job_Properties.thy ===== *)
theory Job_Properties
  imports Job_Queue
begin

text \<open>
  The properties of the job queue (\<^verbatim>\<open>jobs.py\<close>) over whole runs, with a concrete run as their witness.
\<close>

section \<open>Properties\<close>

abbreviation empty_queue :: "string list \<Rightarrow> job_db" where
  "empty_queue rs \<equiv> \<lparr>jobs = [], attempts = [], reconciliations = rs\<rparr>"

lemmas job_run_inv = job_fence.inv_run [OF _ job_inv_empty]

text \<open>A concrete run: two jobs are queued, the first is claimed, its lease runs out, it is claimed again,
  and the second attempt fails.\<close>

definition ex_payload :: "(string, json) dict" where
  "ex_payload = [(''b'', JInt 1), (''a'', JInt 2)]"

definition ex_enqueue :: "string \<Rightarrow> int \<Rightarrow> job_db \<Rightarrow> job_error + job_db \<times> job" where
  "ex_enqueue i now db = enqueue (\<lambda>s. ''d'') i (''r'' @ i) now db ''probe'' ''ops'' ''c0'' [''n1''] ex_payload None None"

definition ex_job :: "string \<Rightarrow> int \<Rightarrow> string \<Rightarrow> string option \<Rightarrow> nat \<Rightarrow> int \<Rightarrow> job" where
  "ex_job i t st why n upd = \<lparr>jb_id = i, jb_request_id = ''r'' @ i, jb_kind = ''probe'', jb_state = st,
     jb_actor = ''ops'', jb_base_commit = ''c0'', jb_targets = [''n1''], jb_payload_digest = ''d'',
     jb_payload = JObj [(''a'', JInt 2), (''b'', JInt 1)], jb_result = None, jb_status_reason = why,
     jb_current_attempt = n, jb_created_at = t, jb_updated_at = upd, jb_reconciliation_id = None\<rparr>"

definition ex_attempt :: "string \<Rightarrow> nat \<Rightarrow> string \<Rightarrow> int \<Rightarrow> string \<Rightarrow> job_attempt" where
  "ex_attempt f n w deadline st = \<lparr>at_job_id = ''j1'', at_attempt = n, at_fence = f, at_worker_id = w,
     at_lease_deadline = deadline, at_state = st\<rparr>"

definition ex_fence :: "string \<Rightarrow> nat \<Rightarrow> string \<Rightarrow> int \<Rightarrow> attempt_fence" where
  "ex_fence f n w deadline = \<lparr>af_job_id = ''j1'', af_attempt = n, af_fence = f, af_worker_id = w,
     af_lease_deadline = deadline, af_kind = ''probe'', af_payload = JObj [(''a'', JInt 2), (''b'', JInt 1)],
     af_base_commit = ''c0'', af_targets = [''n1'']\<rparr>"

definition ex_queue :: "job \<Rightarrow> job_attempt list \<Rightarrow> job_db" where
  "ex_queue j ats = \<lparr>jobs = [j, ex_job ''j2'' 150 ''queued'' None 0 150], attempts = ats, reconciliations = []\<rparr>"

definition ex_q0 :: job_db where
  "ex_q0 = \<lparr>jobs = [ex_job ''j1'' 100 ''queued'' None 0 100], attempts = [], reconciliations = []\<rparr>"

definition ex_q1 :: job_db where
  "ex_q1 = ex_queue (ex_job ''j1'' 100 ''queued'' None 0 100) []"

definition ex_q2 :: job_db where
  "ex_q2 = ex_queue (ex_job ''j1'' 100 ''running'' None 1 200) [ex_attempt ''f1'' 1 ''w1'' 60000200 ''running'']"

definition ex_q3 :: job_db where
  "ex_q3 = ex_queue (ex_job ''j1'' 100 ''running'' None 2 60000300)
     [ex_attempt ''f1'' 1 ''w1'' 60000200 ''expired'', ex_attempt ''f2'' 2 ''w2'' 120000300 ''running'']"

definition ex_q4 :: job_db where
  "ex_q4 = ex_queue (ex_job ''j1'' 100 ''failed'' (Some ''boom'') 2 60000401)
     [ex_attempt ''f1'' 1 ''w1'' 60000200 ''expired'', ex_attempt ''f2'' 2 ''w2'' 120000300 ''failed'']"

lemma canonical_payload_intro:
  assumes "json_wf (JObj p)" "validated_quota_fields sha kind p = Inr safe"
    "\<not> has_sensitive safe (JObj p) []" "length (utf8 (json_dumps True (JObj p))) = n" "n \<le> max_payload"
  shows "canonical_payload sha kind p = Inr (json_canon (JObj p), utf8 (json_dumps True (JObj p)))"
  using assms json_loads_dumps [OF assms(1), of True]
  by (simp add: canonical_payload_def json_dumps_canon del: json_canon.simps json_dumps.simps)

lemma ex_payload_ok:
  assumes "kind \<noteq> Some ''reconcile''"
  shows "canonical_payload sha kind ex_payload =
    Inr (JObj [(''a'', JInt 2), (''b'', JInt 1)], utf8 (json_dumps True (JObj ex_payload)))"
proof -
  have c: "json_canon (JObj ex_payload) = JObj [(''a'', JInt 2), (''b'', JInt 1)]" by code_simp
  have "canonical_payload sha kind ex_payload =
      Inr (json_canon (JObj ex_payload), utf8 (json_dumps True (JObj ex_payload)))"
  proof (rule canonical_payload_intro)
    show "json_wf (JObj ex_payload)" by (simp add: ex_payload_def)
    show "validated_quota_fields sha kind ex_payload = Inr []"
      using assms by (simp add: validated_quota_fields_def)
    show "\<not> has_sensitive [] (JObj ex_payload) []" by code_simp
    show "length (utf8 (json_dumps True (JObj ex_payload))) = 13" by code_simp
  qed (simp add: max_payload_def)
  then show ?thesis by (simp only: c)
qed

lemma ex_new_job:
  "new_job (\<lambda>s. ''d'') i (''r'' @ i) t ''probe'' ''ops'' ''c0'' [''n1''] ex_payload None None =
     Inr (ex_job i t ''queued'' None 0 t)"
  by (simp add: new_job_def ex_payload_ok [of "Some ''probe''"] ex_job_def normalized_reconciliation_def is_blank_iff py_space_def)

lemmas ex_queue_defs = ex_q0_def ex_q1_def ex_q2_def ex_q3_def ex_q4_def ex_queue_def ex_job_def
  ex_attempt_def ex_fence_def

lemma ex_call_1: "ex_enqueue ''j1'' 100 (empty_queue []) = Inr (ex_q0, ex_job ''j1'' 100 ''queued'' None 0 100)"
  unfolding ex_enqueue_def enqueue_def ex_new_job by (simp add: insert_job_def ex_queue_defs)

lemma ex_call_2: "ex_enqueue ''j2'' 150 ex_q0 = Inr (ex_q1, ex_job ''j2'' 150 ''queued'' None 0 150)"
  unfolding ex_enqueue_def enqueue_def ex_new_job by (simp add: insert_job_def ex_queue_defs)

lemma ex_call_3: "claim ''f1'' [] 200 ex_q1 ''w1'' 60 = Inr (ex_q2, Some (ex_fence ''f1'' 1 ''w1'' 60000200))"
  by code_simp

lemma ex_call_4:
  "claim ''f2'' [] 60000300 ex_q2 ''w2'' 60 = Inr (ex_q3, Some (ex_fence ''f2'' 2 ''w2'' 120000300))"
  by code_simp

lemma ex_call_5:
  "fail (\<lambda>s. s) (60000400, 60000401) ex_q3 (ex_fence ''f2'' 2 ''w2'' 120000300) ''boom'' = Inr ex_q4"
  by code_simp

lemmas ex_queue_calls = ex_call_1 ex_call_2 ex_call_3 ex_call_4 ex_call_5

lemma ex_fence_genuine:
  "genuine ex_q3 (ex_fence ''f2'' 2 ''w2'' 120000300)" "genuine ex_q2 (ex_fence ''f1'' 1 ''w1'' 60000200)"
  by (simp_all add: genuine_def ex_queue_defs)

lemma ex_queue_run:
  "job_step\<^sup>*\<^sup>* (empty_queue []) ex_q1" "job_step\<^sup>*\<^sup>* (empty_queue []) ex_q2"
  "job_step\<^sup>*\<^sup>* (empty_queue []) ex_q3" "job_step\<^sup>*\<^sup>* (empty_queue []) ex_q4"
proof -
  note e = ex_queue_calls(1,2) [unfolded ex_enqueue_def, THEN job_step.enqueue]
  show 1: "job_step\<^sup>*\<^sup>* (empty_queue []) ex_q1"
    by (rule rtranclp.rtrancl_into_rtrancl [OF r_into_rtranclp [where r = job_step, OF e(1)] e(2)])
  show 2: "job_step\<^sup>*\<^sup>* (empty_queue []) ex_q2"
    by (rule rtranclp.rtrancl_into_rtrancl [OF 1 job_step.claim [OF ex_queue_calls(3)]])
  show 3: "job_step\<^sup>*\<^sup>* (empty_queue []) ex_q3"
    by (rule rtranclp.rtrancl_into_rtrancl [OF 2 job_step.claim [OF ex_queue_calls(4)]])
  show "job_step\<^sup>*\<^sup>* (empty_queue []) ex_q4"
    by (rule rtranclp.rtrancl_into_rtrancl [OF 3 job_step.fail [OF ex_fence_genuine(1) ex_queue_calls(5)]])
qed

definition ex_route_payload :: "(string, json) dict" where
  "ex_route_payload = [(''routes'', JObj [(''chat'', JObj
     [(''workload_id'', JStr ''llm''), (''nodes'', JList [JStr ''n1'']), (''entrypoint_node_id'', JStr ''n1''),
      (''scheme'', JStr ''http''), (''port'', JInt 80), (''path'', JStr ''/v1''),
      (''quota'', JObj [(''requests_per_minute'', JInt 1), (''tokens_per_minute'', JInt 2)]),
      (''quota_digest'', JStr ''d'')])])]"

lemma ex_route_payload_ok:
  "canonical_payload (\<lambda>s. ''d'') (Some ''reconcile'') ex_route_payload =
     Inr (json_canon (JObj ex_route_payload), utf8 (json_dumps True (JObj ex_route_payload)))"
proof (rule canonical_payload_intro)
  show "json_wf (JObj ex_route_payload)" by (simp add: ex_route_payload_def)
  show "validated_quota_fields (\<lambda>s. ''d'') (Some ''reconcile'') ex_route_payload =
      Inr [[''routes'', ''chat'', ''quota'', ''tokens_per_minute'']]" by code_simp
  show "\<not> has_sensitive [[''routes'', ''chat'', ''quota'', ''tokens_per_minute'']] (JObj ex_route_payload) []"
    by code_simp
  show "length (utf8 (json_dumps True (JObj ex_route_payload))) = 196" by code_simp
qed (simp add: max_payload_def)

text \<open>C2: whatever sequence of calls the queue has served, a job has at most one running attempt, it is
  the attempt that the job row names as current, and the job is in the state running exactly when it
  has one.\<close>

theorem one_running_attempt:
  assumes "job_step\<^sup>*\<^sup>* (empty_queue rs) db" and "j \<in> set (jobs db)"
    and "a \<in> set (attempts db)" and "at_job_id a = jb_id j" and "at_state a = ''running''"
  shows "jb_state j = ''running'' \<and> at_attempt a = jb_current_attempt j \<and>
    (\<forall>b \<in> set (attempts db). at_job_id b = jb_id j \<and> at_state b = ''running'' \<longrightarrow> b = a)"
proof -
  have inv: "job_inv db" by (rule job_run_inv [OF assms(1)])
  note cur = running_attempt_current [OF inv _ _ assms(2)]
  have "b = a" if "b \<in> set (attempts db)" "at_job_id b = jb_id j" "at_state b = ''running''" for b
    using cur(1) [OF that(1,3)] cur(1) [OF assms(3,5)] that(2) assms(4)
      distinct_map_unique [OF job_inv_keys(3) [OF inv] that(1) assms(3)] by simp
  with cur [OF assms(3,5)] assms(4) show ?thesis by simp
qed

theorem one_running_attempt_witness:
  "jb_state (hd (jobs ex_q3)) = ''running'' \<and>
   at_attempt (last (attempts ex_q3)) = jb_current_attempt (hd (jobs ex_q3))"
proof -
  have "hd (jobs ex_q3) \<in> set (jobs ex_q3)" "last (attempts ex_q3) \<in> set (attempts ex_q3)"
    "at_job_id (last (attempts ex_q3)) = jb_id (hd (jobs ex_q3))"
    "at_state (last (attempts ex_q3)) = ''running''"
    by code_simp+
  from one_running_attempt [OF ex_queue_run(3) this] show ?thesis by simp
qed

text \<open>C1: a worker that lost its job to another claim can never report again: once the job has been
  claimed a second time, every later heartbeat or report with the first fence raises \<^verbatim>\<open>StaleAttempt\<close>,
  whatever the clock says and whatever calls came in between.\<close>

theorem superseded_worker_is_stale:
  assumes "job_step\<^sup>*\<^sup>* (empty_queue rs) s0"
    and "claim fence0 locked0 now0 s0 w0 secs0 = Inr (s1, Some f)" and "job_step\<^sup>*\<^sup>* s1 s2"
    and "claim fence1 locked1 now1 s2 w1 secs1 = Inr (s3, Some g)" and "af_job_id g = af_job_id f"
    and "job_step\<^sup>*\<^sup>* s3 t"
  shows "active now t f = Inl StaleAttempt \<and> fail redact clk t f reason = Inl StaleAttempt \<and>
    (0 < secs \<longrightarrow> heartbeat clock t f secs = Inl StaleAttempt)"
proof -
  have i0: "job_inv s0" by (rule job_run_inv [OF assms(1)])
  have i1: "job_inv s1" by (rule job_inv_claim [OF i0 assms(2)])
  have i2: "job_inv s2" by (rule job_fence.inv_run [OF assms(3) i1])
  have i3: "job_inv s3" by (rule job_inv_claim [OF i2 assms(4)])
  note own1 = claim_owns [OF i0 assms(2), THEN conjunct1]
  note own3 = claim_owns [OF i2 assms(4), THEN conjunct1, unfolded assms(5)]
  have iss1: "job_issued s1 (af_fence f)" by (rule job_fence.owner_issued [OF i1 own1])
  have iss2: "job_issued s2 (af_fence f)" by (rule job_fence.issued_run [OF assms(3) i1 iss1])
  have "af_fence g \<noteq> af_fence f"
    using claim_fence_fresh [OF i2 assms(4)] iss2 by auto
  then have lost: "\<not> job_owns s3 (af_fence f) (af_job_id f)"
    using job_fence.owner_unique [OF i3 own3] by blast
  have iss3: "job_issued s3 (af_fence f)"
    by (rule job_fence.issued_step [OF i2 job_step.claim [OF assms(4)] iss2])
  have "\<not> job_owns s3 (af_fence f) r" for r
  proof (cases "r = af_job_id f")
    case False
    have "\<not> job_owns s1 (af_fence f) r" using own1 job_owns_unique [OF i1] False by blast
    from job_fence.stale_forever [OF _ i1 iss1 this, of s3] show ?thesis
      using assms(3) job_step.claim [OF assms(4)] by (meson rtranclp.rtrancl_into_rtrancl)
  qed (use lost in simp)
  then have "\<not> job_owns t (af_fence f) r" for r
    using job_fence.stale_forever [OF assms(6) i3 iss3] by blast
  then have "active x t f = Inl StaleAttempt" for x by (rule stale_report)
  with stale_reports [of t f] show ?thesis by blast
qed

theorem superseded_worker_is_stale_witness:
  "active 60000301 ex_q3 (ex_fence ''f1'' 1 ''w1'' 60000200) = Inl StaleAttempt"
  using superseded_worker_is_stale [OF ex_queue_run(1) ex_queue_calls(3) rtranclp.rtrancl_refl
      ex_queue_calls(4) _ rtranclp.rtrancl_refl]
  by (simp add: ex_fence_def)

text \<open>C15: a finished job is final: once a job has succeeded or failed, no call changes its row.\<close>

theorem finished_job_is_final:
  assumes "job_step\<^sup>*\<^sup>* (empty_queue rs) s" and "j \<in> set (jobs s)"
    and "jb_state j \<in> {''succeeded'', ''failed''}" and "job_step\<^sup>*\<^sup>* s t"
  shows "j \<in> set (jobs t)"
  by (rule job_run_finished [OF assms(4) job_run_inv [OF assms(1)] assms(2,3)])

theorem finished_job_is_final_witness: "hd (jobs ex_q4) \<in> set (jobs ex_q4)"
proof -
  have "hd (jobs ex_q4) \<in> set (jobs ex_q4)" "jb_state (hd (jobs ex_q4)) \<in> {''succeeded'', ''failed''}"
    by code_simp+
  from finished_job_is_final [OF ex_queue_run(4) this rtranclp.rtrancl_refl] show ?thesis .
qed

text \<open>C16: leases do not overlap: while a worker's lease is live, that is while its reports are accepted
  at time \<open>now\<close>, no claim that reads the clock at or before \<open>now\<close> hands its job to anyone else.\<close>

theorem live_lease_not_claimed:
  assumes "job_step\<^sup>*\<^sup>* (empty_queue rs) db" and "genuine db f" and "active now db f = Inr (j, a)"
    and "now' \<le> now" and "claim fence locked now' db w secs = Inr (db', Some g)"
  shows "af_job_id g \<noteq> af_job_id f"
proof
  assume same: "af_job_id g = af_job_id f"
  have inv: "job_inv db" by (rule job_run_inv [OF assms(1)])
  note act = active_cases [OF inv assms(2,3)]
  from claim_cases [OF inv assms(5)] obtain i where i: "next_job locked now' db = Some i"
    and g: "g = claimed_fence fence w (now' + seconds secs) (claimed_job now' i)" by auto
  note mem = next_job_mem [OF i]
  have "jb_id i = jb_id j" using same act g by (simp add: claimed_fence_def claimed_job_def)
  then have "i = j" using job_unique [OF inv] mem act by blast
  with mem act obtain b where b: "b \<in> set (attempts db)" "at_job_id b = jb_id j" "at_state b = ''running''"
    "at_lease_deadline b < now'" by (auto simp: eligible_def list_ex_iff)
  have "attempt_key b = attempt_key a"
    using running_attempt_current(1) [OF inv b(1,3), of j] b(2) act by simp
  then have "b = a" using distinct_map_unique [OF job_inv_keys(3) [OF inv] b(1)] act by blast
  with b(4) act assms(4) show False by simp
qed

theorem live_lease_not_claimed_witness:
  "\<exists>g db'. claim ''f3'' [] 250 ex_q2 ''w2'' 60 = Inr (db', Some g) \<and> af_job_id g \<noteq> ''j1''"
proof -
  have a: "active 300 ex_q2 (ex_fence ''f1'' 1 ''w1'' 60000200) = Inr (hd (jobs ex_q2), hd (attempts ex_q2))"
    by code_simp
  have "case claim ''f3'' [] 250 ex_q2 ''w2'' 60 of Inr (db', Some g) \<Rightarrow> True | _ \<Rightarrow> False"
    by code_simp
  then obtain g db' where c: "claim ''f3'' [] 250 ex_q2 ''w2'' 60 = Inr (db', Some g)"
    by (auto split: sum.splits prod.splits option.splits)
  from live_lease_not_claimed [OF ex_queue_run(2) ex_fence_genuine(2) a _ c] c show ?thesis
    by (simp add: ex_fence_def)
qed

text \<open>C17: claiming makes progress and is fair: when some job that no other transaction has locked is
  eligible, a valid call with a new fence returns an attempt, of the oldest such job.\<close>

theorem claim_oldest:
  assumes "job_step\<^sup>*\<^sup>* (empty_queue rs) db" and "i \<in> set (jobs db)" and "eligible now db i"
    and "jb_id i \<notin> set locked" and "\<not> is_blank w" and "0 < secs" and "\<not> job_issued db fence"
  shows "\<exists>db' f j. claim fence locked now db w secs = Inr (db', Some f) \<and> j \<in> set (jobs db) \<and>
    af_job_id f = jb_id j \<and> af_attempt f = jb_current_attempt j + 1 \<and> af_fence f = fence \<and>
    af_lease_deadline f = now + seconds secs \<and>
    (jb_created_at j, jb_id j) \<le> (jb_created_at i, jb_id i)"
proof -
  have inv: "job_inv db" by (rule job_run_inv [OF assms(1)])
  obtain j where j: "next_job locked now db = Some j" "(jb_created_at j, jb_id j) \<le> (jb_created_at i, jb_id i)"
    using next_job_oldest [OF assms(2-4)] by blast
  note mem = next_job_mem [OF j(1)]
  have "\<exists>db'. insert_attempt (put_job (expire_current j db) (claimed_job now j))
      (claimed_attempt fence w (now + seconds secs) (claimed_job now j)) = Inr db'"
    by (rule claim_insert_ok [OF inv _ assms(7)]) (use mem in simp)
  then obtain db' where "insert_attempt (put_job (expire_current j db) (claimed_job now j))
      (claimed_attempt fence w (now + seconds secs) (claimed_job now j)) = Inr db'" ..
  then have "claim fence locked now db w secs =
      Inr (db', Some (claimed_fence fence w (now + seconds secs) (claimed_job now j)))"
    using j(1) assms(5,6) by (auto simp: claim_def Let_def expire_current_0 [OF inv])
  with mem j(2) show ?thesis by (auto simp: claimed_fence_def claimed_job_def)
qed

theorem claim_oldest_witness:
  "\<exists>db' f j. claim ''f1'' [] 200 ex_q1 ''w1'' 60 = Inr (db', Some f) \<and> j \<in> set (jobs ex_q1) \<and>
    af_job_id f = jb_id j \<and> (jb_created_at j, jb_id j) \<le> (150, ''j2'')"
proof -
  let ?i = "hd (tl (jobs ex_q1))"
  have i: "?i \<in> set (jobs ex_q1)" "eligible 200 ex_q1 ?i" "jb_id ?i \<notin> set []" "\<not> is_blank ''w1''"
    "\<not> job_issued ex_q1 ''f1''" "jb_created_at ?i = 150" "jb_id ?i = ''j2''"
    by code_simp+
  from claim_oldest [OF ex_queue_run(1) i(1-4) _ i(5), of 60] i(6,7) show ?thesis by auto
qed

text \<open>C18: the text whose hash a job records identifies its payload: two accepted payloads have the
  same encoded text exactly when they are the same JSON value, whatever the order of their keys; the
  stored payload is that value, and the text stays within the size limit.\<close>

theorem payload_text_identity:
  assumes "canonical_payload sha kind p = Inr (c, e)" and "json_wf (JObj p)"
    and "canonical_payload sha kind' p' = Inr (c', e')" and "json_wf (JObj p')"
  shows "(e = e' \<longleftrightarrow> json_canon (JObj p) = json_canon (JObj p')) \<and>
    c = json_canon (JObj p) \<and> length e \<le> 65536"
proof -
  note a = canonical_payload_Inr [OF assms(1,2)] and b = canonical_payload_Inr [OF assms(3,4)]
  have "e = e' \<longleftrightarrow> json_dumps True (JObj p) = json_dumps True (JObj p')"
    using a(2) b(2) utf8_inject by metis
  also have "\<dots> \<longleftrightarrow> json_canon (JObj p) = json_canon (JObj p')"
    using json_loads_dumps [OF assms(2), of True] json_loads_dumps [OF assms(4), of True]
      json_dumps_canon by (metis option.inject)
  finally show ?thesis using a(1,3) by (simp add: max_payload_def)
qed

theorem payload_text_identity_witness:
  "\<exists>c e. canonical_payload (\<lambda>s. s) None [(''b'', JInt 1), (''a'', JInt 2)] = Inr (c, e) \<and>
    canonical_payload (\<lambda>s. s) (Some ''probe'') [(''b'', JInt 1), (''a'', JInt 2)] = Inr (c, e) \<and>
    length e \<le> 65536"
proof -
  let ?p = "[(''b'', JInt 1), (''a'', JInt 2)]" and ?p' = "[(''a'', JInt 2), (''b'', JInt 1)]"
  have a: "canonical_payload (\<lambda>s. s) None ?p = Inr (JObj ?p', utf8 (json_dumps True (JObj ?p)))"
    using ex_payload_ok [of None "\<lambda>s. s"] by (simp add: ex_payload_def)
  then have b: "canonical_payload (\<lambda>s. s) (Some ''probe'') ?p = Inr (JObj ?p', utf8 (json_dumps True (JObj ?p)))"
    using ex_payload_ok [of "Some ''probe''" "\<lambda>s. s"] by (simp add: ex_payload_def)
  from payload_text_identity [OF a _ b] a b show ?thesis by auto
qed

text \<open>C19: an accepted payload has no sensitive key, except the token quota of a route of a reconcile
  job.\<close>

theorem no_sensitive_keys:
  assumes "canonical_payload sha kind payload = Inr (clean, encoded)"
    and "p \<in> set (key_paths (JObj payload) [])" and "sensitive (last p)"
  shows "kind = Some ''reconcile'' \<and> (\<exists>alias. p = [''routes'', alias, ''quota'', ''tokens_per_minute''])"
proof -
  from assms(1) obtain safe where safe: "validated_quota_fields sha kind payload = Inr safe"
    and ns: "\<not> has_sensitive safe (JObj payload) []"
    by (auto simp: canonical_payload_def rbind_Inr raise_if_Inr)
  from ns assms(2,3) have "p \<in> set safe" unfolding has_sensitive_paths by blast
  with safe show ?thesis by (rule validated_quota_paths)
qed

theorem no_sensitive_keys_witness:
  "\<exists>alias. [''routes'', ''chat'', ''quota'', ''tokens_per_minute''] = [''routes'', alias, ''quota'', ''tokens_per_minute'']"
proof -
  have "[''routes'', ''chat'', ''quota'', ''tokens_per_minute''] \<in> set (key_paths (JObj ex_route_payload) [])"
    "sensitive (last [''routes'', ''chat'', ''quota'', ''tokens_per_minute''])"
    by code_simp+
  from no_sensitive_keys [OF ex_route_payload_ok this] show ?thesis by blast
qed

end
