(* ===== verification/Fleet.thy ===== *)
theory Fleet
  imports Operation_Graph
begin

text \<open>
  \<^verbatim>\<open>src/cluster_profiles/fleet\<close>: the domain types of a fleet with the checks of their constructors
  (\<^verbatim>\<open>types.py\<close>), and the strict reading of a fleet document and of a topology (\<^verbatim>\<open>loaders.py\<close>). A
  parsed TOML file is a JSON value; reading the file itself is not modelled. Values that a message
  interpolates are kept beside the message.
\<close>

section \<open>Domain types\<close>

definition lifecycles :: "string list" where
  "lifecycles = [''discovered'', ''installing'', ''ready'', ''quarantined'', ''draining'', ''retired'']"

definition node_id_parse :: "string \<Rightarrow> string result" where
  "node_id_parse value =
     raise_if (\<not> is_node_id value) (ValueError ''node id must match spk_<32 lowercase hex characters>'')
       (Inr value)"

record management_endpoint =
  me_host :: string
  me_user :: string
  me_port :: int
  me_credential_ref :: "string option"

record node_record =
  nr_id :: string
  nr_display_name :: string
  nr_hostname :: string
  nr_management :: management_endpoint
  nr_labels :: "(string, string) dict"
  nr_lifecycle :: string

text \<open>\<^verbatim>\<open>NodeRecord.__post_init__\<close>.\<close>

definition node_record_check :: "node_record \<Rightarrow> node_record result" where
  "node_record_check r =
     raise_if (is_blank (nr_display_name r)) (ValueError ''node display name must not be blank'') (
     raise_if (is_blank (nr_hostname r)) (ValueError ''node hostname must not be blank'') (
     raise_if (is_blank (me_host (nr_management r))) (ValueError ''management host must not be blank'') (
     raise_if (is_blank (me_user (nr_management r))) (ValueError ''management user must not be blank'') (
     raise_if (\<not> (1 \<le> me_port (nr_management r) \<and> me_port (nr_management r) \<le> 65535))
       (ValueError ''management port must be between 1 and 65535'') (
     raise_if (nr_lifecycle r \<notin> set lifecycles)
       (ValueError (''unsupported node lifecycle: '' @ nr_lifecycle r)) (
     raise_if (list_ex (\<lambda>(k, v). is_blank k \<or> is_blank v) (nr_labels r))
       (ValueError ''node label keys and values must not be blank'') (
     Inr r)))))))"

record fleet =
  fl_schema_version :: int
  fl_nodes :: "(string, node_record) dict"

text \<open>\<^verbatim>\<open>Fleet.__post_init__\<close>.\<close>

definition fleet_check :: "fleet \<Rightarrow> fleet result" where
  "fleet_check f =
     raise_if (fl_schema_version f \<noteq> 2)
       (ValueError (''unsupported fleet schema version: '' @ dec_int (fl_schema_version f))) (
     raise_if (fl_nodes f = []) (ValueError ''fleet must contain at least one node'') (
     raise_if (list_ex (\<lambda>(i, r). i \<noteq> nr_id r) (fl_nodes f))
       (ValueError ''fleet node key must match the node record id'') (
     raise_if (\<not> distinct (map (\<lambda>(i, r). nr_display_name r) (fl_nodes f)))
       (ValueError ''fleet node display names must be unique'') (
     Inr f))))"

text \<open>\<^verbatim>\<open>Fleet.ready_nodes\<close>.\<close>

definition ready_nodes :: "fleet \<Rightarrow> node_record list" where
  "ready_nodes f =
     filter (\<lambda>r. nr_lifecycle r = ''ready'') (map snd (sort_key fst (fl_nodes f)))"

section \<open>Topologies\<close>

text \<open>A message with the values that its f-string interpolates.\<close>

datatype part = Txt string | Val json

definition part_text :: "(json \<Rightarrow> string) \<Rightarrow> part list \<Rightarrow> string" where
  "part_text str ps = concat (map (\<lambda>p. case p of Txt s \<Rightarrow> s | Val v \<Rightarrow> str v) ps)"

datatype topology_error = TopologyValidationError "part list" | TopologyTypeError

definition hash_ok :: "json \<Rightarrow> bool" where
  "hash_ok v = (case v of JList _ \<Rightarrow> False | JObj _ \<Rightarrow> False | _ \<Rightarrow> True)"

text \<open>\<^verbatim>\<open>v in s\<close> for a set or tuple of JSON values.\<close>

definition py_in :: "json \<Rightarrow> json list \<Rightarrow> bool" where
  "py_in v vs = list_ex (py_eq v) vs"

fun check_endpoints :: "json list \<Rightarrow> json \<Rightarrow> json list \<Rightarrow> topology_error + unit" where
  "check_endpoints nodes link_id [] = Inr ()"
| "check_endpoints nodes link_id (endpoint # rest) =
    (case endpoint of
       JObj e \<Rightarrow>
         raise_if (\<not> hash_ok (jget e ''node_id'')) TopologyTypeError (
         raise_if (\<not> py_in (jget e ''node_id'') nodes)
           (TopologyValidationError [Txt ''link '', Val link_id, Txt '' references unknown node '', Val (jget e ''node_id'')]) (
         check_endpoints nodes link_id rest))
     | _ \<Rightarrow> Inl (TopologyValidationError [Txt ''link '', Val link_id, Txt '' endpoint must be an object'']))"

fun check_links :: "json list \<Rightarrow> json list \<Rightarrow> json list \<Rightarrow> topology_error + unit" where
  "check_links nodes seen [] = Inr ()"
| "check_links nodes seen (raw_link # rest) =
    (case raw_link of
       JObj l \<Rightarrow>
         (let link_id = jget l ''id''; endpoints = jget l ''endpoints'' in
          raise_if (\<not> hash_ok link_id) TopologyTypeError (
          raise_if (py_in link_id seen) (TopologyValidationError [Txt ''duplicate link id: '', Val link_id]) (
          raise_if (\<not> is_list endpoints)
            (TopologyValidationError [Txt ''link '', Val link_id, Txt '' endpoints must be a sequence'']) (
          rbind (check_endpoints nodes link_id (the_list endpoints)) (\<lambda>_.
          check_links nodes (link_id # seen) rest)))))
     | _ \<Rightarrow> Inl (TopologyValidationError [Txt ''topology link must be an object'']))"

definition validate_topology_references :: "(string, json) dict \<Rightarrow> topology_error + unit" where
  "validate_topology_references document =
    (let raw_nodes = jget document ''nodes''; raw_links = jget document ''links'' in
     raise_if (\<not> is_list raw_nodes) (TopologyValidationError [Txt ''topology nodes must be a sequence'']) (
     raise_if (\<not> is_list raw_links) (TopologyValidationError [Txt ''topology links must be a sequence'']) (
     raise_if (\<not> list_all hash_ok (the_list raw_nodes)) TopologyTypeError (
     check_links (the_list raw_nodes) [] (the_list raw_links)))))"

section \<open>Fleet documents\<close>

datatype fleet_load_error = FleetLoadError string | FleetLoadErrorOf string json | FleetTypeError

definition fleet_mapping :: "json \<Rightarrow> string \<Rightarrow> fleet_load_error + (string, json) dict" where
  "fleet_mapping value field =
    (case value of JObj d \<Rightarrow> Inr d | _ \<Rightarrow> Inl (FleetLoadError (field @ '' must be a table'')))"

definition exact_keys :: "(string, json) dict \<Rightarrow> string \<Rightarrow> string list \<Rightarrow> string list \<Rightarrow> fleet_load_error + unit" where
  "exact_keys value field required optional =
     raise_if (\<not> set required \<subseteq> set (map fst value))
       (FleetLoadError (field @ '' is missing required fields'')) (
     raise_if (\<not> set (map fst value) \<subseteq> set required \<union> set optional)
       (FleetLoadError (field @ '' contains unknown fields'')) (Inr ()))"

definition fleet_text :: "json \<Rightarrow> string \<Rightarrow> fleet_load_error + string" where
  "fleet_text value field =
    (case value of
       JStr s \<Rightarrow> raise_if (is_blank s) (FleetLoadError (field @ '' must be a nonblank string'')) (Inr s)
     | _ \<Rightarrow> Inl (FleetLoadError (field @ '' must be a nonblank string'')))"

fun load_exc :: "'a result \<Rightarrow> fleet_load_error + 'a" where
  "load_exc (Inl (ValueError m)) = Inl (FleetLoadError m)"
| "load_exc (Inl e) = Inl FleetTypeError"
| "load_exc (Inr x) = Inr x"

text \<open>
  \<^verbatim>\<open>_node_record\<close>. The text checks of the constructor's arguments run inside its \<^verbatim>\<open>try\<close>; they raise
  \<^verbatim>\<open>FleetLoadError\<close>, a \<^verbatim>\<open>ValueError\<close>, which is raised again with the same text. A lifecycle that is
  not hashable raises \<^verbatim>\<open>TypeError\<close> in the constructor; one that is no string is not in the set of
  lifecycles.
\<close>

definition build_node_record :: "string \<Rightarrow> (string, json) dict \<Rightarrow> (string, json) dict \<Rightarrow> int \<Rightarrow> string option \<Rightarrow>
    (string, string) dict \<Rightarrow> fleet_load_error + node_record" where
  "build_node_record node_id_text node management port credential_ref labels =
    (let field = ''node '' @ node_id_text in
     rbind (load_exc (node_id_parse node_id_text)) (\<lambda>node_id.
     rbind (fleet_text (jget node ''display_name'') (field @ '' display_name'')) (\<lambda>display_name.
     rbind (fleet_text (jget node ''hostname'') (field @ '' hostname'')) (\<lambda>hostname.
     rbind (fleet_text (jget management ''host'') (field @ '' management host'')) (\<lambda>host.
     rbind (fleet_text (jget management ''user'') (field @ '' management user'')) (\<lambda>user.
     raise_if (\<not> (1 \<le> port \<and> port \<le> 65535))
       (FleetLoadError ''management port must be between 1 and 65535'') (
     raise_if (\<not> hash_ok (jget node ''lifecycle'')) FleetTypeError (
     case jget node ''lifecycle'' of
       JStr lifecycle \<Rightarrow>
         load_exc (node_record_check
           \<lparr>nr_id = node_id, nr_display_name = display_name, nr_hostname = hostname,
            nr_management = \<lparr>me_host = host, me_user = user, me_port = port, me_credential_ref = credential_ref\<rparr>,
            nr_labels = labels, nr_lifecycle = lifecycle\<rparr>)
     | other \<Rightarrow> Inl (FleetLoadErrorOf ''unsupported node lifecycle: '' other)))))))))"

definition load_port :: "json \<Rightarrow> string \<Rightarrow> fleet_load_error + int" where
  "load_port v field =
    (case v of JInt p \<Rightarrow> Inr p | _ \<Rightarrow> Inl (FleetLoadError (field @ '' management port must be an integer'')))"

definition load_credential_ref :: "json \<Rightarrow> string \<Rightarrow> fleet_load_error + string option" where
  "load_credential_ref v field =
    (if v = JNull then Inr None
     else rbind (fleet_text v (field @ '' management credential_ref'')) (\<lambda>c. Inr (Some c)))"

definition load_labels :: "(string, json) dict \<Rightarrow> string \<Rightarrow> fleet_load_error + (string, string) dict" where
  "load_labels labels field =
     map_r (\<lambda>(k, v). rbind (fleet_text (JStr k) (field @ '' label key'')) (\<lambda>k'.
       rbind (fleet_text v (field @ '' label value'')) (\<lambda>v'. Inr (k', v')))) labels"

definition load_node_record :: "string \<Rightarrow> json \<Rightarrow> fleet_load_error + node_record" where
  "load_node_record node_id_text raw =
    (let field = ''node '' @ node_id_text in
     rbind (fleet_mapping raw field) (\<lambda>node.
     rbind (exact_keys node field [''display_name'', ''hostname'', ''management'', ''labels'', ''lifecycle''] []) (\<lambda>_.
     rbind (fleet_mapping (jget node ''management'') (field @ '' management'')) (\<lambda>management.
     rbind (exact_keys management (field @ '' management'') [''host'', ''user'', ''port''] [''credential_ref'']) (\<lambda>_.
     rbind (load_port (jget management ''port'') field) (\<lambda>port.
     rbind (load_credential_ref (jget management ''credential_ref'') field) (\<lambda>credential_ref.
     rbind (fleet_mapping (jget node ''labels'') (field @ '' labels'')) (\<lambda>labels.
     rbind (load_labels labels field) (\<lambda>parsed_labels.
     build_node_record node_id_text node management port credential_ref parsed_labels)))))))))"

text \<open>\<^verbatim>\<open>load_fleet\<close>, from the parsed file on.\<close>

definition load_fleet_document :: "json \<Rightarrow> fleet_load_error + fleet" where
  "load_fleet_document raw =
     rbind (fleet_mapping raw ''fleet'') (\<lambda>root.
     rbind (exact_keys root ''fleet'' [''schema_version'', ''nodes''] []) (\<lambda>_.
     raise_if (\<not> py_eq (jget root ''schema_version'') (JInt 2)) (FleetLoadErrorOf ''unsupported fleet schema version: '' (jget root ''schema_version'')) (
     rbind (fleet_mapping (jget root ''nodes'') ''fleet nodes'') (\<lambda>raw_nodes.
     rbind (map_r (\<lambda>(i, n). load_node_record i n) raw_nodes) (\<lambda>records.
     load_exc (fleet_check \<lparr>fl_schema_version = 2, fl_nodes = dict_of (map (\<lambda>r. (nr_id r, r)) records)\<rparr>))))))"

section \<open>Loaded fleets are well formed\<close>

text \<open>What the constructors guarantee of every fleet.\<close>

definition wf_node :: "node_record \<Rightarrow> bool" where
  "wf_node r \<longleftrightarrow> is_node_id (nr_id r) \<and> \<not> is_blank (nr_display_name r) \<and> \<not> is_blank (nr_hostname r) \<and>
     1 \<le> me_port (nr_management r) \<and> me_port (nr_management r) \<le> 65535 \<and> nr_lifecycle r \<in> set lifecycles \<and>
     (\<forall>(k, v) \<in> set (nr_labels r). \<not> is_blank k \<and> \<not> is_blank v)"

definition wf_fleet :: "fleet \<Rightarrow> bool" where
  "wf_fleet f \<longleftrightarrow> fl_schema_version f = 2 \<and> fl_nodes f \<noteq> [] \<and> wf_dict (fl_nodes f) \<and>
     (\<forall>(i, r) \<in> set (fl_nodes f). i = nr_id r \<and> wf_node r) \<and>
     distinct (map (\<lambda>(i, r). nr_display_name r) (fl_nodes f))"

lemma load_exc_Inr: "load_exc r = Inr x \<longleftrightarrow> r = Inr x"
  by (cases r rule: load_exc.cases) auto

lemma node_record_check_Inr:
  "node_record_check r = Inr r' \<Longrightarrow> r' = r \<and> (is_node_id (nr_id r) \<longrightarrow> wf_node r)"
  by (auto simp: node_record_check_def raise_if_Inr wf_node_def list_ex_iff)

lemma build_node_record_wf:
  assumes "build_node_record i node management port c labels = Inr r"
  shows "wf_node r \<and> nr_id r = i"
proof -
  from assms obtain display hostname host user lifecycle where
    "is_node_id i"
    "node_record_check \<lparr>nr_id = i, nr_display_name = display, nr_hostname = hostname,
       nr_management = \<lparr>me_host = host, me_user = user, me_port = port, me_credential_ref = c\<rparr>,
       nr_labels = labels, nr_lifecycle = lifecycle\<rparr> = Inr r"
    by (cases "jget node ''lifecycle''")
      (auto simp: build_node_record_def Let_def rbind_Inr raise_if_Inr load_exc_Inr node_id_parse_def)
  then show ?thesis using node_record_check_Inr by fastforce
qed

lemma load_node_record_wf: "load_node_record i raw = Inr r \<Longrightarrow> wf_node r \<and> nr_id r = i"
  unfolding load_node_record_def Let_def rbind_Inr using build_node_record_wf by blast

lemma dict_of_nr_id: "(\<And>r. r \<in> set rs \<Longrightarrow> P r) \<Longrightarrow> (i, r) \<in> set (dict_of (map (\<lambda>r. (nr_id r, r)) rs)) \<Longrightarrow> i = nr_id r \<and> P r"
  for rs :: "node_record list"
proof (induction rs arbitrary: i r rule: rev_induct)
  case (snoc x rs)
  have set: "set (dict_set d k v) \<subseteq> insert (k, v) (set d)" for d :: "(string, node_record) dict" and k v
    by (induction d k v rule: dict_set.induct) auto
  from snoc.prems(2) have "(i, r) \<in> set (dict_set (dict_of (map (\<lambda>r. (nr_id r, r)) rs)) (nr_id x) x)"
    by (simp add: dict_of_snoc)
  with set [of "dict_of (map (\<lambda>r. (nr_id r, r)) rs)" "nr_id x" x]
  have "(i, r) = (nr_id x, x) \<or> (i, r) \<in> set (dict_of (map (\<lambda>r. (nr_id r, r)) rs))" by auto
  with snoc show ?case by auto
qed (simp add: dict_of_def)

lemma load_fleet_wf:
  assumes "load_fleet_document raw = Inr f"
  shows "wf_fleet f"
proof -
  from assms obtain root raw_nodes records where
    recs: "map_r (\<lambda>(i, n). load_node_record i n) raw_nodes = Inr records"
    and f: "fleet_check \<lparr>fl_schema_version = 2, fl_nodes = dict_of (map (\<lambda>r. (nr_id r, r)) records)\<rparr> = Inr f"
    unfolding load_fleet_document_def rbind_Inr raise_if_Inr load_exc_Inr by (elim exE conjE) (rule that, assumption+)
  have wf: "wf_node r" if "r \<in> set records" for r
  proof -
    from map_r_Inr_set [OF recs that] obtain kv where "(\<lambda>(i, n). load_node_record i n) kv = Inr r" by blast
    then have "load_node_record (fst kv) (snd kv) = Inr r" by (simp add: split_def)
    then show ?thesis using load_node_record_wf by blast
  qed
  have "i = nr_id r \<and> wf_node r" if "(i, r) \<in> set (dict_of (map (\<lambda>r. (nr_id r, r)) records))" for i r
    by (rule dict_of_nr_id [where P = wf_node, OF wf that])
  with f show ?thesis unfolding fleet_check_def raise_if_Inr wf_fleet_def by (auto simp: split_def)
qed


text \<open>Two node ids, used in examples.\<close>

definition node_a :: string where
  "node_a = ''spk_'' @ replicate 32 (CHR ''a'')"

definition node_b :: string where
  "node_b = ''spk_'' @ replicate 32 (CHR ''b'')"

definition ex_fleet_document :: json where
  "ex_fleet_document = JObj [(''schema_version'', JInt 2), (''nodes'', JObj [(node_a, JObj
     [(''display_name'', JStr ''A''), (''hostname'', JStr ''a''), (''lifecycle'', JStr ''ready''), (''management'', JObj
        [(''host'', JStr ''10.0.0.1''), (''port'', JInt 22), (''user'', JStr ''forge'')]),
      (''labels'', JObj [(''site'', JStr ''lab'')])])])]"


end
