(* ===== verification/Placement.thy ===== *)
theory Placement
  imports Fleet
begin

text \<open>
  \<^verbatim>\<open>src/cluster_profiles/placement.py\<close>, the deterministic placement of one requirement on a fleet, and
  the generic admission of a profile (\<^verbatim>\<open>admission.check_generic_admission\<close>), which places the
  requirements one after the other and charges each placement to the observations.
\<close>

section \<open>Requirements and observations\<close>

record placement_requirement =
  rq_name :: string
  rq_definition_hash :: string
  rq_node_count :: int
  rq_required_labels :: "(string, string) dict"
  rq_min_memory_bytes :: int
  rq_min_disk_bytes :: int
  rq_exclusive :: bool
  rq_distributed :: bool
  rq_model_supports_distributed :: bool
  rq_preferred_node_ids :: "string list"

datatype placement_error =
    PlacementError string
  | PlacementTopology "part list"
  | PlacementTypeError

text \<open>\<^verbatim>\<open>PlacementRequirement.__post_init__\<close>.\<close>

definition requirement_check :: "placement_requirement \<Rightarrow> placement_error + placement_requirement" where
  "requirement_check r =
     raise_if (is_blank (rq_name r) \<or> \<not> is_hex 64 (rq_definition_hash r))
       (PlacementError ''requirement name and definition hash are required'') (
     raise_if (rq_node_count r < 1 \<or> rq_min_memory_bytes r < 0 \<or> rq_min_disk_bytes r < 0)
       (PlacementError ''placement counts and capacities are invalid'') (
     raise_if (rq_distributed r \<noteq> (rq_node_count r > 1))
       (PlacementError ''distributed must exactly match a multi-node requirement'') (
     raise_if (list_ex (\<lambda>(k, v). is_blank k \<or> is_blank v) (rq_required_labels r))
       (PlacementError ''required labels must be nonblank'') (
     raise_if (\<not> distinct (rq_preferred_node_ids r))
       (PlacementError ''preferred node IDs must be unique'') (
     Inr r)))))"

record node_observation =
  ob_node_id :: string
  ob_healthy :: bool
  ob_memory_available_bytes :: int
  ob_disk_available_bytes :: int
  ob_occupied :: bool
  ob_available_for_placement :: bool

text \<open>\<^verbatim>\<open>NodeObservation.__post_init__\<close>.\<close>

definition observation_check :: "node_observation \<Rightarrow> placement_error + node_observation" where
  "observation_check ob =
     raise_if (ob_memory_available_bytes ob < 0 \<or> ob_disk_available_bytes ob < 0)
       (PlacementError ''observed capacity cannot be negative'') (Inr ob)"

record placement_plan =
  pp_requirement :: string
  pp_definition_hash :: string
  pp_nodes :: "string list"
  pp_reasons :: "(string, string list) dict"
  pp_input_digest :: string

section \<open>Planning\<close>

fun observe :: "(string, node_observation) dict \<Rightarrow> node_observation list \<Rightarrow>
    placement_error + (string, node_observation) dict" where
  "observe observed [] = Inr observed"
| "observe observed (ob # obs) =
     raise_if (ob_node_id ob \<in> fst ` set observed) (PlacementError ''duplicate node observation'') (
     observe (dict_set observed (ob_node_id ob) ob) obs)"

fun rank_preferences :: "fleet \<Rightarrow> int \<Rightarrow> string list \<Rightarrow> (string, int) dict \<Rightarrow>
    placement_error + (string, int) dict" where
  "rank_preferences fl rank [] prefs = Inr prefs"
| "rank_preferences fl rank (text # rest) prefs =
     raise_if (\<not> is_node_id text) (PlacementError ''preferred node ID is invalid'') (
     raise_if (text \<notin> fst ` set (fl_nodes fl)) (PlacementError ''preferred node is not in the fleet'') (
     rank_preferences fl (rank + 1) rest (dict_set prefs text rank)))"

definition rejections :: "placement_requirement \<Rightarrow> node_record \<Rightarrow> node_observation \<Rightarrow> string list" where
  "rejections rq r ob =
     (if nr_lifecycle r \<noteq> ''ready'' then [''lifecycle:'' @ nr_lifecycle r] else []) @
     (if \<not> ob_available_for_placement ob then [''unavailable''] else []) @
     (if \<not> ob_healthy ob then [''unhealthy''] else []) @
     (if ob_memory_available_bytes ob < rq_min_memory_bytes rq then [''memory''] else []) @
     (if ob_disk_available_bytes ob < rq_min_disk_bytes rq then [''disk''] else []) @
     (if rq_exclusive rq \<and> ob_occupied ob then [''occupied''] else []) @
     (if list_ex (\<lambda>(k, v). dict_get (nr_labels r) k \<noteq> Some v) (rq_required_labels rq)
      then [''labels''] else [])"

text \<open>The rejection reasons of every node of the fleet; a missing observation is a \<^verbatim>\<open>KeyError\<close>.\<close>

definition assess :: "placement_requirement \<Rightarrow> (string, node_observation) dict \<Rightarrow> string \<times> node_record \<Rightarrow>
    placement_error + string \<times> string list" where
  "assess rq observed = (\<lambda>(node_id, r).
    (case dict_get observed node_id of
       None \<Rightarrow> Inl PlacementTypeError
     | Some ob \<Rightarrow> Inr (node_id, rejections rq r ob)))"

definition preference_key :: "(string, int) dict \<Rightarrow> string \<Rightarrow> int \<times> string" where
  "preference_key prefs node_id =
    ((case dict_get prefs node_id of Some r \<Rightarrow> r | None \<Rightarrow> int (length prefs)), node_id)"

text \<open>\<^verbatim>\<open>bool(v)\<close>.\<close>

fun truthy :: "json \<Rightarrow> bool" where
  "truthy JNull = False"
| "truthy (JBool b) = b"
| "truthy (JInt i) = (i \<noteq> 0)"
| "truthy (JStr s) = (s \<noteq> [])"
| "truthy (JList vs) = (vs \<noteq> [])"
| "truthy (JObj d) = (d \<noteq> [])"

definition linked_nodes :: "(string, json) dict \<Rightarrow> json list" where
  "linked_nodes link = map (\<lambda>e. jget (the_obj e) ''node_id'') (the_list (jget link ''endpoints''))"

fun accepted_group :: "string list \<Rightarrow> json list \<Rightarrow> placement_error + bool" where
  "accepted_group required [] = Inr False"
| "accepted_group required (link # rest) =
    (let l = the_obj link in
     if truthy (jget l ''accepted'') then
       raise_if (\<not> hash_ok (jget l ''kind'')) PlacementTypeError (
       if is_str_with (\<lambda>k. k \<in> {''direct-rdma'', ''switched-rdma''}) (jget l ''kind'') \<and>
          list_all (\<lambda>n. JStr n \<in> set (linked_nodes l)) required
       then Inr True else accepted_group required rest)
     else accepted_group required rest)"

definition same_nodes :: "json list \<Rightarrow> string list \<Rightarrow> bool" where
  "same_nodes vs ns \<longleftrightarrow> list_all (\<lambda>v. is_str_with (\<lambda>s. s \<in> set ns) v) vs \<and> list_all (\<lambda>n. JStr n \<in> set vs) ns"

section \<open>The digest of the inputs\<close>

definition labels_document :: "(string, string) dict \<Rightarrow> json" where
  "labels_document d = JObj (map (map_prod id JStr) d)"

definition requirement_document :: "placement_requirement \<Rightarrow> json" where
  "requirement_document rq = JObj
     [(''name'', JStr (rq_name rq)),
      (''definition_hash'', JStr (rq_definition_hash rq)),
      (''node_count'', JInt (rq_node_count rq)),
      (''min_memory_bytes'', JInt (rq_min_memory_bytes rq)),
      (''min_disk_bytes'', JInt (rq_min_disk_bytes rq)),
      (''exclusive'', JBool (rq_exclusive rq)),
      (''distributed'', JBool (rq_distributed rq)),
      (''model_supports_distributed'', JBool (rq_model_supports_distributed rq)),
      (''required_labels'', labels_document (rq_required_labels rq)),
      (''preferred_node_ids'', JList (map JStr (rq_preferred_node_ids rq)))]"

definition observation_document :: "node_observation \<Rightarrow> json" where
  "observation_document ob = JObj
     [(''node_id'', JStr (ob_node_id ob)),
      (''healthy'', JBool (ob_healthy ob)),
      (''memory_available_bytes'', JInt (ob_memory_available_bytes ob)),
      (''disk_available_bytes'', JInt (ob_disk_available_bytes ob)),
      (''occupied'', JBool (ob_occupied ob)),
      (''available_for_placement'', JBool (ob_available_for_placement ob))]"

definition input_document :: "placement_requirement \<Rightarrow> fleet \<Rightarrow> (string, json) dict \<Rightarrow>
    (string, node_observation) dict \<Rightarrow> json" where
  "input_document rq fl topology observed = JObj
     [(''requirement'', requirement_document rq),
      (''fleet'', JList (map (\<lambda>(i, r). JObj [(''id'', JStr i), (''lifecycle'', JStr (nr_lifecycle r)),
         (''labels'', labels_document (sort_key fst (nr_labels r)))]) (sort_key fst (fl_nodes fl)))),
      (''topology'', JObj topology),
      (''observations'', JList (map observation_document (sort_key ob_node_id (map snd observed))))]"

text \<open>\<^verbatim>\<open>PlacementPlanner.plan\<close>, the part after the checks of topology and observations.\<close>

definition select_nodes :: "placement_requirement \<Rightarrow> (string, json) dict \<Rightarrow> (string, int) dict \<Rightarrow>
    (string, string list) dict \<Rightarrow> placement_error + string list" where
  "select_nodes rq topology prefs assessed =
    (let eligible = sort_key (preference_key prefs) (map fst (filter (\<lambda>(i, rej). rej = []) assessed)) in
     raise_if (int (length eligible) < rq_node_count rq)
       (PlacementError ''insufficient eligible nodes for requirement'') (
     let selected = take (nat (rq_node_count rq)) eligible in
     rbind (if rq_distributed rq then accepted_group selected (the_list (jget topology ''links'')) else Inr True)
       (\<lambda>ok. raise_if (\<not> ok) (PlacementError ''distributed placement requires accepted topology'') (
     Inr selected))))"

definition final_reasons :: "string list \<Rightarrow> (string, string list) dict \<Rightarrow> (string, string list) dict" where
  "final_reasons selected assessed =
     sort_key fst (map (\<lambda>(i, rej). (i, if i \<in> set selected then [''selected'']
       else if rej = [] then [''eligible''] else rej)) assessed)"

definition placement_plan_of :: "(string \<Rightarrow> string) \<Rightarrow> placement_requirement \<Rightarrow> fleet \<Rightarrow> (string, json) dict \<Rightarrow>
    node_observation list \<Rightarrow> placement_error + placement_plan" where
  "placement_plan_of sha rq fl topology obs =
     raise_if (rq_distributed rq \<and> \<not> rq_model_supports_distributed rq)
       (PlacementError ''model definition does not support distributed placement'') (
     rbind (case validate_topology_references topology of
         Inl TopologyTypeError \<Rightarrow> Inl PlacementTypeError
       | Inl (TopologyValidationError m) \<Rightarrow> Inl (PlacementTopology m)
       | Inr u \<Rightarrow> Inr u) (\<lambda>_.
     raise_if (\<not> same_nodes (the_list (jget topology ''nodes'')) (map fst (fl_nodes fl)))
       (PlacementError ''topology nodes must exactly match the fleet'') (
     rbind (observe [] obs) (\<lambda>observed.
     raise_if (set (map fst observed) \<noteq> set (map fst (fl_nodes fl)))
       (PlacementError ''observations must exactly cover the fleet'') (
     rbind (rank_preferences fl 0 (rq_preferred_node_ids rq) []) (\<lambda>prefs.
     rbind (map_r (assess rq observed) (fl_nodes fl)) (\<lambda>assessed.
     rbind (select_nodes rq topology prefs assessed) (\<lambda>selected.
     Inr \<lparr>pp_requirement = rq_name rq, pp_definition_hash = rq_definition_hash rq, pp_nodes = selected,
          pp_reasons = final_reasons selected assessed,
          pp_input_digest = sha (utf8 (json_dumps True (input_document rq fl topology observed)))\<rparr>))))))))"

section \<open>Generic admission\<close>

text \<open>
  The observation that replaces the one of a selected node. The constructor call leaves
  \<^verbatim>\<open>available_for_placement\<close> at its default.
\<close>

definition charge :: "placement_requirement \<Rightarrow> node_observation \<Rightarrow> node_observation" where
  "charge rq ob = \<lparr>ob_node_id = ob_node_id ob, ob_healthy = ob_healthy ob,
     ob_memory_available_bytes = max 0 (ob_memory_available_bytes ob - rq_min_memory_bytes rq),
     ob_disk_available_bytes = max 0 (ob_disk_available_bytes ob - rq_min_disk_bytes rq),
     ob_occupied = (ob_occupied ob \<or> rq_exclusive rq), ob_available_for_placement = True\<rparr>"

definition charge_all :: "placement_requirement \<Rightarrow> string list \<Rightarrow> (string, node_observation) dict \<Rightarrow>
    (string, node_observation) dict" where
  "charge_all rq selected current =
     map (\<lambda>(i, ob). (i, if i \<in> set selected then charge rq ob else ob)) current"

text \<open>The text of an error, where \<open>str\<close> gives the text of an interpolated value.\<close>

fun placement_error_text :: "(json \<Rightarrow> string) \<Rightarrow> placement_error \<Rightarrow> string" where
  "placement_error_text str (PlacementError m) = m"
| "placement_error_text str (PlacementTopology ps) = part_text str ps"
| "placement_error_text str PlacementTypeError = []"

text \<open>
  The loop of \<^verbatim>\<open>check_generic_admission\<close>: the error texts, the plans (each with its requirement) and the
  observations that are left. Errors other than \<^verbatim>\<open>PlacementError\<close> end it.
\<close>

fun admit :: "(string \<Rightarrow> string) \<Rightarrow> (json \<Rightarrow> string) \<Rightarrow> fleet \<Rightarrow> (string, json) dict \<Rightarrow> placement_requirement list \<Rightarrow>
    (string, node_observation) dict \<Rightarrow> placement_error +
      string list \<times> (placement_requirement \<times> placement_plan) list \<times> (string, node_observation) dict" where
  "admit sha str fl topology [] current = Inr ([], [], current)"
| "admit sha str fl topology (rq # rqs) current =
    (case placement_plan_of sha rq fl topology (map snd current) of
       Inl e \<Rightarrow>
         raise_if (e = PlacementTypeError) PlacementTypeError (
         rbind (admit sha str fl topology rqs current) (\<lambda>(errs, plans, final).
           Inr ((rq_name rq @ '': '' @ placement_error_text str e) # errs, plans, final)))
     | Inr plan \<Rightarrow>
         rbind (admit sha str fl topology rqs (charge_all rq (pp_nodes plan) current)) (\<lambda>(errs, plans, final).
           Inr (errs, (rq, plan) # plans, final)))"

definition check_generic_admission :: "(string \<Rightarrow> string) \<Rightarrow> (json \<Rightarrow> string) \<Rightarrow> placement_requirement list \<Rightarrow>
    fleet \<Rightarrow> (string, json) dict \<Rightarrow> node_observation list \<Rightarrow>
    placement_error + string list \<times> placement_plan list" where
  "check_generic_admission sha str rqs fl topology obs =
     rbind (admit sha str fl topology rqs (dict_of (map (\<lambda>ob. (ob_node_id ob, ob)) obs)))
       (\<lambda>(errs, plans, final). Inr (sort errs, map snd plans))"

section \<open>What a plan guarantees\<close>

lemma observe_Inr:
  "observe d obs = Inr observed \<Longrightarrow> (\<forall>(i, ob) \<in> set d. i = ob_node_id ob) \<Longrightarrow> wf_dict d \<Longrightarrow>
     observed = d @ map (\<lambda>ob. (ob_node_id ob, ob)) obs \<and> wf_dict observed \<and>
     (\<forall>(i, ob) \<in> set observed. i = ob_node_id ob)"
proof (induction obs arbitrary: d)
  case (Cons ob obs)
  then have new: "ob_node_id ob \<notin> fst ` set d" by (auto simp: raise_if_Inr)
  then have "dict_set d (ob_node_id ob) ob = d @ [(ob_node_id ob, ob)]" by (rule dict_set_new)
  with Cons.prems(1) have "observe (d @ [(ob_node_id ob, ob)]) obs = Inr observed"
    by (simp add: raise_if_Inr)
  moreover have "\<forall>(i, x) \<in> set (d @ [(ob_node_id ob, ob)]). i = ob_node_id x" "wf_dict (d @ [(ob_node_id ob, ob)])"
    using Cons.prems(2,3) new by auto
  ultimately have ih: "observed = (d @ [(ob_node_id ob, ob)]) @ map (\<lambda>ob. (ob_node_id ob, ob)) obs \<and> wf_dict observed \<and>
     (\<forall>(i, ob) \<in> set observed. i = ob_node_id ob)"
    by (rule Cons.IH)
  have eq: "(d @ [(ob_node_id ob, ob)]) @ map (\<lambda>ob. (ob_node_id ob, ob)) obs =
      d @ map (\<lambda>ob. (ob_node_id ob, ob)) (ob # obs)" by simp
  show ?case using ih unfolding eq .
qed simp

lemma assess_Inr:
  "map_r (assess rq observed) ns = Inr assessed \<Longrightarrow>
     assessed = map (\<lambda>(i, r). (i, rejections rq r (the (dict_get observed i)))) ns \<and>
     (\<forall>(i, r) \<in> set ns. dict_get observed i \<noteq> None)"
  by (induction ns arbitrary: assessed) (auto simp: rbind_Inr assess_def split: option.splits)

lemma select_nodes_Inr:
  assumes "select_nodes rq topology prefs assessed = Inr selected"
  shows "selected = take (nat (rq_node_count rq))
      (sort_key (preference_key prefs) (map fst (filter (\<lambda>(i, rej). rej = []) assessed)))"
    and "rq_node_count rq \<le> int (length (filter (\<lambda>(i, rej). rej = []) assessed))"
    and "rq_distributed rq \<Longrightarrow> accepted_group selected (the_list (jget topology ''links'')) = Inr True"
  using assms by (auto simp: select_nodes_def Let_def raise_if_Inr rbind_Inr split: if_splits)

text \<open>The parts of a successful run of the planner.\<close>

lemma plan_parts:
  assumes "placement_plan_of sha rq fl topology obs = Inr p"
  obtains observed prefs assessed where
    "observed = map (\<lambda>ob. (ob_node_id ob, ob)) obs" "wf_dict observed"
    "set (map fst observed) = set (map fst (fl_nodes fl))"
    "rank_preferences fl 0 (rq_preferred_node_ids rq) [] = Inr prefs"
    "assessed = map (\<lambda>(i, r). (i, rejections rq r (the (dict_get observed i)))) (fl_nodes fl)"
    "select_nodes rq topology prefs assessed = Inr (pp_nodes p)"
    "pp_reasons p = final_reasons (pp_nodes p) assessed"
    "pp_input_digest p = sha (utf8 (json_dumps True (input_document rq fl topology observed)))"
    "pp_requirement p = rq_name rq" "pp_definition_hash p = rq_definition_hash rq"
proof -
  from assms obtain observed prefs assessed where
    o: "observe [] obs = Inr observed" "set (map fst observed) = set (map fst (fl_nodes fl))"
    and r: "rank_preferences fl 0 (rq_preferred_node_ids rq) [] = Inr prefs"
    and a: "map_r (assess rq observed) (fl_nodes fl) = Inr assessed"
    and s: "select_nodes rq topology prefs assessed = Inr (pp_nodes p)"
    and p: "pp_reasons p = final_reasons (pp_nodes p) assessed"
      "pp_input_digest p = sha (utf8 (json_dumps True (input_document rq fl topology observed)))"
      "pp_requirement p = rq_name rq" "pp_definition_hash p = rq_definition_hash rq"
    by (auto simp: placement_plan_of_def raise_if_Inr rbind_Inr)
  from observe_Inr [OF o(1)] have "observed = map (\<lambda>ob. (ob_node_id ob, ob)) obs" "wf_dict observed" by auto
  with that o(2) r assess_Inr [OF a] s p show thesis by blast
qed

lemma rejections_Nil:
  "rejections rq r ob = [] \<longleftrightarrow>
     nr_lifecycle r = ''ready'' \<and> ob_available_for_placement ob \<and> ob_healthy ob \<and>
     rq_min_memory_bytes rq \<le> ob_memory_available_bytes ob \<and>
     rq_min_disk_bytes rq \<le> ob_disk_available_bytes ob \<and> (rq_exclusive rq \<longrightarrow> \<not> ob_occupied ob) \<and>
     (\<forall>(k, v) \<in> set (rq_required_labels rq). dict_get (nr_labels r) k = Some v)"
  by (auto simp: rejections_def list_ex_iff)

text \<open>The nodes that a requirement could use, in the order of the fleet.\<close>

definition eligible_nodes :: "placement_requirement \<Rightarrow> fleet \<Rightarrow> node_observation list \<Rightarrow> string list" where
  "eligible_nodes rq fl obs = map fst (filter (\<lambda>(i, r).
     \<exists>ob \<in> set obs. ob_node_id ob = i \<and> rejections rq r ob = []) (fl_nodes fl))"

lemma observed_get:
  assumes "wf_dict (map (\<lambda>ob. (ob_node_id ob, ob)) obs)" "i \<in> ob_node_id ` set obs"
  shows "\<exists>ob \<in> set obs. ob_node_id ob = i \<and> dict_get (map (\<lambda>ob. (ob_node_id ob, ob)) obs) i = Some ob \<and>
    (\<forall>ob' \<in> set obs. ob_node_id ob' = i \<longrightarrow> ob' = ob)"
proof -
  from assms(2) obtain ob where ob: "ob \<in> set obs" "ob_node_id ob = i" by auto
  then have "(i, ob) \<in> set (map (\<lambda>ob. (ob_node_id ob, ob)) obs)" by auto
  with assms(1) have "dict_get (map (\<lambda>ob. (ob_node_id ob, ob)) obs) i = Some ob" by (rule map_of_is_SomeI)
  moreover have "distinct (map ob_node_id obs)" using assms(1) by (simp add: comp_def)
  then have "ob' = ob" if "ob' \<in> set obs" "ob_node_id ob' = i" for ob'
    using distinct_map_unique [where f = ob_node_id, OF _ that(1) ob(1)] that(2) ob(2) by simp
  ultimately show ?thesis using ob by blast
qed

lemma observed_ok:
  assumes "wf_dict (map (\<lambda>ob. (ob_node_id ob, ob)) obs)" "i \<in> ob_node_id ` set obs"
  shows "ok (the (dict_get (map (\<lambda>ob. (ob_node_id ob, ob)) obs) i)) \<longleftrightarrow>
    (\<exists>ob \<in> set obs. ob_node_id ob = i \<and> ok ob)"
  using observed_get [OF assms] by auto

lemma map_fst_filter:
  assumes "\<And>i r. (i, r) \<in> set xs \<Longrightarrow> f i r = [] \<longleftrightarrow> P i r"
  shows "map fst (filter (\<lambda>(i, rej). rej = []) (map (\<lambda>(i, r). (i, f i r)) xs)) = map fst (filter (\<lambda>(i, r). P i r) xs)"
  using assms by (induction xs) auto

lemma assessed_eligible:
  assumes "wf_dict (map (\<lambda>ob. (ob_node_id ob, ob)) obs)" "ob_node_id ` set obs = fst ` set (fl_nodes fl)"
  shows "map fst (filter (\<lambda>(i, rej). rej = []) (map (\<lambda>(i, r). (i, rejections rq r
      (the (dict_get (map (\<lambda>ob. (ob_node_id ob, ob)) obs) i)))) (fl_nodes fl))) = eligible_nodes rq fl obs"
  unfolding eligible_nodes_def
proof (rule map_fst_filter)
  fix i r
  assume "(i, r) \<in> set (fl_nodes fl)"
  then have "i \<in> fst ` set (fl_nodes fl)" by (rule image_eqI [rotated]) simp
  then have "i \<in> ob_node_id ` set obs" by (simp only: assms(2))
  then show "rejections rq r (the (dict_get (map (\<lambda>ob. (ob_node_id ob, ob)) obs) i)) = [] \<longleftrightarrow>
      (\<exists>ob \<in> set obs. ob_node_id ob = i \<and> rejections rq r ob = [])"
    by (rule observed_ok [OF assms(1), where ok = "\<lambda>ob. rejections rq r ob = []"])
qed

lemma plan_selects:
  assumes "placement_plan_of sha rq fl topology obs = Inr p"
  obtains prefs where "rank_preferences fl 0 (rq_preferred_node_ids rq) [] = Inr prefs"
    "pp_nodes p = take (nat (rq_node_count rq)) (sort_key (preference_key prefs) (eligible_nodes rq fl obs))"
    "rq_node_count rq \<le> int (length (eligible_nodes rq fl obs))"
proof -
  obtain observed prefs assessed where
    o: "observed = map (\<lambda>ob. (ob_node_id ob, ob)) obs" "wf_dict observed"
      "set (map fst observed) = set (map fst (fl_nodes fl))"
    and prefs: "rank_preferences fl 0 (rq_preferred_node_ids rq) [] = Inr prefs"
    and a: "assessed = map (\<lambda>(i, r). (i, rejections rq r (the (dict_get observed i)))) (fl_nodes fl)"
    and s: "select_nodes rq topology prefs assessed = Inr (pp_nodes p)"
    by (rule plan_parts [OF assms])
  have "ob_node_id ` set obs = fst ` set (fl_nodes fl)"
    using o(3) unfolding o(1) by (simp add: image_image)
  then have el: "map fst (filter (\<lambda>(i, rej). rej = []) assessed) = eligible_nodes rq fl obs"
    unfolding a o(1) by (rule assessed_eligible [OF o(2) [unfolded o(1)]])
  have len: "length (filter (\<lambda>(i, rej). rej = []) assessed) = length (eligible_nodes rq fl obs)"
    unfolding el [symmetric] by (rule length_map [symmetric])
  show thesis
    by (rule that [OF prefs select_nodes_Inr(1) [OF s, unfolded el] select_nodes_Inr(2) [OF s, unfolded len]])
qed

lemma rank_preferences_Inr:
  "rank_preferences fl k pref prefs = Inr res \<Longrightarrow> distinct (map fst prefs @ pref) \<Longrightarrow>
     res = prefs @ zip pref (map (\<lambda>n. k + int n) [0..<length pref])"
proof (induction pref arbitrary: k prefs)
  case (Cons i pref)
  then have "dict_set prefs i k = prefs @ [(i, k)]" by (intro dict_set_new) auto
  with Cons.prems Cons.IH [of "k + 1" "prefs @ [(i, k)]"] show ?case
    by (auto simp: raise_if_Inr upt_conv_Cons map_Suc_upt [symmetric] comp_def ac_simps simp del: upt_Suc)
qed simp

text \<open>The rank of a node: its position in the list of preferences, or the length of that list.\<close>

definition pref_rank :: "string list \<Rightarrow> string \<Rightarrow> nat" where
  "pref_rank pref n = length (takeWhile (\<lambda>x. x \<noteq> n) pref)"

lemma takeWhile_absent: "i \<notin> set xs \<Longrightarrow> takeWhile (\<lambda>x. x \<noteq> i) xs = xs"
  by (induction xs) auto

lemma zip_rank:
  "(case dict_get (zip pref (map (\<lambda>n. k + int n) [0..<length pref])) i of Some r \<Rightarrow> r | None \<Rightarrow> k + int (length pref)) =
     k + int (pref_rank pref i)"
proof (induction pref arbitrary: k)
  case (Cons j pref)
  have "map (\<lambda>n. k + int n) [0..<length (j # pref)] = k # map (\<lambda>n. (k + 1) + int n) [0..<length pref]"
    by (simp add: upt_conv_Cons map_Suc_upt [symmetric] comp_def ac_simps del: upt_Suc)
  with Cons.IH [of "k + 1"] show ?case by (auto simp: pref_rank_def takeWhile_absent ac_simps split: option.split)
qed (simp add: pref_rank_def)

lemma preference_key_rank:
  assumes "rank_preferences fl 0 (rq_preferred_node_ids rq) [] = Inr prefs" "distinct (rq_preferred_node_ids rq)"
  shows "preference_key prefs i = (int (pref_rank (rq_preferred_node_ids rq) i), i)"
proof -
  let ?R = "rq_preferred_node_ids rq"
  have p: "prefs = zip ?R (map (\<lambda>n. 0 + int n) [0..<length ?R])"
    using rank_preferences_Inr [OF assms(1)] assms(2) by simp
  have "(case dict_get prefs i of Some r \<Rightarrow> r | None \<Rightarrow> 0 + int (length ?R)) = 0 + int (pref_rank ?R i)"
    unfolding p by (rule zip_rank)
  moreover have "length prefs = length ?R" by (simp add: p)
  ultimately show ?thesis by (cases "dict_get prefs i") (simp_all add: preference_key_def)
qed

lemma set_eligible_nodes:
  "i \<in> set (eligible_nodes rq fl obs) \<longleftrightarrow>
     (\<exists>r ob. (i, r) \<in> set (fl_nodes fl) \<and> ob \<in> set obs \<and> ob_node_id ob = i \<and> rejections rq r ob = [])"
  by (force simp: eligible_nodes_def)

lemma distinct_eligible_nodes: "wf_dict (fl_nodes fl) \<Longrightarrow> distinct (eligible_nodes rq fl obs)"
  unfolding eligible_nodes_def by (rule distinct_map_filter)

lemma accepted_group_True:
  "accepted_group required links = Inr True \<Longrightarrow>
     \<exists>link \<in> set links. truthy (jget (the_obj link) ''accepted'') \<and>
       is_str_with (\<lambda>k. k \<in> {''direct-rdma'', ''switched-rdma''}) (jget (the_obj link) ''kind'') \<and>
       (\<forall>n \<in> set required. JStr n \<in> set (linked_nodes (the_obj link)))"
  by (induction required links rule: accepted_group.induct)
    (auto simp: Let_def raise_if_Inr list_all_iff split: if_splits)

section \<open>Generic admission keeps within capacity\<close>

text \<open>What the placed requirements take from one node.\<close>

definition taken :: "(placement_requirement \<Rightarrow> int) \<Rightarrow> string \<Rightarrow> (placement_requirement \<times> placement_plan) list \<Rightarrow> int" where
  "taken f n plans = sum_list (map (\<lambda>(rq, p). if n \<in> set (pp_nodes p) then f rq else 0) plans)"

lemma charge_all_get:
  "dict_get (charge_all rq sel current) n =
     map_option (\<lambda>ob. if n \<in> set sel then charge rq ob else ob) (dict_get current n)"
  by (induction current) (auto simp: charge_all_def)

lemma charge_all_ids: "map fst (charge_all rq sel current) = map fst current"
  by (simp add: charge_all_def comp_def split_def)

definition keyed_obs :: "(string, node_observation) dict \<Rightarrow> bool" where
  "keyed_obs current \<longleftrightarrow> wf_dict current \<and> (\<forall>(i, ob) \<in> set current. ob_node_id ob = i)"

lemma keyed_obs_charge: "keyed_obs current \<Longrightarrow> keyed_obs (charge_all rq sel current)"
  by (auto simp: keyed_obs_def charge_all_ids) (auto simp: charge_all_def charge_def)

lemma keyed_obs_dict_of: "keyed_obs (dict_of (map (\<lambda>ob. (ob_node_id ob, ob)) obs))"
proof -
  have "set (dict_of kvs) \<subseteq> set kvs" for kvs :: "(string, node_observation) dict"
  proof (induction kvs rule: rev_induct)
    case (snoc kv kvs)
    have "set (dict_set d k v) \<subseteq> insert (k, v) (set d)" for d :: "(string, node_observation) dict" and k v
      by (induction d k v rule: dict_set.induct) auto
    with snoc show ?case by (cases kv) (fastforce simp: dict_of_snoc)
  qed (simp add: dict_of_def)
  then show ?thesis by (fastforce simp: keyed_obs_def)
qed

lemma selected_room:
  assumes "placement_plan_of sha rq fl topology (map snd current) = Inr p" "keyed_obs current"
    and "n \<in> set (pp_nodes p)" "dict_get current n = Some ob"
  shows "rq_min_memory_bytes rq \<le> ob_memory_available_bytes ob \<and>
    rq_min_disk_bytes rq \<le> ob_disk_available_bytes ob \<and> (rq_exclusive rq \<longrightarrow> \<not> ob_occupied ob)"
proof -
  obtain prefs where "pp_nodes p = take (nat (rq_node_count rq))
      (sort_key (preference_key prefs) (eligible_nodes rq fl (map snd current)))"
    by (rule plan_selects [OF assms(1)])
  with assms(3) have "n \<in> set (eligible_nodes rq fl (map snd current))" by (metis in_set_takeD set_sort)
  then obtain r ob' where o: "ob' \<in> set (map snd current)" "ob_node_id ob' = n" "rejections rq r ob' = []"
    unfolding set_eligible_nodes by blast
  then obtain i where "(i, ob') \<in> set current" by auto
  with o(2) assms(2) have "(n, ob') \<in> set current" by (auto simp: keyed_obs_def)
  with assms(2,4) have "ob' = ob" by (auto simp: keyed_obs_def)
  with o(3) show ?thesis by (simp add: rejections_Nil)
qed

lemma admit_capacity:
  assumes "admit sha str fl topology rqs current = Inr (errs, plans, final)" "keyed_obs current"
    and "dict_get current n = Some ob" "0 \<le> ob_memory_available_bytes ob" "0 \<le> ob_disk_available_bytes ob"
  shows "taken rq_min_memory_bytes n plans \<le> ob_memory_available_bytes ob \<and>
    taken rq_min_disk_bytes n plans \<le> ob_disk_available_bytes ob"
  using assms
proof (induction rqs arbitrary: current errs plans ob)
  case (Cons rq rqs)
  show ?case
  proof (cases "placement_plan_of sha rq fl topology (map snd current)")
    case (Inl e)
    with Cons show ?thesis by (auto simp: raise_if_Inr rbind_Inr)
  next
    case (Inr p)
    with Cons.prems(1) obtain plans' where plans: "plans = (rq, p) # plans'"
      and rest: "admit sha str fl topology rqs (charge_all rq (pp_nodes p) current) = Inr (errs, plans', final)"
      by (auto simp: rbind_Inr)
    let ?ob = "if n \<in> set (pp_nodes p) then charge rq ob else ob"
    have "dict_get (charge_all rq (pp_nodes p) current) n = Some ?ob"
      by (simp add: charge_all_get Cons.prems(3))
    moreover have "0 \<le> ob_memory_available_bytes ?ob" "0 \<le> ob_disk_available_bytes ?ob"
      using Cons.prems(4,5) by (auto simp: charge_def)
    ultimately have "taken rq_min_memory_bytes n plans' \<le> ob_memory_available_bytes ?ob \<and>
        taken rq_min_disk_bytes n plans' \<le> ob_disk_available_bytes ?ob"
      by (rule Cons.IH [OF rest keyed_obs_charge [OF Cons.prems(2)]])
    then show ?thesis
      using selected_room [OF Inr Cons.prems(2) _ Cons.prems(3)]
      by (auto simp: taken_def plans charge_def split: if_splits)
  qed
qed (simp add: taken_def)

lemma admit_occupied:
  assumes "admit sha str fl topology rqs current = Inr (errs, plans, final)" "keyed_obs current"
    and "dict_get current n = Some ob" "ob_occupied ob" "(rq, p) \<in> set plans" "rq_exclusive rq"
  shows "n \<notin> set (pp_nodes p)"
  using assms
proof (induction rqs arbitrary: current errs plans ob)
  case (Cons rq' rqs)
  show ?case
  proof (cases "placement_plan_of sha rq' fl topology (map snd current)")
    case (Inl e)
    with Cons show ?thesis by (auto simp: raise_if_Inr rbind_Inr)
  next
    case (Inr p')
    with Cons.prems(1) obtain plans' where plans: "plans = (rq', p') # plans'"
      and rest: "admit sha str fl topology rqs (charge_all rq' (pp_nodes p') current) = Inr (errs, plans', final)"
      by (auto simp: rbind_Inr)
    let ?ob = "if n \<in> set (pp_nodes p') then charge rq' ob else ob"
    have get: "dict_get (charge_all rq' (pp_nodes p') current) n = Some ?ob"
      by (simp add: charge_all_get Cons.prems(3))
    have occ: "ob_occupied ?ob" using Cons.prems(4) by (simp add: charge_def)
    show ?thesis
    proof (cases "(rq, p) = (rq', p')")
      case True
      then show ?thesis using selected_room [OF Inr Cons.prems(2) _ Cons.prems(3)] Cons.prems(4,6) by auto
    next
      case False
      then have "(rq, p) \<in> set plans'" using Cons.prems(5) plans by auto
      then show ?thesis
        by (rule Cons.IH [OF rest keyed_obs_charge [OF Cons.prems(2)] get occ _ Cons.prems(6)])
    qed
  qed
qed simp

section \<open>Properties\<close>

text \<open>Two ready nodes, the second with more room, and a link between them.\<close>

definition ex_fleet :: fleet where
  "ex_fleet = \<lparr>fl_schema_version = 2, fl_nodes = map (\<lambda>(i, n). (i, \<lparr>nr_id = i, nr_display_name = n, nr_hostname = n,
     nr_management = \<lparr>me_host = ''h'', me_user = ''u'', me_port = 22, me_credential_ref = None\<rparr>,
     nr_labels = [(''site'', ''lab'')], nr_lifecycle = ''ready''\<rparr>)) [(''a'', ''A''), (''b'', ''B'')]\<rparr>"

definition ex_topology :: "(string, json) dict" where
  "ex_topology = [(''nodes'', JList [JStr ''a'', JStr ''b'']),
     (''links'', JList [JObj [(''id'', JStr ''l''), (''kind'', JStr ''direct-rdma''), (''accepted'', JBool True),
        (''endpoints'', JList [JObj [(''node_id'', JStr ''a'')], JObj [(''node_id'', JStr ''b'')]])]])]"

definition ex_observations :: "node_observation list" where
  "ex_observations = map (\<lambda>(i, m). \<lparr>ob_node_id = i, ob_healthy = True, ob_memory_available_bytes = m,
     ob_disk_available_bytes = 10, ob_occupied = False, ob_available_for_placement = True\<rparr>)
     [(''a'', 1), (''b'', 8)]"

definition ex_requirement :: "string \<Rightarrow> int \<Rightarrow> bool \<Rightarrow> string list \<Rightarrow> placement_requirement" where
  "ex_requirement name memory exclusive preferred = \<lparr>rq_name = name, rq_definition_hash = ''d'', rq_node_count = 1,
     rq_required_labels = [(''site'', ''lab'')], rq_min_memory_bytes = memory, rq_min_disk_bytes = 1,
     rq_exclusive = exclusive, rq_distributed = False, rq_model_supports_distributed = False,
     rq_preferred_node_ids = preferred\<rparr>"

text \<open>C23: A placement is sound. The plan has exactly the required number of different nodes, and each of them is a ready
  node of the fleet whose observation is healthy and available, has the memory and the disk, carries the required
  labels and is not occupied when the requirement is exclusive.
\<close>

theorem placement_sound:
  assumes "placement_plan_of sha rq fl topology obs = Inr p" "wf_dict (fl_nodes fl)" "1 \<le> rq_node_count rq"
  shows "distinct (pp_nodes p) \<and> int (length (pp_nodes p)) = rq_node_count rq \<and>
    (\<forall>n \<in> set (pp_nodes p). \<exists>r ob. (n, r) \<in> set (fl_nodes fl) \<and> ob \<in> set obs \<and> ob_node_id ob = n \<and>
       nr_lifecycle r = ''ready'' \<and> ob_available_for_placement ob \<and> ob_healthy ob \<and>
       rq_min_memory_bytes rq \<le> ob_memory_available_bytes ob \<and>
       rq_min_disk_bytes rq \<le> ob_disk_available_bytes ob \<and> (rq_exclusive rq \<longrightarrow> \<not> ob_occupied ob) \<and>
       (\<forall>(k, v) \<in> set (rq_required_labels rq). dict_get (nr_labels r) k = Some v))"
proof -
  obtain prefs where p: "pp_nodes p = take (nat (rq_node_count rq)) (sort_key (preference_key prefs) (eligible_nodes rq fl obs))"
    and len: "rq_node_count rq \<le> int (length (eligible_nodes rq fl obs))"
    by (rule plan_selects [OF assms(1)])
  have "distinct (pp_nodes p)" using assms(2) unfolding p by (simp add: distinct_eligible_nodes)
  moreover have "int (length (pp_nodes p)) = rq_node_count rq" using len assms(3) unfolding p by simp
  moreover have "n \<in> set (eligible_nodes rq fl obs)" if "n \<in> set (pp_nodes p)" for n
    using in_set_takeD [OF that [unfolded p]] by simp
  then have "\<exists>r ob. (n, r) \<in> set (fl_nodes fl) \<and> ob \<in> set obs \<and> ob_node_id ob = n \<and> rejections rq r ob = []"
    if "n \<in> set (pp_nodes p)" for n
    using that unfolding set_eligible_nodes by blast
  ultimately show ?thesis unfolding rejections_Nil by blast
qed

theorem placement_sound_witness:
  "rq_exclusive (ex_requirement ''m'' 5 True []) \<and>
   (\<exists>p. placement_plan_of (\<lambda>_. ''x'') (ex_requirement ''m'' 5 True []) ex_fleet ex_topology ex_observations = Inr p \<and>
        pp_nodes p = [''b''] \<and> distinct (pp_nodes p))"
proof -
  have "wf_dict (fl_nodes ex_fleet)" by code_simp
  moreover have "1 \<le> rq_node_count (ex_requirement ''m'' 5 True [])" by code_simp
  moreover have "rq_exclusive (ex_requirement ''m'' 5 True [])" by code_simp
  moreover have "placement_plan_of (\<lambda>_. ''x'') (ex_requirement ''m'' 5 True []) ex_fleet ex_topology ex_observations =
      Inr \<lparr>pp_requirement = ''m'', pp_definition_hash = ''d'', pp_nodes = [''b''],
        pp_reasons = [(''a'', [''memory'']), (''b'', [''selected''])], pp_input_digest = ''x''\<rparr>"
    by code_simp
  ultimately show ?thesis using placement_sound by fastforce
qed

text \<open>Placement is deterministic in the preferences. Every selected node comes before every eligible node that is
  left out, in the order of the position in the list of preferred nodes and, for equal positions, of the node id.
\<close>

theorem placement_prefers:
  assumes "placement_plan_of sha rq fl topology obs = Inr p" "wf_dict (fl_nodes fl)" "distinct (rq_preferred_node_ids rq)"
    and "n \<in> set (pp_nodes p)" "m \<in> set (eligible_nodes rq fl obs)" "m \<notin> set (pp_nodes p)"
  shows "(pref_rank (rq_preferred_node_ids rq) n, n) < (pref_rank (rq_preferred_node_ids rq) m, m)"
proof -
  obtain prefs where r: "rank_preferences fl 0 (rq_preferred_node_ids rq) [] = Inr prefs"
    and p: "pp_nodes p = take (nat (rq_node_count rq)) (sort_key (preference_key prefs) (eligible_nodes rq fl obs))"
    by (rule plan_selects [OF assms(1)])
  let ?xs = "sort_key (preference_key prefs) (eligible_nodes rq fl obs)"
  let ?k = "nat (rq_node_count rq)"
  have "m \<in> set (take ?k ?xs @ drop ?k ?xs)" using assms(5) by simp
  then have "m \<in> set (drop ?k ?xs)" using assms(6) unfolding p set_append by blast
  moreover have "sorted (map (preference_key prefs) (take ?k ?xs @ drop ?k ?xs))" by simp
  ultimately have "preference_key prefs n \<le> preference_key prefs m"
    using assms(4) unfolding p map_append sorted_append by auto
  moreover have "n \<noteq> m" using assms(4,6) by blast
  ultimately show ?thesis
    unfolding preference_key_rank [OF r assms(3)] by (auto simp: less_eq_prod_def less_prod_def)
qed

theorem placement_prefers_witness:
  "(pref_rank [] ''a'', ''a'') < (pref_rank [] ''b'', ''b'')"
proof -
  have "wf_dict (fl_nodes ex_fleet)" by code_simp
  moreover have "''b'' \<in> set (eligible_nodes (ex_requirement ''m'' 1 True []) ex_fleet ex_observations)"
    by code_simp
  moreover have "rq_preferred_node_ids (ex_requirement ''m'' 1 True []) = []" by code_simp
  moreover have "placement_plan_of (\<lambda>_. ''x'') (ex_requirement ''m'' 1 True []) ex_fleet ex_topology ex_observations =
      Inr \<lparr>pp_requirement = ''m'', pp_definition_hash = ''d'', pp_nodes = [''a''],
        pp_reasons = [(''a'', [''selected'']), (''b'', [''eligible''])], pp_input_digest = ''x''\<rparr>"
    by code_simp
  ultimately show ?thesis using placement_prefers [of "\<lambda>_. ''x''" "ex_requirement ''m'' 1 True []" ex_fleet
    ex_topology ex_observations _ "''a''" "''b''"] by simp
qed

text \<open>C24: Generic admission never gives out more than a node has: over all the requirements that were placed, the memory
  and the disk they take on a node stay within what was observed there.
\<close>

theorem generic_admission_capacity:
  assumes "admit sha str fl topology rqs (dict_of (map (\<lambda>ob. (ob_node_id ob, ob)) obs)) = Inr (errs, plans, final)"
    and "dict_get (dict_of (map (\<lambda>ob. (ob_node_id ob, ob)) obs)) n = Some ob"
    and "observation_check ob = Inr ob"
  shows "check_generic_admission sha str rqs fl topology obs = Inr (sort errs, map snd plans) \<and>
    taken rq_min_memory_bytes n plans \<le> ob_memory_available_bytes ob \<and>
    taken rq_min_disk_bytes n plans \<le> ob_disk_available_bytes ob"
proof -
  have "0 \<le> ob_memory_available_bytes ob" "0 \<le> ob_disk_available_bytes ob"
    using assms(3) by (simp_all add: observation_check_def raise_if_Inr)
  with admit_capacity [OF assms(1) keyed_obs_dict_of assms(2)] assms(1) show ?thesis
    by (simp add: check_generic_admission_def)
qed

definition ex_plan :: "string \<Rightarrow> string \<Rightarrow> (string, string list) dict \<Rightarrow> placement_plan" where
  "ex_plan name node reasons = \<lparr>pp_requirement = name, pp_definition_hash = ''d'', pp_nodes = [node],
     pp_reasons = reasons, pp_input_digest = ''x''\<rparr>"

theorem generic_admission_capacity_witness:
  "\<exists>errs plans final. admit (\<lambda>_. ''x'') (\<lambda>_. []) ex_fleet ex_topology
      [ex_requirement ''m'' 5 False [], ex_requirement ''n'' 3 False [], ex_requirement ''o'' 6 False []]
      (dict_of (map (\<lambda>ob. (ob_node_id ob, ob)) ex_observations)) = Inr (errs, plans, final) \<and>
    map (\<lambda>(rq, p). pp_nodes p) plans = [[''b''], [''b'']] \<and>
    taken rq_min_memory_bytes ''b'' plans \<le> 8"
proof -
  let ?rqs = "[ex_requirement ''m'' 5 False [], ex_requirement ''n'' 3 False [], ex_requirement ''o'' 6 False []]"
  let ?cur = "dict_of (map (\<lambda>ob. (ob_node_id ob, ob)) ex_observations)"
  let ?plans = "[(ex_requirement ''m'' 5 False [], ex_plan ''m'' ''b'' [(''a'', [''memory'']), (''b'', [''selected''])]),
      (ex_requirement ''n'' 3 False [], ex_plan ''n'' ''b'' [(''a'', [''memory'']), (''b'', [''selected''])])]"
  have adm: "admit (\<lambda>_. ''x'') (\<lambda>_. []) ex_fleet ex_topology ?rqs ?cur =
      Inr ([''o: insufficient eligible nodes for requirement''], ?plans,
        [(''a'', ex_observations ! 0), (''b'', (ex_observations ! 1)
          \<lparr>ob_memory_available_bytes := 0, ob_disk_available_bytes := 8\<rparr>)])"
    by code_simp
  have get: "dict_get ?cur ''b'' = Some (ex_observations ! 1)" by code_simp
  have ok: "observation_check (ex_observations ! 1) = Inr (ex_observations ! 1)" by code_simp
  have mem: "ob_memory_available_bytes (ex_observations ! 1) = 8" by code_simp
  have ns: "map (\<lambda>(rq, p). pp_nodes p) ?plans = [[''b''], [''b'']]" by code_simp
  have "taken rq_min_memory_bytes ''b'' ?plans \<le> 8"
    using generic_admission_capacity [OF adm get ok] unfolding mem by (elim conjE)
  with adm ns show ?thesis by (intro exI conjI)
qed

text \<open>A distributed plan runs only on nodes that one accepted RDMA link of the topology joins, and only for a model
  that supports distribution.
\<close>

theorem distributed_placement_linked:
  assumes "placement_plan_of sha rq fl topology obs = Inr p" "rq_distributed rq"
  shows "rq_model_supports_distributed rq \<and>
    (\<exists>link \<in> set (the_list (jget topology ''links'')). truthy (jget (the_obj link) ''accepted'') \<and>
       is_str_with (\<lambda>k. k \<in> {''direct-rdma'', ''switched-rdma''}) (jget (the_obj link) ''kind'') \<and>
       (\<forall>n \<in> set (pp_nodes p). JStr n \<in> set (linked_nodes (the_obj link))))"
proof -
  obtain prefs assessed where "select_nodes rq topology prefs assessed = Inr (pp_nodes p)"
    by (rule plan_parts [OF assms(1)])
  then have "accepted_group (pp_nodes p) (the_list (jget topology ''links'')) = Inr True"
    using assms(2) by (rule select_nodes_Inr(3))
  moreover have "rq_model_supports_distributed rq"
    using assms by (auto simp: placement_plan_of_def raise_if_Inr)
  ultimately show ?thesis using accepted_group_True by blast
qed

theorem distributed_placement_linked_witness:
  "\<exists>p. placement_plan_of (\<lambda>_. ''x'') ((ex_requirement ''m'' 1 True [])\<lparr>rq_node_count := 2, rq_distributed := True,
      rq_model_supports_distributed := True\<rparr>) ex_fleet ex_topology ex_observations = Inr p \<and>
    (\<exists>link \<in> set (the_list (jget ex_topology ''links'')).
       \<forall>n \<in> set (pp_nodes p). JStr n \<in> set (linked_nodes (the_obj link)))"
proof -
  let ?rq = "(ex_requirement ''m'' 1 True [])\<lparr>rq_node_count := 2, rq_distributed := True, rq_model_supports_distributed := True\<rparr>"
  have "placement_plan_of (\<lambda>_. ''x'') ?rq ex_fleet ex_topology ex_observations =
      Inr \<lparr>pp_requirement = ''m'', pp_definition_hash = ''d'', pp_nodes = [''a'', ''b''],
        pp_reasons = [(''a'', [''selected'']), (''b'', [''selected''])], pp_input_digest = ''x''\<rparr>"
    by code_simp
  moreover have "rq_distributed ?rq" by code_simp
  ultimately show ?thesis using distributed_placement_linked [of "\<lambda>_. ''x''" ?rq] by blast
qed


end
