(* ===== verification/Profiles.thy ===== *)
theory Profiles
  imports Placement
begin

text \<open>
  \<^verbatim>\<open>src/cluster_profiles/contracts.py\<close> and \<^verbatim>\<open>profile_compat.py\<close>: the immutable contracts of workloads and
  cluster profiles, their loaders from a parsed TOML document, and the projection of a two-node profile
  on a fleet.

  \<open>validate\<close> stands for \<^verbatim>\<open>jsonschema.validate\<close> with the schemas of the package: it maps the name of a schema
  and a document to the text of the violation, if there is one. The fields that a loader reads are required by
  the schemas, with the types that the records show.
\<close>

section \<open>Paths\<close>

text \<open>
  A \<^verbatim>\<open>PurePosixPath\<close>, as the text that \<^verbatim>\<open>as_posix\<close> gives: repeated slashes and \<^verbatim>\<open>.\<close> components are
  dropped. Two such paths are equal when their texts are.
\<close>

fun split_on :: "char \<Rightarrow> string \<Rightarrow> string list" where
  "split_on c [] = [[]]"
| "split_on c (x # xs) =
    (if x = c then [] # split_on c xs
     else (case split_on c xs of p # ps \<Rightarrow> (x # p) # ps | [] \<Rightarrow> [[x]]))"

definition path_root :: "string \<Rightarrow> string" where
  "path_root s = (if take 2 s = ''//'' \<and> take 3 s \<noteq> ''///'' then ''//'' else if take 1 s = ''/'' then ''/'' else [])"

definition path_parts :: "string \<Rightarrow> string list" where
  "path_parts s = filter (\<lambda>p. p \<noteq> [] \<and> p \<noteq> ''.'') (split_on (CHR ''/'') s)"

definition path_of :: "string \<Rightarrow> string" where
  "path_of s = (let t = path_root s @ join_with ''/'' (path_parts s) in if t = [] then ''.'' else t)"

section \<open>Contracts\<close>

record source_pin =
  sp_repository :: string
  sp_commit :: string

record checkpoint_pin =
  cp_repository :: string
  cp_revision :: string
  cp_manifest :: string
  cp_manifest_sha256 :: "string option"

record runtime_release =
  rr_manifest :: string
  rr_sha256 :: string

record operation_timeouts =
  ot_prepare :: json
  ot_verify :: json
  ot_start :: json
  ot_health :: json
  ot_infer :: json
  ot_stop :: json
  ot_verify_release :: json

record workload_paths =
  wp_cache :: string
  wp_scratch :: string
  wp_output :: string

record endpoint =
  ep_host :: string
  ep_port :: int

record adapter_commands =
  ac_prepare :: "string list"
  ac_verify :: "string list"
  ac_start :: "string list"
  ac_health :: "string list"
  ac_infer :: "string list"
  ac_stop :: "string list"
  ac_verify_release :: "string list"

record resource_envelope =
  re_minimum_free_memory_bytes :: int
  re_minimum_free_disk_bytes :: int
  re_stop_memory_tolerance_bytes :: int

record workload_definition =
  wd_id :: string
  wd_adapter :: string
  wd_topology :: string
  wd_placement_class :: string
  wd_nodes :: "string list"
  wd_start_order :: "string list"
  wd_stop_order :: "string list"
  wd_conflicts :: "string list"
  wd_co_location :: string
  wd_accepted_evidence :: string
  wd_source :: source_pin
  wd_checkpoint :: checkpoint_pin
  wd_image :: string
  wd_paths :: workload_paths
  wd_endpoint :: endpoint
  wd_commands :: adapter_commands
  wd_resources :: resource_envelope
  wd_runtime_release :: "runtime_release option"
  wd_deadlines :: "operation_timeouts option"

record cluster_profile =
  cl_id :: string
  cl_accepted_evidence :: string
  cl_placements :: "(string, string list) dict"
  cl_endpoints :: "(string, string) dict"

record lifecycle_constraints =
  lc_start_order :: string
  lc_stop_order :: string

record generic_workload_definition =
  gw_id :: string
  gw_adapter :: string
  gw_definition_hash :: string
  gw_conflicts :: "string list"
  gw_distributed_supported :: bool

record generic_cluster_profile =
  gc_id :: string
  gc_accepted_evidence :: string
  gc_workloads :: "string list"
  gc_requirements :: "placement_requirement list"
  gc_endpoints :: "(string, string) dict"
  gc_quotas :: "(string, (string, int) dict) dict"
  gc_lifecycle :: lifecycle_constraints

text \<open>\<^verbatim>\<open>OperationTimeouts.for_operation\<close>; an operation without a field is an \<^verbatim>\<open>AttributeError\<close>.\<close>

definition for_operation :: "operation_timeouts \<Rightarrow> string \<Rightarrow> json option" where
  "for_operation t operation' =
    (let name = map (\<lambda>c. if c = CHR ''-'' then CHR ''_'' else c) operation' in
     dict_get [(''prepare'', ot_prepare t), (''verify'', ot_verify t), (''start'', ot_start t), (''health'', ot_health t),
       (''infer'', ot_infer t), (''stop'', ot_stop t), (''verify_release'', ot_verify_release t)] name)"

section \<open>Loaders\<close>

datatype profile_error = ProfileValidationError string | ProfilePlacementError placement_error

fun the_int :: "json \<Rightarrow> int" where
  "the_int (JInt i) = i"
| "the_int v = 0"

definition the_bool :: "json \<Rightarrow> bool" where
  "the_bool v \<longleftrightarrow> v = JBool True"

definition strs :: "json \<Rightarrow> string list" where
  "strs v = map the_str (the_list v)"

definition str_dict :: "json \<Rightarrow> (string, string) dict" where
  "str_dict v = map (\<lambda>(k, x). (k, the_str x)) (the_obj v)"

definition has_key :: "(string, json) dict \<Rightarrow> string \<Rightarrow> bool" where
  "has_key d k \<longleftrightarrow> k \<in> fst ` set d"

definition validate_document :: "(string \<Rightarrow> json \<Rightarrow> string option) \<Rightarrow> (string, json) dict \<Rightarrow> string \<Rightarrow> profile_error + unit" where
  "validate_document validate data schema_name =
    (case validate schema_name (JObj data) of
       Some m \<Rightarrow> Inl (ProfileValidationError m)
     | None \<Rightarrow> Inr ())"

definition require_rank_orders :: "(string, json) dict \<Rightarrow> profile_error + unit" where
  "require_rank_orders data =
    (let ns = strs (jget data ''nodes''); start_order = strs (jget data ''start_order'');
         stop_order = strs (jget data ''stop_order''); topology = the_str (jget data ''topology'') in
     raise_if (length (remdups ns) \<noteq> length ns \<or> \<not> set ns \<subseteq> {''node1'', ''node2''})
       (ProfileValidationError ''nodes must contain unique GPU node IDs'') (
     raise_if (set start_order \<noteq> set ns \<or> length start_order \<noteq> length ns)
       (ProfileValidationError ''start_order must rank every declared node exactly once'') (
     raise_if (set stop_order \<noteq> set ns \<or> length stop_order \<noteq> length ns)
       (ProfileValidationError ''stop_order must rank every declared node exactly once'') (
     raise_if (topology = ''distributed'' \<and> set ns \<noteq> {''node1'', ''node2''})
       (ProfileValidationError ''distributed workloads require node1 and node2'') (
     raise_if (topology = ''distributed'' \<and> start_order \<noteq> [''node2'', ''node1''])
       (ProfileValidationError ''distributed workloads require worker-first start order'') (
     raise_if (topology = ''distributed'' \<and> stop_order \<noteq> [''node1'', ''node2''])
       (ProfileValidationError ''distributed workloads require head-first stop order'') (
     raise_if (topology = ''single'' \<and> length ns \<noteq> 1)
       (ProfileValidationError ''single workloads require exactly one node'') (Inr ()))))))))"

definition read_checkpoint :: "(string, json) dict \<Rightarrow> checkpoint_pin" where
  "read_checkpoint c = \<lparr>cp_repository = the_str (jget c ''repository''), cp_revision = the_str (jget c ''revision''),
     cp_manifest = path_of (the_str (jget c ''manifest'')),
     cp_manifest_sha256 = (case jget c ''manifest_sha256'' of JStr s \<Rightarrow> Some s | _ \<Rightarrow> None)\<rparr>"

definition read_runtime_release :: "(string, json) dict \<Rightarrow> runtime_release option" where
  "read_runtime_release data =
    (if has_key data ''runtime_release'' then
       (let r = the_obj (jget data ''runtime_release'') in
        Some \<lparr>rr_manifest = path_of (the_str (jget r ''manifest'')), rr_sha256 = the_str (jget r ''sha256'')\<rparr>)
     else None)"

definition read_commands :: "(string, json) dict \<Rightarrow> adapter_commands" where
  "read_commands c = \<lparr>ac_prepare = strs (jget c ''prepare''), ac_verify = strs (jget c ''verify''),
     ac_start = strs (jget c ''start''), ac_health = strs (jget c ''health''), ac_infer = strs (jget c ''infer''),
     ac_stop = strs (jget c ''stop''), ac_verify_release = strs (jget c ''verify-release'')\<rparr>"

definition read_deadlines :: "(string, json) dict \<Rightarrow> operation_timeouts option" where
  "read_deadlines data =
    (if has_key data ''deadlines'' then
       (let t = the_obj (jget data ''deadlines'') in
        Some \<lparr>ot_prepare = jget t ''prepare'', ot_verify = jget t ''verify'', ot_start = jget t ''start'',
          ot_health = jget t ''health'', ot_infer = jget t ''infer'', ot_stop = jget t ''stop'',
          ot_verify_release = jget t ''verify-release''\<rparr>)
     else None)"

definition read_workload :: "(string, json) dict \<Rightarrow> workload_definition" where
  "read_workload data =
    (let ep = the_obj (jget data ''endpoint''); src = the_obj (jget data ''source'');
         ps = the_obj (jget data ''paths''); rs = the_obj (jget data ''resources'') in
     \<lparr>wd_id = the_str (jget data ''id''), wd_adapter = the_str (jget data ''adapter''),
       wd_topology = the_str (jget data ''topology''), wd_placement_class = the_str (jget data ''placement_class''),
       wd_nodes = strs (jget data ''nodes''), wd_start_order = strs (jget data ''start_order''),
       wd_stop_order = strs (jget data ''stop_order''), wd_conflicts = strs (jget data ''conflicts''),
       wd_co_location = the_str (jget data ''co_location''),
       wd_accepted_evidence = path_of (the_str (jget data ''accepted_evidence'')),
       wd_source = \<lparr>sp_repository = the_str (jget src ''repository''), sp_commit = the_str (jget src ''commit'')\<rparr>,
       wd_checkpoint = read_checkpoint (the_obj (jget data ''checkpoint'')),
       wd_image = the_str (jget (the_obj (jget data ''image'')) ''reference''),
       wd_paths = \<lparr>wp_cache = path_of (the_str (jget ps ''cache'')), wp_scratch = path_of (the_str (jget ps ''scratch'')),
         wp_output = path_of (the_str (jget ps ''output''))\<rparr>,
       wd_endpoint = \<lparr>ep_host = the_str (jget ep ''host''), ep_port = the_int (jget ep ''port'')\<rparr>,
       wd_commands = read_commands (the_obj (jget data ''commands'')),
       wd_resources = \<lparr>re_minimum_free_memory_bytes = the_int (jget rs ''minimum_free_memory_bytes''),
         re_minimum_free_disk_bytes = the_int (jget rs ''minimum_free_disk_bytes''),
         re_stop_memory_tolerance_bytes = the_int (jget rs ''stop_memory_tolerance_bytes'')\<rparr>,
       wd_runtime_release = read_runtime_release data, wd_deadlines = read_deadlines data\<rparr>)"

text \<open>\<^verbatim>\<open>load_workload\<close>, from the parsed document on.\<close>

definition load_workload :: "(string \<Rightarrow> json \<Rightarrow> string option) \<Rightarrow> (string, json) dict \<Rightarrow> profile_error + workload_definition" where
  "load_workload validate data =
     rbind (validate_document validate data ''workload.schema.json'') (\<lambda>_.
     rbind (require_rank_orders data) (\<lambda>_.
     raise_if (the_str (jget (the_obj (jget data ''endpoint'')) ''host'') \<notin> {''127.0.0.1'', ''::1''})
       (ProfileValidationError ''endpoint host must be loopback-only'') (
     Inr (read_workload data))))"

definition load_cluster_profile :: "(string \<Rightarrow> json \<Rightarrow> string option) \<Rightarrow> (string, json) dict \<Rightarrow> profile_error + cluster_profile" where
  "load_cluster_profile validate data =
     rbind (validate_document validate data ''cluster-profile.schema.json'') (\<lambda>_.
     Inr \<lparr>cl_id = the_str (jget data ''id''), cl_accepted_evidence = path_of (the_str (jget data ''accepted_evidence'')),
       cl_placements = map (\<lambda>(node, ws). (node, strs ws)) (the_obj (jget data ''placements'')),
       cl_endpoints = str_dict (jget data ''endpoints'')\<rparr>)"

definition load_generic_workload :: "(string \<Rightarrow> json \<Rightarrow> string option) \<Rightarrow> (string, json) dict \<Rightarrow>
    profile_error + generic_workload_definition" where
  "load_generic_workload validate data =
     rbind (validate_document validate data ''workload-v2.schema.json'') (\<lambda>_.
     Inr \<lparr>gw_id = the_str (jget data ''id''), gw_adapter = the_str (jget data ''adapter''),
       gw_definition_hash = the_str (jget data ''definition_hash''), gw_conflicts = strs (jget data ''conflicts''),
       gw_distributed_supported = the_bool (jget data ''distributed_supported'')\<rparr>)"

definition place_error :: "placement_error + 'a \<Rightarrow> profile_error + 'a" where
  "place_error r = (case r of Inl e \<Rightarrow> Inl (ProfilePlacementError e) | Inr x \<Rightarrow> Inr x)"

definition read_requirement :: "(string, json) dict \<Rightarrow> placement_requirement" where
  "read_requirement item =
     \<lparr>rq_name = the_str (jget item ''workload''), rq_definition_hash = the_str (jget item ''definition_hash''),
      rq_node_count = the_int (jget item ''node_count''), rq_required_labels = str_dict (jget item ''required_labels''),
      rq_min_memory_bytes = the_int (jget item ''min_memory_bytes''), rq_min_disk_bytes = the_int (jget item ''min_disk_bytes''),
      rq_exclusive = the_bool (jget item ''exclusive''), rq_distributed = the_int (jget item ''node_count'') > 1,
      rq_model_supports_distributed = the_bool (jget item ''distributed_supported''),
      rq_preferred_node_ids = strs (jget item ''preferred_node_ids'')\<rparr>"

definition load_generic_cluster_profile :: "(string \<Rightarrow> json \<Rightarrow> string option) \<Rightarrow> (string, json) dict \<Rightarrow>
    profile_error + generic_cluster_profile" where
  "load_generic_cluster_profile validate data =
     rbind (validate_document validate data ''cluster-profile-v2.schema.json'') (\<lambda>_.
     rbind (map_r (\<lambda>item. place_error (requirement_check (read_requirement (the_obj item))))
              (the_list (jget data ''requirements''))) (\<lambda>requirements.
     let lc = the_obj (jget data ''lifecycle''); endpoints = str_dict (jget data ''endpoints'');
         quotas = map (\<lambda>(alias, q). (alias, map (\<lambda>(k, v). (k, the_int v)) (the_obj q))) (the_obj (jget data ''quotas'')) in
     raise_if (set (map fst quotas) \<noteq> set (map fst endpoints))
       (ProfileValidationError ''profile quotas must exactly match endpoints'') (
     Inr \<lparr>gc_id = the_str (jget data ''id''), gc_accepted_evidence = path_of (the_str (jget data ''accepted_evidence'')),
       gc_workloads = strs (jget data ''workloads''), gc_requirements = requirements,
       gc_endpoints = endpoints, gc_quotas = quotas,
       gc_lifecycle = \<lparr>lc_start_order = the_str (jget lc ''start_order''), lc_stop_order = the_str (jget lc ''stop_order'')\<rparr>\<rparr>)))"

section \<open>Two-node profiles on a fleet\<close>

text \<open>\<^verbatim>\<open>assigned.setdefault(workload, []).append(node)\<close>.\<close>

definition dict_append :: "('k, 'v list) dict \<Rightarrow> 'k \<Rightarrow> 'v \<Rightarrow> ('k, 'v list) dict" where
  "dict_append d k v = dict_set d k ((case dict_get d k of Some vs \<Rightarrow> vs | None \<Rightarrow> []) @ [v])"

fun assign_alias :: "string \<Rightarrow> string list \<Rightarrow> (string, string list) dict \<Rightarrow> (string, string list) dict" where
  "assign_alias node [] assigned = assigned"
| "assign_alias node (w # ws) assigned = assign_alias node ws (dict_append assigned w node)"

definition legacy_requirement :: "(string \<Rightarrow> string) \<Rightarrow> (string, string) dict \<Rightarrow> (string, nat) dict \<Rightarrow> string \<Rightarrow> string list \<Rightarrow>
    placement_requirement" where
  "legacy_requirement sha aliases per_alias_count workload preferred =
     \<lparr>rq_name = workload, rq_definition_hash = sha (utf8 (''legacy:'' @ workload)),
      rq_node_count = int (length preferred), rq_required_labels = [], rq_min_memory_bytes = 0, rq_min_disk_bytes = 0,
      rq_exclusive = list_all (\<lambda>(alias, n). n \<in> set preferred \<longrightarrow> dict_get per_alias_count alias = Some 1) aliases,
      rq_distributed = length preferred > 1, rq_model_supports_distributed = length preferred > 1,
      rq_preferred_node_ids = preferred\<rparr>"

definition adapt_legacy_profile :: "(string \<Rightarrow> string) \<Rightarrow> cluster_profile \<Rightarrow> fleet \<Rightarrow> profile_error + generic_cluster_profile" where
  "adapt_legacy_profile sha profile fl =
    (let active_nodes = map fst (filter (\<lambda>(i, r). nr_lifecycle r \<noteq> ''retired'') (sort_key fst (fl_nodes fl))) in
     raise_if (length active_nodes < 2)
       (ProfileValidationError ''legacy two-workload profiles require at least two active fleet nodes'') (
     let aliases = [(''node1'', active_nodes ! 0), (''node2'', active_nodes ! 1)] in
     raise_if (set (map fst (cl_placements profile)) \<noteq> {''node1'', ''node2''})
       (ProfileValidationError ''legacy profile must contain exact node1/node2 placements'') (
     let placed = (\<lambda>alias. the (dict_get (cl_placements profile) alias));
         per_alias_count = map (\<lambda>(alias, n). (alias, length (placed alias))) aliases;
         assigned = assign_alias (active_nodes ! 1) (placed ''node2'') (assign_alias (active_nodes ! 0) (placed ''node1'') []);
         workloads = sort (map fst assigned) in
     rbind (map_r (\<lambda>w. place_error (requirement_check
              (legacy_requirement sha aliases per_alias_count w (the (dict_get assigned w))))) workloads) (\<lambda>requirements.
     let has_distributed = list_ex rq_distributed requirements in
     Inr \<lparr>gc_id = cl_id profile, gc_accepted_evidence = cl_accepted_evidence profile, gc_workloads = workloads,
       gc_requirements = requirements, gc_endpoints = cl_endpoints profile, gc_quotas = [],
       gc_lifecycle = \<lparr>lc_start_order = (if has_distributed then ''workers-before-entrypoint'' else ''independent''),
         lc_stop_order = (if has_distributed then ''entrypoint-before-workers'' else ''independent'')\<rparr>\<rparr>))))"

section \<open>What a loaded workload guarantees\<close>

definition wf_ranks :: "workload_definition \<Rightarrow> bool" where
  "wf_ranks w \<longleftrightarrow> distinct (wd_nodes w) \<and> set (wd_nodes w) \<subseteq> {''node1'', ''node2''} \<and>
     mset (wd_start_order w) = mset (wd_nodes w) \<and> mset (wd_stop_order w) = mset (wd_nodes w) \<and>
     (wd_topology w = ''distributed'' \<longrightarrow> wd_start_order w = [''node2'', ''node1''] \<and> wd_stop_order w = rev (wd_start_order w)) \<and>
     (wd_topology w = ''single'' \<longrightarrow> length (wd_nodes w) = 1) \<and>
     ep_host (wd_endpoint w) \<in> {''127.0.0.1'', ''::1''}"

lemma set_eq_length_mset:
  assumes "distinct xs" "set ys = set xs" "length ys = length xs"
  shows "mset ys = mset xs"
proof -
  have "distinct ys" using assms by (metis card_distinct distinct_card)
  with assms show ?thesis by (simp add: set_eq_iff_mset_eq_distinct [symmetric])
qed

lemma load_workload_ranks:
  assumes "load_workload validate data = Inr w"
  shows "wf_ranks w"
proof -
  let ?ns = "strs (jget data ''nodes'')" and ?a = "strs (jget data ''start_order'')" and ?z = "strs (jget data ''stop_order'')"
  from assms obtain u where r: "require_rank_orders data = Inr u" and "read_workload data = w"
    and h: "the_str (jget (the_obj (jget data ''endpoint'')) ''host'') \<in> {''127.0.0.1'', ''::1''}"
    unfolding load_workload_def rbind_Inr raise_if_Inr not_not sum.inject by blast
  then have w: "wd_nodes w = ?ns" "wd_start_order w = ?a" "wd_stop_order w = ?z"
    "wd_topology w = the_str (jget data ''topology'')"
    "ep_host (wd_endpoint w) = the_str (jget (the_obj (jget data ''endpoint'')) ''host'')"
    by (auto simp add: read_workload_def Let_def)
  note checks = r [unfolded require_rank_orders_def Let_def raise_if_Inr de_Morgan_disj not_not]
  have "length (remdups ?ns) = length ?ns" using checks by (elim conjE)
  then have d: "distinct ?ns" by simp
  have c: "set ?ns \<subseteq> {''node1'', ''node2''}" "set ?a = set ?ns" "length ?a = length ?ns"
    "set ?z = set ?ns" "length ?z = length ?ns"
    using checks by (simp_all only: simp_thms)
  have "wd_topology w = ''distributed'' \<longrightarrow> ?a = [''node2'', ''node1''] \<and> ?z = [''node1'', ''node2'']"
    "wd_topology w = ''single'' \<longrightarrow> length ?ns = 1"
    using checks unfolding w(4) by argo+
  moreover have "mset ?a = mset ?ns" "mset ?z = mset ?ns"
    by (rule set_eq_length_mset [OF d c(2,3)], rule set_eq_length_mset [OF d c(4,5)])
  ultimately show ?thesis using c(1) d h unfolding wf_ranks_def w by simp
qed

text \<open>A workload definition that loads has consistent ranks: unique known nodes, a start and a stop order that each
  list every node once, the worker before the head at the start and the reverse at the stop when it is distributed, one
  node when it is single, and a loopback endpoint.
\<close>

lemma loaded_workload_ranks:
  assumes "load_workload validate data = Inr w"
  shows "wf_ranks w"
  using assms by (rule load_workload_ranks)

definition ex_workload_document :: "(string, json) dict" where
  "ex_workload_document = [(''id'', JStr ''m''), (''adapter'', JStr ''vllm''), (''topology'', JStr ''distributed''),
     (''nodes'', JList [JStr ''node1'', JStr ''node2'']), (''start_order'', JList [JStr ''node2'', JStr ''node1'']),
     (''stop_order'', JList [JStr ''node1'', JStr ''node2'']),
     (''endpoint'', JObj [(''host'', JStr ''::1''), (''port'', JInt 80)])]"

lemma loaded_workload_ranks_witness:
  "\<exists>w. load_workload (\<lambda>_ _. None) ex_workload_document = Inr w \<and> wf_ranks w \<and> wd_topology w = ''distributed''"
proof -
  have "\<not> isl (load_workload (\<lambda>_ _. None) ex_workload_document)" by code_simp
  then obtain w where w: "load_workload (\<lambda>_ _. None) ex_workload_document = Inr w"
    by (cases "load_workload (\<lambda>_ _. None) ex_workload_document") auto
  have "wd_topology (projr (load_workload (\<lambda>_ _. None) ex_workload_document)) = ''distributed''" by code_simp
  with w loaded_workload_ranks [OF w] show ?thesis by auto
qed

end
