(* ===== verification/Catalog.thy ===== *)
theory Catalog
  imports Profiles
begin

text \<open>
  \<^verbatim>\<open>src/cluster_profiles/catalog.py\<close>: the content-addressed catalog. It loads the workload definitions, the
  cluster profiles and the selectors, compares every definition with its lock and with its maturity record, and walks
  the history of each record.

  The repository is two functions: the sorted \<^verbatim>\<open>*.toml\<close> files of a directory, and the file that a
  repository-relative path resolves to, if that is a file below the root. The libraries are the fields of
  \<open>library\<close>: the TOML and JSON parsers, SHA-256, \<^verbatim>\<open>jsonschema.validate\<close>, \<^verbatim>\<open>datetime.fromisoformat\<close> (the
  instant, and whether it has a UTC offset) and \<^verbatim>\<open>Path.expanduser\<close>. The package families and deployments of the
  catalog are an argument of \<open>catalog_load\<close>.
\<close>

record repository =
  repo_glob :: "string \<Rightarrow> (string \<times> string) list"
  repo_file :: "string \<Rightarrow> string option"

record library =
  lib_toml :: "string \<Rightarrow> (string, json) dict option"
  lib_json :: "string \<Rightarrow> json option"
  lib_sha256 :: "string \<Rightarrow> string"
  lib_validate :: "string \<Rightarrow> json \<Rightarrow> string option"
  lib_fromisoformat :: "string \<Rightarrow> (int \<times> bool) option"
  lib_expanduser :: "string \<Rightarrow> string"

text \<open>
  \<open>CatalogCannotLoad\<close> names what could not be read and its path; the text of the exception also quotes the error of the
  parser. \<open>CatalogLookup\<close> is a \<^verbatim>\<open>KeyError\<close> or \<^verbatim>\<open>IndexError\<close> on a document that the schemas reject.
\<close>

datatype catalog_error =
    CatalogError string
  | CatalogCannotLoad string string
  | CatalogProfile profile_error
  | CatalogLookup string

section \<open>Fingerprints\<close>

definition opt_str :: "string option \<Rightarrow> json" where
  "opt_str s = (case s of None \<Rightarrow> JNull | Some t \<Rightarrow> JStr t)"

definition str_list :: "string list \<Rightarrow> json" where
  "str_list ss = JList (map JStr ss)"

text \<open>\<^verbatim>\<open>_normal_form\<close> of a workload definition and of a cluster profile.\<close>

definition definition_normal_form :: "workload_definition \<Rightarrow> json" where
  "definition_normal_form w = JObj (
     [(''id'', JStr (wd_id w)), (''adapter'', JStr (wd_adapter w)), (''topology'', JStr (wd_topology w)),
      (''placement_class'', JStr (wd_placement_class w)), (''nodes'', str_list (wd_nodes w)),
      (''start_order'', str_list (wd_start_order w)), (''stop_order'', str_list (wd_stop_order w)),
      (''conflicts'', str_list (wd_conflicts w)), (''co_location'', JStr (wd_co_location w)),
      (''accepted_evidence'', JStr (wd_accepted_evidence w)),
      (''source'', JObj [(''repository'', JStr (sp_repository (wd_source w))), (''commit'', JStr (sp_commit (wd_source w)))]),
      (''checkpoint'', JObj [(''repository'', JStr (cp_repository (wd_checkpoint w))),
         (''revision'', JStr (cp_revision (wd_checkpoint w))), (''manifest'', JStr (cp_manifest (wd_checkpoint w))),
         (''manifest_sha256'', opt_str (cp_manifest_sha256 (wd_checkpoint w)))]),
      (''image'', JObj [(''reference'', JStr (wd_image w))]),
      (''paths'', JObj [(''cache'', JStr (wp_cache (wd_paths w))), (''scratch'', JStr (wp_scratch (wd_paths w))),
         (''output'', JStr (wp_output (wd_paths w)))]),
      (''endpoint'', JObj [(''host'', JStr (ep_host (wd_endpoint w))), (''port'', JInt (ep_port (wd_endpoint w)))]),
      (''commands'', let c = wd_commands w in JObj [(''prepare'', str_list (ac_prepare c)), (''verify'', str_list (ac_verify c)),
         (''start'', str_list (ac_start c)), (''health'', str_list (ac_health c)), (''infer'', str_list (ac_infer c)),
         (''stop'', str_list (ac_stop c)), (''verify_release'', str_list (ac_verify_release c))]),
      (''resources'', let r = wd_resources w in JObj [(''minimum_free_memory_bytes'', JInt (re_minimum_free_memory_bytes r)),
         (''minimum_free_disk_bytes'', JInt (re_minimum_free_disk_bytes r)),
         (''stop_memory_tolerance_bytes'', JInt (re_stop_memory_tolerance_bytes r))])] @
     (case wd_runtime_release w of None \<Rightarrow> []
      | Some r \<Rightarrow> [(''runtime_release'', JObj [(''manifest'', JStr (rr_manifest r)), (''sha256'', JStr (rr_sha256 r))])]) @
     (case wd_deadlines w of None \<Rightarrow> []
      | Some t \<Rightarrow> [(''deadlines'', JObj [(''prepare'', ot_prepare t), (''verify'', ot_verify t), (''start'', ot_start t),
          (''health'', ot_health t), (''infer'', ot_infer t), (''stop'', ot_stop t),
          (''verify_release'', ot_verify_release t)])]))"

definition profile_normal_form :: "cluster_profile \<Rightarrow> json" where
  "profile_normal_form p = JObj
     [(''id'', JStr (cl_id p)), (''accepted_evidence'', JStr (cl_accepted_evidence p)),
      (''placements'', JObj (map (\<lambda>(node, ws). (node, str_list ws)) (cl_placements p))),
      (''endpoints'', JObj (map (\<lambda>(k, v). (k, JStr v)) (cl_endpoints p)))]"

definition fingerprint :: "(string \<Rightarrow> string) \<Rightarrow> json \<Rightarrow> string" where
  "fingerprint sha v = sha (utf8 (json_dumps False v))"

section \<open>Files\<close>

definition load_json :: "library \<Rightarrow> repository \<Rightarrow> string \<Rightarrow> catalog_error + (string, json) dict" where
  "load_json lib repo path =
    (case Option.bind (repo_file repo path) (lib_json lib) of
       None \<Rightarrow> Inl (CatalogCannotLoad ''evidence index'' path)
     | Some (JObj d) \<Rightarrow> Inr d
     | Some _ \<Rightarrow> Inl (CatalogError (''evidence index '' @ path @ '' must be a JSON object'')))"

definition validate_index :: "library \<Rightarrow> repository \<Rightarrow> string \<Rightarrow> string \<Rightarrow> catalog_error + unit" where
  "validate_index lib repo name schema_name =
     rbind (load_json lib repo (''inventory/reports/'' @ name)) (\<lambda>d.
     case lib_validate lib schema_name (JObj d) of
       Some m \<Rightarrow> Inl (CatalogError (''invalid '' @ name @ '': '' @ m))
     | None \<Rightarrow> Inr ())"

definition validate_evidence_indexes :: "library \<Rightarrow> repository \<Rightarrow> catalog_error + unit" where
  "validate_evidence_indexes lib repo =
     rbind (validate_index lib repo ''model-definitions.json'' ''model-definitions.schema.json'') (\<lambda>_.
     validate_index lib repo ''accepted-cluster-profiles.json'' ''accepted-cluster-profiles.schema.json'')"

definition load_toml :: "library \<Rightarrow> repository \<Rightarrow> string \<Rightarrow> string \<Rightarrow> catalog_error + (string, json) dict" where
  "load_toml lib repo what path =
    (case Option.bind (repo_file repo path) (lib_toml lib) of
       None \<Rightarrow> Inl (CatalogCannotLoad what path)
     | Some d \<Rightarrow> Inr d)"

definition is_str :: "json \<Rightarrow> bool" where
  "is_str v = (case v of JStr _ \<Rightarrow> True | _ \<Rightarrow> False)"

definition is_full_table :: "json \<Rightarrow> bool" where
  "is_full_table v = (case v of JObj d \<Rightarrow> d \<noteq> [] | _ \<Rightarrow> False)"

definition load_locks :: "library \<Rightarrow> repository \<Rightarrow> string \<Rightarrow> catalog_error + (string, string) dict" where
  "load_locks lib repo path =
     rbind (load_toml lib repo ''definition locks'' path) (\<lambda>raw.
     raise_if (\<not> is_full_table (jget raw ''definitions''))
       (CatalogError ''definition locks must contain a [definitions] table'') (
     raise_if (set (map fst raw) \<noteq> {''definitions''} \<or>
         list_ex (\<lambda>(k, v). \<not> is_str v) (the_obj (jget raw ''definitions'')))
       (CatalogError ''definition locks must contain only definition fingerprints'') (
     Inr (str_dict (jget raw ''definitions'')))))"

text \<open>The sorted difference of two lists of names, read as sets.\<close>

definition sorted_diff :: "string list \<Rightarrow> string list \<Rightarrow> string list" where
  "sorted_diff xs ys = sort (remdups (filter (\<lambda>x. x \<notin> set ys) xs))"

definition load_selectors :: "library \<Rightarrow> repository \<Rightarrow> string \<Rightarrow> (string, cluster_profile) dict \<Rightarrow>
    catalog_error + (string, string) dict" where
  "load_selectors lib repo path profiles =
     rbind (load_toml lib repo ''profile selectors'' path) (\<lambda>raw.
     raise_if (set (map fst raw) \<noteq> {''selectors''} \<or> \<not> is_full_table (jget raw ''selectors''))
       (CatalogError ''profile selectors must contain a [selectors] table'') (
     raise_if (list_ex (\<lambda>(k, v). \<not> is_str v) (the_obj (jget raw ''selectors'')))
       (CatalogError ''profile selectors must map names to profile IDs'') (
     let result = str_dict (jget raw ''selectors''); missing = sorted_diff (map snd result) (map fst profiles) in
     raise_if (missing \<noteq> []) (CatalogError (''selector target is missing: '' @ join_with '', '' missing)) (
     Inr result))))"

definition read_toml :: "library \<Rightarrow> string \<times> string \<Rightarrow> catalog_error + (string, json) dict" where
  "read_toml lib file = (case lib_toml lib (snd file) of
     None \<Rightarrow> Inl (CatalogCannotLoad ''profile'' (fst file)) | Some d \<Rightarrow> Inr d)"

definition profile_result :: "profile_error + 'a \<Rightarrow> catalog_error + 'a" where
  "profile_result r = (case r of Inl e \<Rightarrow> Inl (CatalogProfile e) | Inr x \<Rightarrow> Inr x)"

fun load_each :: "(string \<times> string \<Rightarrow> catalog_error + 'a) \<Rightarrow> ('a \<Rightarrow> string) \<Rightarrow> string \<Rightarrow> (string \<times> string) list \<Rightarrow>
    (string, 'a) dict \<Rightarrow> catalog_error + (string, 'a) dict" where
  "load_each load ident what [] result = Inr result"
| "load_each load ident what (f # fs) result =
     rbind (load f) (\<lambda>x.
     raise_if (ident x \<in> fst ` set result) (CatalogError (what @ ident x)) (
     load_each load ident what fs (dict_set result (ident x) x)))"

definition load_definitions :: "library \<Rightarrow> repository \<Rightarrow> catalog_error + (string, workload_definition) dict" where
  "load_definitions lib repo =
     rbind (load_each (\<lambda>f. rbind (read_toml lib f) (\<lambda>d. profile_result (load_workload (lib_validate lib) d)))
              wd_id ''duplicate workload definition ID: '' (repo_glob repo ''config/workloads'') []) (\<lambda>result.
     raise_if (result = []) (CatalogError ''catalog has no workload definitions'') (Inr result))"

definition load_profiles :: "library \<Rightarrow> repository \<Rightarrow> catalog_error + (string, cluster_profile) dict" where
  "load_profiles lib repo =
     rbind (load_each (\<lambda>f. rbind (read_toml lib f) (\<lambda>d. profile_result (load_cluster_profile (lib_validate lib) d)))
              cl_id ''duplicate cluster profile ID: '' (repo_glob repo ''config/cluster-profiles'') []) (\<lambda>result.
     raise_if (result = []) (CatalogError ''catalog has no cluster profiles'') (Inr result))"

section \<open>Evidence\<close>

definition legal_maturity_transitions :: "string \<Rightarrow> string list" where
  "legal_maturity_transitions s =
    (if s = ''planned'' then [''prepared''] else if s = ''prepared'' then [''verified'']
     else if s = ''verified'' then [''accepted'', ''rejected''] else [])"

definition audit_timestamp :: "library \<Rightarrow> json \<Rightarrow> string \<Rightarrow> catalog_error + int" where
  "audit_timestamp lib v ctxt =
    (case (case v of JStr s \<Rightarrow> lib_fromisoformat lib s | _ \<Rightarrow> None) of
       None \<Rightarrow> Inl (CatalogError (ctxt @ '' has an invalid timestamp''))
     | Some (t, aware) \<Rightarrow>
         raise_if (\<not> aware) (CatalogError (ctxt @ '' timestamp must include a UTC offset'')) (Inr t))"

definition repository_file :: "repository \<Rightarrow> string \<Rightarrow> string \<Rightarrow> catalog_error + string" where
  "repository_file repo reference ctxt =
    (let path = path_of reference in
     raise_if (path_root path \<noteq> [] \<or> ''..'' \<in> set (path_parts path))
       (CatalogError (ctxt @ '' must be repository-relative: '' @ reference)) (
     case repo_file repo path of
       None \<Rightarrow> Inl (CatalogError (ctxt @ '' does not exist: '' @ reference))
     | Some content \<Rightarrow> Inr content))"

fun validate_evidence_refs :: "repository \<Rightarrow> string list \<Rightarrow> string \<Rightarrow> catalog_error + unit" where
  "validate_evidence_refs repo [] ctxt = Inr ()"
| "validate_evidence_refs repo (reference # rest) ctxt =
     rbind (repository_file repo reference (ctxt @ '' evidence reference'')) (\<lambda>_.
     validate_evidence_refs repo rest ctxt)"

fun validate_artifacts :: "library \<Rightarrow> repository \<Rightarrow> string \<Rightarrow> (string, json) dict \<Rightarrow> catalog_error + unit" where
  "validate_artifacts lib repo identifier [] = Inr ()"
| "validate_artifacts lib repo identifier ((reference, expected) # rest) =
     raise_if (\<not> is_str expected) (CatalogError (''invalid runtime release manifest: '' @ identifier)) (
     rbind (repository_file repo reference ''runtime release artifact'') (\<lambda>content.
     raise_if (lib_sha256 lib content \<noteq> the_str expected)
       (CatalogError (''runtime release artifact digest does not match manifest: '' @ reference)) (
     validate_artifacts lib repo identifier rest)))"

definition validate_runtime_release :: "library \<Rightarrow> repository \<Rightarrow> workload_definition \<Rightarrow> catalog_error + unit" where
  "validate_runtime_release lib repo w =
    (case wd_runtime_release w of
       None \<Rightarrow> Inr ()
     | Some release \<Rightarrow>
         rbind (repository_file repo (rr_manifest release) ''runtime release manifest'') (\<lambda>content.
         raise_if (lib_sha256 lib content \<noteq> rr_sha256 release)
           (CatalogError (''runtime release manifest digest does not match definition: '' @ wd_id w)) (
         case load_json lib repo (rr_manifest release) of
           Inl _ \<Rightarrow> Inl (CatalogError (''invalid runtime release manifest: '' @ wd_id w))
         | Inr manifest \<Rightarrow>
             raise_if (set (map fst manifest) \<noteq> {''files''} \<or> \<not> is_full_table (jget manifest ''files''))
               (CatalogError (''invalid runtime release manifest: '' @ wd_id w)) (
             validate_artifacts lib repo (wd_id w) (the_obj (jget manifest ''files''))))))"

fun storage_owner :: "library \<Rightarrow> string \<Rightarrow> (string \<times> string) list \<Rightarrow> (string, string \<times> string) dict \<Rightarrow>
    catalog_error + (string, string \<times> string) dict" where
  "storage_owner lib identifier [] owners = Inr owners"
| "storage_owner lib identifier ((field, raw) # rest) owners =
    (let path = lib_expanduser lib raw in
     case dict_get owners path of
       Some (pid, pfield) \<Rightarrow>
         raise_if (pid \<noteq> identifier)
           (CatalogError (''model-owned storage path collision: '' @ path @ '' ('' @ pid @ ''.'' @ pfield @ '' and '' @
              identifier @ ''.'' @ field @ '')'')) (
         storage_owner lib identifier rest (dict_set owners path (identifier, field)))
     | None \<Rightarrow> storage_owner lib identifier rest (dict_set owners path (identifier, field)))"

definition storage_fields :: "workload_definition \<Rightarrow> (string \<times> string) list" where
  "storage_fields w = [(''cache'', wp_cache (wd_paths w)), (''scratch'', wp_scratch (wd_paths w)),
     (''output'', wp_output (wd_paths w))]"

fun validate_storage_paths :: "library \<Rightarrow> workload_definition list \<Rightarrow> (string, string \<times> string) dict \<Rightarrow>
    catalog_error + (string, string \<times> string) dict" where
  "validate_storage_paths lib [] owners = Inr owners"
| "validate_storage_paths lib (w # ws) owners =
     rbind (storage_owner lib (wd_id w) (storage_fields w) owners) (\<lambda>owners'.
     validate_storage_paths lib ws owners')"

definition stage_report_path :: "string \<Rightarrow> string \<Rightarrow> nat option \<Rightarrow> string" where
  "stage_report_path identifier stage correction_position =
     ''inventory/reports/model-definitions/'' @ identifier @ ''-'' @
     (case correction_position of Some p \<Rightarrow> stage @ ''-correction-'' @ dec_int (int p) | None \<Rightarrow> stage) @ ''.json''"

definition read_report :: "library \<Rightarrow> repository \<Rightarrow> string \<Rightarrow> string \<Rightarrow> string \<Rightarrow> catalog_error + (string, json) dict" where
  "read_report lib repo path stage identifier =
    (case rbind (repository_file repo path (stage @ '' maturity evidence'')) (\<lambda>_. load_json lib repo path) of
       Inl _ \<Rightarrow> Inl (CatalogError (''invalid '' @ stage @ '' maturity evidence: '' @ identifier))
     | Inr report \<Rightarrow>
         raise_if (lib_validate lib ''model-definition-evidence.schema.json'' (JObj report) \<noteq> None)
           (CatalogError (''invalid '' @ stage @ '' maturity evidence: '' @ identifier)) (Inr report))"

definition check_report :: "workload_definition \<Rightarrow> string \<Rightarrow> string \<Rightarrow> (string, json) dict \<Rightarrow> catalog_error + unit" where
  "check_report w definition_sha256 stage report =
     raise_if (\<not> py_eq (jget report ''stage'') (JStr stage) \<or> \<not> py_eq (jget report ''definition_id'') (JStr (wd_id w)))
       (CatalogError (''maturity evidence identity does not match definition: '' @ wd_id w)) (
     raise_if (\<not> py_eq (jget report ''definition_sha256'') (JStr definition_sha256))
       (CatalogError (''maturity evidence fingerprint does not match definition: '' @ wd_id w)) (
     raise_if (\<not> py_eq (jget report ''runtime_manifest_sha256'') (opt_str (map_option rr_sha256 (wd_runtime_release w))))
       (CatalogError (''runtime release pin does not match definition: '' @ wd_id w)) (
     raise_if (\<not> py_eq (jget report ''source'')
         (JObj [(''repository'', JStr (sp_repository (wd_source w))), (''commit'', JStr (sp_commit (wd_source w)))]))
       (CatalogError (''source pin does not match definition: '' @ wd_id w)) (
     raise_if (\<not> py_eq (jget report ''checkpoint'')
         (JObj [(''repository'', JStr (cp_repository (wd_checkpoint w))), (''revision'', JStr (cp_revision (wd_checkpoint w))),
           (''manifest_sha256'', opt_str (cp_manifest_sha256 (wd_checkpoint w)))]))
       (CatalogError (''checkpoint pin does not match definition: '' @ wd_id w)) (
     raise_if (\<not> py_eq (jget report ''image'') (JObj [(''reference'', JStr (wd_image w))]))
       (CatalogError (''image pin does not match definition: '' @ wd_id w)) (
     let reported = map (\<lambda>n. the_str (jget (the_obj n) ''node'')) (the_list (jget report ''nodes'')) in
     raise_if (\<not> distinct reported \<or> set reported \<noteq> set (wd_nodes w))
       (CatalogError (''maturity evidence nodes must exactly match definition nodes: '' @ wd_id w)) (Inr ())))))))"

definition validate_stage_evidence :: "library \<Rightarrow> repository \<Rightarrow> workload_definition \<Rightarrow> string \<Rightarrow> (string, json) dict \<Rightarrow>
    string option \<Rightarrow> nat \<Rightarrow> bool \<Rightarrow> catalog_error + string" where
  "validate_stage_evidence lib repo w definition_sha256 transition predecessor history_position correction =
    (let stage = the_str (jget transition ''state'');
         expected_path = stage_report_path (wd_id w) stage (if correction then Some history_position else None) in
     raise_if (\<not> py_eq (jget transition ''evidence_refs'') (JList [JStr expected_path]))
       (CatalogError (stage @ '' maturity evidence must name its canonical report: '' @ wd_id w)) (
     rbind (read_report lib repo expected_path stage (wd_id w)) (\<lambda>report.
     rbind (check_report w definition_sha256 stage report) (\<lambda>_.
     rbind (audit_timestamp lib (jget report ''recorded_at'') (stage @ '' maturity evidence'')) (\<lambda>_.
     raise_if (\<not> py_eq (jget report ''predecessor'') (opt_str predecessor))
       (CatalogError (''maturity evidence predecessor does not name the immediately prior valid report: '' @ wd_id w)) (
     Inr expected_path))))))"

section \<open>Maturity\<close>

text \<open>The transitions of a history, with their positions.\<close>

fun check_timestamps :: "library \<Rightarrow> repository \<Rightarrow> string \<Rightarrow> nat \<Rightarrow> int option \<Rightarrow> json list \<Rightarrow> catalog_error + unit" where
  "check_timestamps lib repo identifier position previous [] = Inr ()"
| "check_timestamps lib repo identifier position previous (t # rest) =
    (let ctxt = ''maturity history for '' @ identifier @ '' at transition '' @ dec_int (int position) in
     rbind (audit_timestamp lib (jget (the_obj t) ''timestamp'') ctxt) (\<lambda>timestamp.
     raise_if (case previous of Some p \<Rightarrow> timestamp \<le> p | None \<Rightarrow> False)
       (CatalogError (''maturity history timestamps must increase: '' @ identifier)) (
     rbind (validate_evidence_refs repo (strs (jget (the_obj t) ''evidence_refs'')) ctxt) (\<lambda>_.
     check_timestamps lib repo identifier (position + 1) (Some timestamp) rest))))"

definition check_transition :: "string \<Rightarrow> nat \<Rightarrow> string \<Rightarrow> string \<Rightarrow> (string, json) dict \<Rightarrow> catalog_error + unit" where
  "check_transition identifier position previous current transition =
    (let has_correction = has_key transition ''correction_of'' \<or> has_key transition ''correction_reason'' in
     if previous = ''rejected'' then
       raise_if (current \<noteq> ''verified'') (CatalogError (''rejected maturity may only return to verified: '' @ identifier)) (
       raise_if (\<not> has_correction)
         (CatalogError (''rejected to verified requires correction_of and correction_reason: '' @ identifier)) (
       raise_if (\<not> has_key transition ''correction_of'') (CatalogLookup ''correction_of'') (
       raise_if (\<not> py_eq (jget transition ''correction_of'') (JInt (int position - 1)))
         (CatalogError (''correction_of must reference transition '' @ dec_int (int position - 1) @ '': '' @ identifier)) (
       Inr ()))))
     else
       raise_if has_correction (CatalogError (''correction metadata may only follow rejected: '' @ identifier)) (
       raise_if (current \<notin> set (legal_maturity_transitions previous))
         (CatalogError (''illegal maturity transition for '' @ identifier @ '': '' @ previous @ '' -> '' @ current)) (
       Inr ())))"

definition state_of :: "json \<Rightarrow> string" where
  "state_of t = the_str (jget (the_obj t) ''state'')"

fun check_transitions :: "string \<Rightarrow> nat \<Rightarrow> json list \<Rightarrow> catalog_error + unit" where
  "check_transitions identifier position (p # c # rest) =
     rbind (check_transition identifier position (state_of p) (state_of c) (the_obj c)) (\<lambda>_.
     check_transitions identifier (position + 1) (c # rest))"
| "check_transitions identifier position h = Inr ()"

definition validate_maturity_history :: "library \<Rightarrow> repository \<Rightarrow> (string, json) dict \<Rightarrow> catalog_error + unit" where
  "validate_maturity_history lib repo rec =
    (let identifier = the_str (jget rec ''id''); history = the_list (jget rec ''history''); states = map state_of history in
     raise_if (states = []) (CatalogLookup ''history'') (
     raise_if (hd states \<noteq> ''planned'') (CatalogError (''maturity history must begin at planned: '' @ identifier)) (
     rbind (check_timestamps lib repo identifier 0 None history) (\<lambda>_.
     rbind (check_transitions identifier 1 history) (\<lambda>_.
     raise_if (\<not> py_eq (jget rec ''maturity'') (JStr (last states)))
       (CatalogError (''current maturity does not match history: '' @ identifier)) (Inr ()))))))"

fun check_stages :: "library \<Rightarrow> repository \<Rightarrow> workload_definition \<Rightarrow> string \<Rightarrow> nat \<Rightarrow> string option \<Rightarrow> string \<Rightarrow> json list \<Rightarrow>
    catalog_error + unit" where
  "check_stages lib repo w sha position previous_report previous_state [] = Inr ()"
| "check_stages lib repo w sha position previous_report previous_state (t # rest) =
    (if state_of t \<notin> {''prepared'', ''verified'', ''accepted''}
     then check_stages lib repo w sha (position + 1) previous_report (state_of t) rest
     else rbind (validate_stage_evidence lib repo w sha (the_obj t) previous_report position
                  (state_of t = ''verified'' \<and> position > 0 \<and> previous_state = ''rejected'')) (\<lambda>report.
       check_stages lib repo w sha (position + 1) (Some report) (state_of t) rest))"

fun check_records :: "library \<Rightarrow> repository \<Rightarrow> (string, string) dict \<Rightarrow> (string, workload_definition) dict \<Rightarrow> json list \<Rightarrow>
    (string, string) dict \<Rightarrow> catalog_error + (string, string) dict" where
  "check_records lib repo fingerprints definitions [] maturity = Inr maturity"
| "check_records lib repo fingerprints definitions (r # rs) maturity =
    (let rec = the_obj r; identifier = the_str (jget rec ''id'') in
     raise_if (identifier \<in> fst ` set maturity) (CatalogError (''duplicate maturity record: '' @ identifier)) (
     raise_if (dict_get fingerprints identifier \<noteq> Some (the_str (jget rec ''sha256'')))
       (CatalogError (''maturity fingerprint does not match definition: '' @ identifier)) (
     rbind (validate_maturity_history lib repo rec) (\<lambda>_.
     rbind (case dict_get definitions identifier of
              None \<Rightarrow> Inr ()
            | Some w \<Rightarrow> check_stages lib repo w (the_str (jget rec ''sha256'')) 0 None [] (the_list (jget rec ''history'')))
       (\<lambda>_. check_records lib repo fingerprints definitions rs
         (dict_set maturity identifier (the_str (jget rec ''maturity''))))))))"

definition difference_detail :: "string list \<Rightarrow> string list \<Rightarrow> string" where
  "difference_detail missing extra =
     join_with '', '' (map (\<lambda>i. ''missing '' @ i) missing @ map (\<lambda>i. ''unknown '' @ i) extra)"

definition maturity_records :: "library \<Rightarrow> repository \<Rightarrow> (string, json) dict \<Rightarrow> (string, string) dict \<Rightarrow>
    (string, workload_definition) dict \<Rightarrow> catalog_error + (string, string) dict" where
  "maturity_records lib repo index fingerprints definitions =
     rbind (check_records lib repo fingerprints definitions (the_list (jget index ''definitions'')) []) (\<lambda>maturity.
     let missing = sorted_diff (map fst fingerprints) (map fst maturity);
         extra = sorted_diff (map fst maturity) (map fst fingerprints) in
     raise_if (missing \<noteq> [] \<or> extra \<noteq> [])
       (CatalogError (''maturity records do not match definitions: '' @ difference_detail missing extra)) (
     Inr maturity))"

section \<open>The catalog\<close>

record 'p catalog =
  ct_definitions :: "(string, workload_definition) dict"
  ct_profiles :: "(string, cluster_profile) dict"
  ct_selectors :: "(string, string) dict"
  ct_definition_fingerprints :: "(string, string) dict"
  ct_profile_fingerprints :: "(string, string) dict"
  ct_maturity :: "(string, string) dict"
  ct_maturity_fingerprints :: "(string, string) dict"
  ct_accepted_profiles :: "(string, string list) dict"
  ct_packages :: 'p

definition check_locks :: "(string, string) dict \<Rightarrow> (string, string) dict \<Rightarrow> catalog_error + unit" where
  "check_locks locks fingerprints =
    (let missing = sorted_diff (map fst fingerprints) (map fst locks); extra = sorted_diff (map fst locks) (map fst fingerprints) in
     raise_if (missing \<noteq> [] \<or> extra \<noteq> [])
       (CatalogError (''definition locks do not match catalog: '' @ difference_detail missing extra)) (
     case filter (\<lambda>(i, f). dict_get locks i \<noteq> Some f) fingerprints of
       [] \<Rightarrow> Inr ()
     | (i, _) # _ \<Rightarrow> Inl (CatalogError (''lock fingerprint does not match definition: '' @ i))))"

fun accepted_index :: "library \<Rightarrow> repository \<Rightarrow> json list \<Rightarrow> (string, string list) dict \<Rightarrow> catalog_error + (string, string list) dict" where
  "accepted_index lib repo [] accepted = Inr accepted"
| "accepted_index lib repo (r # rs) accepted =
    (let rec = the_obj r; profile_hash = the_str (jget rec ''profile_sha256''); hashes = strs (jget rec ''definition_sha256'');
         ctxt = ''accepted profile '' @ profile_hash in
     raise_if (profile_hash \<in> fst ` set accepted) (CatalogError (''duplicate accepted profile fingerprint: '' @ profile_hash)) (
     raise_if (sort hashes \<noteq> hashes \<or> \<not> distinct hashes)
       (CatalogError ''accepted definition hashes must be sorted and unique'') (
     rbind (audit_timestamp lib (jget rec ''accepted_at'') ctxt) (\<lambda>_.
     rbind (validate_evidence_refs repo (strs (jget rec ''evidence_refs'')) ctxt) (\<lambda>_.
     accepted_index lib repo rs (dict_set accepted profile_hash hashes))))))"

fun check_releases :: "library \<Rightarrow> repository \<Rightarrow> workload_definition list \<Rightarrow> catalog_error + unit" where
  "check_releases lib repo [] = Inr ()"
| "check_releases lib repo (w # ws) = rbind (validate_runtime_release lib repo w) (\<lambda>_. check_releases lib repo ws)"

definition catalog_load :: "library \<Rightarrow> repository \<Rightarrow> ((string, workload_definition) dict \<Rightarrow> catalog_error + 'p) \<Rightarrow>
    catalog_error + 'p catalog" where
  "catalog_load lib repo packages_of =
     rbind (load_definitions lib repo) (\<lambda>definitions.
     rbind (packages_of definitions) (\<lambda>packages.
     rbind (validate_storage_paths lib (map snd definitions) []) (\<lambda>_.
     rbind (load_profiles lib repo) (\<lambda>profiles.
     rbind (load_selectors lib repo ''config/profile-selectors.toml'' profiles) (\<lambda>selectors.
     let fingerprints = map (\<lambda>(i, w). (i, fingerprint (lib_sha256 lib) (definition_normal_form w))) definitions in
     rbind (load_locks lib repo ''locks/model-definitions.toml'') (\<lambda>locks.
     rbind (check_locks locks fingerprints) (\<lambda>_.
     rbind (validate_evidence_indexes lib repo) (\<lambda>_.
     rbind (load_json lib repo ''inventory/reports/model-definitions.json'') (\<lambda>index.
     rbind (check_releases lib repo (map snd definitions)) (\<lambda>_.
     rbind (maturity_records lib repo index fingerprints definitions) (\<lambda>maturity.
     rbind (load_json lib repo ''inventory/reports/accepted-cluster-profiles.json'') (\<lambda>accepted.
     rbind (accepted_index lib repo (the_list (jget accepted ''profiles'')) []) (\<lambda>accepted_profiles.
     Inr \<lparr>ct_definitions = definitions, ct_profiles = profiles, ct_selectors = selectors,
       ct_definition_fingerprints = fingerprints,
       ct_profile_fingerprints = map (\<lambda>(i, p). (i, fingerprint (lib_sha256 lib) (profile_normal_form p))) profiles,
       ct_maturity = maturity,
       ct_maturity_fingerprints = dict_of (map (\<lambda>r. (the_str (jget (the_obj r) ''id''), the_str (jget (the_obj r) ''sha256'')))
         (the_list (jget index ''definitions''))),
       ct_accepted_profiles = accepted_profiles, ct_packages = packages\<rparr>)))))))))))))"

definition resolve_profile :: "'p catalog \<Rightarrow> string \<Rightarrow> catalog_error + cluster_profile" where
  "resolve_profile ct selector =
    (case Option.bind (dict_get (ct_selectors ct) selector) (dict_get (ct_profiles ct)) of
       None \<Rightarrow> Inl (CatalogError (''unknown profile selector: '' @ selector))
     | Some p \<Rightarrow> Inr p)"

section \<open>Maturity is earned\<close>

definition maturity_step :: "string \<Rightarrow> string \<Rightarrow> bool" where
  "maturity_step p c \<longleftrightarrow> (if p = ''rejected'' then c = ''verified'' else c \<in> set (legal_maturity_transitions p))"

lemma check_transition_step: "check_transition i n p c t = Inr u \<Longrightarrow> maturity_step p c"
  by (auto simp: check_transition_def maturity_step_def raise_if_Inr Let_def split: if_splits)

lemma check_transitions_step: "check_transitions i n h = Inr u \<Longrightarrow> successively maturity_step (map state_of h)"
  by (induction i n h rule: check_transitions.induct) (auto simp: rbind_Inr dest: check_transition_step)

lemma maturity_steps [simp]:
  "maturity_step ''planned'' c \<longleftrightarrow> c = ''prepared''" "maturity_step ''prepared'' c \<longleftrightarrow> c = ''verified''"
  "maturity_step ''verified'' c \<longleftrightarrow> c = ''accepted'' \<or> c = ''rejected''" "maturity_step ''rejected'' c \<longleftrightarrow> c = ''verified''"
  "\<not> maturity_step ''accepted'' c"
  by (auto simp: maturity_step_def legal_maturity_transitions_def)

lemma verified_to_accepted:
  "successively maturity_step (''verified'' # xs) \<Longrightarrow> last (''verified'' # xs) = ''accepted'' \<Longrightarrow>
     \<exists>n. ''verified'' # xs = concat (replicate n [''verified'', ''rejected'']) @ [''verified'', ''accepted'']"
proof (induction xs rule: length_induct)
  case (1 xs)
  from 1(3) obtain y ys where xs: "xs = y # ys" by (cases xs) auto
  with 1(2) have y: "y = ''accepted'' \<or> y = ''rejected''" and ys: "successively maturity_step (y # ys)" by auto
  show ?case
  proof (cases ys)
    case Nil
    with 1(3) xs have "y = ''accepted''" by simp
    with xs Nil show ?thesis by (intro exI [of _ 0]) simp
  next
    case (Cons z zs)
    with ys y have yz: "y = ''rejected''" "z = ''verified''" by auto
    have "successively maturity_step (''verified'' # zs)" "last (''verified'' # zs) = ''accepted''" "length zs < length xs"
      using ys 1(3) by (auto simp: xs Cons yz split: if_splits)
    with 1(1) obtain n where "''verified'' # zs = concat (replicate n [''verified'', ''rejected'']) @ [''verified'', ''accepted'']"
      by blast
    then have "''verified'' # xs = concat (replicate (Suc n) [''verified'', ''rejected'']) @ [''verified'', ''accepted'']"
      by (simp add: xs Cons yz)
    then show ?thesis by blast
  qed
qed

lemma planned_to_accepted:
  assumes "successively maturity_step xs" "xs \<noteq> []" "hd xs = ''planned''" "last xs = ''accepted''"
  shows "\<exists>n. xs = [''planned'', ''prepared''] @ concat (replicate n [''verified'', ''rejected'']) @ [''verified'', ''accepted'']"
proof -
  from assms obtain a where xs: "xs = ''planned'' # a" by (cases xs) auto
  with assms obtain b where a: "a = ''prepared'' # b" by (cases a) auto
  with assms xs obtain c where b: "b = ''verified'' # c" by (cases b) auto
  from assms(1,4) have "successively maturity_step (''verified'' # c)" "last (''verified'' # c) = ''accepted''"
    by (auto simp: xs a b split: if_splits)
  from verified_to_accepted [OF this] show ?thesis unfolding xs a b by auto
qed

definition stamped :: "library \<Rightarrow> json \<Rightarrow> int \<Rightarrow> bool" where
  "stamped lib t i \<longleftrightarrow> (\<exists>s. jget (the_obj t) ''timestamp'' = JStr s \<and> lib_fromisoformat lib s = Some (i, True))"

lemma audit_timestamp_Inr:
  "audit_timestamp lib v c = Inr i \<longleftrightarrow> (\<exists>s. v = JStr s \<and> lib_fromisoformat lib s = Some (i, True))"
  by (cases v) (auto simp: audit_timestamp_def raise_if_Inr split: option.splits)

lemma check_timestamps_increase:
  "check_timestamps lib repo i n p h = Inr u \<Longrightarrow>
     \<exists>ts. list_all2 (stamped lib) h ts \<and> sorted_wrt (<) ts \<and> (\<forall>q. p = Some q \<longrightarrow> (\<forall>t \<in> set ts. q < t))"
proof (induction h arbitrary: n p)
  case (Cons t rest)
  from Cons.prems obtain ts where s: "stamped lib t ts" and p: "\<forall>q. p = Some q \<longrightarrow> q < ts"
    and rest: "check_timestamps lib repo i (n + 1) (Some ts) rest = Inr u"
    by (auto simp: Let_def rbind_Inr raise_if_Inr audit_timestamp_Inr stamped_def not_le split: option.splits)
  from Cons.IH [OF rest] obtain us
    where "list_all2 (stamped lib) rest us" "sorted_wrt (<) us" "\<forall>t \<in> set us. ts < t" by blast
  with s p show ?case by (intro exI [of _ "ts # us"]) (auto intro: less_trans)
qed simp

text \<open>C21: A workload is accepted only after it was prepared and verified. A maturity record that passes validation and
  says \<^verbatim>\<open>accepted\<close> has a history from \<^verbatim>\<open>planned\<close> over \<^verbatim>\<open>prepared\<close> to \<^verbatim>\<open>verified\<close>, with every
  rejection followed by a new verification, and its timestamps increase strictly.
\<close>

theorem accepted_maturity_is_earned:
  assumes "validate_maturity_history lib repo rec = Inr ()" "jget rec ''maturity'' = JStr ''accepted''"
  shows "\<exists>n ts. map state_of (the_list (jget rec ''history'')) =
      [''planned'', ''prepared''] @ concat (replicate n [''verified'', ''rejected'']) @ [''verified'', ''accepted''] \<and>
    list_all2 (stamped lib) (the_list (jget rec ''history'')) ts \<and> sorted_wrt (<) ts"
proof -
  let ?h = "the_list (jget rec ''history'')"
  note checks = assms(1) [unfolded validate_maturity_history_def Let_def raise_if_Inr rbind_Inr not_not assms(2)]
  from checks obtain u v where ne: "map state_of ?h \<noteq> []" "hd (map state_of ?h) = ''planned''"
    and ts: "check_timestamps lib repo (the_str (jget rec ''id'')) 0 None ?h = Inr u"
    and tr: "check_transitions (the_str (jget rec ''id'')) 1 ?h = Inr v"
    and l: "py_eq (JStr ''accepted'') (JStr (last (map state_of ?h)))"
    by blast
  from l have "last (map state_of ?h) = ''accepted''" by (simp add: py_eq_def)
  from planned_to_accepted [OF check_transitions_step [OF tr] ne this] check_timestamps_increase [OF ts]
  show ?thesis by blast
qed

definition ex_library :: library where
  "ex_library = \<lparr>lib_toml = (\<lambda>_. None), lib_json = (\<lambda>_. None), lib_sha256 = (\<lambda>s. s), lib_validate = (\<lambda>_ _. None),
     lib_fromisoformat = (\<lambda>s. Some (int (length s), True)), lib_expanduser = (\<lambda>s. s)\<rparr>"

definition ex_repository :: repository where
  "ex_repository = \<lparr>repo_glob = (\<lambda>_. []), repo_file = (\<lambda>_. Some [])\<rparr>"

definition ex_transition :: "string \<Rightarrow> string \<Rightarrow> (string, json) dict \<Rightarrow> json" where
  "ex_transition state time extra = JObj ([(''state'', JStr state), (''timestamp'', JStr time), (''evidence_refs'', JList [])] @ extra)"

definition ex_record :: "(string, json) dict" where
  "ex_record = [(''id'', JStr ''m''), (''maturity'', JStr ''accepted''), (''history'', JList
     [ex_transition ''planned'' [] [], ex_transition ''prepared'' ''1'' [], ex_transition ''verified'' ''12'' [],
      ex_transition ''rejected'' ''123'' [], ex_transition ''verified'' ''1234'' [(''correction_of'', JInt 3)],
      ex_transition ''accepted'' ''12345'' []])]"

theorem accepted_maturity_is_earned_witness:
  "validate_maturity_history ex_library ex_repository ex_record = Inr () \<and>
   (\<exists>n. map state_of (the_list (jget ex_record ''history'')) =
      [''planned'', ''prepared''] @ concat (replicate n [''verified'', ''rejected'']) @ [''verified'', ''accepted''])"
proof -
  have v: "validate_maturity_history ex_library ex_repository ex_record = Inr ()" by code_simp
  have "jget ex_record ''maturity'' = JStr ''accepted''" by code_simp
  with accepted_maturity_is_earned [OF v] v show ?thesis by blast
qed

section \<open>The catalog is content-addressed\<close>

lemma load_each_Inr:
  assumes "load_each load ident what fs d = Inr r" "wf_dict d" "\<forall>(i, x) \<in> set d. ident x = i \<and> P x"
    and "\<And>f x. load f = Inr x \<Longrightarrow> P x"
  shows "wf_dict r \<and> (\<forall>(i, x) \<in> set r. ident x = i \<and> P x)"
  using assms(1-3)
proof (induction fs arbitrary: d)
  case (Cons f fs)
  then obtain x where x: "load f = Inr x" "ident x \<notin> fst ` set d"
    and rest: "load_each load ident what fs (dict_set d (ident x) x) = Inr r"
    by (auto simp: rbind_Inr raise_if_Inr)
  have e: "dict_set d (ident x) x = d @ [(ident x, x)]" by (rule dict_set_new [OF x(2)])
  show ?case
  proof (rule Cons.IH [OF rest])
    show "wf_dict (dict_set d (ident x) x)" using Cons.prems(2) by simp
    show "\<forall>(i, y) \<in> set (dict_set d (ident x) x). ident y = i \<and> P y"
      using Cons.prems(3) assms(4) [OF x(1)] by (auto simp: e)
  qed
qed simp

lemma sorted_diff_Nil: "sorted_diff xs ys = [] \<longleftrightarrow> set xs \<subseteq> set ys"
proof -
  have "set (sorted_diff xs ys) = {} \<longleftrightarrow> set xs \<subseteq> set ys" by (auto simp: sorted_diff_def)
  then show ?thesis by simp
qed

definition rec_id :: "json \<Rightarrow> string" where
  "rec_id r = the_str (jget (the_obj r) ''id'')"

definition rec_sha :: "json \<Rightarrow> string" where
  "rec_sha r = the_str (jget (the_obj r) ''sha256'')"

lemma check_records_Inr:
  assumes "check_records lib repo fps defs rs m = Inr m'" "wf_dict m"
  shows "map fst m' = map fst m @ map rec_id rs \<and> wf_dict m' \<and>
    (\<forall>r \<in> set rs. dict_get fps (rec_id r) = Some (rec_sha r) \<and> validate_maturity_history lib repo (the_obj r) = Inr ())"
  using assms
proof (induction rs arbitrary: m)
  case (Cons r rs)
  let ?m = "dict_set m (rec_id r) (the_str (jget (the_obj r) ''maturity''))"
  from Cons.prems(1) have new: "rec_id r \<notin> fst ` set m"
    and ok: "dict_get fps (rec_id r) = Some (rec_sha r)" "validate_maturity_history lib repo (the_obj r) = Inr ()"
    and rest: "check_records lib repo fps defs rs ?m = Inr m'"
    by (simp_all add: Let_def rbind_Inr raise_if_Inr rec_id_def rec_sha_def)
  have e: "?m = m @ [(rec_id r, the_str (jget (the_obj r) ''maturity''))]" by (rule dict_set_new [OF new])
  have "wf_dict ?m" using Cons.prems(2) by simp
  note ih = Cons.IH [OF rest this]
  have "map fst m' = map fst m @ map rec_id (r # rs)" using ih by (simp add: e)
  moreover have "wf_dict m'" using ih by (elim conjE)
  moreover have "\<forall>r \<in> set (r # rs). dict_get fps (rec_id r) = Some (rec_sha r) \<and> validate_maturity_history lib repo (the_obj r) = Inr ()"
    using ih ok by simp
  ultimately show ?case by (intro conjI)
qed simp

lemma check_locks_Inr:
  assumes "check_locks locks fps = Inr u"
  shows "set (map fst locks) = set (map fst fps) \<and> (\<forall>(i, f) \<in> set fps. dict_get locks i = Some f)"
proof -
  have d: "set (map fst fps) \<subseteq> set (map fst locks)" "set (map fst locks) \<subseteq> set (map fst fps)"
    using assms unfolding check_locks_def Let_def raise_if_Inr de_Morgan_disj not_not sorted_diff_Nil by blast+
  have "filter (\<lambda>(i, f). dict_get locks i \<noteq> Some f) fps = []"
    using assms unfolding check_locks_def Let_def raise_if_Inr by (auto split: list.splits)
  then have "\<forall>(i, f) \<in> set fps. dict_get locks i = Some f" by (auto simp: filter_empty_conv)
  with d show ?thesis by blast
qed

lemma maturity_records_Inr:
  assumes "maturity_records lib repo index fps defs = Inr m" "i \<in> set (map fst fps)"
  shows "i \<in> set (map fst m) \<and>
    dict_get (dict_of (map (\<lambda>r. (rec_id r, rec_sha r)) (the_list (jget index ''definitions'')))) i = dict_get fps i \<and>
    (\<exists>r \<in> set (the_list (jget index ''definitions'')). rec_id r = i \<and> validate_maturity_history lib repo (the_obj r) = Inr ())"
proof -
  let ?rs = "the_list (jget index ''definitions'')"
  have c: "check_records lib repo fps defs ?rs [] = Inr m" and sub: "set (map fst fps) \<subseteq> set (map fst m)"
    using assms(1) unfolding maturity_records_def Let_def rbind_Inr raise_if_Inr de_Morgan_disj not_not sorted_diff_Nil
    by auto
  from check_records_Inr [OF c] have keys: "map fst m = map rec_id ?rs" "distinct (map rec_id ?rs)"
    and ok: "\<And>r. r \<in> set ?rs \<Longrightarrow> dict_get fps (rec_id r) = Some (rec_sha r) \<and> validate_maturity_history lib repo (the_obj r) = Inr ()"
    by auto
  from sub assms(2) have im: "i \<in> set (map fst m)" by blast
  then obtain r where r: "r \<in> set ?rs" "rec_id r = i" unfolding keys(1) by auto
  have w: "wf_dict (map (\<lambda>r. (rec_id r, rec_sha r)) ?rs)" using keys(2) by (simp add: comp_def)
  have "dict_get (map (\<lambda>r. (rec_id r, rec_sha r)) ?rs) i = Some (rec_sha r)"
    using r by (intro map_of_is_SomeI [OF w]) auto
  with ok [OF r(1)] r im show ?thesis by (auto simp: dict_of_distinct [OF w])
qed

text \<open>C22: A catalog that loads is content-addressed. Every definition is stored under its own id, satisfies the rank
  rules, and its fingerprint is the one in the lock file and the one its maturity record was made for; the history of
  that record is valid.
\<close>

theorem catalog_locked:
  assumes "catalog_load lib repo packages_of = Inr ct" "(i, w) \<in> set (ct_definitions ct)"
  shows "wd_id w = i \<and> wf_ranks w \<and>
    (\<exists>locks. load_locks lib repo ''locks/model-definitions.toml'' = Inr locks \<and>
       dict_get locks i = Some (fingerprint (lib_sha256 lib) (definition_normal_form w))) \<and>
    dict_get (ct_definition_fingerprints ct) i = Some (fingerprint (lib_sha256 lib) (definition_normal_form w)) \<and>
    dict_get (ct_maturity_fingerprints ct) i = Some (fingerprint (lib_sha256 lib) (definition_normal_form w)) \<and>
    i \<in> set (map fst (ct_maturity ct))"
proof -
  let ?fp = "\<lambda>w. fingerprint (lib_sha256 lib) (definition_normal_form w)"
  obtain locks index u where defs: "load_definitions lib repo = Inr (ct_definitions ct)"
    and locks: "load_locks lib repo ''locks/model-definitions.toml'' = Inr locks"
    and fps: "ct_definition_fingerprints ct = map (\<lambda>(i, w). (i, ?fp w)) (ct_definitions ct)"
    and check: "check_locks locks (ct_definition_fingerprints ct) = Inr u"
    and mat: "maturity_records lib repo index (ct_definition_fingerprints ct) (ct_definitions ct) = Inr (ct_maturity ct)"
    and mfp: "ct_maturity_fingerprints ct = dict_of (map (\<lambda>r. (rec_id r, rec_sha r)) (the_list (jget index ''definitions'')))"
    using assms(1) by (auto simp: catalog_load_def rbind_Inr Let_def rec_id_def rec_sha_def)
  have "wf_dict (ct_definitions ct) \<and> (\<forall>(i, w) \<in> set (ct_definitions ct). wd_id w = i \<and> wf_ranks w)"
  proof (rule load_each_Inr)
    show "load_each (\<lambda>f. rbind (read_toml lib f) (\<lambda>d. profile_result (load_workload (lib_validate lib) d)))
        wd_id ''duplicate workload definition ID: '' (repo_glob repo ''config/workloads'') [] = Inr (ct_definitions ct)"
      using defs by (auto simp: load_definitions_def rbind_Inr raise_if_Inr)
    show "wf_ranks x" if "rbind (read_toml lib f) (\<lambda>d. profile_result (load_workload (lib_validate lib) d)) = Inr x" for f x
    proof -
      from that obtain d where "profile_result (load_workload (lib_validate lib) d) = Inr x" by (auto simp: rbind_Inr)
      then have "load_workload (lib_validate lib) d = Inr x" by (simp add: profile_result_def split: sum.splits)
      then show ?thesis by (rule load_workload_ranks)
    qed
  qed simp_all
  then have wf: "wf_dict (ct_definitions ct)" and w: "wd_id w = i \<and> wf_ranks w" using assms(2) by auto
  have m: "(i, ?fp w) \<in> set (ct_definition_fingerprints ct)" using assms(2) by (force simp: fps)
  have "wf_dict (ct_definition_fingerprints ct)" using wf by (simp add: fps comp_def split_def)
  then have get: "dict_get (ct_definition_fingerprints ct) i = Some (?fp w)" using m by (rule map_of_is_SomeI)
  moreover have "dict_get locks i = Some (?fp w)" using check_locks_Inr [OF check] m by blast
  moreover have "i \<in> set (map fst (ct_definition_fingerprints ct))" using m by force
  from maturity_records_Inr [OF mat this] have "i \<in> set (map fst (ct_maturity ct))"
    "dict_get (ct_maturity_fingerprints ct) i = Some (?fp w)" unfolding mfp get by blast+
  ultimately show ?thesis using w locks by blast
qed

definition cat_library :: library where
  "cat_library = ex_library\<lparr>
     lib_toml := (\<lambda>s. if s = ''w'' then Some ex_workload_document
       else if s = ''p'' then Some [(''id'', JStr ''pair''), (''placements'', JObj []), (''endpoints'', JObj [])]
       else if s = ''s'' then Some [(''selectors'', JObj [(''default'', JStr ''pair'')])]
       else Some [(''definitions'', JObj [(''m'', JStr ''f'')])]),
     lib_json := (\<lambda>s. if s = ''d'' then Some (JObj [(''definitions'', JList [JObj [(''id'', JStr ''m''), (''sha256'', JStr ''f''),
         (''maturity'', JStr ''planned''), (''history'', JList [ex_transition ''planned'' [] []])]])])
       else Some (JObj [(''profiles'', JList [])])),
     lib_sha256 := (\<lambda>_. ''f'')\<rparr>"

definition cat_repository :: repository where
  "cat_repository = \<lparr>repo_glob = (\<lambda>d. if d = ''config/workloads'' then [(''w.toml'', ''w'')] else [(''p.toml'', ''p'')]),
     repo_file = (\<lambda>p. Some (if p = ''config/profile-selectors.toml'' then ''s'' else if p = ''locks/model-definitions.toml'' then ''l''
       else if p = ''inventory/reports/model-definitions.json'' then ''d'' else ''a''))\<rparr>"

theorem catalog_locked_witness:
  "\<exists>ct w. catalog_load cat_library cat_repository (\<lambda>_. Inr ()) = Inr ct \<and> (''m'', w) \<in> set (ct_definitions ct) \<and>
     dict_get (ct_maturity_fingerprints ct) ''m'' = Some (fingerprint (lib_sha256 cat_library) (definition_normal_form w))"
proof -
  let ?r = "catalog_load cat_library cat_repository (\<lambda>_. Inr ())"
  have "\<not> isl ?r" by code_simp
  then obtain ct where ct: "?r = Inr ct" by (cases ?r) auto
  have "(''m'', read_workload ex_workload_document) \<in> set (ct_definitions (projr ?r))" by code_simp
  then have "(''m'', read_workload ex_workload_document) \<in> set (ct_definitions ct)" by (simp add: ct)
  with ct catalog_locked [OF ct this] show ?thesis by blast
qed

lemma catalog_load_selectors:
  assumes "catalog_load lib repo packages_of = Inr ct"
  shows "load_selectors lib repo ''config/profile-selectors.toml'' (ct_profiles ct) = Inr (ct_selectors ct)"
  using assms by (auto simp: catalog_load_def rbind_Inr Let_def)

lemma load_selectors_targets:
  assumes "load_selectors lib repo path profiles = Inr selectors"
  shows "set (map snd selectors) \<subseteq> set (map fst profiles)"
  using assms unfolding load_selectors_def Let_def rbind_Inr raise_if_Inr not_not sorted_diff_Nil sum.inject
  by (elim exE conjE) (simp only:)

text \<open>In a catalog that loads, every selector resolves to a profile, and every other name is the error for an unknown
  selector.
\<close>

theorem selectors_resolve:
  assumes "catalog_load lib repo packages_of = Inr ct"
  shows "if s \<in> fst ` set (ct_selectors ct)
    then \<exists>p. resolve_profile ct s = Inr p \<and> p \<in> snd ` set (ct_profiles ct)
    else resolve_profile ct s = Inl (CatalogError (''unknown profile selector: '' @ s))"
proof (cases "dict_get (ct_selectors ct) s")
  case None
  then have "s \<notin> fst ` set (ct_selectors ct)" by (simp add: map_of_eq_None_iff)
  then show ?thesis using None by (simp add: resolve_profile_def)
next
  case (Some t)
  have "set (map snd (ct_selectors ct)) \<subseteq> set (map fst (ct_profiles ct))"
    by (rule load_selectors_targets [OF catalog_load_selectors [OF assms]])
  moreover have "(s, t) \<in> set (ct_selectors ct)" using Some by (rule map_of_SomeD)
  ultimately have "t \<in> set (map fst (ct_profiles ct))" by force
  then obtain p where p: "dict_get (ct_profiles ct) t = Some p"
    by (cases "dict_get (ct_profiles ct) t") (auto simp: map_of_eq_None_iff)
  then have "p \<in> snd ` set (ct_profiles ct)" using map_of_SomeD [OF p] by force
  moreover have "s \<in> fst ` set (ct_selectors ct)" using map_of_SomeD [OF Some] by force
  ultimately show ?thesis using Some p by (simp add: resolve_profile_def)
qed

theorem selectors_resolve_witness:
  "\<exists>ct. catalog_load cat_library cat_repository (\<lambda>_. Inr ()) = Inr ct \<and>
     resolve_profile ct ''other'' = Inl (CatalogError (''unknown profile selector: '' @ ''other''))"
proof -
  let ?r = "catalog_load cat_library cat_repository (\<lambda>_. Inr ())"
  have "\<not> isl ?r" by code_simp
  then obtain ct where ct: "?r = Inr ct" by (cases ?r) auto
  have "''other'' \<notin> fst ` set (ct_selectors (projr ?r))" by code_simp
  then have "''other'' \<notin> fst ` set (ct_selectors ct)" by (simp add: ct)
  with ct selectors_resolve [OF ct, of "''other''"] show ?thesis by auto
qed

end
