(* ===== verification/Profile_Admission.thy ===== *)
theory Profile_Admission
  imports Catalog
begin

text \<open>
  \<^verbatim>\<open>src/cluster_profiles/admission.py\<close>: the fail-closed admission of a two-node cluster profile. The checks collect
  every reason against the profile; the report lists them sorted and without repetition. A set of error texts is a list
  here, in the order in which the code adds them.
\<close>

section \<open>Declarations and measurements\<close>

definition valid_placement_declarations :: "(string \<times> string \<times> string) list" where
  "valid_placement_declarations =
     [(''distributed'', ''dual-exclusive'', ''exclusive''),
      (''distributed'', ''dual-pipeline-experimental'', ''exclusive''),
      (''single'', ''single-exclusive'', ''exclusive''),
      (''single'', ''single-shareable'', ''accepted'')]"

text \<open>\<^verbatim>\<open>AdmissionReport(errors=tuple(sorted(errors)))\<close>.\<close>

definition admission_report :: "string list \<Rightarrow> string list" where
  "admission_report errors = sort (remdups errors)"

definition measured_value :: "json \<Rightarrow> string \<Rightarrow> int option" where
  "measured_value measurement name =
    (case measurement of
       JObj m \<Rightarrow>
         (case jget m name of
            JInt i \<Rightarrow> Some i
          | _ \<Rightarrow>
            if name = ''free_memory_bytes'' then
              (case jget m ''memory'' of
                 JObj memory \<Rightarrow> (case jget memory ''available_bytes'' of JInt i \<Rightarrow> Some i | _ \<Rightarrow> None)
               | _ \<Rightarrow> None)
            else None)
     | _ \<Rightarrow> None)"

definition measured_healthy :: "json \<Rightarrow> bool" where
  "measured_healthy measurement = (case measurement of JObj m \<Rightarrow> jget m ''healthy'' = JBool True | _ \<Rightarrow> False)"

definition accepted_for_profile :: "(string \<Rightarrow> string) \<Rightarrow> cluster_profile \<Rightarrow> string list \<Rightarrow> 'p catalog \<Rightarrow>
    (string, string list) dict option \<Rightarrow> bool" where
  "accepted_for_profile sha profile identifiers ct accepted =
    (let hashes = sort (map (\<lambda>i. the (dict_get (ct_definition_fingerprints ct) i)) identifiers);
         index = (case accepted of None \<Rightarrow> ct_accepted_profiles ct | Some a \<Rightarrow> a) in
     hashes = (case dict_get index (fingerprint sha (profile_normal_form profile)) of Some h \<Rightarrow> h | None \<Rightarrow> []))"

definition placement_declaration_is_consistent :: "workload_definition \<Rightarrow> bool" where
  "placement_declaration_is_consistent w \<longleftrightarrow>
     (wd_topology w, wd_placement_class w, wd_co_location w) \<in> set valid_placement_declarations"

definition can_co_locate :: "workload_definition \<Rightarrow> bool" where
  "can_co_locate w \<longleftrightarrow> wd_topology w = ''single'' \<and> wd_placement_class w = ''single-shareable'' \<and> wd_co_location w = ''accepted''"

section \<open>Placement policy\<close>

definition known_nodes :: "string list" where
  "known_nodes = [''node1'', ''node2'']"

text \<open>One node of the first loop: errors, the nodes assigned to each workload, the definitions on this node.\<close>

fun assign_node :: "'p catalog \<Rightarrow> string \<Rightarrow> string list \<Rightarrow> (string, string list) dict \<Rightarrow>
    string list \<times> (string, string list) dict \<times> workload_definition list" where
  "assign_node ct node [] assigned = ([], assigned, [])"
| "assign_node ct node (i # is) assigned =
    (case dict_get (ct_definitions ct) i of
       None \<Rightarrow> (let (errs, assigned', ws) = assign_node ct node is assigned in
                ((''unknown workload: '' @ i) # errs, assigned', ws))
     | Some w \<Rightarrow> (let (errs, assigned', ws) = assign_node ct node is (dict_append assigned i node) in
                (errs, assigned', w # ws)))"

definition assignment_errors :: "'p catalog \<Rightarrow> string \<Rightarrow> string list \<Rightarrow> string list" where
  "assignment_errors ct identifier ns =
    (let w = the (dict_get (ct_definitions ct) identifier) in
     (if \<not> placement_declaration_is_consistent w
      then [''inconsistent workload placement declaration: '' @ identifier] else []) @
     (if wd_topology w = ''distributed'' \<and> set ns \<noteq> set (wd_nodes w)
      then [''distributed reservation is partial for '' @ identifier]
      else if wd_topology w = ''single'' \<and> \<not> set ns \<subseteq> set (wd_nodes w)
      then [''single workload placement is invalid for '' @ identifier] else []))"

definition residency_errors :: "string \<Rightarrow> workload_definition list \<Rightarrow> string list" where
  "residency_errors node ws =
    (let incompatible = sort (map wd_id (filter (\<lambda>w. \<not> can_co_locate w) ws)) in
     (if length ws > 1 \<and> incompatible \<noteq> []
      then [''incompatible co-location on '' @ node @ '': '' @ join_with '', '' incompatible] else []) @
     map (\<lambda>w. ''conflicting workloads on '' @ node @ '': '' @ wd_id w)
       (filter (\<lambda>w. list_ex (\<lambda>v. wd_id v \<in> set (wd_conflicts w)) ws) ws))"

definition endpoint_policy_errors :: "'p catalog \<Rightarrow> (string, string list) dict \<Rightarrow> string \<times> string \<Rightarrow> string list" where
  "endpoint_policy_errors ct assigned = (\<lambda>(ep, identifier).
    (if identifier \<notin> fst ` set (ct_definitions ct)
     then [''endpoint '' @ ep @ '' references unknown workload: '' @ identifier]
     else if identifier \<notin> fst ` set assigned
     then [''endpoint '' @ ep @ '' targets unassigned workload: '' @ identifier] else []))"

definition placed_on :: "cluster_profile \<Rightarrow> string \<Rightarrow> string list" where
  "placed_on profile node = (case dict_get (cl_placements profile) node of Some is \<Rightarrow> is | None \<Rightarrow> [])"

text \<open>\<^verbatim>\<open>_placement_policy\<close>: the errors, \<^verbatim>\<open>assigned\<close> and \<^verbatim>\<open>per_node\<close>.\<close>

definition placement_policy :: "cluster_profile \<Rightarrow> 'p catalog \<Rightarrow>
    string list \<times> (string, string list) dict \<times> (string, workload_definition list) dict" where
  "placement_policy profile ct =
    (let shape = (if set (map fst (cl_placements profile)) \<noteq> set known_nodes
           then [''profile must specify placements for node1 and node2''] else []);
         (errs1, assigned1, ws1) = assign_node ct ''node1'' (placed_on profile ''node1'') [];
         (errs2, assigned, ws2) = assign_node ct ''node2'' (placed_on profile ''node2'') assigned1;
         per_node = [(''node1'', ws1), (''node2'', ws2)];
         errors = shape @ errs1 @ errs2 @ concat (map (\<lambda>(i, ns). assignment_errors ct i ns) assigned) @
           concat (map (\<lambda>(node, ws). residency_errors node ws) per_node) @
           concat (map (endpoint_policy_errors ct assigned) (cl_endpoints profile)) in
     (errors, assigned, per_node))"

definition check_placement_policy :: "cluster_profile \<Rightarrow> 'p catalog \<Rightarrow> string list" where
  "check_placement_policy profile ct = admission_report (fst (placement_policy profile ct))"

section \<open>Admission\<close>

definition maturity_errors :: "'p catalog \<Rightarrow> string \<Rightarrow> string list" where
  "maturity_errors ct identifier =
    (let w = the (dict_get (ct_definitions ct) identifier) in
     if dict_get (ct_maturity ct) identifier \<noteq> Some ''accepted''
     then [identifier @ '' maturity is '' @ (case dict_get (ct_maturity ct) identifier of Some m \<Rightarrow> m | None \<Rightarrow> ''missing'')]
     else if dict_get (ct_maturity_fingerprints ct) identifier \<noteq>
       Some (the (dict_get (ct_definition_fingerprints ct) identifier))
     then [identifier @ '' accepted fingerprint does not match definition'']
     else if cp_manifest_sha256 (wd_checkpoint w) = None then [''accepted definition requires manifest_sha256'']
     else [])"

fun path_errors :: "string \<Rightarrow> (string \<times> string) list \<Rightarrow> (string, string) dict \<Rightarrow> string list" where
  "path_errors node [] paths = []"
| "path_errors node ((kind, path) # rest) paths =
     (case dict_get paths path of
        Some previous \<Rightarrow> if previous \<noteq> kind then [''cache/output overlap on '' @ node @ '': '' @ path] else []
      | None \<Rightarrow> []) @ path_errors node rest (dict_set paths path kind)"

fun port_errors :: "string \<Rightarrow> workload_definition list \<Rightarrow> (int, string) dict \<Rightarrow> string list" where
  "port_errors node [] ports = []"
| "port_errors node (w # ws) ports =
     (case dict_get ports (ep_port (wd_endpoint w)) of
        Some previous \<Rightarrow> if previous \<noteq> wd_id w
          then [''port collision on '' @ node @ '': '' @ dec_int (ep_port (wd_endpoint w))] else []
      | None \<Rightarrow> []) @ port_errors node ws (dict_set ports (ep_port (wd_endpoint w)) (wd_id w))"

definition below :: "int option \<Rightarrow> int \<Rightarrow> bool" where
  "below measured required \<longleftrightarrow> (case measured of None \<Rightarrow> True | Some m \<Rightarrow> m < required)"

definition capacity_errors :: "(string, json) dict \<Rightarrow> string \<Rightarrow> workload_definition list \<Rightarrow> string list" where
  "capacity_errors inventory node ws =
    (let memory = sum_list (map (\<lambda>w. re_minimum_free_memory_bytes (wd_resources w)) ws);
         disk = sum_list (map (\<lambda>w. re_minimum_free_disk_bytes (wd_resources w)) ws) in
     (if ws \<noteq> [] \<and> below (measured_value (jget inventory node) ''free_memory_bytes'') memory
      then [''insufficient measured memory on '' @ node] else []) @
     (if ws \<noteq> [] \<and> below (measured_value (jget inventory node) ''free_disk_bytes'') disk
      then [''insufficient measured disk on '' @ node] else []) @
     (if ws \<noteq> [] \<and> \<not> measured_healthy (jget inventory node) then [node @ '' is unhealthy''] else []))"

definition node_errors :: "(string, json) dict \<Rightarrow> string \<Rightarrow> workload_definition list \<Rightarrow> string list" where
  "node_errors inventory node ws =
     path_errors node (concat (map (\<lambda>w. [(''cache'', wp_cache (wd_paths w)), (''output'', wp_output (wd_paths w))]) ws)) [] @
     port_errors node ws [] @ capacity_errors inventory node ws"

fun endpoint_errors :: "'p catalog \<Rightarrow> (string, json) dict \<Rightarrow> (string, string list) dict \<Rightarrow> (string \<times> string) list \<Rightarrow>
    (int, string) dict \<Rightarrow> string list" where
  "endpoint_errors ct inventory assigned [] ports = []"
| "endpoint_errors ct inventory assigned ((ep, identifier) # rest) ports =
    (case dict_get (ct_definitions ct) identifier of
       None \<Rightarrow> (''endpoint '' @ ep @ '' references unknown workload: '' @ identifier) #
         endpoint_errors ct inventory assigned rest ports
     | Some w \<Rightarrow>
         (case dict_get assigned identifier of
            None \<Rightarrow> (''endpoint '' @ ep @ '' targets unassigned workload: '' @ identifier) #
              endpoint_errors ct inventory assigned rest ports
          | Some ns \<Rightarrow>
              (case dict_get ports (ep_port (wd_endpoint w)) of
                 Some previous \<Rightarrow> [''port collision for published endpoints: '' @ previous @ '', '' @ ep]
               | None \<Rightarrow> []) @
              (if dict_get (ct_maturity ct) identifier \<noteq> Some ''accepted''
               then [''endpoint '' @ ep @ '' targets unaccepted workload: '' @ identifier] else []) @
              (if list_ex (\<lambda>node. \<not> measured_healthy (jget inventory node)) ns
               then [''endpoint '' @ ep @ '' targets unhealthy workload: '' @ identifier] else []) @
              endpoint_errors ct inventory assigned rest (dict_set ports (ep_port (wd_endpoint w)) ep)))"

definition check_admission :: "(string \<Rightarrow> string) \<Rightarrow> cluster_profile \<Rightarrow> 'p catalog \<Rightarrow> (string, json) dict \<Rightarrow>
    (string, string list) dict option \<Rightarrow> string list" where
  "check_admission sha profile ct inventory accepted =
    (let (policy, assigned, per_node) = placement_policy profile ct;
         evidence = (if assigned \<noteq> [] \<and> \<not> accepted_for_profile sha profile (map fst assigned) ct accepted
           then [''profile has no exact accepted evidence''] else []) in
     admission_report (policy @ concat (map (maturity_errors ct) (map fst assigned)) @
       concat (map (\<lambda>(node, ws). node_errors inventory node ws) per_node) @ evidence @
       endpoint_errors ct inventory assigned (cl_endpoints profile) []))"

section \<open>What an empty report means\<close>

lemma admission_report_Nil: "admission_report errors = [] \<longleftrightarrow> errors = []"
proof -
  have "set (admission_report errors) = {} \<longleftrightarrow> errors = []" by (simp add: admission_report_def)
  then show ?thesis by simp
qed

lemma set_admission_report: "set (admission_report errors) = set errors"
  by (simp add: admission_report_def)

text \<open>The definitions that a profile puts on a node.\<close>

definition definitions_on :: "cluster_profile \<Rightarrow> 'p catalog \<Rightarrow> string \<Rightarrow> workload_definition list" where
  "definitions_on profile ct node = map (\<lambda>i. the (dict_get (ct_definitions ct) i)) (placed_on profile node)"

lemma assign_node_ok:
  assumes "assign_node ct node is assigned = ([], assigned', ws)"
  shows "ws = map (\<lambda>i. the (dict_get (ct_definitions ct) i)) is \<and>
    (\<forall>i. (case dict_get assigned' i of Some ns \<Rightarrow> set ns | None \<Rightarrow> {}) =
       (case dict_get assigned i of Some ns \<Rightarrow> set ns | None \<Rightarrow> {}) \<union> (if i \<in> set is then {node} else {})) \<and>
    fst ` set assigned' = fst ` set assigned \<union> set is \<and> set is \<subseteq> fst ` set (ct_definitions ct) \<and>
    (wf_dict assigned \<longrightarrow> wf_dict assigned')"
  using assms
proof (induction "is" arbitrary: assigned ws)
  case (Cons i "is")
  from Cons.prems obtain w vs where w: "dict_get (ct_definitions ct) i = Some w" "ws = w # vs"
    and rest: "assign_node ct node is (dict_append assigned i node) = ([], assigned', vs)"
    by (auto split: option.splits prod.splits)
  from w(1) have "i \<in> fst ` set (ct_definitions ct)" by (metis domI dom_map_of_conv_image_fst)
  with Cons.IH [OF rest] w show ?case by (auto simp: dict_append_def split: option.splits)
qed auto

definition admitted :: "(string \<Rightarrow> string) \<Rightarrow> cluster_profile \<Rightarrow> 'p catalog \<Rightarrow> (string, json) dict \<Rightarrow>
    (string, string list) dict option \<Rightarrow> bool" where
  "admitted sha profile ct inventory accepted \<longleftrightarrow> check_admission sha profile ct inventory accepted = []"

lemma policy_ok:
  assumes "fst (placement_policy profile ct) = []"
  obtains assigned where
    "placement_policy profile ct = ([], assigned, [(''node1'', definitions_on profile ct ''node1''), (''node2'', definitions_on profile ct ''node2'')])"
    "set (map fst (cl_placements profile)) = {''node1'', ''node2''}"
    "\<And>i ns. dict_get assigned i = Some ns \<Longrightarrow> set ns = {n. n \<in> {''node1'', ''node2''} \<and> i \<in> set (placed_on profile n)}"
    "fst ` set assigned = set (placed_on profile ''node1'') \<union> set (placed_on profile ''node2'')"
    "fst ` set assigned \<subseteq> fst ` set (ct_definitions ct)" "wf_dict assigned"
    "\<And>i ns. (i, ns) \<in> set assigned \<Longrightarrow> assignment_errors ct i ns = []"
    "\<And>n. n \<in> {''node1'', ''node2''} \<Longrightarrow> residency_errors n (definitions_on profile ct n) = []"
    "\<And>e. e \<in> set (cl_endpoints profile) \<Longrightarrow> endpoint_policy_errors ct assigned e = []"
proof -
  obtain e1 a1 w1 where n1: "assign_node ct ''node1'' (placed_on profile ''node1'') [] = (e1, a1, w1)" by (metis prod_cases3)
  obtain e2 a2 w2 where n2: "assign_node ct ''node2'' (placed_on profile ''node2'') a1 = (e2, a2, w2)" by (metis prod_cases3)
  have e: "e1 = []" "e2 = []" and shape: "set (map fst (cl_placements profile)) = set known_nodes"
    and as: "concat (map (\<lambda>(i, ns). assignment_errors ct i ns) a2) = []"
    and res: "residency_errors ''node1'' w1 = []" "residency_errors ''node2'' w2 = []"
    and ep: "concat (map (endpoint_policy_errors ct a2) (cl_endpoints profile)) = []"
    using assms by (auto simp: placement_policy_def n1 n2 split: if_splits)
  note k1 = assign_node_ok [OF n1 [unfolded e(1)]] and k2 = assign_node_ok [OF n2 [unfolded e(2)]]
  have w: "w1 = definitions_on profile ct ''node1''" "w2 = definitions_on profile ct ''node2''"
    using k1 k2 by (simp_all add: definitions_on_def)
  show thesis
  proof (rule that)
    show "placement_policy profile ct = ([], a2, [(''node1'', definitions_on profile ct ''node1''), (''node2'', definitions_on profile ct ''node2'')])"
      using assms by (auto simp: placement_policy_def n1 n2 w [symmetric])
    show "set (map fst (cl_placements profile)) = {''node1'', ''node2''}" using shape by (simp add: known_nodes_def)
    show "set ns = {n. n \<in> {''node1'', ''node2''} \<and> i \<in> set (placed_on profile n)}" if "dict_get a2 i = Some ns" for i ns
    proof -
      have "set ns = (case dict_get a1 i of Some ns \<Rightarrow> set ns | None \<Rightarrow> {}) \<union>
          (if i \<in> set (placed_on profile ''node2'') then {''node2''} else {})"
        using k2 that by (metis option.simps(5))
      also have "(case dict_get a1 i of Some ns \<Rightarrow> set ns | None \<Rightarrow> {}) =
          (if i \<in> set (placed_on profile ''node1'') then {''node1''} else {})" using k1 by simp
      finally show ?thesis by auto
    qed
    show "fst ` set a2 = set (placed_on profile ''node1'') \<union> set (placed_on profile ''node2'')" using k1 k2 by simp
    show "fst ` set a2 \<subseteq> fst ` set (ct_definitions ct)" using k1 k2 by simp
    show "wf_dict a2" using k1 k2 by simp
    show "assignment_errors ct i ns = []" if "(i, ns) \<in> set a2" for i ns using as that by auto
    show "residency_errors n (definitions_on profile ct n) = []" if "n \<in> {''node1'', ''node2''}" for n
      using res that w by auto
    show "endpoint_policy_errors ct a2 x = []" if "x \<in> set (cl_endpoints profile)" for x using ep that by auto
  qed
qed

lemma port_errors_first:
  "port_errors node ws ports = [] \<Longrightarrow> w \<in> set ws \<Longrightarrow> dict_get ports (ep_port (wd_endpoint w)) = Some i \<Longrightarrow> wd_id w = i"
proof (induction ws arbitrary: ports i)
  case (Cons a ws)
  let ?ports = "dict_set ports (ep_port (wd_endpoint a)) (wd_id a)"
  from Cons.prems(1) have rest: "port_errors node ws ?ports = []"
    and hd: "dict_get ports (ep_port (wd_endpoint a)) = Some j \<Longrightarrow> wd_id a = j" for j
    by (auto split: if_splits)
  show ?case
  proof (cases "w \<in> set ws")
    case True
    have "dict_get ?ports (ep_port (wd_endpoint w)) = Some i"
      using Cons.prems(3) hd by (cases "ep_port (wd_endpoint w) = ep_port (wd_endpoint a)") auto
    then show ?thesis by (rule Cons.IH [OF rest True])
  next
    case False
    with Cons.prems(2,3) hd show ?thesis by simp
  qed
qed simp

lemma port_errors_Nil:
  "port_errors node ws ports = [] \<Longrightarrow> w \<in> set ws \<Longrightarrow> v \<in> set ws \<Longrightarrow> ep_port (wd_endpoint w) = ep_port (wd_endpoint v) \<Longrightarrow>
     wd_id w = wd_id v"
proof (induction ws arbitrary: ports)
  case (Cons x xs)
  let ?ports = "dict_set ports (ep_port (wd_endpoint x)) (wd_id x)"
  from Cons.prems(1) have rest: "port_errors node xs ?ports = []" by simp
  have eq: "wd_id y = wd_id x" if "y \<in> set xs" "ep_port (wd_endpoint y) = ep_port (wd_endpoint x)" for y
    using port_errors_first [OF rest that(1)] that(2) by simp
  show ?case
  proof (cases "w \<in> set xs \<and> v \<in> set xs")
    case True
    then show ?thesis using Cons.IH [OF rest] Cons.prems(4) by blast
  next
    case False
    then consider "w = x" "v = x" | "w = x" "v \<in> set xs" | "w \<in> set xs" "v = x" using Cons.prems(2,3) by auto
    then show ?thesis using eq Cons.prems(4) by cases auto
  qed
qed simp

text \<open>C20: Admission is fail-closed. When a profile is admitted, then on each node that runs something the measured memory
  and disk cover what the workloads there ask for together and the node is healthy; workloads share a node only when
  each of them may; workloads on one port are the same workload; and each assigned workload has accepted maturity for
  exactly the fingerprint of its definition, with a pinned manifest.
\<close>

theorem admission_sound:
  assumes "admitted sha profile ct inventory accepted" "node \<in> {''node1'', ''node2''}"
    and "definitions_on profile ct node \<noteq> []"
  shows "(\<exists>memory disk. measured_value (jget inventory node) ''free_memory_bytes'' = Some memory \<and>
      measured_value (jget inventory node) ''free_disk_bytes'' = Some disk \<and>
      sum_list (map (\<lambda>w. re_minimum_free_memory_bytes (wd_resources w)) (definitions_on profile ct node)) \<le> memory \<and>
      sum_list (map (\<lambda>w. re_minimum_free_disk_bytes (wd_resources w)) (definitions_on profile ct node)) \<le> disk) \<and>
    measured_healthy (jget inventory node) \<and>
    (length (placed_on profile node) = 1 \<or> (\<forall>w \<in> set (definitions_on profile ct node). can_co_locate w)) \<and>
    (\<forall>w \<in> set (definitions_on profile ct node). \<forall>v \<in> set (definitions_on profile ct node).
       ep_port (wd_endpoint w) = ep_port (wd_endpoint v) \<longrightarrow> wd_id w = wd_id v) \<and>
    (\<forall>i \<in> set (placed_on profile node). \<exists>w. dict_get (ct_definitions ct) i = Some w \<and>
       cp_manifest_sha256 (wd_checkpoint w) \<noteq> None \<and> dict_get (ct_maturity ct) i = Some ''accepted'' \<and>
       dict_get (ct_maturity_fingerprints ct) i = Some (the (dict_get (ct_definition_fingerprints ct) i)))"
proof -
  let ?ws = "definitions_on profile ct node"
  note nil = assms(1) [unfolded admitted_def check_admission_def Let_def admission_report_Nil split_def append_is_Nil_conv]
  then have "fst (placement_policy profile ct) = []" by blast
  then obtain assigned where pol: "placement_policy profile ct = ([], assigned,
        [(''node1'', definitions_on profile ct ''node1''), (''node2'', definitions_on profile ct ''node2'')])"
    and keys: "fst ` set assigned = set (placed_on profile ''node1'') \<union> set (placed_on profile ''node2'')"
    and known: "fst ` set assigned \<subseteq> fst ` set (ct_definitions ct)"
    and res: "\<And>n. n \<in> {''node1'', ''node2''} \<Longrightarrow> residency_errors n (definitions_on profile ct n) = []"
    by (rule policy_ok) blast
  have ne: "node_errors inventory node ?ws = []" using nil assms(2) by (auto simp: pol)
  have mat: "\<And>i. i \<in> fst ` set assigned \<Longrightarrow> maturity_errors ct i = []" using nil by (auto simp: pol)
  have cap: "capacity_errors inventory node ?ws = []" "port_errors node ?ws [] = []"
    using ne unfolding node_errors_def append_is_Nil_conv by blast+
  have len: "length ?ws = length (placed_on profile node)" by (simp add: definitions_on_def)
  show ?thesis
  proof (intro conjI)
    show "\<exists>memory disk. measured_value (jget inventory node) ''free_memory_bytes'' = Some memory \<and>
      measured_value (jget inventory node) ''free_disk_bytes'' = Some disk \<and>
      sum_list (map (\<lambda>w. re_minimum_free_memory_bytes (wd_resources w)) ?ws) \<le> memory \<and>
      sum_list (map (\<lambda>w. re_minimum_free_disk_bytes (wd_resources w)) ?ws) \<le> disk"
      using cap(1) assms(3) by (auto simp: capacity_errors_def below_def Let_def split: if_splits option.splits)
    show "measured_healthy (jget inventory node)"
      using cap(1) assms(3) by (auto simp: capacity_errors_def Let_def split: if_splits)
    have "length ?ws > 1 \<longrightarrow> sort (map wd_id (filter (\<lambda>w. \<not> can_co_locate w) ?ws)) = []"
      using res [OF assms(2)] by (auto simp: residency_errors_def Let_def split: if_splits)
    then have "length ?ws > 1 \<longrightarrow> (\<forall>w \<in> set ?ws. can_co_locate w)"
      by (metis (no_types, lifting) filter_empty_conv list.map_disc_iff length_0_conv length_sort)
    moreover have "length ?ws \<noteq> 0" using assms(3) by simp
    ultimately show "length (placed_on profile node) = 1 \<or> (\<forall>w \<in> set ?ws. can_co_locate w)"
      unfolding len [symmetric] by (metis less_one linorder_neqE_nat)
    show "\<forall>w \<in> set ?ws. \<forall>v \<in> set ?ws. ep_port (wd_endpoint w) = ep_port (wd_endpoint v) \<longrightarrow> wd_id w = wd_id v"
      using port_errors_Nil [OF cap(2)] by blast
    show "\<forall>i \<in> set (placed_on profile node). \<exists>w. dict_get (ct_definitions ct) i = Some w \<and>
       cp_manifest_sha256 (wd_checkpoint w) \<noteq> None \<and> dict_get (ct_maturity ct) i = Some ''accepted'' \<and>
       dict_get (ct_maturity_fingerprints ct) i = Some (the (dict_get (ct_definition_fingerprints ct) i))"
    proof
      fix i
      assume "i \<in> set (placed_on profile node)"
      with assms(2) keys have i: "i \<in> fst ` set assigned" by auto
      with known obtain w where "dict_get (ct_definitions ct) i = Some w"
        by (metis (no_types, lifting) domD dom_map_of_conv_image_fst subsetD)
      with mat [OF i] show "\<exists>w. dict_get (ct_definitions ct) i = Some w \<and>
         cp_manifest_sha256 (wd_checkpoint w) \<noteq> None \<and> dict_get (ct_maturity ct) i = Some ''accepted'' \<and>
         dict_get (ct_maturity_fingerprints ct) i = Some (the (dict_get (ct_definition_fingerprints ct) i))"
        by (auto simp: maturity_errors_def Let_def split: if_splits)
    qed
  qed
qed

text \<open>A catalog with one accepted shareable workload and a profile that runs it on the first node.\<close>

definition adm_workload :: workload_definition where
  "adm_workload = (read_workload [])\<lparr>wd_id := ''m'', wd_topology := ''single'', wd_placement_class := ''single-shareable'',
     wd_co_location := ''accepted'', wd_nodes := [''node1''],
     wd_checkpoint := \<lparr>cp_repository = ''r'', cp_revision = ''v'', cp_manifest = ''m'', cp_manifest_sha256 = Some ''h''\<rparr>,
     wd_resources := \<lparr>re_minimum_free_memory_bytes = 5, re_minimum_free_disk_bytes = 7, re_stop_memory_tolerance_bytes = 0\<rparr>,
     wd_paths := \<lparr>wp_cache = ''c'', wp_scratch = ''s'', wp_output = ''o''\<rparr>\<rparr>"

definition adm_catalog :: "unit catalog" where
  "adm_catalog = \<lparr>ct_definitions = [(''m'', adm_workload)], ct_profiles = [], ct_selectors = [],
     ct_definition_fingerprints = [(''m'', ''f'')], ct_profile_fingerprints = [], ct_maturity = [(''m'', ''accepted'')],
     ct_maturity_fingerprints = [(''m'', ''f'')], ct_accepted_profiles = [(''x'', [''f''])], ct_packages = ()\<rparr>"

definition adm_profile :: cluster_profile where
  "adm_profile = \<lparr>cl_id = ''p'', cl_accepted_evidence = ''e'', cl_placements = [(''node1'', [''m'']), (''node2'', [])],
     cl_endpoints = [(''chat'', ''m'')]\<rparr>"

definition adm_inventory :: "(string, json) dict" where
  "adm_inventory = [(''node1'', JObj [(''healthy'', JBool True), (''memory'', JObj [(''available_bytes'', JInt 9)]),
     (''free_disk_bytes'', JInt 7)])]"

theorem admission_sound_witness:
  "admitted (\<lambda>_. ''x'') adm_profile adm_catalog adm_inventory None \<and>
   (\<exists>memory. measured_value (jget adm_inventory ''node1'') ''free_memory_bytes'' = Some memory \<and>
     sum_list (map (\<lambda>w. re_minimum_free_memory_bytes (wd_resources w)) (definitions_on adm_profile adm_catalog ''node1'')) \<le> memory)"
proof -
  have a: "admitted (\<lambda>_. ''x'') adm_profile adm_catalog adm_inventory None" by code_simp
  have "definitions_on adm_profile adm_catalog ''node1'' \<noteq> []" by code_simp
  from admission_sound [OF a _ this] a show ?thesis by blast
qed


text \<open>Reports are canonical: the errors are sorted and each appears once.
\<close>

lemma admission_report_canonical:
  "sorted (check_admission sha profile ct inventory accepted) \<and> distinct (check_admission sha profile ct inventory accepted) \<and>
   sorted (check_placement_policy profile ct) \<and> distinct (check_placement_policy profile ct)"
  by (simp add: check_admission_def check_placement_policy_def admission_report_def Let_def split_def)

text \<open>An admitted profile never reserves a distributed workload in part, and never puts a single workload on a node
  that its definition does not name.
\<close>

theorem admission_reservations:
  assumes "admitted sha profile ct inventory accepted" "n \<in> {''node1'', ''node2''}" "i \<in> set (placed_on profile n)"
    and "dict_get (ct_definitions ct) i = Some w"
  shows "placement_declaration_is_consistent w \<and> (wd_topology w = ''single'' \<longrightarrow> n \<in> set (wd_nodes w)) \<and>
    (wd_topology w = ''distributed'' \<longrightarrow> set (wd_nodes w) = {n \<in> {''node1'', ''node2''}. i \<in> set (placed_on profile n)})"
proof -
  have "fst (placement_policy profile ct) = []"
    using assms(1) [unfolded admitted_def check_admission_def Let_def admission_report_Nil split_def append_is_Nil_conv] by blast
  then obtain assigned where
    nodes: "\<And>i ns. dict_get assigned i = Some ns \<Longrightarrow> set ns = {n. n \<in> {''node1'', ''node2''} \<and> i \<in> set (placed_on profile n)}"
    and keys: "fst ` set assigned = set (placed_on profile ''node1'') \<union> set (placed_on profile ''node2'')"
    and err: "\<And>i ns. (i, ns) \<in> set assigned \<Longrightarrow> assignment_errors ct i ns = []"
    by (rule policy_ok) blast
  from keys assms(2,3) have "i \<in> fst ` set assigned" by auto
  then obtain ns where ns: "dict_get assigned i = Some ns" by (metis domD dom_map_of_conv_image_fst)
  from err [OF map_of_SomeD [OF ns]] have "assignment_errors ct i ns = []" .
  with nodes [OF ns] assms(2-4) show ?thesis
    by (auto simp: assignment_errors_def Let_def split: if_splits)
qed

theorem admission_reservations_witness:
  "placement_declaration_is_consistent adm_workload \<and> ''node1'' \<in> set (wd_nodes adm_workload)"
proof -
  have a: "admitted (\<lambda>_. ''x'') adm_profile adm_catalog adm_inventory None" by code_simp
  have "''m'' \<in> set (placed_on adm_profile ''node1'')" by code_simp
  moreover have "dict_get (ct_definitions adm_catalog) ''m'' = Some adm_workload" by code_simp
  moreover have "wd_topology adm_workload = ''single''" by code_simp
  ultimately show ?thesis using admission_reservations [OF a] by blast
qed

end
