(* ===== verification/Protocol.thy ===== *)
theory Protocol
  imports Fleet Python_Text
begin

text \<open>
  The wire protocol between the control plane and the node agents: \<^verbatim>\<open>agent_protocol/contracts.py\<close> (claims, progress,
  results, bounded documents and their safety rules) and \<^verbatim>\<open>package_operations.py\<close> (package requests, deployments and
  directives).

  \<open>fromiso\<close> stands for \<^verbatim>\<open>datetime.fromisoformat\<close>: the instant in microseconds and the UTC offset, if it has one.
  \<open>iter_errors\<close> is the schema validator: the messages for a schema and a document.
\<close>

section \<open>Keys and values\<close>

datatype protocol_error = AgentProtocolError string | ProtocolTypeError

definition max_document_bytes :: nat where
  "max_document_bytes = 64 * 1024"

text \<open>The words of \<^verbatim>\<open>UNSAFE_KEY\<close>, matched without case; \<^verbatim>\<open>.\<close> does not match a newline.\<close>

definition word_at :: "string \<Rightarrow> string \<Rightarrow> bool" where
  "word_at w s \<longleftrightarrow> map ascii_lower (take (length w) s) = w"

definition unsafe_key_at :: "string \<Rightarrow> bool" where
  "unsafe_key_at s \<longleftrightarrow>
     list_ex (\<lambda>w. word_at w s)
       [''password'', ''secret'', ''token'', ''authorization'', ''command'', ''shell'', ''environment''] \<or>
     word_at ''private'' s \<and>
       (word_at ''key'' (drop 7 s) \<or> take 1 (drop 7 s) \<noteq> [CHR 0x0A] \<and> word_at ''key'' (drop 8 s))"

definition unsafe_key :: "string \<Rightarrow> bool" where
  "unsafe_key key = re_search unsafe_key_at key"

definition path_key_tokens :: "string list" where
  "path_key_tokens = [''path'', ''file'', ''filename'', ''filepath'', ''directory'', ''folder'']"

text \<open>What may follow a token: the end (or a final newline), a separator, an uppercase letter.\<close>

definition token_end :: "string \<Rightarrow> bool" where
  "token_end s \<longleftrightarrow> (case s of [] \<Rightarrow> True
     | c # r \<Rightarrow> c = CHR 0x0A \<and> r = [] \<or> c \<in> {CHR ''_'', CHR ''-''} \<or> between (CHR ''A'') (CHR ''Z'') c)"

definition token_any_case :: "string \<Rightarrow> bool" where
  "token_any_case s = list_ex (\<lambda>t. word_at t s \<and> token_end (drop (length t) s)) path_key_tokens"

definition token_camel_case :: "string \<Rightarrow> bool" where
  "token_camel_case s \<longleftrightarrow> s \<noteq> [] \<and> between (CHR ''A'') (CHR ''Z'') (hd s) \<and> token_any_case s"

definition is_path_key :: "string \<Rightarrow> bool" where
  "is_path_key key \<longleftrightarrow> token_any_case key \<or>
     re_search (\<lambda>s. case s of [] \<Rightarrow> False
       | c # r \<Rightarrow> c \<in> {CHR ''_'', CHR ''-''} \<and> token_any_case r \<or> is_lower_alnum c \<and> token_camel_case r) key"

definition eat :: "string \<Rightarrow> string \<Rightarrow> string option" where
  "eat p s = (if starts_with p s then Some (drop (length p) s) else None)"

definition eat_number :: "string \<Rightarrow> string option" where
  "eat_number s =
    (let d = takeWhile is_digit s in
     if d = ''0'' \<or> d \<noteq> [] \<and> hd d \<noteq> CHR ''0'' then Some (dropWhile is_digit s) else None)"

definition versioned_platform_target :: "string \<Rightarrow> bool" where
  "versioned_platform_target s =
    (case Option.bind (Option.bind (Option.bind (Option.bind (Option.bind (Option.bind (Option.bind
        (eat ''platform/releases/'' s) eat_number) (eat ''.'')) eat_number) (eat ''.'')) eat_number) (eat ''/''))
        (\<lambda>r. Some (is_hex 64 (take 64 r) \<and> drop 64 r = ''.json'')) of
       Some b \<Rightarrow> b | None \<Rightarrow> False)"

fun first_error :: "('e + unit) list \<Rightarrow> 'e + unit" where
  "first_error [] = Inr ()"
| "first_error (r # rs) = rbind r (\<lambda>_. first_error rs)"

definition check_key :: "string \<Rightarrow> string option \<Rightarrow> bool \<Rightarrow> protocol_error + unit" where
  "check_key key field_name allow_secret_refs =
     raise_if (is_path_key key) (AgentProtocolError (''filesystem path key is not allowed: '' @ key)) (
     raise_if (unsafe_key key \<and> \<not> (allow_secret_refs \<and> (key = ''secrets'' \<or> field_name = Some ''secrets'')))
       (AgentProtocolError (''unsafe protocol key: '' @ key)) (Inr ()))"

definition check_text :: "string \<Rightarrow> string option \<Rightarrow> bool \<Rightarrow> protocol_error + unit" where
  "check_text value field_name secret_value =
    (if secret_value then
       raise_if (\<not> starts_with ''secret://'' value) (AgentProtocolError ''secret reference is not canonical'') (Inr ())
     else if field_name = Some ''platform_target_name'' then
       raise_if (\<not> versioned_platform_target value) (AgentProtocolError ''platform target identifier is not canonical'') (Inr ())
     else
       raise_if (CHR ''/'' \<in> set value \<or> CHR 0x5C \<in> set value)
         (AgentProtocolError ''filesystem path values are not allowed'') (Inr ()))"

text \<open>\<^verbatim>\<open>_validate_safe_keys\<close>, with its keyword arguments in the order of the source.\<close>

primrec validate_safe_keys :: "json \<Rightarrow> string option \<Rightarrow> bool \<Rightarrow> bool \<Rightarrow> protocol_error + unit" where
  "validate_safe_keys JNull = (\<lambda>field_name allow secret. Inr ())"
| "validate_safe_keys (JBool b) = (\<lambda>field_name allow secret. Inr ())"
| "validate_safe_keys (JInt i) = (\<lambda>field_name allow secret. Inr ())"
| "validate_safe_keys (JStr s) = (\<lambda>field_name allow secret. check_text s field_name secret)"
| "validate_safe_keys (JList vs) = (\<lambda>field_name allow secret.
     first_error (map (\<lambda>f. f None allow secret) (map validate_safe_keys vs)))"
| "validate_safe_keys (JObj kvs) = (\<lambda>field_name allow secret.
     first_error (map (\<lambda>(k, f). rbind (check_key k field_name allow)
         (\<lambda>_. f (Some k) (allow \<or> k = ''deployment'') (field_name = Some ''secrets'')))
       (map (map_prod id validate_safe_keys) kvs)))"

section \<open>Canonical messages\<close>

definition canonical_message :: "json \<Rightarrow> string" where
  "canonical_message v = utf8 (json_dumps False v)"

text \<open>\<^verbatim>\<open>json.loads\<close> decodes the bytes and parses the text; \<open>utf8\<close> is injective, so it reads back the encoded text.\<close>

definition canonical_copy :: "json \<Rightarrow> string \<Rightarrow> protocol_error + json" where
  "canonical_copy v name =
    (case json_loads (json_dumps False v) of
       None \<Rightarrow> Inl (AgentProtocolError (name @ '' must be JSON''))
     | Some copied \<Rightarrow> Inr copied)"

definition validate_bounded_document :: "json \<Rightarrow> string \<Rightarrow> protocol_error + json" where
  "validate_bounded_document v name =
    (case v of
       JObj d \<Rightarrow>
         rbind (validate_safe_keys v None False False) (\<lambda>_.
         rbind (canonical_copy v name) (\<lambda>copied.
         raise_if (length (canonical_message copied) > max_document_bytes)
           (AgentProtocolError (name @ '' is too large'')) (Inr copied)))
     | _ \<Rightarrow> Inl (AgentProtocolError (name @ '' must be a JSON object'')))"

definition protocol_mapping :: "json \<Rightarrow> protocol_error + (string, json) dict" where
  "protocol_mapping v = (case v of JObj d \<Rightarrow> Inr d | _ \<Rightarrow> Inl (AgentProtocolError ''message must be a JSON object''))"

definition protocol_fields :: "(string, json) dict \<Rightarrow> string list \<Rightarrow> protocol_error + unit" where
  "protocol_fields value required =
    (let missing = sort (remdups (filter (\<lambda>k. k \<notin> set (map fst value)) required));
         unknown = sort (remdups (filter (\<lambda>k. k \<notin> set required) (map fst value))) in
     raise_if (set (map fst value) \<noteq> set required)
       (AgentProtocolError (if missing \<noteq> [] then ''missing fields: '' @ join_with '', '' missing
          else ''unknown fields: '' @ join_with '', '' unknown)) (Inr ()))"

definition protocol_version :: "json \<Rightarrow> protocol_error + int" where
  "protocol_version v = raise_if (v \<noteq> JInt 1) (AgentProtocolError ''unsupported schema_version'') (Inr 1)"

definition protocol_uuid :: "json \<Rightarrow> string \<Rightarrow> protocol_error + string" where
  "protocol_uuid v name =
    (case v of
       JStr s \<Rightarrow>
         (case uuid_norm s of
            None \<Rightarrow> Inl (AgentProtocolError (name @ '' must be a UUID''))
          | Some parsed \<Rightarrow>
              raise_if (parsed \<noteq> s) (AgentProtocolError (name @ '' must be a canonical UUID'')) (Inr s))
     | _ \<Rightarrow> Inl (AgentProtocolError (name @ '' must be a UUID'')))"

definition protocol_attempt :: "json \<Rightarrow> protocol_error + int" where
  "protocol_attempt v =
    (case v of
       JInt i \<Rightarrow> raise_if (i < 1) (AgentProtocolError ''attempt must be a positive integer'') (Inr i)
     | _ \<Rightarrow> Inl (AgentProtocolError ''attempt must be a positive integer''))"

definition protocol_node_id :: "json \<Rightarrow> protocol_error + string" where
  "protocol_node_id v =
    (case v of
       JStr s \<Rightarrow> raise_if (\<not> is_node_id s) (AgentProtocolError ''node_id must match spk_[0-9a-f]{32}'') (Inr s)
     | _ \<Rightarrow> Inl (AgentProtocolError ''node_id must match spk_[0-9a-f]{32}''))"

text \<open>A deadline as its instant; \<^verbatim>\<open>astimezone(UTC)\<close> keeps it.\<close>

definition protocol_deadline :: "(string \<Rightarrow> (int \<times> int option) option) \<Rightarrow> json \<Rightarrow> protocol_error + int" where
  "protocol_deadline fromiso v =
    (case v of
       JStr s \<Rightarrow>
         (case fromiso s of
            None \<Rightarrow> Inl (AgentProtocolError ''deadline must be an ISO-8601 UTC timestamp'')
          | Some (t, offset) \<Rightarrow>
              raise_if (offset \<noteq> Some 0) (AgentProtocolError ''deadline must be aware UTC'') (Inr t))
     | _ \<Rightarrow> Inl (AgentProtocolError ''deadline must be an ISO-8601 UTC timestamp''))"

text \<open>\<^verbatim>\<open>_is_utc_date_time\<close>, the format check of the schemas.\<close>

definition is_utc_date_time :: "(string \<Rightarrow> (int \<times> int option) option) \<Rightarrow> json \<Rightarrow> bool" where
  "is_utc_date_time fromiso v =
    (case v of
       JStr s \<Rightarrow> (case fromiso s of None \<Rightarrow> False | Some (t, offset) \<Rightarrow> offset = Some 0)
     | _ \<Rightarrow> True)"

section \<open>Operations and messages\<close>

datatype agent_operation =
    NODE_PROBE | RELEASE_INSTALL | WORKLOAD_PREPARE | WORKLOAD_START | WORKLOAD_STOP | WORKLOAD_HEALTH | WORKLOAD_VERIFY
  | AGENT_UPDATE | AGENT_ROLLBACK | PACKAGE_PREPARE | PACKAGE_ACTIVATE | PACKAGE_HEALTH | PACKAGE_STOP | PACKAGE_ROLLBACK
  | PACKAGE_REMOVE | PACKAGE_REPAIR | PACKAGE_GC | RECIPE_BUILD | RECIPE_IMAGE_IMPORT | RECIPE_INSTALL | RECIPE_START
  | RECIPE_STOP | RECIPE_UNINSTALL

definition agent_operations :: "(string \<times> agent_operation) list" where
  "agent_operations =
     [(''node.probe'', NODE_PROBE), (''release.install'', RELEASE_INSTALL), (''workload.prepare'', WORKLOAD_PREPARE),
      (''workload.start'', WORKLOAD_START), (''workload.stop'', WORKLOAD_STOP), (''workload.health'', WORKLOAD_HEALTH),
      (''workload.verify'', WORKLOAD_VERIFY), (''agent.update'', AGENT_UPDATE), (''agent.rollback'', AGENT_ROLLBACK),
      (''package.prepare'', PACKAGE_PREPARE), (''package.activate'', PACKAGE_ACTIVATE), (''package.health'', PACKAGE_HEALTH),
      (''package.stop'', PACKAGE_STOP), (''package.rollback'', PACKAGE_ROLLBACK), (''package.remove'', PACKAGE_REMOVE),
      (''package.repair'', PACKAGE_REPAIR), (''package.gc'', PACKAGE_GC), (''recipe.build.v1'', RECIPE_BUILD),
      (''recipe.image.import.v1'', RECIPE_IMAGE_IMPORT), (''recipe.install'', RECIPE_INSTALL), (''recipe.start'', RECIPE_START),
      (''recipe.stop'', RECIPE_STOP), (''recipe.uninstall'', RECIPE_UNINSTALL)]"

text \<open>\<^verbatim>\<open>AgentOperation(value)\<close>.\<close>

definition operation_of :: "json \<Rightarrow> agent_operation option" where
  "operation_of v = (case v of JStr s \<Rightarrow> dict_get agent_operations s | _ \<Rightarrow> None)"

record attempt_fields =
  af_job_id :: string
  af_operation_id :: string
  af_attempt :: int
  af_fence :: string
  af_node_id :: string
  af_deadline :: int

definition read_attempt_fields :: "(string \<Rightarrow> (int \<times> int option) option) \<Rightarrow> (string, json) dict \<Rightarrow> protocol_error + attempt_fields" where
  "read_attempt_fields fromiso value =
     rbind (protocol_version (jget value ''schema_version'')) (\<lambda>_.
     rbind (protocol_uuid (jget value ''job_id'') ''job_id'') (\<lambda>job_id.
     rbind (protocol_uuid (jget value ''operation_id'') ''operation_id'') (\<lambda>operation_id.
     rbind (protocol_attempt (jget value ''attempt'')) (\<lambda>attempt.
     rbind (protocol_uuid (jget value ''fence'') ''fence'') (\<lambda>fence.
     rbind (protocol_node_id (jget value ''node_id'')) (\<lambda>node_id.
     rbind (protocol_deadline fromiso (jget value ''deadline'')) (\<lambda>deadline.
     Inr \<lparr>af_job_id = job_id, af_operation_id = operation_id, af_attempt = attempt, af_fence = fence,
       af_node_id = node_id, af_deadline = deadline\<rparr>)))))))"

definition attempt_field_names :: "string list" where
  "attempt_field_names = [''schema_version'', ''job_id'', ''operation_id'', ''attempt'', ''fence'', ''node_id'', ''deadline'']"

record agent_claim =
  cm_attempt :: attempt_fields
  cm_operation :: agent_operation
  cm_base_commit :: string
  cm_payload_digest :: string
  cm_payload :: json

definition read_hex :: "nat \<Rightarrow> string \<Rightarrow> json \<Rightarrow> protocol_error + string" where
  "read_hex n message v = raise_if (\<not> is_str_with (is_hex n) v) (AgentProtocolError message) (Inr (the_str v))"

text \<open>
  The claim parser. The constructor repeats the checks of \<^verbatim>\<open>parse\<close> on values that passed them, and adds those of the
  payload and its digest.
\<close>

definition agent_claim_parse :: "(string \<Rightarrow> string) \<Rightarrow> (string \<Rightarrow> (int \<times> int option) option) \<Rightarrow> json \<Rightarrow> protocol_error + agent_claim" where
  "agent_claim_parse sha fromiso raw =
     rbind (protocol_mapping raw) (\<lambda>value.
     rbind (protocol_fields value (attempt_field_names @ [''operation'', ''base_commit'', ''payload_digest'', ''payload''])) (\<lambda>_.
     case operation_of (jget value ''operation'') of
       None \<Rightarrow> Inl (AgentProtocolError ''operation is not supported'')
     | Some op \<Rightarrow>
         rbind (read_hex 40 ''base_commit must be a 40-character lowercase SHA-1'' (jget value ''base_commit'')) (\<lambda>base_commit.
         rbind (read_hex 64 ''payload_digest must be a lowercase SHA-256'' (jget value ''payload_digest'')) (\<lambda>payload_digest.
         rbind (read_attempt_fields fromiso value) (\<lambda>attempt.
         rbind (validate_bounded_document (jget value ''payload'') ''payload'') (\<lambda>payload.
         raise_if (sha (canonical_message payload) \<noteq> payload_digest)
           (AgentProtocolError ''payload digest does not match payload'') (
         Inr \<lparr>cm_attempt = attempt, cm_operation = op, cm_base_commit = base_commit,
           cm_payload_digest = payload_digest, cm_payload = payload\<rparr>)))))))"

record agent_progress =
  pg_attempt :: attempt_fields
  pg_progress :: json

definition agent_progress_parse :: "(string \<Rightarrow> (int \<times> int option) option) \<Rightarrow> json \<Rightarrow> protocol_error + agent_progress" where
  "agent_progress_parse fromiso raw =
     rbind (protocol_mapping raw) (\<lambda>value.
     rbind (protocol_fields value (attempt_field_names @ [''progress''])) (\<lambda>_.
     rbind (read_attempt_fields fromiso value) (\<lambda>attempt.
     rbind (validate_bounded_document (jget value ''progress'') ''progress'') (\<lambda>progress.
     Inr \<lparr>pg_attempt = attempt, pg_progress = progress\<rparr>))))"

record agent_result =
  rs_attempt :: attempt_fields
  rs_state :: string
  rs_result :: json

definition agent_result_parse :: "(string \<Rightarrow> (int \<times> int option) option) \<Rightarrow> json \<Rightarrow> protocol_error + agent_result" where
  "agent_result_parse fromiso raw =
     rbind (protocol_mapping raw) (\<lambda>value.
     rbind (protocol_fields value (attempt_field_names @ [''state'', ''result''])) (\<lambda>_.
     rbind (read_attempt_fields fromiso value) (\<lambda>attempt.
     raise_if (\<not> hash_ok (jget value ''state'')) ProtocolTypeError (
     raise_if (\<not> is_str_with (\<lambda>s. s \<in> {''succeeded'', ''failed'', ''waiting-for-operator''}) (jget value ''state''))
       (AgentProtocolError ''result state is not supported'') (
     rbind (validate_bounded_document (jget value ''result'') ''result'') (\<lambda>result.
     Inr \<lparr>rs_attempt = attempt, rs_state = the_str (jget value ''state''), rs_result = result\<rparr>))))))"

record agent_directive =
  dr_attempt :: attempt_fields
  dr_cancel_requested :: bool

definition agent_directive_parse :: "(string \<Rightarrow> (int \<times> int option) option) \<Rightarrow> json \<Rightarrow> protocol_error + agent_directive" where
  "agent_directive_parse fromiso raw =
     rbind (protocol_mapping raw) (\<lambda>value.
     rbind (protocol_fields value (attempt_field_names @ [''cancel_requested''])) (\<lambda>_.
     rbind (read_attempt_fields fromiso value) (\<lambda>attempt.
     case jget value ''cancel_requested'' of
       JBool b \<Rightarrow> Inr \<lparr>dr_attempt = attempt, dr_cancel_requested = b\<rparr>
     | _ \<Rightarrow> Inl (AgentProtocolError ''cancel_requested must be a boolean''))))"

datatype protocol_message = ClaimMessage agent_claim | ResultMessage agent_result | DirectiveMessage agent_directive

definition validate_schema_message :: "(string \<Rightarrow> json \<Rightarrow> string list) \<Rightarrow> (string \<Rightarrow> string) \<Rightarrow>
    (string \<Rightarrow> (int \<times> int option) option) \<Rightarrow> string \<Rightarrow> json \<Rightarrow> protocol_error + protocol_message" where
  "validate_schema_message iter_errors sha fromiso schema_name raw =
     raise_if (schema_name \<notin> {''agent-job.schema.json'', ''agent-result.schema.json'', ''agent-directive.schema.json''})
       (AgentProtocolError (''unknown protocol schema: '' @ schema_name)) (
     case iter_errors schema_name raw of
       m # _ \<Rightarrow> Inl (AgentProtocolError (''schema validation failed: '' @ m))
     | [] \<Rightarrow>
         if schema_name = ''agent-job.schema.json''
         then rbind (agent_claim_parse sha fromiso raw) (\<lambda>c. Inr (ClaimMessage c))
         else if schema_name = ''agent-result.schema.json''
         then rbind (agent_result_parse fromiso raw) (\<lambda>r. Inr (ResultMessage r))
         else rbind (agent_directive_parse fromiso raw) (\<lambda>d. Inr (DirectiveMessage d)))"

section \<open>Package operations\<close>

definition release_bound_package_operations :: "agent_operation list" where
  "release_bound_package_operations =
     [PACKAGE_PREPARE, PACKAGE_ACTIVATE, PACKAGE_HEALTH, PACKAGE_STOP, PACKAGE_ROLLBACK, PACKAGE_REMOVE, PACKAGE_REPAIR]"

definition package_operations :: "agent_operation list" where
  "package_operations = PACKAGE_GC # release_bound_package_operations"

definition max_target_bytes :: int where
  "max_target_bytes = 16 * 1024 ^ 4"

definition max_deployment_bytes :: int where
  "max_deployment_bytes = 1024 * 1024"

text \<open>\<^verbatim>\<open>[a-z0-9](?:[a-z0-9-]{0,61}[a-z0-9])?\<close>.\<close>

definition is_deployment_id :: "string \<Rightarrow> bool" where
  "is_deployment_id s \<longleftrightarrow> s \<noteq> [] \<and> length s \<le> 63 \<and> is_lower_alnum (hd s) \<and> is_lower_alnum (last s) \<and>
     list_all (\<lambda>c. is_lower_alnum c \<or> c = CHR ''-'') s"

text \<open>\<^verbatim>\<open>[a-z][a-z0-9]*(?:[._-][a-z0-9]+)*\<close>.\<close>

fun identifier_tail :: "bool \<Rightarrow> string \<Rightarrow> bool" where
  "identifier_tail complete [] = complete"
| "identifier_tail complete (c # s) =
    (if is_lower_alnum c then identifier_tail True s
     else complete \<and> c \<in> {CHR ''.'', CHR ''_'', CHR ''-''} \<and> identifier_tail False s)"

definition is_identifier :: "string \<Rightarrow> bool" where
  "is_identifier s \<longleftrightarrow> s \<noteq> [] \<and> between (CHR ''a'') (CHR ''z'') (hd s) \<and> identifier_tail True (tl s)"

definition argument_ok :: "json \<Rightarrow> bool" where
  "argument_ok = is_str_with (\<lambda>s. length s \<le> 4096 \<and>
     list_all (\<lambda>c. \<not> (of_char c < (0x20 :: nat) \<or> of_char c = (0x7F :: nat))) s)"

definition port_ok :: "json \<Rightarrow> bool" where
  "port_ok v = (case v of JInt i \<Rightarrow> 1024 \<le> i \<and> i < 65536 | _ \<Rightarrow> False)"

definition nonneg_int :: "json \<Rightarrow> bool" where
  "nonneg_int v = (case v of JInt i \<Rightarrow> 0 \<le> i | _ \<Rightarrow> False)"

definition mount_ok :: "json \<Rightarrow> bool" where
  "mount_ok v = (case v of
     JObj m \<Rightarrow> set (map fst m) = {''object_digest'', ''target'', ''read_only''} \<and>
       is_str_with (is_hex 64) (jget m ''object_digest'') \<and> is_str_with (\<lambda>s. s \<noteq> []) (jget m ''target'') \<and>
       jget m ''read_only'' = JBool True
   | _ \<Rightarrow> False)"

definition is_obj :: "json \<Rightarrow> bool" where
  "is_obj v = (case v of JObj _ \<Rightarrow> True | _ \<Rightarrow> False)"

text \<open>\<^verbatim>\<open>d.get(k, default)\<close>.\<close>

definition jget_or :: "(string, json) dict \<Rightarrow> string \<Rightarrow> json \<Rightarrow> json" where
  "jget_or d k v = (case dict_get d k of Some x \<Rightarrow> x | None \<Rightarrow> v)"

definition deployment_required :: "string list" where
  "deployment_required = [''schema_version'', ''deployment_id'', ''family_id'', ''release_digest'', ''selector'', ''secrets'',
     ''ports'', ''arguments'', ''routing'', ''resources'']"

definition deployment_identity :: "(string, json) dict \<Rightarrow> string \<Rightarrow> protocol_error + unit" where
  "deployment_identity value deployment_id =
     raise_if (\<not> set (map fst value) \<subseteq> set deployment_required \<union> {''mounts'', ''devices'', ''network''} \<or>
         \<not> set deployment_required \<subseteq> set (map fst value))
       (AgentProtocolError ''deployment fields are invalid'') (
     raise_if (jget value ''schema_version'' \<noteq> JInt 1) (AgentProtocolError ''deployment schema_version is invalid'') (
     raise_if (jget value ''deployment_id'' \<noteq> JStr deployment_id \<or> \<not> is_deployment_id deployment_id)
       (AgentProtocolError ''deployment identity does not match operation'') (
     raise_if (\<not> is_str_with (is_hex 64) (jget value ''release_digest''))
       (AgentProtocolError ''deployment release identity is invalid'') (
     raise_if (\<not> is_str_with is_identifier (jget value ''family_id''))
       (AgentProtocolError ''deployment family_id is invalid'') (
     raise_if (\<not> is_obj (jget value ''selector'')) (AgentProtocolError ''deployment selector is invalid'') (Inr ()))))))"

definition deployment_routing :: "(string, json) dict \<Rightarrow> protocol_error + unit" where
  "deployment_routing value =
    (let arguments = jget value ''arguments''; ports = jget value ''ports''; routing = jget value ''routing'' in
     raise_if (\<not> is_list arguments \<or> length (the_list arguments) > 128 \<or> \<not> list_all argument_ok (the_list arguments))
       (AgentProtocolError ''deployment arguments are invalid'') (
     raise_if (\<not> is_obj ports \<or> length (the_obj ports) > 32 \<or>
         \<not> list_all (\<lambda>(k, v). is_identifier k \<and> port_ok v) (the_obj ports))
       (AgentProtocolError ''deployment ports are invalid'') (
     raise_if (\<not> is_obj routing \<or> set (map fst (the_obj routing)) \<noteq> {''alias'', ''port''})
       (AgentProtocolError ''deployment routing is invalid'') (
     raise_if (\<not> hash_ok (jget (the_obj routing) ''port'')) ProtocolTypeError (
     raise_if (\<not> is_str_with (\<lambda>p. p \<in> fst ` set (the_obj ports)) (jget (the_obj routing) ''port''))
       (AgentProtocolError ''deployment routing is invalid'') (Inr ()))))))"

definition deployment_limits :: "(string, json) dict \<Rightarrow> protocol_error + unit" where
  "deployment_limits value =
    (let resources = jget value ''resources''; secrets = jget value ''secrets'' in
     raise_if (\<not> is_obj resources \<or>
         \<not> {''memory_bytes'', ''storage_bytes'', ''gpu_count''} \<subseteq> set (map fst (the_obj resources)))
       (AgentProtocolError ''deployment resources are invalid'') (
     raise_if (\<not> list_all (\<lambda>k. nonneg_int (jget (the_obj resources) k)) [''memory_bytes'', ''storage_bytes'', ''gpu_count''])
       (AgentProtocolError ''deployment resources are invalid'') (
     raise_if (\<not> is_obj secrets \<or> length (the_obj secrets) > 32 \<or>
         \<not> list_all (\<lambda>(k, v). is_identifier k \<and> is_str_with (starts_with ''secret://'') v) (the_obj secrets))
       (AgentProtocolError ''deployment secret references are invalid'') (Inr ()))))"

definition deployment_policy :: "(string, json) dict \<Rightarrow> protocol_error + unit" where
  "deployment_policy value =
    (let mounts = jget_or value ''mounts'' (JList []); devices = jget_or value ''devices'' (JList []);
         network = jget_or value ''network'' (JObj [(''mode'', JStr ''none''), (''egress'', JList [])]) in
     raise_if (\<not> is_list mounts \<or> length (the_list mounts) > 64 \<or> \<not> list_all mount_ok (the_list mounts))
       (AgentProtocolError ''deployment mounts are invalid'') (
     raise_if (\<not> is_list devices \<or> length (the_list devices) > 32 \<or>
         \<not> list_all (is_str_with is_identifier) (the_list devices))
       (AgentProtocolError ''deployment devices are invalid'') (
     raise_if (\<not> is_obj network \<or> set (map fst (the_obj network)) \<noteq> {''mode'', ''egress''})
       (AgentProtocolError ''deployment network policy is invalid'') (
     raise_if (\<not> hash_ok (jget (the_obj network) ''mode'')) ProtocolTypeError (
     raise_if (\<not> is_str_with (\<lambda>m. m \<in> {''none'', ''restricted''}) (jget (the_obj network) ''mode'') \<or>
         \<not> is_list (jget (the_obj network) ''egress''))
       (AgentProtocolError ''deployment network policy is invalid'') (Inr ()))))))"

text \<open>
  \<^verbatim>\<open>_parse_deployment\<close>. Like the source, it does not use the digest of the release that the operation names.
\<close>

definition parse_deployment :: "(string \<Rightarrow> string) \<Rightarrow> json \<Rightarrow> string \<Rightarrow> string \<Rightarrow> string \<Rightarrow> protocol_error + (string, json) dict" where
  "parse_deployment sha v deployment_id release_digest deployment_config_digest =
    (case v of
       JObj value \<Rightarrow>
         rbind (deployment_identity value deployment_id) (\<lambda>_.
         rbind (deployment_routing value) (\<lambda>_.
         rbind (deployment_limits value) (\<lambda>_.
         rbind (deployment_policy value) (\<lambda>_.
         let raw = canonical_message v @ [CHR 0x0A] in
         raise_if (int (length raw) > max_deployment_bytes) (AgentProtocolError ''deployment is too large'') (
         raise_if (sha raw \<noteq> deployment_config_digest)
           (AgentProtocolError ''deployment digest does not match operation'') (Inr value))))))
     | _ \<Rightarrow> Inl (AgentProtocolError ''deployment must be an object''))"

record package_operation_request =
  po_operation :: agent_operation
  po_deployment_id :: "string option"
  po_release_digest :: "string option"
  po_deployment_digest :: "string option"
  po_dry_run :: "bool option"
  po_target_bytes :: "int option"
  po_deployment :: "(string, json) dict option"
  po_deployment_config_digest :: json

definition protocol_digest :: "json \<Rightarrow> string \<Rightarrow> protocol_error + string" where
  "protocol_digest v name = read_hex 64 (name @ '' must be a lowercase SHA-256'') v"

definition read_deployment :: "(string \<Rightarrow> string) \<Rightarrow> (string, json) dict \<Rightarrow> string \<Rightarrow> string \<Rightarrow>
    protocol_error + (string, json) dict option" where
  "read_deployment sha value deployment_id release_digest =
    (if jget value ''deployment'' = JNull then Inr None
     else
       rbind (protocol_digest (jget value ''deployment_config_digest'') ''deployment_config_digest'') (\<lambda>config_digest.
       rbind (parse_deployment sha (jget value ''deployment'') deployment_id release_digest config_digest) (\<lambda>d.
       Inr (Some d))))"

definition read_target_bytes :: "json \<Rightarrow> protocol_error + int option" where
  "read_target_bytes v =
    (case v of
       JNull \<Rightarrow> Inr None
     | JInt i \<Rightarrow> raise_if (\<not> (1 \<le> i \<and> i \<le> max_target_bytes))
         (AgentProtocolError ''target_bytes must be a bounded positive integer'') (Inr (Some i))
     | _ \<Rightarrow> Inl (AgentProtocolError ''target_bytes must be a bounded positive integer''))"

definition package_request_parse :: "(string \<Rightarrow> string) \<Rightarrow> agent_operation \<Rightarrow> json \<Rightarrow> protocol_error + package_operation_request" where
  "package_request_parse sha op payload =
     raise_if (op \<notin> set package_operations) (AgentProtocolError ''package operation is not supported'') (
     rbind (protocol_mapping payload) (\<lambda>value.
     if op \<in> set release_bound_package_operations then
       rbind (protocol_fields value ([''schema_version'', ''deployment_id'', ''release_digest'', ''deployment_digest''] @
           (if ''deployment'' \<in> fst ` set value then [''deployment'', ''deployment_config_digest''] else []))) (\<lambda>_.
       rbind (protocol_version (jget value ''schema_version'')) (\<lambda>_.
       raise_if (\<not> is_str_with is_deployment_id (jget value ''deployment_id'')) (AgentProtocolError ''deployment_id is invalid'') (
       rbind (protocol_digest (jget value ''release_digest'') ''release_digest'') (\<lambda>release_digest.
       rbind (protocol_digest (jget value ''deployment_digest'') ''deployment_digest'') (\<lambda>deployment_digest.
       rbind (read_deployment sha value (the_str (jget value ''deployment_id'')) release_digest) (\<lambda>deployment.
       Inr \<lparr>po_operation = op, po_deployment_id = Some (the_str (jget value ''deployment_id'')),
         po_release_digest = Some release_digest, po_deployment_digest = Some deployment_digest, po_dry_run = None,
         po_target_bytes = None, po_deployment = deployment,
         po_deployment_config_digest = jget value ''deployment_config_digest''\<rparr>))))))
     else
       rbind (protocol_fields value ([''schema_version'', ''dry_run''] @
           (if ''target_bytes'' \<in> fst ` set value then [''target_bytes''] else []))) (\<lambda>_.
       rbind (protocol_version (jget value ''schema_version'')) (\<lambda>_.
       case jget value ''dry_run'' of
         JBool dry_run \<Rightarrow>
           rbind (read_target_bytes (jget value ''target_bytes'')) (\<lambda>target_bytes.
           Inr \<lparr>po_operation = op, po_deployment_id = None, po_release_digest = None, po_deployment_digest = None,
             po_dry_run = Some dry_run, po_target_bytes = target_bytes, po_deployment = None,
             po_deployment_config_digest = JNull\<rparr>)
       | _ \<Rightarrow> Inl (AgentProtocolError ''package operation fields do not match operation'')))))"

section \<open>What an accepted document can contain\<close>

lemma first_error_Inr [result_simps]: "first_error rs = Inr u \<longleftrightarrow> (\<forall>r \<in> set rs. r = Inr ())"
  by (induction rs) (auto simp: rbind_Inr)

text \<open>All keys of a document, at any depth.\<close>

primrec json_keys :: "json \<Rightarrow> string list" where
  "json_keys JNull = []"
| "json_keys (JBool b) = []"
| "json_keys (JInt i) = []"
| "json_keys (JStr s) = []"
| "json_keys (JList vs) = concat (map json_keys vs)"
| "json_keys (JObj kvs) = concat (map (\<lambda>(k, ks). k # ks) (map (map_prod id json_keys) kvs))"

lemma validate_safe_keys_obj:
  "validate_safe_keys (JObj kvs) f a s = Inr u \<longleftrightarrow> (\<forall>(k, v) \<in> set kvs. check_key k f a = Inr () \<and>
     validate_safe_keys v (Some k) (a \<or> k = ''deployment'') (f = Some ''secrets'') = Inr ())"
  by (auto simp: first_error_Inr rbind_Inr map_prod_def)

lemma validate_safe_keys_list:
  "validate_safe_keys (JList vs) f a s = Inr u \<longleftrightarrow> (\<forall>v \<in> set vs. validate_safe_keys v None a s = Inr ())"
  by (auto simp: first_error_Inr)

lemma set_json_keys_obj: "set (json_keys (JObj kvs)) = (\<Union>(k, v) \<in> set kvs. insert k (set (json_keys v)))"
  by (auto simp: map_prod_def split_def)

lemma safe_no_path_keys:
  "validate_safe_keys v f a s = Inr u \<Longrightarrow> k \<in> set (json_keys v) \<Longrightarrow> \<not> is_path_key k"
proof (induction v arbitrary: f a s u)
  case (JList vs)
  then show ?case by (fastforce simp: validate_safe_keys_list simp del: validate_safe_keys.simps)
next
  case (JObj kvs)
  from JObj.prems(2) obtain j w where jw: "(j, w) \<in> set kvs" "k = j \<or> k \<in> set (json_keys w)"
    by (auto simp: set_json_keys_obj simp del: json_keys.simps)
  with JObj.prems(1) have c: "check_key j f a = Inr ()"
    "validate_safe_keys w (Some j) (a \<or> j = ''deployment'') (f = Some ''secrets'') = Inr ()"
    unfolding validate_safe_keys_obj by blast+
  have "w \<in> Basic_BNFs.snds (j, w)" by simp
  from jw(2) show ?case
  proof
    assume "k = j"
    then show ?thesis using c(1) by (simp add: check_key_def raise_if_Inr)
  next
    assume "k \<in> set (json_keys w)"
    then show ?thesis using JObj.IH [OF jw(1) _ c(2)] by simp
  qed
qed simp_all

lemma safe_no_unsafe_keys:
  "validate_safe_keys v f False s = Inr u \<Longrightarrow> ''deployment'' \<notin> set (json_keys v) \<Longrightarrow> k \<in> set (json_keys v) \<Longrightarrow> \<not> unsafe_key k"
proof (induction v arbitrary: f s u)
  case (JList vs)
  then show ?case by (fastforce simp: validate_safe_keys_list simp del: validate_safe_keys.simps)
next
  case (JObj kvs)
  from JObj.prems(3) obtain j w where jw: "(j, w) \<in> set kvs" "k = j \<or> k \<in> set (json_keys w)"
    by (auto simp: set_json_keys_obj simp del: json_keys.simps)
  have nd: "j \<noteq> ''deployment''" "''deployment'' \<notin> set (json_keys w)"
    using JObj.prems(2) jw(1) unfolding set_json_keys_obj by blast+
  with JObj.prems(1) jw(1) have c: "check_key j f False = Inr ()"
    "validate_safe_keys w (Some j) False (f = Some ''secrets'') = Inr ()"
    unfolding validate_safe_keys_obj by fastforce+
  from jw(2) show ?case
  proof
    assume "k = j"
    then show ?thesis using c(1) by (simp add: check_key_def raise_if_Inr)
  next
    assume "k \<in> set (json_keys w)"
    then show ?thesis using JObj.IH [OF jw(1) _ c(2) nd(2)] by simp
  qed
qed simp_all

lemma bounded_document_Inr:
  assumes "validate_bounded_document v name = Inr d"
  shows "validate_safe_keys v None False False = Inr ()" "json_loads (json_dumps False v) = Some d"
    "length (canonical_message d) \<le> max_document_bytes" "\<exists>m. v = JObj m"
  using assms by (cases v; auto simp: validate_bounded_document_def canonical_copy_def rbind_Inr raise_if_Inr
    split: option.splits simp del: validate_safe_keys.simps)+

lemma protocol_uuid_Inr: "protocol_uuid v name = Inr s \<Longrightarrow> is_uuid s"
  by (auto simp: protocol_uuid_def raise_if_Inr dest: uuid_norm_is_uuid split: json.splits option.splits)

lemma read_attempt_fields_Inr:
  assumes "read_attempt_fields fromiso value = Inr f"
  shows "is_uuid (af_job_id f) \<and> is_uuid (af_operation_id f) \<and> is_uuid (af_fence f) \<and> 1 \<le> af_attempt f \<and> is_node_id (af_node_id f)"
  using assms
  by (auto simp: read_attempt_fields_def rbind_Inr protocol_attempt_def protocol_node_id_def raise_if_Inr
    dest: protocol_uuid_Inr split: json.splits)

text \<open>C30: A claim that an agent accepts is bound to its payload. The digest is the hash of the canonical payload, the payload
  is at most 64 KiB, the identifiers are canonical UUIDs, the attempt is positive and the node id is well formed.\<close>

theorem claim_bound_to_payload:
  assumes "agent_claim_parse sha fromiso raw = Inr c"
  shows "sha (canonical_message (cm_payload c)) = cm_payload_digest c \<and>
    length (canonical_message (cm_payload c)) \<le> 64 * 1024 \<and>
    is_uuid (af_job_id (cm_attempt c)) \<and> is_uuid (af_operation_id (cm_attempt c)) \<and> is_uuid (af_fence (cm_attempt c)) \<and>
    1 \<le> af_attempt (cm_attempt c) \<and> is_node_id (af_node_id (cm_attempt c))"
proof -
  obtain val p where a: "read_attempt_fields fromiso val = Inr (cm_attempt c)"
    and p: "validate_bounded_document p ''payload'' = Inr (cm_payload c)"
    and d: "sha (canonical_message (cm_payload c)) = cm_payload_digest c"
    using assms by (auto simp: agent_claim_parse_def rbind_Inr raise_if_Inr split: option.splits)
  from bounded_document_Inr(3) [OF p] read_attempt_fields_Inr [OF a] d show ?thesis
    by (simp add: max_document_bytes_def)
qed

lemma protocol_uuid_ok: "is_uuid s \<Longrightarrow> protocol_uuid (JStr s) name = Inr s"
  by (simp add: protocol_uuid_def uuid_norm_canonical)

definition ex_id :: string where
  "ex_id = replicate 8 CHR ''0'' @ ''-'' @ replicate 4 CHR ''0'' @ ''-'' @ replicate 4 CHR ''0'' @ ''-'' @ replicate 4 CHR ''0'' @ ''-'' @ replicate 12 CHR ''0''"

lemma ex_id_uuid: "is_uuid ex_id"
  by code_simp

definition ex_claim :: "(string, json) dict" where
  "ex_claim = [(''schema_version'', JInt 1), (''job_id'', JStr ex_id), (''operation_id'', JStr ex_id), (''attempt'', JInt 2),
     (''fence'', JStr ex_id), (''node_id'', JStr node_a), (''deadline'', JStr ''t''), (''operation'', JStr ''node.probe''),
     (''base_commit'', JStr (replicate 40 CHR ''c'')), (''payload_digest'', JStr (replicate 64 CHR ''d'')), (''payload'', JObj [])]"

lemma ex_payload_document: "validate_bounded_document (JObj []) ''payload'' = Inr (JObj [])"
proof -
  have "json_loads (json_dumps False (JObj [])) = Some (JObj [])" using json_loads_dumps [of "JObj []"] by simp
  then show ?thesis
    by (simp add: validate_bounded_document_def canonical_copy_def canonical_message_def utf8_def utf8_char_def max_document_bytes_def)
qed

lemma ex_claim_parsed:
  "\<exists>c. agent_claim_parse (\<lambda>_. replicate 64 CHR ''d'') (\<lambda>_. Some (5, Some 0)) (JObj ex_claim) = Inr c \<and> af_attempt (cm_attempt c) = 2"
proof -
  have get: "jget ex_claim ''schema_version'' = JInt 1" "jget ex_claim ''job_id'' = JStr ex_id" "jget ex_claim ''operation_id'' = JStr ex_id"
    "jget ex_claim ''attempt'' = JInt 2" "jget ex_claim ''fence'' = JStr ex_id" "jget ex_claim ''node_id'' = JStr node_a"
    "jget ex_claim ''deadline'' = JStr ''t''" "jget ex_claim ''operation'' = JStr ''node.probe''" "jget ex_claim ''payload'' = JObj []"
    "jget ex_claim ''base_commit'' = JStr (replicate 40 CHR ''c'')" "jget ex_claim ''payload_digest'' = JStr (replicate 64 CHR ''d'')"
    by (simp_all add: ex_claim_def jget_def)
  have f: "protocol_fields ex_claim (attempt_field_names @ [''operation'', ''base_commit'', ''payload_digest'', ''payload'']) = Inr ()"
    by (simp add: protocol_fields_def raise_if_def ex_claim_def attempt_field_names_def Let_def insert_commute)
  have h: "read_hex 40 m (JStr (replicate 40 CHR ''c'')) = Inr (replicate 40 CHR ''c'')"
    "read_hex 64 m (JStr (replicate 64 CHR ''d'')) = Inr (replicate 64 CHR ''d'')" for m
    by (simp_all add: read_hex_def raise_if_def is_str_with_def is_hex_def list_all_iff is_hexchar_def between_def)
  have o: "operation_of (JStr ''node.probe'') = Some NODE_PROBE" by (simp add: operation_of_def agent_operations_def)
  have n: "is_node_id node_a" by code_simp
  have a: "read_attempt_fields (\<lambda>_. Some (5, Some 0)) ex_claim = Inr \<lparr>af_job_id = ex_id, af_operation_id = ex_id, af_attempt = 2,
      af_fence = ex_id, af_node_id = node_a, af_deadline = 5\<rparr>"
    using n by (simp add: read_attempt_fields_def get protocol_version_def raise_if_def protocol_uuid_ok [OF ex_id_uuid]
      protocol_attempt_def protocol_node_id_def protocol_deadline_def)
  show ?thesis
    by (simp add: agent_claim_parse_def protocol_mapping_def f get h o a ex_payload_document raise_if_def)
qed

theorem claim_bound_to_payload_witness:
  "\<exists>c. agent_claim_parse (\<lambda>_. replicate 64 CHR ''d'') (\<lambda>_. Some (5, Some 0)) (JObj ex_claim) = Inr c \<and>
     cm_payload_digest c = replicate 64 CHR ''d''"
  using ex_claim_parsed claim_bound_to_payload by metis

text \<open>C31: No message carries a file-system path or an unsafe key to a node. In an accepted document no key at any depth names
  a path, and unless it contains a deployment no key names a secret, a token, a command or the like.\<close>

theorem bounded_document_safe:
  assumes "validate_bounded_document v name = Inr d" "k \<in> set (json_keys v)"
  shows "\<not> is_path_key k \<and> (unsafe_key k \<longrightarrow> ''deployment'' \<in> set (json_keys v))"
  using safe_no_path_keys [OF bounded_document_Inr(1) [OF assms(1)] assms(2)]
    safe_no_unsafe_keys [OF bounded_document_Inr(1) [OF assms(1)] _ assms(2)] by blast

definition ex_document :: json where
  "ex_document = JObj [(''n'', JInt 1)]"

lemma ex_document_ok: "validate_bounded_document ex_document ''progress'' = Inr (json_canon ex_document)"
proof -
  have wf: "json_wf ex_document" by (simp add: ex_document_def)
  have "validate_safe_keys ex_document None False False = Inr ()" by code_simp
  moreover have "json_loads (json_dumps False ex_document) = Some (json_canon ex_document)" by (rule json_loads_dumps [OF wf])
  moreover have "length (canonical_message (json_canon ex_document)) = 7" by code_simp
  then have "length (canonical_message (json_canon ex_document)) \<le> max_document_bytes" by (simp add: max_document_bytes_def)
  ultimately show ?thesis
    by (simp add: validate_bounded_document_def canonical_copy_def ex_document_def del: validate_safe_keys.simps json_canon.simps)
qed

theorem bounded_document_safe_witness:
  "validate_bounded_document ex_document ''progress'' = Inr (json_canon ex_document) \<and> \<not> is_path_key ''n''"
proof -
  have "''n'' \<in> set (json_keys ex_document)" by (simp add: ex_document_def)
  then show ?thesis using ex_document_ok bounded_document_safe [OF ex_document_ok] by blast
qed

section \<open>Accepted documents are canonical\<close>

lemma validate_safe_keys_canon:
  "validate_safe_keys (json_canon v) f a s = Inr u \<longleftrightarrow> validate_safe_keys v f a s = Inr u"
proof (induction v arbitrary: f a s u)
  case (JList vs)
  then show ?case by (simp add: validate_safe_keys_list del: validate_safe_keys.simps)
next
  case (JObj kvs)
  have "validate_safe_keys (json_canon (JObj kvs)) f a s = Inr u \<longleftrightarrow> (\<forall>(k, v) \<in> set kvs. check_key k f a = Inr () \<and>
     validate_safe_keys (json_canon v) (Some k) (a \<or> k = ''deployment'') (f = Some ''secrets'') = Inr ())"
    unfolding json_canon_obj validate_safe_keys_obj by (auto simp: map_prod_def)
  also have "\<dots> \<longleftrightarrow> validate_safe_keys (JObj kvs) f a s = Inr u"
    unfolding validate_safe_keys_obj using JObj.IH by fastforce
  finally show ?case .
qed simp_all

text \<open>Validation of a document is idempotent. What control accepts and stores is the canonical copy, and an agent that
  validates that copy accepts it and keeps it unchanged.\<close>

theorem bounded_document_idempotent:
  assumes "validate_bounded_document v name = Inr d" "json_wf v"
  shows "d = json_canon v \<and> validate_bounded_document d name' = Inr d"
proof -
  note b = bounded_document_Inr [OF assms(1)]
  from b(2) json_loads_dumps [OF assms(2)] have d: "d = json_canon v" by simp
  from b(4) obtain m where v: "v = JObj m" ..
  then obtain m' where m': "d = JObj m'" by (simp add: d)
  have "validate_safe_keys d None False False = Inr ()" using b(1) unfolding d validate_safe_keys_canon .
  moreover have "json_loads (json_dumps False d) = Some d" unfolding d by (rule json_loads_canon [OF assms(2)])
  ultimately have "validate_bounded_document d name' = Inr d"
    using b(3) by (simp add: validate_bounded_document_def canonical_copy_def m' del: validate_safe_keys.simps)
  with d show ?thesis by blast
qed

theorem bounded_document_idempotent_witness:
  "validate_bounded_document (json_canon ex_document) ''result'' = Inr (json_canon ex_document)"
proof -
  have "json_wf ex_document" by (simp add: ex_document_def)
  from bounded_document_idempotent [OF ex_document_ok this] show ?thesis by blast
qed

lemma protocol_digest_Inr: "protocol_digest v name = Inr s \<Longrightarrow> is_hex 64 s"
  by (auto simp: protocol_digest_def read_hex_def raise_if_Inr is_str_with_iff)

lemma read_target_bytes_Inr: "read_target_bytes v = Inr t \<Longrightarrow> \<forall>i. t = Some i \<longrightarrow> 1 \<le> i \<and> i \<le> 16 * 1024 ^ 4"
  by (cases v) (auto simp: read_target_bytes_def raise_if_Inr max_target_bytes_def)

text \<open>A package request that parses is closed: an operation on a release carries the deployment and both digests and no
  collection options, and garbage collection carries only its options, with a bounded positive target.\<close>

lemma package_request_closed:
  assumes "package_request_parse sha op payload = Inr r"
  shows "po_operation r = op \<and>
    (if op = PACKAGE_GC
     then po_deployment_id r = None \<and> po_release_digest r = None \<and> po_deployment_digest r = None \<and> po_deployment r = None \<and>
       po_dry_run r \<noteq> None \<and> (\<forall>t. po_target_bytes r = Some t \<longrightarrow> 1 \<le> t \<and> t \<le> 16 * 1024 ^ 4)
     else op \<in> set release_bound_package_operations \<and> po_dry_run r = None \<and> po_target_bytes r = None \<and>
       (\<exists>i rd dd. po_deployment_id r = Some i \<and> is_deployment_id i \<and> po_release_digest r = Some rd \<and> is_hex 64 rd \<and>
          po_deployment_digest r = Some dd \<and> is_hex 64 dd))"
proof (cases "op \<in> set release_bound_package_operations")
  case True
  note parsed = assms [unfolded package_request_parse_def rbind_Inr raise_if_Inr if_P [OF True] sum.inject]
  then obtain val rd dd dep where i: "is_str_with is_deployment_id (jget val ''deployment_id'')"
    and d: "protocol_digest (jget val ''release_digest'') ''release_digest'' = Inr rd"
      "protocol_digest (jget val ''deployment_digest'') ''deployment_digest'' = Inr dd"
    and r: "\<lparr>po_operation = op, po_deployment_id = Some (the_str (jget val ''deployment_id'')),
         po_release_digest = Some rd, po_deployment_digest = Some dd, po_dry_run = None,
         po_target_bytes = None, po_deployment = dep,
         po_deployment_config_digest = jget val ''deployment_config_digest''\<rparr> = r"
    by blast
  have "op \<noteq> PACKAGE_GC" using True by (auto simp: release_bound_package_operations_def)
  moreover have "is_deployment_id (the_str (jget val ''deployment_id''))" using i by (auto simp: is_str_with_iff)
  ultimately show ?thesis using True protocol_digest_Inr [OF d(1)] protocol_digest_Inr [OF d(2)] by (simp add: r [symmetric])
next
  case False
  note parsed = assms [unfolded package_request_parse_def rbind_Inr raise_if_Inr if_not_P [OF False] sum.inject]
  then have "op \<in> set package_operations" by blast
  with False have gc: "op = PACKAGE_GC" by (simp add: package_operations_def)
  from parsed obtain val where "(case jget val ''dry_run'' of
         JBool dry_run \<Rightarrow>
           rbind (read_target_bytes (jget val ''target_bytes'')) (\<lambda>target_bytes.
           Inr \<lparr>po_operation = op, po_deployment_id = None, po_release_digest = None, po_deployment_digest = None,
             po_dry_run = Some dry_run, po_target_bytes = target_bytes, po_deployment = None,
             po_deployment_config_digest = JNull\<rparr>)
       | _ \<Rightarrow> Inl (AgentProtocolError ''package operation fields do not match operation'')) = Inr r"
    by blast
  then obtain b t where t: "read_target_bytes (jget val ''target_bytes'') = Inr t"
    and r: "r = \<lparr>po_operation = op, po_deployment_id = None, po_release_digest = None, po_deployment_digest = None,
             po_dry_run = Some b, po_target_bytes = t, po_deployment = None, po_deployment_config_digest = JNull\<rparr>"
    by (cases "jget val ''dry_run''") (auto simp: rbind_Inr)
  from read_target_bytes_Inr [OF t] show ?thesis by (simp add: r gc)
qed

lemma package_request_closed_witness:
  "\<exists>r. package_request_parse (\<lambda>s. s) PACKAGE_GC (JObj [(''schema_version'', JInt 1), (''dry_run'', JBool True), (''target_bytes'', JInt 7)]) = Inr r \<and>
     po_target_bytes r = Some 7 \<and> po_deployment r = None"
proof -
  let ?p = "package_request_parse (\<lambda>s. s) PACKAGE_GC (JObj [(''schema_version'', JInt 1), (''dry_run'', JBool True), (''target_bytes'', JInt 7)])"
  have "\<not> isl ?p" by code_simp
  then obtain r where r: "?p = Inr r" by (cases ?p) auto
  have "po_target_bytes (projr ?p) = Some 7" by code_simp
  with r package_request_closed [OF r] show ?thesis by auto
qed

end
