(* ===== verification/Plan_Store.thy ===== *)
theory Plan_Store
  imports Operation_Graph Protocol
begin

text \<open>
  The rest of \<^verbatim>\<open>orchestration.py\<close>: the store of reconciliations (\<^verbatim>\<open>plan\<close>, \<^verbatim>\<open>advance\<close>,
  \<^verbatim>\<open>store_resolved_plan\<close>, \<^verbatim>\<open>get_or_create_resolved_plan\<close>, \<^verbatim>\<open>resolved_plan\<close>), its phase machine with the completion
  counter, and the validation of a persisted plan.

  A reconciliation is a row; the store is the list of rows and the counter row. New identifiers and the clock are
  arguments. \<open>raced\<close> is the counter row that another transaction committed between the first read and the insert, if any.
\<close>

section \<open>Rows\<close>

datatype store_error = StoreExc exc | StoreIntegrityError

record reconciliation =
  rc_id :: string
  rc_base_commit :: string
  rc_status :: string
  rc_operation_count :: nat
  rc_target_count :: nat
  rc_graph :: json
  rc_graph_digest :: string
  rc_plan_digest :: "string option"
  rc_resolved_plan :: "json option"
  rc_current_phase :: string
  rc_route_withdrawal_generation :: int
  rc_completion_generation :: "int option"
  rc_created_at :: int

record plan_db =
  db_reconciliations :: "reconciliation list"
  db_last_generation :: "int option"

record operation_graph =
  og_reconciliation_id :: string
  og_base_commit :: string
  og_targets :: "string list"
  og_nodes :: "operation_node list"
  og_digest :: string

definition og_document :: "operation_graph \<Rightarrow> json" where
  "og_document g = graph_document (og_base_commit g) (og_targets g) (og_nodes g)"

definition og_dependencies :: "operation_graph \<Rightarrow> string \<Rightarrow> string list result" where
  "og_dependencies g operation_id =
    (case find (\<lambda>n. on_operation_id n = operation_id) (og_nodes g) of
       Some n \<Rightarrow> Inr (on_dependencies n)
     | None \<Rightarrow> Inl (KeyError operation_id))"

definition phase_transitions :: "(string \<times> string) list" where
  "phase_transitions = [(''planned'', ''routes-withdrawn''), (''routes-withdrawn'', ''dispatching''),
     (''dispatching'', ''accepting''), (''accepting'', ''completed'')]"

definition terminal_statuses :: "string list" where
  "terminal_statuses = [''succeeded'', ''failed'', ''cancelled'']"

definition store_exc :: "'a result \<Rightarrow> store_error + 'a" where
  "store_exc r = (case r of Inl e \<Rightarrow> Inl (StoreExc e) | Inr x \<Rightarrow> Inr x)"

text \<open>Insert a row: the primary key and the unique columns.\<close>

definition insert_row :: "plan_db \<Rightarrow> reconciliation \<Rightarrow> store_error + plan_db" where
  "insert_row db r =
     raise_if (rc_id r \<in> rc_id ` set (db_reconciliations db) \<or>
         rc_plan_digest r \<noteq> None \<and> rc_plan_digest r \<in> rc_plan_digest ` set (db_reconciliations db) \<or>
         rc_completion_generation r \<noteq> None \<and> rc_completion_generation r \<in> rc_completion_generation ` set (db_reconciliations db))
       StoreIntegrityError (
     Inr (db\<lparr>db_reconciliations := db_reconciliations db @ [r]\<rparr>))"

definition put_row :: "plan_db \<Rightarrow> reconciliation \<Rightarrow> plan_db" where
  "put_row db r = db\<lparr>db_reconciliations := map (\<lambda>x. if rc_id x = rc_id r then r else x) (db_reconciliations db)\<rparr>"

definition stored_row :: "plan_db \<Rightarrow> string \<Rightarrow> store_error + reconciliation" where
  "stored_row db reconciliation_id =
    (case find (\<lambda>r. rc_id r = reconciliation_id) (db_reconciliations db) of
       None \<Rightarrow> Inl (StoreExc (KeyError ''unknown reconciliation''))
     | Some r \<Rightarrow> Inr r)"

section \<open>Planning and phases\<close>

definition new_row :: "string \<Rightarrow> string \<Rightarrow> string list \<Rightarrow> int \<Rightarrow> operation_node list \<Rightarrow> json \<Rightarrow> string \<Rightarrow> string option \<Rightarrow>
    json option \<Rightarrow> int \<Rightarrow> reconciliation" where
  "new_row i base_commit ts g ns graph gd plan_digest resolved now =
     \<lparr>rc_id = i, rc_base_commit = base_commit, rc_status = ''planned'', rc_operation_count = length ns,
      rc_target_count = length ts, rc_graph = graph, rc_graph_digest = gd, rc_plan_digest = plan_digest,
      rc_resolved_plan = resolved, rc_current_phase = ''planned'', rc_route_withdrawal_generation = g,
      rc_completion_generation = None, rc_created_at = now\<rparr>"

definition plan :: "(string \<Rightarrow> string) \<Rightarrow> plan_db \<Rightarrow> string \<Rightarrow> int \<Rightarrow> json \<Rightarrow> store_error + operation_graph \<times> plan_db" where
  "plan sha db new_id now document =
     rbind (store_exc (parse_plan document)) (\<lambda>(base_commit, ts, g, ns).
     let graph = graph_document base_commit ts ns; gd = digest sha graph in
     rbind (insert_row db (new_row new_id base_commit ts g ns graph gd None None now)) (\<lambda>db'.
     Inr (\<lparr>og_reconciliation_id = new_id, og_base_commit = base_commit, og_targets = ts, og_nodes = ns, og_digest = gd\<rparr>, db')))"

definition max_generation :: int where
  "max_generation = 2 ^ 63 - 1"

definition next_completion_generation :: "plan_db \<Rightarrow> int option \<Rightarrow> store_error + int" where
  "next_completion_generation db raced =
    (let last_generation = (case db_last_generation db of Some g \<Rightarrow> g | None \<Rightarrow> (case raced of Some g \<Rightarrow> g | None \<Rightarrow> 0)) in
     raise_if (\<not> (0 \<le> last_generation \<and> last_generation < max_generation))
       (StoreExc (RuntimeError ''reconciliation completion generation is unavailable'')) (
     Inr (last_generation + 1)))"

definition withdraw_generation :: "reconciliation \<Rightarrow> string \<Rightarrow> json option \<Rightarrow> store_error + reconciliation" where
  "withdraw_generation r phase route_generation =
    (case route_generation of
       None \<Rightarrow> Inr r
     | Some v \<Rightarrow>
         raise_if (phase \<noteq> ''routes-withdrawn'') (StoreExc (ValueError ''route generation is invalid for this transition'')) (
         rbind (store_exc (generation v)) (\<lambda>g.
         raise_if (g < rc_route_withdrawal_generation r) (StoreExc (ValueError ''route generation must not decrease'')) (
         Inr (r\<lparr>rc_route_withdrawal_generation := g\<rparr>)))))"

definition advance :: "plan_db \<Rightarrow> int option \<Rightarrow> string \<Rightarrow> string \<Rightarrow> json option \<Rightarrow> store_error + plan_db" where
  "advance db raced reconciliation_id phase route_generation =
     rbind (stored_row db reconciliation_id) (\<lambda>r.
     raise_if (rc_status r \<in> set terminal_statuses) (StoreExc (ValueError ''reconciliation is terminal'')) (
     raise_if (dict_get phase_transitions (rc_current_phase r) \<noteq> Some phase)
       (StoreExc (ValueError ''reconciliation phase transition is invalid'')) (
     rbind (withdraw_generation r phase route_generation) (\<lambda>r'.
     if phase = ''completed'' then
       rbind (next_completion_generation db raced) (\<lambda>g.
       Inr ((put_row db (r'\<lparr>rc_current_phase := phase, rc_completion_generation := Some g, rc_status := ''succeeded''\<rparr>))
              \<lparr>db_last_generation := Some g\<rparr>))
     else Inr (put_row db (r'\<lparr>rc_current_phase := phase, rc_status := ''running''\<rparr>))))))"

section \<open>Resolved plans\<close>

definition max_plan_bytes :: int where
  "max_plan_bytes = 1048576"

definition resolved_document :: "(string \<Rightarrow> string) \<Rightarrow> json \<Rightarrow> json \<Rightarrow> json result" where
  "resolved_document sha plan_digest document =
     raise_if (\<not> is_str_with (is_hex 64) plan_digest) (ValueError ''resolved plan digest is invalid'') (
     let encoded = utf8 (json_dumps True document) in
     raise_if (int (length encoded) > max_plan_bytes) (ValueError ''resolved reconciliation plan is too large'') (
     raise_if (JStr (sha encoded) \<noteq> plan_digest) (ValueError ''resolved plan content does not match its digest'') (
     case json_loads (json_dumps True document) of
       None \<Rightarrow> Inl (ValueError ''JSONDecodeError'')
     | Some copied \<Rightarrow> Inr copied)))"

definition same_plan :: "json option \<Rightarrow> json \<Rightarrow> bool" where
  "same_plan stored v = (case stored of None \<Rightarrow> False | Some s \<Rightarrow> py_eq s v)"

definition store_resolved_plan :: "(string \<Rightarrow> string) \<Rightarrow> plan_db \<Rightarrow> operation_graph \<Rightarrow> json \<Rightarrow> json \<Rightarrow> store_error + plan_db" where
  "store_resolved_plan sha db graph plan_digest document =
     rbind (store_exc (resolved_document sha plan_digest document)) (\<lambda>stored_document.
     rbind (stored_row db (og_reconciliation_id graph)) (\<lambda>r.
     raise_if (rc_graph_digest r \<noteq> og_digest graph \<or> \<not> py_eq (rc_graph r) (og_document graph))
       (StoreExc (ValueError ''resolved plan graph does not match persisted graph'')) (
     case rc_plan_digest r of
       Some d \<Rightarrow>
         raise_if (JStr d \<noteq> plan_digest \<or> \<not> same_plan (rc_resolved_plan r) stored_document)
           (StoreExc (ValueError ''reconciliation already has a different plan'')) (Inr db)
     | None \<Rightarrow>
         raise_if (Some (the_str plan_digest) \<in> rc_plan_digest ` set (db_reconciliations db)) StoreIntegrityError (
         Inr (put_row db (r\<lparr>rc_plan_digest := Some (the_str plan_digest), rc_resolved_plan := Some stored_document\<rparr>))))))"

definition get_or_create_resolved_plan :: "(string \<Rightarrow> string) \<Rightarrow> plan_db \<Rightarrow> string \<Rightarrow> int \<Rightarrow> json \<Rightarrow> json \<Rightarrow> json \<Rightarrow>
    store_error + operation_graph \<times> plan_db" where
  "get_or_create_resolved_plan sha db new_id now graph_plan plan_digest document =
     rbind (store_exc (parse_plan graph_plan)) (\<lambda>(base_commit, ts, g, ns).
     let graph = graph_document base_commit ts ns; gd = digest sha graph in
     rbind (store_exc (resolved_document sha plan_digest document)) (\<lambda>stored_document.
     raise_if (\<not> py_eq (jget (the_obj stored_document) ''operation_graph'') graph)
       (StoreExc (ValueError ''resolved plan graph does not match operation graph'')) (
     let candidate = new_row new_id base_commit ts g ns graph gd (Some (the_str plan_digest)) (Some stored_document) now in
     rbind (case insert_row db candidate of
              Inr db' \<Rightarrow> Inr (candidate, db')
            | Inl e \<Rightarrow>
                (case find (\<lambda>r. rc_plan_digest r = Some (the_str plan_digest)) (db_reconciliations db) of
                   None \<Rightarrow> Inl e
                 | Some r \<Rightarrow> Inr (r, db))) (\<lambda>(accepted, db').
     raise_if (rc_base_commit accepted \<noteq> base_commit \<or> \<not> py_eq (rc_graph accepted) graph \<or>
         rc_graph_digest accepted \<noteq> gd \<or> rc_route_withdrawal_generation accepted \<noteq> g \<or>
         \<not> same_plan (rc_resolved_plan accepted) stored_document)
       (StoreExc (ValueError ''plan digest identifies different persisted content'')) (
     Inr (\<lparr>og_reconciliation_id = rc_id accepted, og_base_commit = rc_base_commit accepted, og_targets = ts,
            og_nodes = ns, og_digest = rc_graph_digest accepted\<rparr>, db'))))))"

section \<open>Validation of a persisted plan\<close>

text \<open>\<^verbatim>\<open>except (TypeError, ValueError)\<close>, replaced by a \<^verbatim>\<open>ValueError\<close> of its own.\<close>

fun as_value_error :: "string \<Rightarrow> 'a result \<Rightarrow> 'a result" where
  "as_value_error m (Inl (ValueError _)) = Inl (ValueError m)"
| "as_value_error m (Inl (TypeError _)) = Inl (ValueError m)"
| "as_value_error m r = r"

definition plan_document_fields :: "string list" where
  "plan_document_fields = [''commit'', ''targets'', ''placements'', ''routes'', ''releases'', ''workload_groups'',
     ''input_digests'', ''fleet_evidence_digest'', ''operation_graph'', ''operation_payloads'', ''agent_protocol_range'']"

fun check_objects :: "(string, json) dict \<Rightarrow> string list \<Rightarrow> unit result" where
  "check_objects document [] = Inr ()"
| "check_objects document (f # fs) =
     raise_if (\<not> is_obj (jget document f)) (TypeError (''persisted resolved plan '' @ f @ '' is invalid'')) (
     check_objects document fs)"

definition protocol_range_ok :: "json \<Rightarrow> bool" where
  "protocol_range_ok v = (case v of JList [JInt lo, JInt hi] \<Rightarrow> 1 \<le> lo \<and> lo \<le> hi | _ \<Rightarrow> False)"

definition check_plan_document :: "(string, json) dict \<Rightarrow> json \<Rightarrow> unit result" where
  "check_plan_document document base_commit =
     raise_if (\<not> has_fields plan_document_fields document) (ValueError ''persisted resolved plan fields are invalid'') (
     raise_if (\<not> is_str_with (is_hex 40) base_commit \<or> jget document ''commit'' \<noteq> base_commit)
       (ValueError ''persisted resolved plan base commit is invalid'') (
     rbind (check_objects document [''placements'', ''routes'', ''releases'', ''workload_groups'', ''input_digests'',
         ''operation_payloads'']) (\<lambda>_.
     raise_if (\<not> list_all (\<lambda>(k, v). is_str_with (is_hex 64) v) (the_obj (jget document ''input_digests'')))
       (ValueError ''persisted resolved plan input digest is invalid'') (
     raise_if (\<not> is_str_with (is_hex 64) (jget document ''fleet_evidence_digest''))
       (ValueError ''persisted resolved plan fleet evidence digest is invalid'') (
     raise_if (\<not> protocol_range_ok (jget document ''agent_protocol_range''))
       (ValueError ''persisted resolved plan protocol range is invalid'') (Inr ()))))))"

fun check_payloads :: "(string \<Rightarrow> string) \<Rightarrow> (string, json) dict \<Rightarrow> operation_node list \<Rightarrow> unit result" where
  "check_payloads sha payloads [] = Inr ()"
| "check_payloads sha payloads (n # ns) =
     raise_if (\<not> is_obj (jget payloads (on_operation_id n)) \<or>
         digest sha (jget payloads (on_operation_id n)) \<noteq> on_payload_digest n)
       (ValueError ''persisted resolved plan operation payload digest is invalid'') (
     check_payloads sha payloads ns)"

definition package_kinds :: "string list" where
  "package_kinds = [''package.prepare'', ''package.activate'', ''package.health'', ''package.stop'', ''package.rollback'',
     ''package.remove'', ''package.repair'']"

text \<open>The first loop of \<^verbatim>\<open>_validate_package_plan\<close>: the operations of each deployment and node, by kind.\<close>

fun group_packages :: "(string \<Rightarrow> string) \<Rightarrow> (string, json) dict \<Rightarrow> operation_node list \<Rightarrow>
    (string \<times> string, (string, operation_node) dict) dict \<Rightarrow>
    (string \<times> string, (string, operation_node) dict) dict result" where
  "group_packages sha payloads [] by_target = Inr by_target"
| "group_packages sha payloads (n # ns) by_target =
    (if on_kind n \<notin> set package_kinds then group_packages sha payloads ns by_target
     else
       raise_if (\<not> is_obj (jget payloads (on_operation_id n))) (TypeError ''persisted package operation payload is invalid'') (
       case package_request_parse sha (the (operation_of (JStr (on_kind n)))) (jget payloads (on_operation_id n)) of
         Inl _ \<Rightarrow> Inl (ValueError ''persisted package operation payload is invalid'')
       | Inr request \<Rightarrow>
           raise_if (po_deployment_id request \<noteq> Some (on_workload_id n))
             (ValueError ''package operation deployment identity is inconsistent'') (
           let key = (on_workload_id n, on_node_id n);
               family = (case dict_get by_target key of Some f \<Rightarrow> f | None \<Rightarrow> []) in
           raise_if (on_kind n \<in> fst ` set family)
             (ValueError ''duplicate package operation for deployment and node'') (
           group_packages sha payloads ns (dict_set by_target key (dict_set family (on_kind n) n))))))"

definition check_lifecycle :: "operation_node list \<Rightarrow> string \<Rightarrow> (string, operation_node) dict \<Rightarrow> unit result" where
  "check_lifecycle ns deployment ops =
    (case (dict_get ops ''package.prepare'', dict_get ops ''package.activate'', dict_get ops ''package.health'') of
       (None, None, Some health) \<Rightarrow>
         raise_if (on_dependencies health \<noteq> []) (ValueError ''retained package health must not have dependencies'') (Inr ())
     | (Some prepares, Some activates, Some health) \<Rightarrow>
         raise_if (on_node_id prepares \<noteq> on_node_id activates \<or> on_node_id activates \<noteq> on_node_id health)
           (ValueError ''package graph lifecycle target is inconsistent'') (
         raise_if (on_dependencies activates \<noteq> sort (on_operation_id prepares #
             (case dict_get ops ''package.stop'' of Some st \<Rightarrow> [on_operation_id st] | None \<Rightarrow> [])))
           (ValueError ''package activation must depend on preparation and stop'') (
         raise_if (on_dependencies health \<noteq> [on_operation_id activates])
           (ValueError ''package health must depend on activation'') (
         raise_if (on_compensation_kind activates \<notin> {Some ''package.rollback'', None})
           (ValueError ''package activation compensation is invalid'') (
         raise_if (on_compensation_kind activates = Some ''package.rollback'' \<and>
             list_ex (\<lambda>n. on_kind n = ''package.rollback'' \<and> on_workload_id n = deployment) ns)
           (ValueError ''package rollback must be compensation-only'') (Inr ())))))
     | _ \<Rightarrow> Inl (ValueError ''package graph lifecycle is incomplete''))"

fun check_lifecycles :: "operation_node list \<Rightarrow> (string \<times> string, (string, operation_node) dict) dict \<Rightarrow> unit result" where
  "check_lifecycles ns [] = Inr ()"
| "check_lifecycles ns (((deployment, _), ops) # rest) =
     rbind (check_lifecycle ns deployment ops) (\<lambda>_. check_lifecycles ns rest)"

definition validate_package_plan :: "(string \<Rightarrow> string) \<Rightarrow> operation_node list \<Rightarrow> (string, json) dict \<Rightarrow> unit result" where
  "validate_package_plan sha ns payloads =
     rbind (group_packages sha payloads ns []) (\<lambda>by_target.
     raise_if (by_target = []) (ValueError ''package graph has no package operations'') (
     check_lifecycles ns by_target))"

definition stop_nodes :: "operation_node list \<Rightarrow> operation_node list" where
  "stop_nodes ns = filter (\<lambda>n. on_kind n = ''workload.stop'') ns"

definition install_nodes :: "operation_node list \<Rightarrow> operation_node list" where
  "install_nodes ns = filter (\<lambda>n. on_kind n = ''release.install'') ns"

definition gate_nodes :: "operation_node list \<Rightarrow> operation_node list" where
  "gate_nodes ns = filter (\<lambda>n. on_kind n = ''node.probe'' \<or> on_workload_id n = ''node-gate'') ns"

definition validate_gates :: "operation_node list \<Rightarrow> (string, json) dict \<Rightarrow> unit result" where
  "validate_gates ns payloads =
     raise_if (list_ex (\<lambda>n. on_kind n \<noteq> ''node.probe'' \<or> on_workload_id n \<noteq> ''node-gate'') (gate_nodes ns))
       (ValueError ''persisted resolved plan node gate identity is invalid'') (
     raise_if (\<not> distinct (map on_node_id (gate_nodes ns)) \<or>
         set (map on_node_id (gate_nodes ns)) \<noteq> set (map on_node_id (stop_nodes ns @ install_nodes ns)))
       (ValueError ''persisted resolved plan node gate targets are invalid'') (
     let stop_ids = sort (map on_operation_id (stop_nodes ns)); gate_ids = sort (map on_operation_id (gate_nodes ns)) in
     raise_if (list_ex (\<lambda>g. \<not> py_eq (jget payloads (on_operation_id g)) (JObj [(''require_active_nvidia_compute_processes'', JInt 0)]) \<or>
         on_dependencies g \<noteq> stop_ids) (gate_nodes ns))
       (ValueError ''persisted resolved plan node gate barrier is invalid'') (
     raise_if (list_ex (\<lambda>n. on_dependencies n \<noteq> gate_ids) (install_nodes ns))
       (ValueError ''persisted resolved plan install gate barrier is invalid'') (Inr ()))))"

definition parse_persisted_graph :: "json \<Rightarrow> json \<Rightarrow> parsed_plan result" where
  "parse_persisted_graph graph route_generation =
     raise_if (\<not> is_obj graph) (TypeError ''persisted resolved plan graph is invalid'') (
     as_value_error ''persisted resolved plan graph is invalid''
       (parse_plan (plan_document (jget (the_obj graph) ''base_commit'') (jget (the_obj graph) ''targets'')
          route_generation (jget (the_obj graph) ''nodes''))))"

definition validate_persisted_resolved_plan :: "(string \<Rightarrow> string) \<Rightarrow> json \<Rightarrow> json \<Rightarrow> json \<Rightarrow> json \<Rightarrow> json \<Rightarrow> json \<Rightarrow> json \<Rightarrow>
    (operation_graph \<times> json) result" where
  "validate_persisted_resolved_plan sha reconciliation_id base_commit graph gd plan_digest resolved route_generation =
     raise_if (\<not> is_str_with (\<lambda>s. s \<noteq> []) reconciliation_id)
       (ValueError ''persisted resolved plan reconciliation identity is invalid'') (
     raise_if (\<not> is_obj resolved) (TypeError ''persisted resolved plan document is invalid'') (
     rbind (as_value_error ''persisted resolved plan digest is invalid'' (resolved_document sha plan_digest resolved)) (\<lambda>copied.
     let document = the_obj copied in
     rbind (check_plan_document document base_commit) (\<lambda>_.
     rbind (parse_persisted_graph graph route_generation) (\<lambda>(parsed_commit, ts, g, ns).
     let expected_graph = graph_document parsed_commit ts ns in
     raise_if (\<not> py_eq expected_graph graph \<or> JStr parsed_commit \<noteq> base_commit \<or>
         \<not> py_eq (jget document ''operation_graph'') expected_graph \<or>
         \<not> py_eq (jget document ''targets'') (JList (map JStr ts)) \<or>
         \<not> is_str_with (is_hex 64) gd \<or> JStr (digest sha expected_graph) \<noteq> gd)
       (ValueError ''persisted resolved plan graph consistency is invalid'') (
     let payloads = the_obj (jget document ''operation_payloads'') in
     raise_if (set (map fst payloads) \<noteq> set (map on_operation_id ns))
       (ValueError ''persisted resolved plan operation payload set is invalid'') (
     rbind (check_payloads sha payloads ns) (\<lambda>_.
     rbind (if list_ex (\<lambda>n. starts_with ''package.'' (on_kind n)) ns
            then validate_package_plan sha ns payloads else validate_gates ns payloads) (\<lambda>_.
     Inr (\<lparr>og_reconciliation_id = the_str reconciliation_id, og_base_commit = the_str base_commit, og_targets = ts,
           og_nodes = ns, og_digest = the_str gd\<rparr>, copied))))))))))"

definition resolved_plan :: "(string \<Rightarrow> string) \<Rightarrow> plan_db \<Rightarrow> json \<Rightarrow> (operation_graph \<times> json) option result" where
  "resolved_plan sha db plan_digest =
    (if \<not> is_str_with (is_hex 64) plan_digest then Inr None
     else
       (case find (\<lambda>r. rc_plan_digest r = Some (the_str plan_digest)) (db_reconciliations db) of
          None \<Rightarrow> Inr None
        | Some r \<Rightarrow>
            (case rc_resolved_plan r of
               None \<Rightarrow> Inr None
             | Some resolved \<Rightarrow>
                 rbind (validate_persisted_resolved_plan sha (JStr (rc_id r)) (JStr (rc_base_commit r)) (rc_graph r)
                   (JStr (rc_graph_digest r)) (JStr (the (rc_plan_digest r))) resolved (JInt (rc_route_withdrawal_generation r)))
                   (\<lambda>result. Inr (Some result)))))"

section \<open>The barrier of a persisted plan\<close>

lemma as_value_error_Inr: "as_value_error m r = Inr x \<longleftrightarrow> r = Inr x"
  by (cases "(m, r)" rule: as_value_error.cases) auto

lemma parsed_dep_ordered:
  assumes "parse_plan (plan_document c ts g ops) = Inr (cs, tg, i, ns)"
  shows "dep_ordered ns \<and> distinct (map on_operation_id ns)"
proof -
  from assms obtain parsed where "order_operations tg parsed = Inr ns" by (auto simp: parse_plan_document_Inr)
  then have d: "distinct (map on_operation_id parsed)" and t: "topological (indexed parsed) = Inr ns"
    by (auto simp: order_operations_Inr)
  show ?thesis using topological_sound(2,3) [OF keyed_indexed [OF d] t] by blast
qed

lemma id_in_prefix:
  assumes "distinct (map on_operation_id (xs @ ys))" "m \<in> set (xs @ ys)" "on_operation_id m \<in> ids xs"
  shows "m \<in> set xs"
  using assms by (auto simp: image_iff)

lemma deps_in_prefix:
  assumes "dep_ordered ns" "distinct (map on_operation_id ns)" "ns = xs @ n # ys"
    and "set ms \<subseteq> set ns" "on_dependencies n = sort (map on_operation_id ms)"
  shows "set ms \<subseteq> set xs"
proof
  fix m
  assume m: "m \<in> set ms"
  have "set (on_dependencies n) \<subseteq> ids xs" using assms(1) unfolding assms(3) by (rule dep_ordered_split)
  with m assms(5) have "on_operation_id m \<in> ids xs" by auto
  moreover have "m \<in> set (xs @ n # ys)" using m assms(3,4) by blast
  ultimately show "m \<in> set xs" using id_in_prefix assms(2) unfolding assms(3) by blast
qed

lemma validate_gates_Inr:
  assumes "validate_gates ns payloads = Inr u"
  shows "set (map on_node_id (gate_nodes ns)) = set (map on_node_id (stop_nodes ns @ install_nodes ns))"
    and "\<And>g. g \<in> set (gate_nodes ns) \<Longrightarrow> on_dependencies g = sort (map on_operation_id (stop_nodes ns))"
    and "\<And>n. n \<in> set (install_nodes ns) \<Longrightarrow> on_dependencies n = sort (map on_operation_id (gate_nodes ns))"
  using assms unfolding validate_gates_def raise_if_Inr Let_def by (auto simp: list_ex_iff)


definition bar_op :: "string \<Rightarrow> string \<Rightarrow> string \<Rightarrow> string list \<Rightarrow> operation_node" where
  "bar_op i workload kind deps = \<lparr>on_operation_id = i, on_node_id = ''spk_'' @ replicate 32 CHR ''1'', on_workload_id = workload,
     on_kind = kind, on_dependencies = deps, on_compensation_kind = None, on_payload_digest = replicate 64 CHR ''a''\<rparr>"

definition bar_nodes :: "operation_node list" where
  "bar_nodes = [bar_op ''stop'' ''old'' ''workload.stop'' [], bar_op ''gate'' ''node-gate'' ''node.probe'' [''stop''],
     bar_op ''install'' ''new'' ''release.install'' [''gate'']]"

definition bar_graph :: json where
  "bar_graph = graph_document (replicate 40 CHR ''c'') [''spk_'' @ replicate 32 CHR ''1''] bar_nodes"

definition bar_payloads :: "(string, json) dict" where
  "bar_payloads = [(''gate'', JObj [(''require_active_nvidia_compute_processes'', JInt 0)])]"

lemma bar_parsed:
  "parse_persisted_graph bar_graph (JInt 0) = Inr (replicate 40 CHR ''c'', [''spk_'' @ replicate 32 CHR ''1''], 0, bar_nodes)"
  apply code_simp
  done


section \<open>The store\<close>

text \<open>The calls that change the store.\<close>

inductive store_step :: "(string \<Rightarrow> string) \<Rightarrow> plan_db \<Rightarrow> plan_db \<Rightarrow> bool" for sha where
  step_plan: "plan sha db i now doc = Inr (g, db') \<Longrightarrow> store_step sha db db'"
| step_advance: "advance db raced i phase gen = Inr db' \<Longrightarrow> store_step sha db db'"
| step_store: "store_resolved_plan sha db g d doc = Inr db' \<Longrightarrow> store_step sha db db'"
| step_create: "get_or_create_resolved_plan sha db i now gp d doc = Inr (g, db') \<Longrightarrow> store_step sha db db'"

definition empty_store :: plan_db where
  "empty_store = \<lparr>db_reconciliations = [], db_last_generation = None\<rparr>"

inductive store_reachable :: "(string \<Rightarrow> string) \<Rightarrow> plan_db \<Rightarrow> bool" for sha where
  reach_empty: "store_reachable sha empty_store"
| reach_step: "store_reachable sha db \<Longrightarrow> store_step sha db db' \<Longrightarrow> store_reachable sha db'"

definition row_ok :: "int option \<Rightarrow> reconciliation \<Rightarrow> bool" where
  "row_ok l r \<longleftrightarrow> (rc_current_phase r = ''completed'' \<longleftrightarrow> rc_completion_generation r \<noteq> None) \<and>
     (rc_status r = ''succeeded'' \<longleftrightarrow> rc_current_phase r = ''completed'') \<and>
     (\<forall>g. rc_completion_generation r = Some g \<longrightarrow> 1 \<le> g \<and> (\<exists>m. l = Some m \<and> g \<le> m))"

definition gens_unique :: "reconciliation list \<Rightarrow> bool" where
  "gens_unique rs \<longleftrightarrow> (\<forall>r \<in> set rs. \<forall>r' \<in> set rs. \<forall>g. rc_completion_generation r = Some g \<and>
     rc_completion_generation r' = Some g \<longrightarrow> rc_id r = rc_id r')"

definition store_inv :: "plan_db \<Rightarrow> bool" where
  "store_inv db \<longleftrightarrow> distinct (map rc_id (db_reconciliations db)) \<and>
     (\<forall>r \<in> set (db_reconciliations db). row_ok (db_last_generation db) r) \<and> gens_unique (db_reconciliations db) \<and>
     (\<forall>m. db_last_generation db = Some m \<longrightarrow> m \<le> max_generation)"

lemma put_row_ids: "map rc_id (db_reconciliations (put_row db r)) = map rc_id (db_reconciliations db)"
  by (simp add: put_row_def comp_def cong: if_cong)

lemma put_row_mem: "x \<in> set (db_reconciliations (put_row db r)) \<Longrightarrow> x = r \<or> x \<in> set (db_reconciliations db) \<and> rc_id x \<noteq> rc_id r"
  by (auto simp: put_row_def)

lemma stored_row_Inr: "stored_row db i = Inr r \<Longrightarrow> r \<in> set (db_reconciliations db) \<and> rc_id r = i"
  by (auto simp: stored_row_def find_Some_iff in_set_conv_nth split: option.splits)

lemma store_inv_insert:
  assumes "store_inv db" "insert_row db r = Inr db'" "rc_completion_generation r = None"
    and "rc_status r = ''planned''" "rc_current_phase r = ''planned''"
  shows "store_inv db'"
proof -
  have new: "rc_id r \<notin> rc_id ` set (db_reconciliations db)" and db': "db' = db\<lparr>db_reconciliations := db_reconciliations db @ [r]\<rparr>"
    using assms(2) by (simp_all add: insert_row_def raise_if_Inr)
  have "row_ok (db_last_generation db) r" using assms(3-5) by (simp add: row_ok_def)
  moreover have "gens_unique (db_reconciliations db @ [r])"
    using assms(1,3) by (auto simp: store_inv_def gens_unique_def)
  ultimately show ?thesis using assms(1) new by (auto simp: store_inv_def db')
qed

lemma store_inv_put:
  assumes "store_inv db" "r \<in> set (db_reconciliations db)" "rc_id r' = rc_id r"
    and "rc_completion_generation r' = rc_completion_generation r" "row_ok (db_last_generation db) r'"
  shows "store_inv (put_row db r')"
proof -
  have l: "db_last_generation (put_row db r') = db_last_generation db" by (simp add: put_row_def)
  have "gens_unique (db_reconciliations (put_row db r'))"
    unfolding gens_unique_def
  proof (intro ballI allI impI)
    fix x y g
    assume x: "x \<in> set (db_reconciliations (put_row db r'))" and y: "y \<in> set (db_reconciliations (put_row db r'))"
      and g: "rc_completion_generation x = Some g \<and> rc_completion_generation y = Some g"
    have old: "\<exists>z \<in> set (db_reconciliations db). rc_id z = rc_id w \<and> rc_completion_generation z = rc_completion_generation w"
      if "w \<in> set (db_reconciliations (put_row db r'))" for w
      using put_row_mem [OF that] assms(2-4) by metis
    from old [OF x] old [OF y] g assms(1) show "rc_id x = rc_id y"
      unfolding store_inv_def gens_unique_def by metis
  qed
  moreover have "\<forall>x \<in> set (db_reconciliations (put_row db r')). row_ok (db_last_generation db) x"
    using put_row_mem assms(1,5) unfolding store_inv_def by blast
  ultimately show ?thesis using assms(1) unfolding store_inv_def l put_row_ids by blast
qed

lemma row_ok_mono: "row_ok (Some l) r \<Longrightarrow> l \<le> m \<Longrightarrow> row_ok (Some m) r"
  by (fastforce simp: row_ok_def)

lemma store_inv_complete:
  assumes "store_inv db" "next_completion_generation db raced = Inr g"
    and "rc_completion_generation r' = Some g" "rc_current_phase r' = ''completed''" "rc_status r' = ''succeeded''"
  shows "store_inv ((put_row db r')\<lparr>db_last_generation := Some g\<rparr>)"
proof -
  have g: "1 \<le> g" "g \<le> max_generation" "\<And>l. db_last_generation db = Some l \<Longrightarrow> g = l + 1"
    using assms(2) by (auto simp: next_completion_generation_def Let_def raise_if_Inr split: option.splits)
  have below: "h < g" if x: "x \<in> set (db_reconciliations db)" and h: "rc_completion_generation x = Some h" for x h
  proof -
    have "row_ok (db_last_generation db) x" using assms(1) x by (simp add: store_inv_def)
    then obtain l where "db_last_generation db = Some l" "h \<le> l" using h by (auto simp: row_ok_def)
    with g(3) show ?thesis by simp
  qed
  have ok: "row_ok (Some g) x" if "x \<in> set (db_reconciliations db)" for x
    using assms(1) that below [OF that] unfolding store_inv_def row_ok_def
    by (metis less_imp_le)
  have "row_ok (Some g) r'" using assms(3-5) g(1) by (simp add: row_ok_def)
  then have "\<forall>x \<in> set (db_reconciliations (put_row db r')). row_ok (Some g) x" using put_row_mem ok by blast
  moreover have "gens_unique (db_reconciliations (put_row db r'))"
    unfolding gens_unique_def
  proof (intro ballI allI impI)
    fix x y h
    assume x: "x \<in> set (db_reconciliations (put_row db r'))" and y: "y \<in> set (db_reconciliations (put_row db r'))"
      and h: "rc_completion_generation x = Some h \<and> rc_completion_generation y = Some h"
    from put_row_mem [OF x] put_row_mem [OF y] show "rc_id x = rc_id y"
    proof (elim disjE conjE)
      assume "x \<in> set (db_reconciliations db)" "y \<in> set (db_reconciliations db)"
      then show ?thesis using assms(1) h unfolding store_inv_def gens_unique_def by blast
    next
      assume "x = r'" "y \<in> set (db_reconciliations db)"
      then show ?thesis using below [of y h] h assms(3) by simp
    next
      assume "x \<in> set (db_reconciliations db)" "y = r'"
      then show ?thesis using below [of x h] h assms(3) by simp
    qed simp
  qed
  ultimately show ?thesis using assms(1) g(2) by (simp add: store_inv_def put_row_ids)
qed

lemma withdraw_generation_Inr:
  "withdraw_generation r phase rg = Inr r' \<Longrightarrow> \<exists>g. r' = r\<lparr>rc_route_withdrawal_generation := g\<rparr>"
  by (auto simp: withdraw_generation_def raise_if_Inr rbind_Inr split: option.splits) (metis reconciliation.surjective reconciliation.update_convs(11))

lemma phase_target: "dict_get phase_transitions p = Some q \<Longrightarrow> q \<noteq> ''planned'' \<and> (q = ''completed'' \<longrightarrow> p = ''accepting'') \<and> p \<noteq> ''completed''"
  by (auto simp: phase_transitions_def split: if_splits)

lemma store_inv_advance:
  assumes "store_inv db" "advance db raced i phase rg = Inr db'"
  shows "store_inv db'"
proof -
  from assms(2) obtain r r' where r: "stored_row db i = Inr r" and t: "dict_get phase_transitions (rc_current_phase r) = Some phase"
    and w: "withdraw_generation r phase rg = Inr r'"
    and out: "(if phase = ''completed'' then
       rbind (next_completion_generation db raced) (\<lambda>g.
       Inr ((put_row db (r'\<lparr>rc_current_phase := phase, rc_completion_generation := Some g, rc_status := ''succeeded''\<rparr>))
              \<lparr>db_last_generation := Some g\<rparr>))
     else Inr (put_row db (r'\<lparr>rc_current_phase := phase, rc_status := ''running''\<rparr>))) = Inr db'"
    by (auto simp: advance_def rbind_Inr raise_if_Inr)
  from withdraw_generation_Inr [OF w] obtain h where r': "r' = r\<lparr>rc_route_withdrawal_generation := h\<rparr>" by blast
  have mem: "r \<in> set (db_reconciliations db)" using stored_row_Inr [OF r] by blast
  show ?thesis
  proof (cases "phase = ''completed''")
    case True
    with out obtain g where "next_completion_generation db raced = Inr g"
      and "db' = (put_row db (r'\<lparr>rc_current_phase := phase, rc_completion_generation := Some g, rc_status := ''succeeded''\<rparr>))
              \<lparr>db_last_generation := Some g\<rparr>" by (auto simp: rbind_Inr)
    then show ?thesis using store_inv_complete [OF assms(1)] True by simp
  next
    case False
    have "row_ok (db_last_generation db) r" using assms(1) mem by (simp add: store_inv_def)
    with phase_target [OF t] False have "rc_completion_generation r = None" by (auto simp: row_ok_def)
    with False out show ?thesis
      by (auto simp: r' row_ok_def intro!: store_inv_put [OF assms(1) mem])
  qed
qed

lemma store_inv_store:
  assumes "store_inv db" "store_resolved_plan sha db g d doc = Inr db'"
  shows "store_inv db'"
proof -
  from assms(2) consider "db' = db" | r x y where "stored_row db (og_reconciliation_id g) = Inr r"
      "db' = put_row db (r\<lparr>rc_plan_digest := x, rc_resolved_plan := y\<rparr>)"
    by (auto simp: store_resolved_plan_def rbind_Inr raise_if_Inr split: option.splits)
  then show ?thesis
  proof cases
    case 1
    with assms(1) show ?thesis by simp
  next
    case 2
    have mem: "r \<in> set (db_reconciliations db)" using stored_row_Inr [OF 2(1)] by blast
    then have "row_ok (db_last_generation db) r" using assms(1) by (simp add: store_inv_def)
    then show ?thesis unfolding 2(2) by (intro store_inv_put [OF assms(1) mem]) (simp_all add: row_ok_def)
  qed
qed

lemma create_parts:
  assumes "get_or_create_resolved_plan sha db i now gp d doc = Inr (g, db')"
  obtains c ts gn ns v where "parse_plan gp = Inr (c, ts, gn, ns)" "resolved_document sha d doc = Inr v"
    "py_eq (jget (the_obj v) ''operation_graph'') (graph_document c ts ns)"
proof -
  obtain q where q: "parse_plan gp = Inr q"
    using assms by (cases "parse_plan gp") (auto simp: get_or_create_resolved_plan_def store_exc_def)
  obtain c ts gn ns where p: "parse_plan gp = Inr (c, ts, gn, ns)" using q by (cases q) auto
  obtain v where v: "resolved_document sha d doc = Inr v"
    using assms by (cases "resolved_document sha d doc") (auto simp: get_or_create_resolved_plan_def store_exc_def p Let_def)
  have "py_eq (jget (the_obj v) ''operation_graph'') (graph_document c ts ns)"
    using assms by (simp add: get_or_create_resolved_plan_def store_exc_def p v Let_def raise_if_Inr)
  with p v show thesis by (rule that)
qed

lemma store_inv_create:
  assumes "store_inv db" "get_or_create_resolved_plan sha db i now gp d doc = Inr (g, db')"
  shows "store_inv db'"
proof -
  obtain c ts gn ns v where p: "parse_plan gp = Inr (c, ts, gn, ns)" and v: "resolved_document sha d doc = Inr v"
    and e: "py_eq (jget (the_obj v) ''operation_graph'') (graph_document c ts ns)"
    using assms(2) by (rule create_parts)
  let ?c = "new_row i c ts gn ns (graph_document c ts ns) (digest sha (graph_document c ts ns)) (Some (the_str d)) (Some v) now"
  show ?thesis
  proof (cases "insert_row db ?c")
    case (Inl x)
    then have "db' = db"
      using assms(2) by (auto simp: get_or_create_resolved_plan_def store_exc_def p v e Let_def raise_if_Inr split: option.splits)
    with assms(1) show ?thesis by simp
  next
    case (Inr db1)
    then have "db' = db1"
      using assms(2) by (simp add: get_or_create_resolved_plan_def store_exc_def p v e Let_def raise_if_Inr)
    with store_inv_insert [OF assms(1) Inr] show ?thesis by (simp add: new_row_def)
  qed
qed

lemma store_inv_step: "store_step sha db db' \<Longrightarrow> store_inv db \<Longrightarrow> store_inv db'"
proof (induction rule: store_step.induct)
  case (step_plan db i now doc g db')
  then obtain c ts gn ns gr gd where "insert_row db (new_row i c ts gn ns gr gd None None now) = Inr db'"
    by (auto simp: plan_def rbind_Inr Let_def split: prod.splits)
  then show ?case by (rule store_inv_insert [OF step_plan.prems]) (simp_all add: new_row_def)
qed (blast intro: store_inv_advance store_inv_store store_inv_create)+

lemma store_reachable_inv: "store_reachable sha db \<Longrightarrow> store_inv db"
proof (induction rule: store_reachable.induct)
  case reach_empty
  show ?case by (simp add: empty_store_def store_inv_def gens_unique_def)
qed (rule store_inv_step)

text \<open>C29: Completion generations order the finished reconciliations. In every reachable store a row has a generation exactly
  when it is completed and succeeded, the generation is between 1 and the counter, which stays within 63 bits, and two
  rows never share one.\<close>

theorem completion_generations_unique:
  assumes "store_reachable sha db" "r \<in> set (db_reconciliations db)"
  shows "(rc_completion_generation r \<noteq> None \<longleftrightarrow> rc_status r = ''succeeded'') \<and>
    (rc_status r = ''succeeded'' \<longleftrightarrow> rc_current_phase r = ''completed'') \<and>
    (\<forall>g. rc_completion_generation r = Some g \<longrightarrow> 1 \<le> g \<and> g < 2 ^ 63 \<and>
       (\<forall>r' \<in> set (db_reconciliations db). rc_completion_generation r' = Some g \<longrightarrow> r' = r))"
proof -
  have inv: "store_inv db" using assms(1) by (rule store_reachable_inv)
  then have ok: "row_ok (db_last_generation db) r" using assms(2) by (simp add: store_inv_def)
  have uniq: "r' = r" if "r' \<in> set (db_reconciliations db)" "rc_completion_generation r' = Some g" "rc_completion_generation r = Some g" for r' g
  proof -
    have "rc_id r' = rc_id r" using inv that assms(2) unfolding store_inv_def gens_unique_def by blast
    moreover have "distinct (map rc_id (db_reconciliations db))" using inv by (simp add: store_inv_def)
    ultimately show ?thesis using distinct_map_unique [of rc_id "db_reconciliations db" r' r] that(1) assms(2) by blast
  qed
  have "g < 2 ^ 63" if "rc_completion_generation r = Some g" for g
    using ok that inv by (auto simp: row_ok_def store_inv_def max_generation_def)
  with ok uniq show ?thesis unfolding row_ok_def by blast
qed

lemma same_plan_refl [simp]: "same_plan (Some v) v"
  by (simp add: same_plan_def)

lemma find_append: "find P (xs @ ys) = (case find P xs of Some x \<Rightarrow> Some x | None \<Rightarrow> find P ys)"
  by (induction xs) auto

text \<open>A successful creation, in its two cases.\<close>

lemma create_cases:
  assumes "get_or_create_resolved_plan sha db i now gp d doc = Inr (g, db')"
  obtains c ts gn ns v a where "parse_plan gp = Inr (c, ts, gn, ns)" "resolved_document sha d doc = Inr v"
    "py_eq (jget (the_obj v) ''operation_graph'') (graph_document c ts ns)"
    "find (\<lambda>r. rc_plan_digest r = Some (the_str d)) (db_reconciliations db') = Some a"
    "rc_base_commit a = c" "py_eq (rc_graph a) (graph_document c ts ns)" "rc_graph_digest a = digest sha (graph_document c ts ns)"
    "rc_route_withdrawal_generation a = gn" "same_plan (rc_resolved_plan a) v"
    "g = \<lparr>og_reconciliation_id = rc_id a, og_base_commit = rc_base_commit a, og_targets = ts, og_nodes = ns, og_digest = rc_graph_digest a\<rparr>"
proof -
  obtain c ts gn ns v where p: "parse_plan gp = Inr (c, ts, gn, ns)" and v: "resolved_document sha d doc = Inr v"
    and e: "py_eq (jget (the_obj v) ''operation_graph'') (graph_document c ts ns)"
    using assms by (rule create_parts)
  let ?gr = "graph_document c ts ns"
  let ?c = "new_row i c ts gn ns ?gr (digest sha ?gr) (Some (the_str d)) (Some v) now"
  show thesis
  proof (cases "insert_row db ?c")
    case (Inr db1)
    then have db1: "db1 = db\<lparr>db_reconciliations := db_reconciliations db @ [?c]\<rparr>"
      and none: "Some (the_str d) \<notin> rc_plan_digest ` set (db_reconciliations db)"
      by (auto simp: insert_row_def raise_if_Inr new_row_def)
    have g: "db' = db1" "g = \<lparr>og_reconciliation_id = rc_id ?c, og_base_commit = rc_base_commit ?c, og_targets = ts, og_nodes = ns, og_digest = rc_graph_digest ?c\<rparr>"
      using assms by (auto simp add: get_or_create_resolved_plan_def store_exc_def p v e Inr Let_def raise_if_Inr)
    have "find (\<lambda>r. rc_plan_digest r = Some (the_str d)) (db_reconciliations db) = None"
      using none by (auto simp: find_None_iff image_iff)
    then have "find (\<lambda>r. rc_plan_digest r = Some (the_str d)) (db_reconciliations db') = Some ?c"
      by (simp add: g(1) db1 find_append new_row_def)
    then show thesis using that [OF p v e, of ?c] g(2) by (simp add: new_row_def)
  next
    case (Inl x)
    then obtain a where "find (\<lambda>r. rc_plan_digest r = Some (the_str d)) (db_reconciliations db) = Some a" "db' = db"
      "rc_base_commit a = c" "py_eq (rc_graph a) ?gr" "rc_graph_digest a = digest sha ?gr"
      "rc_route_withdrawal_generation a = gn" "same_plan (rc_resolved_plan a) v"
      "g = \<lparr>og_reconciliation_id = rc_id a, og_base_commit = rc_base_commit a, og_targets = ts, og_nodes = ns, og_digest = rc_graph_digest a\<rparr>"
      using assms by (auto simp: get_or_create_resolved_plan_def store_exc_def p v e Let_def raise_if_Inr split: option.splits)
    then show thesis using that [OF p v e, of a] by simp
  qed
qed

text \<open>Creating a resolved plan is idempotent. After a call that succeeded, the same call with any new identifier and time
  returns the same graph and leaves the store as it is.\<close>

lemma create_plan_idempotent:
  assumes "get_or_create_resolved_plan sha db i now gp d doc = Inr (g, db')"
  shows "get_or_create_resolved_plan sha db' i' now' gp d doc = Inr (g, db')"
proof -
  obtain c ts gn ns v a where p: "parse_plan gp = Inr (c, ts, gn, ns)" and v: "resolved_document sha d doc = Inr v"
    and e: "py_eq (jget (the_obj v) ''operation_graph'') (graph_document c ts ns)"
    and f: "find (\<lambda>r. rc_plan_digest r = Some (the_str d)) (db_reconciliations db') = Some a"
    and a: "rc_base_commit a = c" "py_eq (rc_graph a) (graph_document c ts ns)"
      "rc_graph_digest a = digest sha (graph_document c ts ns)" "rc_route_withdrawal_generation a = gn" "same_plan (rc_resolved_plan a) v"
    and g: "g = \<lparr>og_reconciliation_id = rc_id a, og_base_commit = rc_base_commit a, og_targets = ts, og_nodes = ns, og_digest = rc_graph_digest a\<rparr>"
    using assms by (rule create_cases)
  let ?gr = "graph_document c ts ns"
  have "a \<in> set (db_reconciliations db')" "rc_plan_digest a = Some (the_str d)"
    using f by (auto simp: find_Some_iff in_set_conv_nth)
  then have "Some (the_str d) \<in> rc_plan_digest ` set (db_reconciliations db')" by (metis imageI)
  then have "insert_row db' (new_row i' c ts gn ns ?gr (digest sha ?gr) (Some (the_str d)) (Some v) now') = Inl StoreIntegrityError"
    by (simp add: insert_row_def raise_if_def new_row_def)
  then show ?thesis
    by (simp add: get_or_create_resolved_plan_def store_exc_def p v e Let_def f a g raise_if_def)
qed

text \<open>A plan with one reconciliation that goes through all its phases.\<close>

definition bar_row :: "string \<Rightarrow> string \<Rightarrow> int option \<Rightarrow> reconciliation" where
  "bar_row phase status completion = \<lparr>rc_id = ''r'', rc_base_commit = replicate 40 CHR ''c'', rc_status = status,
     rc_operation_count = 3, rc_target_count = 1, rc_graph = bar_graph, rc_graph_digest = ''d'', rc_plan_digest = None,
     rc_resolved_plan = None, rc_current_phase = phase, rc_route_withdrawal_generation = 0,
     rc_completion_generation = completion, rc_created_at = 0\<rparr>"

definition bar_plan :: json where
  "bar_plan = plan_document (jget (the_obj bar_graph) ''base_commit'') (jget (the_obj bar_graph) ''targets'') (JInt 0)
     (jget (the_obj bar_graph) ''nodes'')"

lemma bar_plan_step: "store_step (\<lambda>_. ''d'') empty_store \<lparr>db_reconciliations = [bar_row ''planned'' ''planned'' None], db_last_generation = None\<rparr>"
proof -
  have "parse_plan bar_plan = Inr (replicate 40 CHR ''c'', [''spk_'' @ replicate 32 CHR ''1''], 0, bar_nodes)"
    using bar_parsed unfolding parse_persisted_graph_def raise_if_Inr as_value_error_Inr bar_plan_def by blast
  moreover have "graph_document (replicate 40 CHR ''c'') [''spk_'' @ replicate 32 CHR ''1''] bar_nodes = bar_graph"
    by (simp only: bar_graph_def)
  moreover have "length bar_nodes = 3" by (simp add: bar_nodes_def)
  ultimately have "\<exists>g. plan (\<lambda>_. ''d'') empty_store ''r'' 0 bar_plan =
      Inr (g, \<lparr>db_reconciliations = [bar_row ''planned'' ''planned'' None], db_last_generation = None\<rparr>)"
    by (simp add: plan_def store_exc_def Let_def insert_row_def raise_if_def new_row_def bar_row_def empty_store_def digest_def)
  then show ?thesis using store_step.step_plan by blast
qed

lemma bar_advance_step:
  assumes "dict_get phase_transitions p = Some q" "q \<noteq> ''completed''" "s \<notin> set terminal_statuses"
  shows "store_step sha \<lparr>db_reconciliations = [bar_row p s None], db_last_generation = None\<rparr>
    \<lparr>db_reconciliations = [bar_row q ''running'' None], db_last_generation = None\<rparr>"
  by (rule store_step.step_advance [where raced = None and i = "''r''" and phase = q and gen = None])
    (use assms in \<open>simp add: advance_def stored_row_def bar_row_def raise_if_def withdraw_generation_def put_row_def\<close>)

lemma bar_complete_step:
  "store_step sha \<lparr>db_reconciliations = [bar_row ''accepting'' ''running'' None], db_last_generation = None\<rparr>
    \<lparr>db_reconciliations = [bar_row ''completed'' ''succeeded'' (Some 1)], db_last_generation = Some 1\<rparr>"
  by (rule store_step.step_advance [where raced = None and i = "''r''" and phase = "''completed''" and gen = None])
    (simp add: advance_def stored_row_def bar_row_def raise_if_def withdraw_generation_def put_row_def phase_transitions_def
      terminal_statuses_def next_completion_generation_def max_generation_def)

lemma bar_reachable:
  "store_reachable (\<lambda>_. ''d'') \<lparr>db_reconciliations = [bar_row ''completed'' ''succeeded'' (Some 1)], db_last_generation = Some 1\<rparr>"
  by (rule reach_step [OF reach_step [OF reach_step [OF reach_step [OF reach_step [OF reach_empty bar_plan_step]
      bar_advance_step [where q = "''routes-withdrawn''"]] bar_advance_step [where q = "''dispatching''"]]
      bar_advance_step [where q = "''accepting''"]] bar_complete_step])
    (simp_all add: phase_transitions_def terminal_statuses_def)

theorem completion_generations_unique_witness:
  "rc_completion_generation (bar_row ''completed'' ''succeeded'' (Some 1)) \<noteq> None \<longleftrightarrow>
   rc_status (bar_row ''completed'' ''succeeded'' (Some 1)) = ''succeeded''"
  using completion_generations_unique [OF bar_reachable, of "bar_row ''completed'' ''succeeded'' (Some 1)"] by simp

end
