(* ===== verification/Update_Signing.thy ===== *)
theory Update_Signing
  imports Protocol
begin
text \<open>
  The authorization of agent updates: \<^verbatim>\<open>update_grants.py\<close> (the grants that the API signs over a rollout and its nodes)
  and \<^verbatim>\<open>update_signer.py\<close> (the isolated signer: its messages, the verification of grants, the policy, the connection
  handler and the client).

  Byte strings are values of type \<^typ>\<open>string\<close>. The Ed25519 keys are parameters: \<open>sign\<close> of a private key and \<open>check\<close> of a
  public key, on bytes; \<open>sha\<close> is the hexadecimal SHA-256 of bytes. The authority that writes receipts and the loader of the
  active release are the arguments that the constructor of the policy takes. A document read from a socket has no
  floating-point numbers in the model.
\<close>

section \<open>Values shared by the issuer and the signer\<close>

datatype clock_value = NotDatetime | NaiveTime | AwareTime int

text \<open>\<^verbatim>\<open>int(now.timestamp())\<close> of an instant in microseconds: towards zero.\<close>

definition epoch_seconds :: "int \<Rightarrow> int" where
  "epoch_seconds t = (if 0 \<le> t then t div 1000000 else - ((- t) div 1000000))"

text \<open>\<^verbatim>\<open>uuid.UUID(value).int\<close> and \<^verbatim>\<open>.version\<close>, which only the RFC 4122 variant has.\<close>

definition uuid_int :: "string \<Rightarrow> nat option" where
  "uuid_int s =
    (let hex = py_remove ''-'' (strip_chars ''{}'' (py_remove ''uuid:'' (py_remove ''urn:'' s))) in
     if length hex \<noteq> 32 then None else int16 hex)"

definition uuid_version :: "nat \<Rightarrow> nat option" where
  "uuid_version n = (if (n div 2 ^ 62) mod 4 = 2 then Some ((n div 2 ^ 76) mod 16) else None)"

definition is_uuid4 :: "string \<Rightarrow> bool" where
  "is_uuid4 s =
    (case uuid_int s of None \<Rightarrow> False | Some n \<Rightarrow> uuid_version n = Some 4 \<and> uuid_text n = s)"

definition release_digest_ok :: "string \<Rightarrow> bool" where
  "release_digest_ok s \<longleftrightarrow> take 7 s = ''sha256:'' \<and> is_hex 64 (drop 7 s)"

text \<open>\<^verbatim>\<open>bytes.hex\<close> and \<^verbatim>\<open>bytes.fromhex\<close>; the latter skips ASCII white space between two bytes.\<close>

definition bytes_hex :: "string \<Rightarrow> string" where
  "bytes_hex s = concat (map (\<lambda>c. [hex_char (of_char c div 16), hex_char (of_char c mod 16)]) s)"

definition ascii_space :: "char \<Rightarrow> bool" where
  "ascii_space c \<longleftrightarrow> (of_char c :: nat) \<in> {9, 10, 11, 12, 13, 32}"

fun bytes_fromhex :: "string \<Rightarrow> string option" where
  "bytes_fromhex [] = Some []"
| "bytes_fromhex (c # s) =
    (if ascii_space c then bytes_fromhex s
     else case s of
       [] \<Rightarrow> None
     | d # s' \<Rightarrow>
         (case (hex_digit_val c, hex_digit_val d) of
            (Some h, Some l) \<Rightarrow> map_option (\<lambda>r. char_of (16 * h + l) # r) (bytes_fromhex s')
          | _ \<Rightarrow> None))"

text \<open>Both modules write a message as its canonical ASCII text and a newline.\<close>

definition canonical_line :: "json \<Rightarrow> string" where
  "canonical_line v = json_dumps True v @ [CHR 0x0A]"

section \<open>Grants\<close>

datatype grant_error = AdminActionGrantError string

definition max_grant_bytes :: nat where
  "max_grant_bytes = 64 * 1024"

definition max_grant_nodes :: nat where
  "max_grant_nodes = 1024"

definition max_grant_seconds :: int where
  "max_grant_seconds = 3600"

definition grant_uuid4 :: "string option \<Rightarrow> string \<Rightarrow> grant_error + string" where
  "grant_uuid4 rendered name =
    (case rendered of
       None \<Rightarrow> Inl (AdminActionGrantError (''admin grant '' @ name @ '' is invalid''))
     | Some s \<Rightarrow> raise_if (\<not> is_uuid4 s) (AdminActionGrantError (''admin grant '' @ name @ '' is invalid'')) (Inr s))"

text \<open>With \<^verbatim>\<open>require_string\<close>, only a string has a rendering.\<close>

definition str_of :: "json \<Rightarrow> string option" where
  "str_of v = (case v of JStr s \<Rightarrow> Some s | _ \<Rightarrow> None)"

record grant_issuer =
  private_sign :: "string \<Rightarrow> string"
  public_bytes :: string
  key_id :: string

definition new_issuer :: "(string \<Rightarrow> string) \<Rightarrow> (string \<Rightarrow> string) \<Rightarrow> string \<Rightarrow> grant_issuer" where
  "new_issuer sha sign public = \<lparr> private_sign = sign, public_bytes = public, key_id = sha public \<rparr>"

definition public_key_document :: "grant_issuer \<Rightarrow> json" where
  "public_key_document iss = JObj
    [(''algorithm'', JStr ''ed25519''), (''key_id'', JStr (key_id iss)),
     (''public_key'', JStr (bytes_hex (public_bytes iss))), (''schema_version'', JInt 1)]"

definition public_key_bytes :: "grant_issuer \<Rightarrow> string" where
  "public_key_bytes iss = canonical_line (public_key_document iss)"

definition grant_nodes :: "json \<Rightarrow> grant_error + string list" where
  "grant_nodes v =
    (case v of
       JList vs \<Rightarrow>
         raise_if (\<not> (1 \<le> length vs \<and> length vs \<le> max_grant_nodes) \<or>
             \<not> list_all (is_str_with is_node_id) vs \<or> \<not> distinct (map the_str vs))
           (AdminActionGrantError ''admin grant node IDs are invalid'') (Inr (sort (map the_str vs)))
     | _ \<Rightarrow> Inl (AdminActionGrantError ''admin grant node IDs are invalid''))"

definition grant_target :: "string \<Rightarrow> json \<Rightarrow> grant_error + json" where
  "grant_target action v =
    (if action = ''agent.update'' then
       raise_if (\<not> is_str_with release_digest_ok v) (AdminActionGrantError ''admin grant update target is invalid'') (Inr v)
     else raise_if (v \<noteq> JNull) (AdminActionGrantError ''admin grant rollback target must be null'') (Inr JNull))"

definition grant_expiry :: "clock_value \<Rightarrow> json \<Rightarrow> grant_error + int" where
  "grant_expiry now v =
    (case now of
       AwareTime t \<Rightarrow>
         (case v of
            JInt e \<Rightarrow>
              raise_if (e \<le> epoch_seconds t \<or> e > epoch_seconds t + max_grant_seconds)
                (AdminActionGrantError ''admin grant expiry is invalid'') (Inr e)
          | _ \<Rightarrow> Inl (AdminActionGrantError ''admin grant expiry is invalid''))
     | _ \<Rightarrow> Inl (AdminActionGrantError ''admin grant clock must be timezone-aware''))"

definition grant_actions :: "string list" where
  "grant_actions = [''agent.update'', ''agent.rollback'']"

definition grant_claims :: "string \<Rightarrow> int \<Rightarrow> string \<Rightarrow> string list \<Rightarrow> string \<Rightarrow> string \<Rightarrow> json \<Rightarrow> (string, json) dict" where
  "grant_claims action expiry nonce ns parent rollout target =
    [(''action'', JStr action), (''expires_at'', JInt expiry), (''nonce'', JStr nonce),
     (''node_ids'', JList (map JStr ns)), (''parent_job_id'', JStr parent), (''rollout_id'', JStr rollout),
     (''schema_version'', JInt 1), (''target_release_digest'', target)]"

definition grant_envelope :: "grant_issuer \<Rightarrow> (string, json) dict \<Rightarrow> (string, json) dict" where
  "grant_envelope iss claims =
    [(''claims'', JObj claims),
     (''signature'', JObj [(''algorithm'', JStr ''ed25519''), (''key_id'', JStr (key_id iss)),
        (''value'', JStr (bytes_hex (private_sign iss (canonical_line (JObj claims)))))])]"

text \<open>
  \<^verbatim>\<open>AdminActionGrantIssuer.issue\<close>; \<open>nonce\<close> is the rendering of what the nonce factory returns, \<open>None\<close> when the factory
  raises.
\<close>

definition issue :: "grant_issuer \<Rightarrow> clock_value \<Rightarrow> string option \<Rightarrow> json \<Rightarrow> json \<Rightarrow> json \<Rightarrow> json \<Rightarrow> json \<Rightarrow> json \<Rightarrow>
    grant_error + (string, json) dict" where
  "issue iss now nonce_value action rollout_id parent_job_id node_ids target_release_digest expires_at =
     raise_if (\<not> is_str_with (\<lambda>a. a \<in> set grant_actions) action)
       (AdminActionGrantError ''admin grant action is invalid'') (
     rbind (grant_uuid4 (str_of rollout_id) ''rollout ID'') (\<lambda>rollout.
     rbind (grant_uuid4 (str_of parent_job_id) ''parent job ID'') (\<lambda>parent.
     rbind (grant_nodes node_ids) (\<lambda>ns.
     rbind (grant_target (the_str action) target_release_digest) (\<lambda>target.
     rbind (grant_expiry now expires_at) (\<lambda>expiry.
     raise_if (nonce_value = None) (AdminActionGrantError ''admin grant nonce is unavailable'') (
     rbind (grant_uuid4 nonce_value ''nonce'') (\<lambda>nonce.
     let claims = grant_claims (the_str action) expiry nonce ns parent rollout target;
         envelope = grant_envelope iss claims in
     raise_if (length (canonical_line (JObj claims)) > max_grant_bytes)
       (AdminActionGrantError ''admin action grant is too large'') (
     raise_if (length (canonical_line (JObj envelope)) > max_grant_bytes)
       (AdminActionGrantError ''admin action grant is too large'') (Inr envelope))))))))))"

section \<open>Messages of the signer\<close>

datatype signer_error =
    SignerProtocolError string
  | UpdateAuthorizationError string
  | UpgradeConflict string
  | SignerTypeError
  | SignerValueError
  | SignerAttributeError

definition max_signer_message_bytes :: nat where
  "max_signer_message_bytes = 64 * 1024"

text \<open>
  \<^verbatim>\<open>_document\<close>. A text that is not the canonical text of an object is refused; the source has three messages for it
  (invalid JSON, duplicate fields, not canonical), which the model merges into the last one.
\<close>

definition signer_document :: "string \<Rightarrow> signer_error + (string, json) dict" where
  "signer_document raw =
     raise_if (raw = [] \<or> length raw > max_signer_message_bytes \<or> last raw \<noteq> CHR 0x0A)
       (SignerProtocolError ''signer message bounds are invalid'') (
     case json_loads (butlast raw) of
       Some (JObj d) \<Rightarrow>
         raise_if (canonical_line (JObj d) \<noteq> raw) (SignerProtocolError ''signer message is not canonical'') (Inr d)
     | _ \<Rightarrow> Inl (SignerProtocolError ''signer message is not canonical''))"

text \<open>
  What \<^verbatim>\<open>recv\<close> meets on a connection: bytes that have arrived, a time-out (of the deadline or of the socket), an error. The
  end of the list is the end of the stream, and so is an empty chunk. A call takes at most the bytes it asks for and leaves the others.
\<close>

datatype recv_event = Arrived string | RecvTimeout | RecvError

definition recv_size :: "nat \<Rightarrow> nat" where
  "recv_size have = min (16 * 1024) (max_signer_message_bytes + 1 - have)"

function read_message :: "recv_event list \<Rightarrow> string \<Rightarrow> signer_error + string" where
  "read_message events content =
    (if length content > max_signer_message_bytes then Inl (SignerProtocolError ''signer message is too large'')
     else case events of
       [] \<Rightarrow> Inr content
     | RecvTimeout # _ \<Rightarrow> Inl (SignerProtocolError ''signer message timeout'')
     | RecvError # _ \<Rightarrow> Inl (SignerProtocolError ''signer peer disconnected'')
     | Arrived bs # rest \<Rightarrow>
         if bs = [] then Inr content else
         let n = recv_size (length content) in
         if length bs \<le> n then read_message rest (content @ bs)
         else read_message (Arrived (drop n bs) # rest) (content @ take n bs))"
  by pat_completeness auto
termination
  by (relation "measure (\<lambda>(es, c). length es + (max_signer_message_bytes + 1 - length c))")
     (auto simp: recv_size_def max_signer_message_bytes_def)

section \<open>Requests to the signer\<close>

text \<open>\<^verbatim>\<open>v in {...}\<close> of a set of strings: a value that has no hash raises \<^verbatim>\<open>TypeError\<close>.\<close>

definition in_names :: "json \<Rightarrow> string list \<Rightarrow> signer_error + bool" where
  "in_names v names = raise_if (\<not> hash_ok v) SignerTypeError (Inr (is_str_with (\<lambda>s. s \<in> set names) v))"

definition is_jint :: "json \<Rightarrow> bool" where
  "is_jint v = (case v of JInt _ \<Rightarrow> True | _ \<Rightarrow> False)"

definition request_common_fields :: "string list" where
  "request_common_fields =
    [''action'', ''attempt'', ''claim_deadline'', ''expires_at'', ''fence'', ''admin_grant'', ''intent_id'', ''node_id'',
     ''operation_id'', ''parent_job_id'', ''rollout_id'', ''schema_version'', ''source'']"

definition request_update_fields :: "string list" where
  "request_update_fields =
    [''expected_tuf_target_sha256'', ''expected_tuf_targets_version'', ''payload'', ''platform_target_name'',
     ''target_release_digest'']"

text \<open>The \<^verbatim>\<open>sha256\<close> group of a versioned platform target name: the 64 digits before \<^verbatim>\<open>.json\<close>.\<close>

definition target_name_sha256 :: "string \<Rightarrow> string" where
  "target_name_sha256 s = take 64 (drop (length s - 69) s)"

definition request_update_target :: "(string, json) dict \<Rightarrow> signer_error + unit" where
  "request_update_target document =
    (let target_name = jget document ''platform_target_name'';
         expected = jget document ''expected_tuf_target_sha256'' in
     raise_if (\<not> is_obj (jget document ''payload'') \<or>
         \<not> is_str_with release_digest_ok (jget document ''target_release_digest'') \<or>
         \<not> is_str_with versioned_platform_target target_name \<or>
         \<not> is_str_with (is_hex 64) expected \<or>
         target_name_sha256 (the_str target_name) \<noteq> the_str expected \<or>
         (case jget document ''expected_tuf_targets_version'' of JInt n \<Rightarrow> n < 1 | _ \<Rightarrow> True))
       (UpdateAuthorizationError ''signer update target is invalid'') (Inr ()))"

text \<open>
  An identity of the request: \<^verbatim>\<open>str\<close> of a value that is not a string may parse as a UUID, but is not equal to the value, so
  that only strings pass.
\<close>

definition request_identity :: "(string, json) dict \<Rightarrow> string \<Rightarrow> signer_error + unit" where
  "request_identity document name =
     raise_if (\<not> is_str_with is_uuid4 (jget document name))
       (UpdateAuthorizationError
         (''signer '' @ map (\<lambda>c. if c = CHR ''_'' then CHR '' '' else c) name @ '' is invalid'')) (Inr ())"

definition request_source :: "json \<Rightarrow> signer_error + unit" where
  "request_source source =
    (let bad = UpdateAuthorizationError ''signer request fields are invalid''; d = the_obj source in
     raise_if (\<not> is_obj source) bad (
     raise_if (\<not> has_fields [''generation'', ''sha256'', ''slot''] d) bad (
     rbind (in_names (jget d ''slot'') [''A'', ''B'']) (\<lambda>slot_ok.
     raise_if (\<not> slot_ok) bad (
     raise_if (\<not> is_str_with (is_hex 64) (jget d ''sha256'')) bad (
     raise_if (case jget d ''generation'' of JInt g \<Rightarrow> \<not> (1 \<le> g \<and> g \<le> 999999999) | _ \<Rightarrow> True) bad (Inr ())))))))"

definition signer_request :: "json \<Rightarrow> signer_error + (string, json) dict" where
  "signer_request v =
    (case v of
       JObj document \<Rightarrow>
         let bad = UpdateAuthorizationError ''signer request fields are invalid'';
             action = jget document ''action'';
             expected = (if action = JStr ''agent.rollback'' then request_common_fields
                         else request_common_fields @ request_update_fields) in
         raise_if (\<not> has_fields expected document) bad (
         raise_if (\<not> py_eq (jget document ''schema_version'') (JInt 1)) bad (
         rbind (in_names action grant_actions) (\<lambda>action_ok.
         raise_if (\<not> action_ok) bad (
         raise_if (jget document ''attempt'' \<noteq> JInt 1) bad (
         raise_if (\<not> is_jint (jget document ''claim_deadline'')) bad (
         raise_if (\<not> py_eq (jget document ''claim_deadline'') (jget document ''expires_at'')) bad (
         raise_if (\<not> is_str_with is_node_id (jget document ''node_id'')) bad (
         raise_if (\<not> is_obj (jget document ''admin_grant'')) bad (
         rbind (request_source (jget document ''source'')) (\<lambda>_.
         rbind (first_error (map (request_identity document)
             [''intent_id'', ''operation_id'', ''fence'', ''parent_job_id'', ''rollout_id''])) (\<lambda>_.
         rbind (if action = JStr ''agent.update'' then request_update_target document else Inr ()) (\<lambda>_.
         Inr document))))))))))))
     | _ \<Rightarrow> Inl (UpdateAuthorizationError ''signer request is invalid''))"

section \<open>Verification of grants\<close>

record grant_verifier =
  public_check :: "string \<Rightarrow> string \<Rightarrow> bool"
  verifier_key_id :: string

text \<open>
  \<^verbatim>\<open>from_public_document\<close> after the file is read; \<open>public_key\<close> is \<^verbatim>\<open>from_public_bytes\<close>, \<open>None\<close> for its
  \<^verbatim>\<open>ValueError\<close>. The constructor checks the key ID.
\<close>

definition new_verifier :: "(string \<Rightarrow> string \<Rightarrow> bool) \<Rightarrow> string \<Rightarrow> signer_error + grant_verifier" where
  "new_verifier check kid =
     raise_if (\<not> is_hex 64 kid) SignerValueError (Inr \<lparr> public_check = check, verifier_key_id = kid \<rparr>)"

definition from_public_document :: "(string \<Rightarrow> string) \<Rightarrow> (string \<Rightarrow> (string \<Rightarrow> string \<Rightarrow> bool) option) \<Rightarrow> string \<Rightarrow>
    signer_error + grant_verifier" where
  "from_public_document sha public_key raw =
    (case signer_document raw of
       Inl e \<Rightarrow> Inl (UpdateAuthorizationError ''admin grant public key is invalid'')
     | Inr document \<Rightarrow>
         raise_if (\<not> has_fields [''algorithm'', ''key_id'', ''public_key'', ''schema_version''] document \<or>
             jget document ''algorithm'' \<noteq> JStr ''ed25519'' \<or>
             \<not> py_eq (jget document ''schema_version'') (JInt 1) \<or>
             \<not> is_str_with (\<lambda>_. True) (jget document ''key_id'') \<or>
             \<not> is_str_with (\<lambda>_. True) (jget document ''public_key''))
           (UpdateAuthorizationError ''admin grant public key is invalid'') (
         case bytes_fromhex (the_str (jget document ''public_key'')) of
           None \<Rightarrow> Inl (UpdateAuthorizationError ''admin grant public key is invalid'')
         | Some key_bytes \<Rightarrow>
             (case public_key key_bytes of
                None \<Rightarrow> Inl (UpdateAuthorizationError ''admin grant public key is invalid'')
              | Some check \<Rightarrow>
                  raise_if (sha key_bytes \<noteq> the_str (jget document ''key_id''))
                    (UpdateAuthorizationError ''admin grant public key ID is invalid'')
                    (new_verifier check (the_str (jget document ''key_id''))))))"

definition claims_fields :: "string list" where
  "claims_fields =
    [''action'', ''expires_at'', ''nonce'', ''node_ids'', ''parent_job_id'', ''rollout_id'', ''schema_version'',
     ''target_release_digest'']"

definition claims_shape :: "(string, json) dict \<Rightarrow> signer_error + unit" where
  "claims_shape claims =
    (let bad = UpdateAuthorizationError ''admin action grant claims are invalid''; ns = jget claims ''node_ids'' in
     raise_if (\<not> has_fields claims_fields claims) bad (
     raise_if (\<not> py_eq (jget claims ''schema_version'') (JInt 1)) bad (
     rbind (in_names (jget claims ''action'') grant_actions) (\<lambda>action_ok.
     raise_if (\<not> action_ok \<or> \<not> is_list ns \<or> the_list ns = [] \<or>
         \<not> list_all (is_str_with is_node_id) (the_list ns) \<or> \<not> distinct (map the_str (the_list ns)) \<or>
         map the_str (the_list ns) \<noteq> sort (map the_str (the_list ns))) bad (
     first_error (map (\<lambda>name. raise_if (\<not> is_str_with is_uuid4 (jget claims name))
         (UpdateAuthorizationError ''admin action grant identity is invalid'') (Inr ()))
       [''nonce'', ''parent_job_id'', ''rollout_id'']))))))"

definition claims_window :: "clock_value \<Rightarrow> (string, json) dict \<Rightarrow> signer_error + unit" where
  "claims_window now claims =
    (case now of
       NotDatetime \<Rightarrow> Inl SignerAttributeError
     | NaiveTime \<Rightarrow> Inl (UpdateAuthorizationError ''admin grant verifier clock is naive'')
     | AwareTime t \<Rightarrow>
         raise_if (case jget claims ''expires_at'' of
               JInt expiry \<Rightarrow>
                 expiry \<le> epoch_seconds t \<or> expiry > epoch_seconds t + 3600 \<or>
                 jget claims ''action'' = JStr ''agent.update'' \<and>
                   \<not> is_str_with release_digest_ok (jget claims ''target_release_digest'') \<or>
                 jget claims ''action'' = JStr ''agent.rollback'' \<and> jget claims ''target_release_digest'' \<noteq> JNull
             | _ \<Rightarrow> True)
           (UpdateAuthorizationError ''admin action grant expiry or target is invalid'') (Inr ()))"

definition grant_signature :: "grant_verifier \<Rightarrow> (string, json) dict \<Rightarrow> (string, json) dict \<Rightarrow> signer_error + unit" where
  "grant_signature ver claims signature =
    (let bad = UpdateAuthorizationError ''admin action grant signature is invalid'' in
     raise_if (\<not> has_fields [''algorithm'', ''key_id'', ''value''] signature \<or>
         jget signature ''algorithm'' \<noteq> JStr ''ed25519'' \<or>
         jget signature ''key_id'' \<noteq> JStr (verifier_key_id ver) \<or>
         \<not> is_str_with (is_hex 128) (jget signature ''value'')) bad (
     case bytes_fromhex (the_str (jget signature ''value'')) of
       None \<Rightarrow> Inl bad
     | Some raw_signature \<Rightarrow>
         raise_if (\<not> public_check ver raw_signature (canonical_line (JObj claims))) bad (Inr ())))"

text \<open>\<^verbatim>\<open>isinstance(v, int)\<close> holds of a Boolean too, and compares as its number.\<close>

definition number_of :: "json \<Rightarrow> int option" where
  "number_of v = (case v of JInt i \<Rightarrow> Some i | JBool b \<Rightarrow> Some (if b then 1 else 0) | _ \<Rightarrow> None)"

definition grant_covers :: "(string, json) dict \<Rightarrow> (string, json) dict \<Rightarrow> bool" where
  "grant_covers claims request \<longleftrightarrow>
     py_eq (jget request ''action'') (jget claims ''action'') \<and>
     py_eq (jget request ''rollout_id'') (jget claims ''rollout_id'') \<and>
     py_eq (jget request ''parent_job_id'') (jget claims ''parent_job_id'') \<and>
     list_ex (py_eq (jget request ''node_id'')) (the_list (jget claims ''node_ids'')) \<and>
     py_eq (jget request ''target_release_digest'') (jget claims ''target_release_digest'') \<and>
     (case (number_of (jget request ''expires_at''), number_of (jget claims ''expires_at'')) of
        (Some r, Some e) \<Rightarrow> r \<le> e | _ \<Rightarrow> False)"

definition verify_grant :: "grant_verifier \<Rightarrow> clock_value \<Rightarrow> (string, json) dict \<Rightarrow> signer_error + unit" where
  "verify_grant ver now request =
    (let envelope = jget request ''admin_grant'';
         claims = jget (the_obj envelope) ''claims'';
         signature = jget (the_obj envelope) ''signature'' in
     raise_if (\<not> is_obj envelope \<or> \<not> has_fields [''claims'', ''signature''] (the_obj envelope))
       (UpdateAuthorizationError ''admin action grant is invalid'') (
     raise_if (\<not> is_obj claims \<or> \<not> is_obj signature) (UpdateAuthorizationError ''admin action grant is invalid'') (
     rbind (claims_shape (the_obj claims)) (\<lambda>_.
     rbind (claims_window now (the_obj claims)) (\<lambda>_.
     rbind (grant_signature ver (the_obj claims) (the_obj signature)) (\<lambda>_.
     raise_if (\<not> grant_covers (the_obj claims) request)
       (UpdateAuthorizationError ''admin action grant does not authorize signer request'') (Inr ())))))))"

section \<open>The policy of the signer\<close>

record active_control_release =
  generation_id :: string
  active_release_digest :: string
  active_build_digest :: string
  active_platform_version :: string
  api_image :: string
  worker_image :: string
  migration_revision :: string

record prepared_update =
  payload_digest :: string
  prepared_release_digest :: string
  prepared_platform_version :: string
  prepared_build_digest :: string
  prepared_target_name :: string
  prepared_target_sha256 :: string
  prepared_targets_version :: int

text \<open>The keyword arguments that an authorization and a rollback have in common, and the source slot.\<close>

record receipt_fields =
  receipt_operation_id :: json
  receipt_fence :: json
  receipt_expires_at :: json
  receipt_node_id :: json
  receipt_attempt :: json
  receipt_claim_deadline :: json
  receipt_now :: clock_value
  receipt_slot :: json
  receipt_sha256 :: json
  receipt_generation :: json

record update_authority =
  refresh_and_validate :: "(string, json) dict \<Rightarrow> string \<Rightarrow> signer_error + prepared_update"
  authorize_update :: "(string, json) dict \<Rightarrow> prepared_update \<Rightarrow> receipt_fields \<Rightarrow> signer_error + (string, json) dict"
  authorize_rollback :: "receipt_fields \<Rightarrow> signer_error + (string, json) dict"

record signer_policy =
  policy_authority :: update_authority
  load_active :: "signer_error + active_control_release option"
  policy_verifier :: grant_verifier

text \<open>\<open>load_active\<close> gives \<open>None\<close> for a value of another class.\<close>

definition receipt_of :: "clock_value \<Rightarrow> (string, json) dict \<Rightarrow> receipt_fields" where
  "receipt_of now document =
    (let source = the_obj (jget document ''source'') in
     \<lparr> receipt_operation_id = jget document ''operation_id'', receipt_fence = jget document ''fence'',
       receipt_expires_at = jget document ''expires_at'', receipt_node_id = jget document ''node_id'',
       receipt_attempt = jget document ''attempt'', receipt_claim_deadline = jget document ''claim_deadline'',
       receipt_now = now, receipt_slot = jget source ''slot'', receipt_sha256 = jget source ''sha256'',
       receipt_generation = jget source ''generation'' \<rparr>)"

text \<open>\<^verbatim>\<open>RootUpdateSignerPolicy.authorize\<close>; the verifier reads its clock, then the policy reads its own.\<close>

definition policy_authorize :: "signer_policy \<Rightarrow> clock_value \<Rightarrow> clock_value \<Rightarrow> json \<Rightarrow> signer_error + (string, json) dict" where
  "policy_authorize pol verify_now now request =
     rbind (signer_request request) (\<lambda>document.
     rbind (load_active pol) (\<lambda>loaded.
     raise_if (loaded = None) (UpdateAuthorizationError ''active control release is invalid'') (
     let active_release = the loaded in
     rbind (verify_grant (policy_verifier pol) verify_now document) (\<lambda>_.
     if jget document ''action'' = JStr ''agent.rollback'' then
       authorize_rollback (policy_authority pol) (receipt_of now document)
     else
       let payload = the_obj (jget document ''payload'') in
       rbind (refresh_and_validate (policy_authority pol) payload (the_str (jget document ''platform_target_name''))) (\<lambda>prepared.
       raise_if (JStr (prepared_release_digest prepared) \<noteq> jget document ''target_release_digest'' \<or>
           JStr (active_release_digest active_release) \<noteq> jget document ''target_release_digest'' \<or>
           prepared_platform_version prepared \<noteq> active_platform_version active_release \<or>
           prepared_build_digest prepared \<noteq> active_build_digest active_release)
         (UpdateAuthorizationError ''signer target release disagrees with active control release'') (
       raise_if (JStr (prepared_target_name prepared) \<noteq> jget document ''platform_target_name'' \<or>
           JStr (prepared_target_sha256 prepared) \<noteq> jget document ''expected_tuf_target_sha256'' \<or>
           JInt (prepared_targets_version prepared) \<noteq> jget document ''expected_tuf_targets_version'')
         (UpdateAuthorizationError ''signer TUF target identity disagrees with request'') (
       authorize_update (policy_authority pol) payload prepared (receipt_of now document))))))))"

section \<open>Connections\<close>

text \<open>
  \<^verbatim>\<open>UpdateSignerConnectionHandler.handle\<close>: \<open>peer\<close> is the user of the peer, if the socket tells it; the value is the
  response that is sent.
\<close>

definition handle_connection :: "(string \<Rightarrow> string) \<Rightarrow> (json \<Rightarrow> signer_error + (string, json) dict) \<Rightarrow> int \<Rightarrow>
    int option \<Rightarrow> recv_event list \<Rightarrow> signer_error + string" where
  "handle_connection sha authorize_request allowed_peer_uid peer events =
    (case peer of
       None \<Rightarrow> Inl (SignerProtocolError ''signer peer identity is unavailable'')
     | Some uid \<Rightarrow>
         raise_if (uid \<noteq> allowed_peer_uid) (SignerProtocolError ''signer peer UID is not authorized'') (
         rbind (read_message events []) (\<lambda>raw.
         rbind (signer_document raw) (\<lambda>request.
         raise_if (\<not> is_str_with (\<lambda>_. True) (jget request ''intent_id''))
           (SignerProtocolError ''signer intent ID is invalid'') (
         case authorize_request (JObj request) of
           Inl (SignerProtocolError m) \<Rightarrow> Inl (SignerProtocolError m)
         | Inl SignerAttributeError \<Rightarrow> Inl SignerAttributeError
         | Inl _ \<Rightarrow> Inl (SignerProtocolError ''signer policy rejected request'')
         | Inr signed_payload \<Rightarrow>
             let response = JObj [(''intent_id'', jget request ''intent_id''), (''request_digest'', JStr (sha raw)),
                   (''schema_version'', JInt 1), (''signed_payload'', JObj signed_payload)];
                 encoded = canonical_line response in
             raise_if (length encoded > max_signer_message_bytes)
               (SignerProtocolError ''signer response is too large'') (Inr encoded))))))"

text \<open>
  \<^verbatim>\<open>UnixUpdateSignerClient.authorize\<close>: \<open>exchange\<close> connects, sends the request and gives what arrives, \<open>None\<close> when the socket
  fails.
\<close>

definition client_authorize :: "(string \<Rightarrow> string) \<Rightarrow> (string \<Rightarrow> recv_event list option) \<Rightarrow> json \<Rightarrow>
    signer_error + (string, json) dict" where
  "client_authorize sha exchange request =
    (case request of
       JObj d \<Rightarrow>
         let encoded = canonical_line (JObj d) in
         raise_if (length encoded > max_signer_message_bytes) (SignerProtocolError ''signer request is too large'') (
         case exchange encoded of
           None \<Rightarrow> Inl (SignerProtocolError ''signer service is unavailable'')
         | Some events \<Rightarrow>
             rbind (read_message events []) (\<lambda>raw.
             rbind (signer_document raw) (\<lambda>response.
             raise_if (\<not> has_fields [''intent_id'', ''request_digest'', ''schema_version'', ''signed_payload''] response)
               (SignerProtocolError ''signer response fields are invalid'') (
             raise_if (\<not> py_eq (jget response ''schema_version'') (JInt 1) \<or>
                 \<not> py_eq (jget response ''intent_id'') (jget d ''intent_id'') \<or>
                 jget response ''request_digest'' \<noteq> JStr (sha encoded) \<or>
                 \<not> is_obj (jget response ''signed_payload''))
               (SignerProtocolError ''signer response binding is invalid'') (Inr response)))))
     | _ \<Rightarrow> Inl SignerTypeError)"

section \<open>Bytes and texts\<close>

lemma hex_digit_val_hex_char: "n < 16 \<Longrightarrow> hex_digit_val (hex_char n) = Some n"
  by (auto simp: hex_digit_val_def hex_char_def is_digit_def between_def)

lemma hex_char_not_space: "n < 16 \<Longrightarrow> \<not> ascii_space (hex_char n)"
  by (auto simp: hex_char_def ascii_space_def)

lemma nibble: "of_char c div 16 < (16 :: nat)"
  by (rule less_mult_imp_div_less) (use of_char_lt [of c] in simp)

lemma bytes_hex_Cons: "bytes_hex (c # s) = hex_char (of_char c div 16) # hex_char (of_char c mod 16) # bytes_hex s"
  by (simp add: bytes_hex_def)

lemma bytes_fromhex_hex: "bytes_fromhex (bytes_hex s) = Some s"
proof (induction s)
  case (Cons c s)
  show ?case
    using Cons by (simp add: bytes_hex_Cons hex_digit_val_hex_char hex_char_not_space nibble)
qed (simp add: bytes_hex_def)

lemma is_hex_bytes_hex: "is_hex (2 * length s) (bytes_hex s)"
proof (induction s)
  case (Cons c s)
  show ?case using Cons by (simp add: bytes_hex_Cons is_hex_def hex_char_is_hex nibble)
qed (simp add: bytes_hex_def is_hex_def)

lemma number_of_py_eq: "py_eq (JInt i) v \<longleftrightarrow> number_of v = Some i"
  by (cases v) (auto simp: py_eq_def number_of_def)

section \<open>Documents up to the order of keys\<close>

lemma jget_canon:
  assumes "wf_dict d"
  shows "jget (the_obj (json_canon (JObj d))) k = json_canon (jget d k)"
  using assms
  by (cases "map_of d k")
     (simp_all add: jget_def json_canon_obj map_of_map_prod map_of_sort_key del: json_canon.simps(6))

lemma keys_canon: "set (map fst (the_obj (json_canon (JObj d)))) = set (map fst d)"
  by (force simp: image_image)

lemma canonical_line_canon: "canonical_line (json_canon v) = canonical_line v"
  by (simp add: canonical_line_def json_dumps_canon)

lemma canonical_line_inject:
  assumes "canonical_line v = canonical_line w" "json_wf v" "json_wf w"
  shows "json_canon v = json_canon w"
proof -
  have "json_dumps True v = json_dumps True w" using assms(1) by (simp add: canonical_line_def)
  then have "Some (json_canon v) = Some (json_canon w)"
    using json_loads_dumps [OF assms(2), of True] json_loads_dumps [OF assms(3), of True] by simp
  then show ?thesis by simp
qed

lemma json_wf_jget: "json_wf (JObj d) \<Longrightarrow> json_wf (jget d k)"
  by (cases "map_of d k") (auto simp: jget_def list_all_iff dest!: map_of_SomeD)

lemma json_wf_dict: "json_wf (JObj d) \<Longrightarrow> wf_dict d"
  by simp

lemma canon_same:
  assumes "json_canon (JObj c) = json_canon (JObj d)" "wf_dict c" "wf_dict d"
  shows "json_canon (jget c k) = json_canon (jget d k)" "has_fields fs c \<longleftrightarrow> has_fields fs d"
  using jget_canon [OF assms(2), of k] jget_canon [OF assms(3), of k] keys_canon [of c] keys_canon [of d] assms(1)
  by (simp_all add: has_fields_def del: json_canon.simps)

lemma canon_atom:
  "json_canon v = JStr s \<longleftrightarrow> v = JStr s" "json_canon v = JInt i \<longleftrightarrow> v = JInt i" "json_canon v = JNull \<longleftrightarrow> v = JNull"
  by (cases v; simp)+

lemma canon_strs: "json_canon v = JList (map JStr ns) \<longleftrightarrow> v = JList (map JStr ns)"
proof
  assume h: "json_canon v = JList (map JStr ns)"
  then obtain vs where v: "v = JList vs" by (cases v) auto
  have "map json_canon vs = map JStr ns \<Longrightarrow> vs = map JStr ns"
    by (induction vs arbitrary: ns) (auto simp: canon_atom Cons_eq_map_conv)
  with h v show "v = JList (map JStr ns)" by simp
qed (simp add: comp_def)

lemma has_fields_all:
  "has_fields fs d \<longleftrightarrow> list_all (\<lambda>k. k \<in> set (map fst d)) fs \<and> list_all (\<lambda>k. k \<in> set fs) (map fst d)"
  unfolding has_fields_def list_all_iff by blast

section \<open>Messages\<close>

lemma signer_document_Inr:
  assumes "signer_document raw = Inr d"
  shows "raw = canonical_line (JObj d)" "length raw \<le> max_signer_message_bytes"
  using assms by (auto simp: signer_document_def result_simps split: option.splits json.splits)

lemma signer_document_canonical:
  assumes "json_wf (JObj d)" "length (canonical_line (JObj d)) \<le> max_signer_message_bytes"
  shows "signer_document (canonical_line (JObj d)) = Inr (the_obj (json_canon (JObj d)))"
proof -
  let ?raw = "canonical_line (JObj d)"
  have "json_loads (butlast ?raw) = Some (json_canon (JObj d))"
    using json_loads_dumps [OF assms(1), of True]
    by (simp add: canonical_line_def del: json_dumps.simps json_canon.simps)
  moreover have "?raw \<noteq> []" "last ?raw = CHR 0x0A" by (simp_all add: canonical_line_def)
  moreover obtain d' where "json_canon (JObj d) = JObj d'" by simp
  moreover from this have "canonical_line (JObj d') = ?raw" using canonical_line_canon by metis
  ultimately show ?thesis using assms(2) by (simp add: signer_document_def)
qed

declare read_message.simps [simp del]

lemma read_message_step:
  assumes "length content \<le> max_signer_message_bytes" "bs \<noteq> []" "n = recv_size (length content)"
  shows "read_message (Arrived bs # rest) content =
    (if length bs \<le> n then read_message rest (content @ bs)
     else read_message (Arrived (drop n bs) # rest) (content @ take n bs))"
  using assms by (subst read_message.simps) (simp add: Let_def)

lemma read_message_chunks:
  assumes "[] \<notin> set chunks" "length content \<le> max_signer_message_bytes + 1"
  shows "read_message (map Arrived chunks) content =
    (if length (content @ concat chunks) > max_signer_message_bytes
     then Inl (SignerProtocolError ''signer message is too large'') else Inr (content @ concat chunks))"
  using assms
proof (induction "map Arrived chunks" content arbitrary: chunks rule: read_message.induct)
  case (1 content)
  show ?case
  proof (cases "length content > max_signer_message_bytes \<or> chunks = []")
    case True
    then show ?thesis by (subst read_message.simps) auto
  next
    case False
    then obtain bs rest where c: "chunks = bs # rest" by (cases chunks) auto
    let ?n = "recv_size (length content)"
    have len: "length content \<le> max_signer_message_bytes" and bs: "bs \<noteq> []" using False c 1(3) by auto
    have n: "0 < ?n" "length content + ?n \<le> max_signer_message_bytes + 1"
      using len by (auto simp: recv_size_def)
    show ?thesis
    proof (cases "length bs \<le> ?n")
      case True
      have "read_message (map Arrived rest) (content @ bs) =
        (if length ((content @ bs) @ concat rest) > max_signer_message_bytes
         then Inl (SignerProtocolError ''signer message is too large'') else Inr ((content @ bs) @ concat rest))"
        by (rule 1(1)) (use len c bs True n 1(3) in auto)
      then show ?thesis using True c read_message_step [OF len bs refl, of "map Arrived rest"] by simp
    next
      case False
      have "read_message (map Arrived (drop ?n bs # rest)) (content @ take ?n bs) =
        (if length ((content @ take ?n bs) @ concat (drop ?n bs # rest)) > max_signer_message_bytes
         then Inl (SignerProtocolError ''signer message is too large'')
         else Inr ((content @ take ?n bs) @ concat (drop ?n bs # rest)))"
        by (rule 1(2)) (use len c bs False n 1(3) in auto)
      then show ?thesis using False c read_message_step [OF len bs refl, of "map Arrived rest"] by simp
    qed
  qed
qed

section \<open>Issued grants\<close>

lemma grant_uuid4_Inr [result_simps]: "grant_uuid4 v name = Inr s \<longleftrightarrow> v = Some s \<and> is_uuid4 s"
  by (cases v) (auto simp: grant_uuid4_def result_simps)

lemma str_of_Some: "str_of v = Some s \<longleftrightarrow> v = JStr s"
  by (cases v) (auto simp: str_of_def)

lemma all_str_with: "list_all (is_str_with P) vs \<Longrightarrow> vs = map JStr (map the_str vs) \<and> list_all P (map the_str vs)"
  by (induction vs) (auto simp: is_str_with_iff)

lemma grant_nodes_Inr:
  assumes "grant_nodes v = Inr ns"
  shows "\<exists>ms. v = JList (map JStr ms) \<and> ns = sort ms \<and> ms \<noteq> [] \<and> distinct ms \<and> list_all is_node_id ms"
proof -
  from assms obtain vs where v: "v = JList vs" by (cases v) (auto simp: grant_nodes_def)
  then have "list_all (is_str_with is_node_id) vs" "vs \<noteq> []" "distinct (map the_str vs)" "ns = sort (map the_str vs)"
    using assms by (auto simp: grant_nodes_def result_simps)
  then show ?thesis using v all_str_with [of is_node_id vs] by (intro exI [of _ "map the_str vs"]) auto
qed

lemma grant_target_Inr:
  "grant_target act v = Inr t \<Longrightarrow>
     t = v \<and> (if act = ''agent.update'' then is_str_with release_digest_ok v else v = JNull)"
  by (auto simp: grant_target_def result_simps split: if_splits)

lemma grant_expiry_Inr:
  "grant_expiry now v = Inr x \<longleftrightarrow>
     (\<exists>t. now = AwareTime t \<and> v = JInt x \<and> epoch_seconds t < x \<and> x \<le> epoch_seconds t + 3600)"
  by (cases now; cases v) (auto simp: grant_expiry_def max_grant_seconds_def result_simps)

text \<open>What a grant that was issued says.\<close>

lemma issue_Inr:
  assumes "issue iss now nv a r p n t x = Inr e"
  obtains act roll par ms expiry nonce tm where
    "a = JStr act" "act \<in> set grant_actions" "r = JStr roll" "is_uuid4 roll" "p = JStr par" "is_uuid4 par"
    "n = JList (map JStr ms)" "ms \<noteq> []" "distinct ms" "list_all is_node_id ms"
    "if act = ''agent.update'' then is_str_with release_digest_ok t else t = JNull"
    "x = JInt expiry" "now = AwareTime tm" "epoch_seconds tm < expiry" "expiry \<le> epoch_seconds tm + 3600"
    "is_uuid4 nonce" "e = grant_envelope iss (grant_claims act expiry nonce (sort ms) par roll t)"
  using assms unfolding issue_def Let_def raise_if_Inr rbind_Inr
  by (elim exE conjE)
     (auto simp: result_simps str_of_Some is_str_with_iff grant_expiry_Inr
        dest!: grant_nodes_Inr grant_target_Inr)

lemma grant_claims_jget:
  "jget (grant_claims act x nonce ns par roll t) ''action'' = JStr act"
  "jget (grant_claims act x nonce ns par roll t) ''expires_at'' = JInt x"
  "jget (grant_claims act x nonce ns par roll t) ''nonce'' = JStr nonce"
  "jget (grant_claims act x nonce ns par roll t) ''node_ids'' = JList (map JStr ns)"
  "jget (grant_claims act x nonce ns par roll t) ''parent_job_id'' = JStr par"
  "jget (grant_claims act x nonce ns par roll t) ''rollout_id'' = JStr roll"
  "jget (grant_claims act x nonce ns par roll t) ''schema_version'' = JInt 1"
  "jget (grant_claims act x nonce ns par roll t) ''target_release_digest'' = t"
  by (simp_all add: grant_claims_def jget_def)

lemma grant_claims_fields: "has_fields claims_fields (grant_claims act x nonce ns par roll t)"
  by (auto simp: has_fields_def claims_fields_def grant_claims_def)

lemma grant_claims_wf: "json_wf t \<Longrightarrow> json_wf (JObj (grant_claims act x nonce ns par roll t))"
  by (simp add: grant_claims_def list_all_iff)

lemma grant_envelope_wf: "json_wf (JObj c) \<Longrightarrow> json_wf (JObj (grant_envelope iss c))"
  by (simp add: grant_envelope_def)

lemma grant_target_wf: "(if act = ''agent.update'' then is_str_with P t else t = JNull) \<Longrightarrow> json_wf t"
  by (auto simp: is_str_with_iff split: if_splits)

text \<open>The claims of a document that has the canonical text of issued claims.\<close>

lemma claims_canon_jget:
  assumes "json_canon (JObj c) = json_canon (JObj (grant_claims act x nonce ns par roll t))"
    and "wf_dict c" and t: "if act = ''agent.update'' then is_str_with P t else t = JNull"
  shows "jget c ''action'' = JStr act" "jget c ''expires_at'' = JInt x" "jget c ''nonce'' = JStr nonce"
    "jget c ''node_ids'' = JList (map JStr ns)" "jget c ''parent_job_id'' = JStr par"
    "jget c ''rollout_id'' = JStr roll" "jget c ''schema_version'' = JInt 1"
    "jget c ''target_release_digest'' = t" "has_fields claims_fields c"
proof -
  let ?g = "grant_claims act x nonce ns par roll t"
  have w: "wf_dict ?g" by (simp add: grant_claims_def)
  note same = canon_same [OF assms(1,2) w]
  have ns: "json_canon (JList (map JStr ns)) = JList (map JStr ns)" by (simp add: comp_def)
  show "jget c ''action'' = JStr act" "jget c ''expires_at'' = JInt x" "jget c ''nonce'' = JStr nonce"
    "jget c ''parent_job_id'' = JStr par" "jget c ''rollout_id'' = JStr roll" "jget c ''schema_version'' = JInt 1"
    using same(1) [of "''action''"] same(1) [of "''expires_at''"] same(1) [of "''nonce''"]
      same(1) [of "''parent_job_id''"] same(1) [of "''rollout_id''"] same(1) [of "''schema_version''"]
    unfolding grant_claims_jget by (simp_all add: canon_atom)
  show "jget c ''node_ids'' = JList (map JStr ns)"
    using same(1) [of "''node_ids''"] unfolding grant_claims_jget ns by (simp add: canon_strs)
  show "jget c ''target_release_digest'' = t"
    using same(1) [of "''target_release_digest''"] t unfolding grant_claims_jget
    by (auto simp: is_str_with_iff canon_atom split: if_splits)
  show "has_fields claims_fields c" using same(2) grant_claims_fields by blast
qed

section \<open>Accepted grants\<close>

lemma in_names_Inr [result_simps]: "in_names v names = Inr b \<longleftrightarrow> hash_ok v \<and> b = is_str_with (\<lambda>s. s \<in> set names) v"
  by (auto simp: in_names_def result_simps)

lemma is_obj_iff: "is_obj v \<longleftrightarrow> (\<exists>d. v = JObj d)"
  by (cases v) (auto simp: is_obj_def)

lemma verify_grant_Inr:
  assumes "verify_grant ver now d = Inr u"
  obtains env c sg raw where
    "jget d ''admin_grant'' = JObj env" "jget env ''claims'' = JObj c" "jget env ''signature'' = JObj sg"
    "claims_shape c = Inr ()" "claims_window now c = Inr ()"
    "public_check ver raw (canonical_line (JObj c))" "grant_covers c d"
proof -
  obtain env c sg where *: "jget d ''admin_grant'' = JObj env" "jget env ''claims'' = JObj c" "jget env ''signature'' = JObj sg"
    "claims_shape c = Inr ()" "claims_window now c = Inr ()" "grant_signature ver c sg = Inr ()" "grant_covers c d"
    using assms by (auto simp: verify_grant_def Let_def result_simps is_obj_iff)
  then obtain raw where "public_check ver raw (canonical_line (JObj c))"
    by (auto simp: grant_signature_def Let_def result_simps split: option.splits)
  with * that show thesis by blast
qed

lemma claims_window_Inr:
  assumes "claims_window now c = Inr ()" "jget c ''expires_at'' = JInt x"
  shows "\<exists>t. now = AwareTime t \<and> epoch_seconds t < x \<and> x \<le> epoch_seconds t + 3600"
  using assms by (auto simp: claims_window_def result_simps split: clock_value.splits)

lemma signer_request_Inr: "signer_request v = Inr d \<Longrightarrow> v = JObj d \<and> is_str_with (\<lambda>s. s \<in> set grant_actions) (jget d ''action'')"
  by (cases v) (auto simp: signer_request_def Let_def result_simps)

end
