(* ===== verification/Signing_Properties.thy ===== *)
theory Signing_Properties
  imports Update_Signing
begin

text \<open>
  What the grants and the signer of \<^verbatim>\<open>update_grants.py\<close> and \<^verbatim>\<open>update_signer.py\<close> guarantee together: the messages that are
  read, the grants that are accepted, what an authorized request was granted, and the exchange between the client and the
  signer. An update of one node, from the grant to the response, shows that the hypotheses hold together.
\<close>

section \<open>Messages that the signer reads\<close>


section \<open>The signer and the issuer\<close>


lemma epoch_seconds_mono: "s \<le> t \<Longrightarrow> epoch_seconds s \<le> epoch_seconds t"
proof -
  assume st: "s \<le> t"
  have mono: "a div 1000000 \<le> b div 1000000" if "a \<le> b" for a b :: int using that by (rule zdiv_mono1) simp
  consider "0 \<le> s" | "s < 0" "0 \<le> t" | "t < 0" using st by linarith
  then show ?thesis
  proof cases
    case 1
    then show ?thesis using st mono by (simp add: epoch_seconds_def)
  next
    case 2
    then have "0 \<le> (- s) div 1000000" "0 \<le> t div 1000000" by simp_all
    then show ?thesis using 2 by (simp add: epoch_seconds_def)
  next
    case 3
    then show ?thesis using st mono [of "- t" "- s"] by (simp add: epoch_seconds_def)
  qed
qed

lemma public_key_document_canon: "json_canon (public_key_document iss) = public_key_document iss"
  by (simp add: public_key_document_def)

lemma canonical_line_bound: "length (canonical_line v) \<le> json_bound v + 1"
  using json_dumps_bound [of v] by (simp add: canonical_line_def)

lemma length_bytes_hex: "length (bytes_hex s) = 2 * length s"
  using is_hex_bytes_hex [of s] by (simp add: is_hex_def)

lemma public_key_bytes_length:
  assumes "length (public_bytes iss) = 32" "length (key_id iss) = 64"
  shows "length (public_key_bytes iss) \<le> max_signer_message_bytes"
  using canonical_line_bound [of "public_key_document iss"] assms
  by (simp add: public_key_bytes_def public_key_document_def max_signer_message_bytes_def length_bytes_hex dec_int_def dec_nat.simps)

lemma verifier_of_public_document:
  assumes "public_key public = Some check" "length public = 32" "is_hex 64 (sha public)"
  shows "from_public_document sha public_key (public_key_bytes (new_issuer sha sign public)) =
    Inr \<lparr> public_check = check, verifier_key_id = sha public \<rparr>"
proof -
  let ?iss = "new_issuer sha sign public"
  define doc where "doc = the_obj (public_key_document ?iss)"
  have doc: "public_key_document ?iss = JObj doc" by (simp add: doc_def public_key_document_def)
  have "length (public_key_bytes ?iss) \<le> max_signer_message_bytes"
    using assms by (intro public_key_bytes_length) (simp_all add: new_issuer_def is_hex_def)
  moreover have "json_wf (JObj doc)" by (simp add: doc_def public_key_document_def)
  ultimately have read: "signer_document (public_key_bytes ?iss) = Inr doc"
    using signer_document_canonical [of doc] public_key_document_canon [of ?iss]
    by (simp add: public_key_bytes_def doc del: json_canon.simps)
  have "jget doc ''algorithm'' = JStr ''ed25519''" "jget doc ''key_id'' = JStr (sha public)"
    "jget doc ''public_key'' = JStr (bytes_hex public)" "jget doc ''schema_version'' = JInt 1"
    "has_fields [''algorithm'', ''key_id'', ''public_key'', ''schema_version''] doc"
    by (simp_all add: doc_def public_key_document_def new_issuer_def jget_def has_fields_def)
  then show ?thesis
    using assms by (simp add: from_public_document_def read py_eq_refl is_str_with_def bytes_fromhex_hex new_verifier_def)
qed

lemma canon_is_obj: "json_canon v = json_canon (JObj d) \<Longrightarrow> \<exists>d'. v = JObj d'"
  by (cases v) auto

lemma canon_obj_jget:
  assumes "json_canon v = json_canon (JObj e)" "json_wf v" "json_wf (JObj e)"
  obtains c where "v = JObj c" "wf_dict c" "json_wf (JObj c)" "\<And>k. json_canon (jget c k) = json_canon (jget e k)"
    "\<And>fs. has_fields fs c \<longleftrightarrow> has_fields fs e"
proof -
  obtain c where v: "v = JObj c" using canon_is_obj [OF assms(1)] by blast
  have w: "wf_dict c" "wf_dict e" using assms(2,3) v json_wf_dict by blast+
  have "json_canon (JObj c) = json_canon (JObj e)" using assms(1) unfolding v .
  note same = canon_same [OF this w]
  show thesis by (rule that [OF v w(1) _ same(1) same(2)]) (use assms(2) v in simp)
qed

lemma claims_shape_issued:
  assumes "jget c ''action'' = JStr act" "act \<in> set grant_actions" "jget c ''nonce'' = JStr nonce" "is_uuid4 nonce"
    "jget c ''node_ids'' = JList (map JStr (sort ms))" "ms \<noteq> []" "distinct ms" "list_all is_node_id ms"
    "jget c ''parent_job_id'' = JStr par" "is_uuid4 par" "jget c ''rollout_id'' = JStr roll" "is_uuid4 roll"
    "jget c ''schema_version'' = JInt 1" "has_fields claims_fields c"
  shows "claims_shape c = Inr ()"
  using assms by (simp add: claims_shape_def Let_def py_eq_refl in_names_def hash_ok_def is_str_with_def list_all_iff comp_def sorted_sort_id)

lemma grant_signature_issued:
  assumes sig: "json_canon v = json_canon (JObj [(''algorithm'', JStr ''ed25519''), (''key_id'', JStr (verifier_key_id ver)),
      (''value'', JStr (bytes_hex s))])" and wf: "json_wf v" and s: "length s = 64" "public_check ver s (canonical_line (JObj c))"
  shows "\<exists>sg. v = JObj sg \<and> grant_signature ver c sg = Inr ()"
proof -
  obtain sg where v: "v = JObj sg" and get: "\<And>k. json_canon (jget sg k) = json_canon (jget [(''algorithm'', JStr ''ed25519''),
      (''key_id'', JStr (verifier_key_id ver)), (''value'', JStr (bytes_hex s))] k)"
    and fields: "\<And>fs. has_fields fs sg \<longleftrightarrow> has_fields fs [(''algorithm'', JStr ''ed25519''),
      (''key_id'', JStr (verifier_key_id ver)), (''value'', JStr (bytes_hex s))]"
    using canon_obj_jget [OF sig wf] by auto
  have "jget sg ''algorithm'' = JStr ''ed25519''" "jget sg ''key_id'' = JStr (verifier_key_id ver)"
    "jget sg ''value'' = JStr (bytes_hex s)"
    using get [of "''algorithm''"] get [of "''key_id''"] get [of "''value''"] by (simp_all add: jget_def canon_atom)
  moreover have "has_fields [''algorithm'', ''key_id'', ''value''] sg" unfolding fields by (simp add: has_fields_def)
  moreover have "is_hex 128 (bytes_hex s)" using is_hex_bytes_hex [of s] s by simp
  ultimately show ?thesis using v s by (simp add: grant_signature_def is_str_with_def bytes_fromhex_hex)
qed

lemma verify_issued:
  assumes issued: "issue iss (AwareTime t0) nv a r p n t (JInt x) = Inr e"
    and keys: "verifier_key_id ver = key_id iss" "\<And>m. m = canonical_line (jget e ''claims'') \<Longrightarrow> public_check ver (private_sign iss m) m"
      "\<And>m. length (private_sign iss m) = 64"
    and request: "json_wf (JObj d)" "json_canon (jget d ''admin_grant'') = json_canon (JObj e)"
      "jget d ''action'' = a" "jget d ''rollout_id'' = r" "jget d ''parent_job_id'' = p"
      "jget d ''node_id'' \<in> set (the_list n)" "jget d ''target_release_digest'' = t"
      "number_of (jget d ''expires_at'') = Some y" "y \<le> x"
    and time: "t0 \<le> u" "epoch_seconds u < x"
  shows "verify_grant ver (AwareTime u) d = Inr ()"
proof -
  from issued obtain act roll par ms nonce where
    a: "a = JStr act" "act \<in> set grant_actions" and r: "r = JStr roll" "is_uuid4 roll" and p: "p = JStr par" "is_uuid4 par"
    and n: "n = JList (map JStr ms)" "ms \<noteq> []" "distinct ms" "list_all is_node_id ms"
    and t: "if act = ''agent.update'' then is_str_with release_digest_ok t else t = JNull"
    and x: "x \<le> epoch_seconds t0 + 3600" and nonce: "is_uuid4 nonce"
    and e: "e = grant_envelope iss (grant_claims act x nonce (sort ms) par roll t)"
    by (rule issue_Inr) (metis clock_value.inject json.inject(2))
  define g where "g = grant_claims act x nonce (sort ms) par roll t"
  have wg: "json_wf (JObj g)" unfolding g_def by (rule grant_claims_wf [OF grant_target_wf [OF t]])
  have we: "json_wf (JObj e)" unfolding e by (rule grant_envelope_wf [OF wg [unfolded g_def]])
  have ef: "has_fields [''claims'', ''signature''] e" by (simp add: e grant_envelope_def has_fields_def)
  obtain env where env: "jget d ''admin_grant'' = JObj env" "json_wf (JObj env)" "\<And>k. json_canon (jget env k) = json_canon (jget e k)"
    "has_fields [''claims'', ''signature''] env"
    by (rule canon_obj_jget [OF request(2) json_wf_jget [OF request(1)] we]) (use ef in blast)
  have eg: "jget e ''claims'' = JObj g" by (simp add: e g_def grant_envelope_def jget_def)
  obtain c where c: "jget env ''claims'' = JObj c" "wf_dict c" "json_canon (JObj c) = json_canon (JObj g)"
    using canon_obj_jget [OF _ json_wf_jget [OF env(2)] wg, of "''claims''"] env(3) [of "''claims''"] eg by metis
  note cj = claims_canon_jget [OF c(3) [unfolded g_def] c(2) t]
  have line: "canonical_line (JObj c) = canonical_line (JObj g)" using c(3) canonical_line_canon by metis
  obtain sg where sg: "jget env ''signature'' = JObj sg" "grant_signature ver c sg = Inr ()"
    using grant_signature_issued [OF _ json_wf_jget [OF env(2)], of "''signature''" ver "private_sign iss (canonical_line (JObj g))" c]
      env(3) [of "''signature''"] keys(1,3) keys(2) [of "canonical_line (JObj g)"] eg line
    by (auto simp: e g_def grant_envelope_def jget_def)
  have shape: "claims_shape c = Inr ()"
    by (rule claims_shape_issued [OF cj(1) a(2) cj(3) nonce cj(4) n(2-4) cj(5) p(2) cj(6) r(2) cj(7,9)])
  have window: "claims_window (AwareTime u) c = Inr ()"
    using t time x epoch_seconds_mono [OF time(1)] by (auto simp: claims_window_def cj raise_if_def split: if_splits)
  have "grant_covers c d"
    using request n t by (auto simp: grant_covers_def cj py_eq_refl py_eq_str a r p list_ex_iff number_of_def [of "JInt x"])
  then show ?thesis
    using shape window sg env c by (simp add: verify_grant_def Let_def is_obj_def)
qed

text \<open>C32: A grant is good until it expires. The signer reads the public document of the issuer, and it accepts a grant of that
  issuer, however the keys of the transported document are ordered, for every request that names the action, rollout,
  parent job and target of the grant, one of its nodes and a deadline within it, at every time before it expires.\<close>

theorem issued_grant_verifies:
  assumes issued: "issue (new_issuer sha sign public) (AwareTime t0) nv a r p n t (JInt x) = Inr e"
    and keys: "public_key public = Some check" "\<And>m. check (sign m) m" "\<And>m. length (sign m) = 64" "length public = 32"
      "is_hex 64 (sha public)"
    and request: "json_wf (JObj d)" "json_canon (jget d ''admin_grant'') = json_canon (JObj e)"
      "jget d ''action'' = a" "jget d ''rollout_id'' = r" "jget d ''parent_job_id'' = p"
      "jget d ''node_id'' \<in> set (the_list n)" "jget d ''target_release_digest'' = t"
      "number_of (jget d ''expires_at'') = Some y" "y \<le> x"
    and time: "t0 \<le> u" "epoch_seconds u < x"
  shows "\<exists>ver. from_public_document sha public_key (public_key_bytes (new_issuer sha sign public)) = Inr ver \<and>
    verify_grant ver (AwareTime u) d = Inr ()"
proof -
  let ?ver = "\<lparr> public_check = check, verifier_key_id = sha public \<rparr>"
  have "verify_grant ?ver (AwareTime u) d = Inr ()"
    by (rule verify_issued [OF issued _ _ _ request time]) (simp_all add: new_issuer_def keys(2,3))
  then show ?thesis using verifier_of_public_document [of public_key public check sha sign] keys(1,4,5) by blast
qed

section \<open>The client and the signer\<close>

text \<open>What the client meets when the signer handles its connection: the response in the chunks of \<open>back\<close>, or nothing.\<close>

definition exchange_with :: "(recv_event list \<Rightarrow> signer_error + string) \<Rightarrow> (string \<Rightarrow> string list) \<Rightarrow> (string \<Rightarrow> string list) \<Rightarrow>
    string \<Rightarrow> recv_event list option" where
  "exchange_with serve chunks_in chunks_out encoded =
    (case serve (map Arrived (chunks_in encoded)) of
       Inl e \<Rightarrow> Some []
     | Inr response \<Rightarrow> Some (map Arrived (chunks_out response)))"

definition chunking :: "(string \<Rightarrow> string list) \<Rightarrow> bool" where
  "chunking split_msg \<longleftrightarrow> (\<forall>m. concat (split_msg m) = m \<and> [] \<notin> set (split_msg m))"

lemma read_message_chunking:
  "chunking split_msg \<Longrightarrow> length m \<le> max_signer_message_bytes \<Longrightarrow> read_message (map Arrived (split_msg m)) [] = Inr m"
  using read_message_chunks [of "split_msg m" "[]"] by (simp add: chunking_def)

definition signer_response :: "json \<Rightarrow> string \<Rightarrow> (string, json) dict \<Rightarrow> (string, json) dict" where
  "signer_response intent digest_text payload =
     [(''intent_id'', intent), (''request_digest'', JStr digest_text), (''schema_version'', JInt 1),
      (''signed_payload'', JObj payload)]"

lemma handle_connection_ok:
  assumes "json_wf (JObj request)" "length (canonical_line (JObj request)) \<le> max_signer_message_bytes"
    "jget request ''intent_id'' = JStr i" "chunking split_msg"
    "authorize_request (json_canon (JObj request)) = Inr payload"
    "length (canonical_line (JObj (signer_response (JStr i) (sha (canonical_line (JObj request))) payload))) \<le> max_signer_message_bytes"
  shows "handle_connection sha authorize_request uid (Some uid) (map Arrived (split_msg (canonical_line (JObj request)))) =
    Inr (canonical_line (JObj (signer_response (JStr i) (sha (canonical_line (JObj request))) payload)))"
proof -
  obtain d where d: "json_canon (JObj request) = JObj d" by simp
  then have read: "signer_document (canonical_line (JObj request)) = Inr d"
    using signer_document_canonical [OF assms(1,2)] by simp
  have "jget d ''intent_id'' = JStr i"
    using jget_canon [OF json_wf_dict [OF assms(1)], of "''intent_id''"] d assms(3) by simp
  then show ?thesis
    using read_message_chunking [OF assms(4,2)] read assms(5,6) d
    by (simp add: handle_connection_def is_str_with_def signer_response_def Let_def raise_if_def)
qed

text \<open>C33: The signer's answer reaches the client. However the two messages are cut on their way, if the policy authorizes the request and both messages fit, the client gets the signed payload, in a response that names the digest of the request that it sent.\<close>

theorem signer_exchange:
  assumes "json_wf (JObj request)" "length (canonical_line (JObj request)) \<le> max_signer_message_bytes"
    "jget request ''intent_id'' = JStr i" "chunking chunks_in" "chunking chunks_out"
    "policy_authorize pol verify_now now (json_canon (JObj request)) = Inr payload" "json_wf (JObj payload)"
    "length (canonical_line (JObj (signer_response (JStr i) (sha (canonical_line (JObj request))) payload))) \<le> max_signer_message_bytes"
  shows "client_authorize sha
      (exchange_with (handle_connection sha (policy_authorize pol verify_now now) uid (Some uid)) chunks_in chunks_out)
      (JObj request) =
    Inr (the_obj (json_canon (JObj (signer_response (JStr i) (sha (canonical_line (JObj request))) payload))))"
proof -
  define resp where "resp = signer_response (JStr i) (sha (canonical_line (JObj request))) payload"
  have wf: "json_wf (JObj resp)" using assms(7) by (simp add: resp_def signer_response_def)
  obtain d where d: "json_canon (JObj resp) = JObj d" by simp
  have ex: "exchange_with (handle_connection sha (policy_authorize pol verify_now now) uid (Some uid)) chunks_in chunks_out
      (canonical_line (JObj request)) = Some (map Arrived (chunks_out (canonical_line (JObj resp))))"
    using handle_connection_ok [where authorize_request = "policy_authorize pol verify_now now" and sha = sha and uid = uid,
        OF assms(1-4,6,8)] by (simp add: exchange_with_def resp_def)
  have read: "read_message (map Arrived (chunks_out (canonical_line (JObj resp)))) [] = Inr (canonical_line (JObj resp))"
    by (rule read_message_chunking [OF assms(5)]) (use assms(8) resp_def in simp)
  have doc: "signer_document (canonical_line (JObj resp)) = Inr d"
    using signer_document_canonical [OF wf] assms(8) d by (simp add: resp_def)
  have get: "jget d k = json_canon (jget resp k)" for k
    using jget_canon [OF json_wf_dict [OF wf], of k] d by simp
  have fields: "has_fields [''intent_id'', ''request_digest'', ''schema_version'', ''signed_payload''] d"
    using keys_canon [of resp] d by (auto simp: has_fields_def resp_def signer_response_def)
  have "jget resp ''intent_id'' = JStr i" "jget resp ''request_digest'' = JStr (sha (canonical_line (JObj request)))"
    "jget resp ''schema_version'' = JInt 1" "jget resp ''signed_payload'' = JObj payload"
    by (simp_all add: resp_def signer_response_def jget_def)
  then show ?thesis
    using assms(2,3) ex read doc fields d unfolding resp_def [symmetric]
    by (simp add: client_authorize_def Let_def raise_if_def get py_eq_refl is_obj_def)
qed

text \<open>A response that the client accepts names the digest of the request, whatever the other side sends.\<close>

lemma client_accepts_bound:
  assumes "client_authorize sha exchange (JObj request) = Inr response"
  shows "jget response ''request_digest'' = JStr (sha (canonical_line (JObj request)))"
    "py_eq (jget response ''intent_id'') (jget request ''intent_id'')" "is_obj (jget response ''signed_payload'')"
  using assms by (auto simp: client_authorize_def Let_def result_simps split: option.splits)

section \<open>An update of one node\<close>

lemma uuid_norm_int: "uuid_norm s = map_option uuid_text (uuid_int s)"
  by (simp add: uuid_norm_def uuid_int_def Let_def split: option.split)

definition ex_uuid4 :: string where
  "ex_uuid4 = ''00000000-0000-4000-8000-000000000000''"

lemma ex_uuid_int: "uuid_int ex_uuid4 = Some 0x00000000000040008000000000000000"
proof -
  let ?h = "''00000000000040008000000000000000''"
  have "py_remove ''-'' ex_uuid4 = ?h" unfolding py_remove_char by (simp add: ex_uuid4_def)
  moreover have "py_remove ''urn:'' ex_uuid4 = ex_uuid4" by (rule py_remove_absent) (simp_all add: ex_uuid4_def)
  moreover have "py_remove ''uuid:'' ex_uuid4 = ex_uuid4" by (rule py_remove_absent) (simp_all add: ex_uuid4_def)
  moreover have "strip_chars ''{}'' ex_uuid4 = ex_uuid4" by (rule strip_chars_absent) (simp add: ex_uuid4_def)
  moreover have "int16 ?h = Some (hex_value ?h)" by (rule int16_hex) (simp_all add: is_hexchar_def is_digit_def between_def)
  moreover have "hex_value ?h = 0x00000000000040008000000000000000"
    by (simp add: hex_value_def hex_digit_val_def is_digit_def between_def)
  ultimately show ?thesis by (simp add: uuid_int_def)
qed

lemma ex_uuid4_ok: "is_uuid4 ex_uuid4"
proof -
  have "is_uuid ex_uuid4" by code_simp
  from uuid_norm_canonical [OF this] have "uuid_text 0x00000000000040008000000000000000 = ex_uuid4"
    by (simp add: uuid_norm_int ex_uuid_int)
  then show ?thesis unfolding is_uuid4_def ex_uuid_int by (simp add: uuid_version_def)
qed

definition ex_release :: string where
  "ex_release = ''sha256:'' @ replicate 64 CHR ''a''"

definition ex_sha :: "string \<Rightarrow> string" where
  "ex_sha m = replicate 64 CHR ''b''"

definition ex_public :: string where
  "ex_public = replicate 32 CHR ''k''"

definition ex_sign :: "string \<Rightarrow> string" where
  "ex_sign m = replicate 64 CHR ''s''"

definition ex_issuer :: grant_issuer where
  "ex_issuer = new_issuer ex_sha ex_sign ex_public"

definition ex_claims :: "(string, json) dict" where
  "ex_claims = grant_claims ''agent.update'' 100 ex_uuid4 [node_a] ex_uuid4 ex_uuid4 (JStr ex_release)"

definition ex_check :: "string \<Rightarrow> string \<Rightarrow> bool" where
  "ex_check s m \<longleftrightarrow> s = ex_sign m \<and> m = canonical_line (JObj ex_claims)"

definition ex_target_name :: string where
  "ex_target_name = ''platform/releases/1.2.3/'' @ replicate 64 CHR ''c'' @ ''.json''"

definition ex_request :: "(string, json) dict" where
  "ex_request =
    [(''action'', JStr ''agent.update''), (''admin_grant'', json_canon (JObj (grant_envelope ex_issuer ex_claims))),
     (''attempt'', JInt 1), (''claim_deadline'', JInt 90),
     (''expected_tuf_target_sha256'', JStr (replicate 64 CHR ''c'')), (''expected_tuf_targets_version'', JInt 7),
     (''expires_at'', JInt 90), (''fence'', JStr ex_uuid4), (''intent_id'', JStr ex_uuid4), (''node_id'', JStr node_a),
     (''operation_id'', JStr ex_uuid4), (''parent_job_id'', JStr ex_uuid4), (''payload'', JObj []),
     (''platform_target_name'', JStr ex_target_name), (''rollout_id'', JStr ex_uuid4), (''schema_version'', JInt 1),
     (''source'', JObj [(''generation'', JInt 4), (''sha256'', JStr (replicate 64 CHR ''d'')), (''slot'', JStr ''A'')]),
     (''target_release_digest'', JStr ex_release)]"

definition ex_policy :: signer_policy where
  "ex_policy =
    \<lparr> policy_authority = \<lparr>
        refresh_and_validate = (\<lambda>_ name. Inr \<lparr> payload_digest = [], prepared_release_digest = ex_release,
          prepared_platform_version = ''1.2.3'', prepared_build_digest = ''b'', prepared_target_name = name,
          prepared_target_sha256 = replicate 64 CHR ''c'', prepared_targets_version = 7 \<rparr>),
        authorize_update = (\<lambda>_ _ r. Inr [(''node_id'', receipt_node_id r)]),
        authorize_rollback = (\<lambda>_. Inl SignerValueError) \<rparr>,
      load_active = Inr (Some \<lparr> generation_id = ''g'', active_release_digest = ex_release, active_build_digest = ''b'',
        active_platform_version = ''1.2.3'', api_image = [], worker_image = [], migration_revision = [] \<rparr>),
      policy_verifier = \<lparr> public_check = ex_check, verifier_key_id = key_id ex_issuer \<rparr> \<rparr>"

lemma ex_release_ok: "release_digest_ok ex_release"
  by (simp add: release_digest_ok_def ex_release_def is_hex_def list_all_iff is_hexchar_def between_def)

lemma ex_node_ok: "is_node_id node_a"
  by code_simp

lemma ex_target_ok: "versioned_platform_target ex_target_name" "target_name_sha256 ex_target_name = replicate 64 CHR ''c''"
  by code_simp+

lemma ex_hex: "is_hex 64 (replicate 64 CHR ''c'')" "is_hex 64 (replicate 64 CHR ''d'')" "is_hex 64 (ex_sha m)"
  by (simp_all add: is_hex_def list_all_iff is_hexchar_def between_def ex_sha_def)

lemma ex_lengths [simp]: "length ex_uuid4 = 36" "length node_a = 36" "length ex_release = 71" "length (ex_sign m) = 64"
  "length ex_public = 32" "length (ex_sha m) = 64" "length ex_target_name = 93"
  by (simp_all add: ex_uuid4_def node_a_def ex_release_def ex_sign_def ex_public_def ex_sha_def ex_target_name_def)

lemma ex_key [simp]: "key_id ex_issuer = ex_sha ex_public" "private_sign ex_issuer = ex_sign" "public_bytes ex_issuer = ex_public"
  by (simp_all add: ex_issuer_def new_issuer_def)

lemma dec_int_small [simp]: "dec_int 1 = ''1''" "dec_int 7 = ''7''" "dec_int 4 = ''4''" "dec_int 90 = ''90''" "dec_int 100 = ''100''"
  by code_simp+

lemma ex_claims_bound: "json_bound (JObj ex_claims) \<le> 3000"
  by (simp add: ex_claims_def grant_claims_def)

lemma ex_grant_bound: "json_bound (JObj (grant_envelope ex_issuer ex_claims)) \<le> 5000"
  using ex_claims_bound by (simp add: grant_envelope_def length_bytes_hex)

lemma ex_issued:
  "issue ex_issuer (AwareTime 0) (Some ex_uuid4) (JStr ''agent.update'') (JStr ex_uuid4) (JStr ex_uuid4) (JList [JStr node_a])
     (JStr ex_release) (JInt 100) = Inr (grant_envelope ex_issuer ex_claims)"
  using canonical_line_bound [of "JObj ex_claims"] canonical_line_bound [of "JObj (grant_envelope ex_issuer ex_claims)"] ex_claims_bound ex_grant_bound
  by (simp add: issue_def is_str_with_def grant_actions_def str_of_def grant_uuid4_def ex_uuid4_ok grant_nodes_def max_grant_nodes_def
      ex_node_ok grant_target_def ex_release_ok grant_expiry_def epoch_seconds_def max_grant_seconds_def max_grant_bytes_def
      flip: ex_claims_def)

lemma ex_request_get:
  "jget ex_request ''action'' = JStr ''agent.update''" "jget ex_request ''admin_grant'' = json_canon (JObj (grant_envelope ex_issuer ex_claims))"
  "jget ex_request ''attempt'' = JInt 1" "jget ex_request ''claim_deadline'' = JInt 90"
  "jget ex_request ''expected_tuf_target_sha256'' = JStr (replicate 64 CHR ''c'')"
  "jget ex_request ''expected_tuf_targets_version'' = JInt 7" "jget ex_request ''expires_at'' = JInt 90"
  "jget ex_request ''fence'' = JStr ex_uuid4" "jget ex_request ''intent_id'' = JStr ex_uuid4" "jget ex_request ''node_id'' = JStr node_a"
  "jget ex_request ''operation_id'' = JStr ex_uuid4" "jget ex_request ''parent_job_id'' = JStr ex_uuid4"
  "jget ex_request ''payload'' = JObj []" "jget ex_request ''platform_target_name'' = JStr ex_target_name"
  "jget ex_request ''rollout_id'' = JStr ex_uuid4" "jget ex_request ''schema_version'' = JInt 1"
  "jget ex_request ''source'' = JObj [(''generation'', JInt 4), (''sha256'', JStr (replicate 64 CHR ''d'')), (''slot'', JStr ''A'')]"
  "jget ex_request ''target_release_digest'' = JStr ex_release"
  unfolding ex_request_def jget_def by (simp_all del: json_canon.simps)

lemma ex_grant_wf: "json_wf (JObj (grant_envelope ex_issuer ex_claims))"
  unfolding ex_claims_def by (rule grant_envelope_wf [OF grant_claims_wf]) simp

lemma ex_request_wf: "json_wf (JObj ex_request)"
  using json_wf_canon [OF ex_grant_wf] by (simp add: ex_request_def del: json_canon.simps)

lemma ex_request_canon: "json_canon (JObj ex_request) = JObj ex_request"
proof -
  define env where "env = json_canon (JObj (grant_envelope ex_issuer ex_claims))"
  have "json_canon env = env" by (simp add: env_def json_canon_idem del: json_canon.simps)
  then show ?thesis unfolding ex_request_def env_def [symmetric] by simp
qed

lemma ex_request_fields: "has_fields (request_common_fields @ request_update_fields) ex_request"
  unfolding has_fields_all ex_request_def request_common_fields_def request_update_fields_def by (simp del: json_canon.simps)

lemma ex_request_ok: "signer_request (JObj ex_request) = Inr ex_request"
proof -
  have s: "request_source (jget ex_request ''source'') = Inr ()"
    unfolding ex_request_get(17)
    by (simp add: request_source_def Let_def is_obj_def has_fields_def in_names_def hash_ok_def is_str_with_def jget_def ex_hex)
  have i: "request_identity ex_request name = Inr ()" if "jget ex_request name = JStr ex_uuid4" for name
    using that by (simp add: request_identity_def is_str_with_def ex_uuid4_ok)
  have t: "request_update_target ex_request = Inr ()"
    by (simp add: request_update_target_def ex_request_get is_obj_def is_str_with_def ex_release_ok ex_target_ok ex_hex)
  have g: "is_obj (jget ex_request ''admin_grant'')" by (simp add: ex_request_get is_obj_def)
  show ?thesis
    using ex_request_fields s t g
    by (simp add: signer_request_def Let_def ex_request_get(1,3,4,7,10,16) py_eq_refl in_names_def hash_ok_def is_str_with_def grant_actions_def is_jint_def
        ex_node_ok i ex_request_get)
qed

lemma ex_verified: "verify_grant (policy_verifier ex_policy) (AwareTime 5000000) ex_request = Inr ()"
proof (rule verify_issued [OF ex_issued _ _ _ ex_request_wf])
  show "json_canon (jget ex_request ''admin_grant'') = json_canon (JObj (grant_envelope ex_issuer ex_claims))"
    unfolding ex_request_get(2) json_canon_idem ..
  show "epoch_seconds 5000000 < 100" by (simp add: epoch_seconds_def)
  show "number_of (jget ex_request ''expires_at'') = Some 90" by (simp add: ex_request_get(7) number_of_def)
  show "public_check (policy_verifier ex_policy) (private_sign ex_issuer m) m"
    if "m = canonical_line (jget (grant_envelope ex_issuer ex_claims) ''claims'')" for m
    using that by (simp add: ex_policy_def ex_check_def grant_envelope_def jget_def)
qed (simp_all add: ex_request_get(1,10,12,15,18) ex_policy_def)

lemma ex_authorized:
  "policy_authorize ex_policy (AwareTime 5000000) (AwareTime 6000000) (JObj ex_request) = Inr [(''node_id'', JStr node_a)]"
  using ex_verified
  by (simp add: policy_authorize_def ex_request_ok ex_request_get(1,5,6,10,14,18) receipt_of_def Let_def) (simp add: ex_policy_def)


theorem issued_grant_verifies_witness:
  "\<exists>ver. from_public_document ex_sha (\<lambda>_. Some (\<lambda>s m. s = ex_sign m)) (public_key_bytes (new_issuer ex_sha ex_sign ex_public)) = Inr ver \<and>
     verify_grant ver (AwareTime 5000000) ex_request = Inr ()"
proof (rule issued_grant_verifies [where check = "\<lambda>s m. s = ex_sign m" and y = 90,
      OF ex_issued [unfolded ex_issuer_def] _ _ _ _ _ ex_request_wf])
  show "json_canon (jget ex_request ''admin_grant'') = json_canon (JObj (grant_envelope (new_issuer ex_sha ex_sign ex_public) ex_claims))"
    unfolding ex_request_get(2) json_canon_idem ex_issuer_def ..
  show "epoch_seconds 5000000 < 100" by (simp add: epoch_seconds_def)
  show "number_of (jget ex_request ''expires_at'') = Some 90" by (simp add: ex_request_get(7) number_of_def)
qed (simp_all add: ex_request_get(1,10,12,15,18) ex_hex)

definition whole :: "string \<Rightarrow> string list" where
  "whole m = (if m = [] then [] else [m])"

lemma chunking_whole: "chunking whole"
  by (simp add: chunking_def whole_def)

lemma ex_request_short: "length (canonical_line (JObj ex_request)) \<le> max_signer_message_bytes"
proof -
  define env where "env = json_canon (JObj (grant_envelope ex_issuer ex_claims))"
  have "json_bound env \<le> 5000" using ex_grant_bound unfolding env_def json_bound_canon .
  then have "json_bound (JObj ex_request) \<le> 20000" unfolding ex_request_def env_def [symmetric] by simp
  then show ?thesis using canonical_line_bound [of "JObj ex_request"] by (simp add: max_signer_message_bytes_def)
qed

lemma ex_response_short:
  "length (canonical_line (JObj (signer_response (JStr ex_uuid4) (ex_sha m) [(''node_id'', JStr node_a)]))) \<le> max_signer_message_bytes"
  using canonical_line_bound [of "JObj (signer_response (JStr ex_uuid4) (ex_sha m) [(''node_id'', JStr node_a)])"]
  by (simp add: signer_response_def max_signer_message_bytes_def)

theorem signer_exchange_witness:
  "client_authorize ex_sha
      (exchange_with (handle_connection ex_sha (policy_authorize ex_policy (AwareTime 5000000) (AwareTime 6000000)) 10001 (Some 10001))
        whole whole) (JObj ex_request) =
    Inr (the_obj (json_canon (JObj (signer_response (JStr ex_uuid4) (ex_sha (canonical_line (JObj ex_request)))
      [(''node_id'', JStr node_a)]))))"
  by (rule signer_exchange [OF ex_request_wf ex_request_short ex_request_get(9) chunking_whole chunking_whole _ _ ex_response_short])
     (simp_all only: ex_request_canon ex_authorized, simp)

end
