(* ===== verification/Update_Planning.thy ===== *)
theory Update_Planning
  imports Update_Signing Job_Queue
begin

text \<open>
  The planning of agent updates, from \<^verbatim>\<open>updates.py\<close>: the observations of the fleet and their checks, the version-skew
  analysis, the batches of a rollout, the persisted plan with its digests and its validation, and the rows that
  \<^verbatim>\<open>UpdateOrchestrator.create\<close> writes.

  A \<^verbatim>\<open>datetime\<close> is its instant in microseconds with its UTC offset, if it has one; \<open>isof\<close> is \<^verbatim>\<open>isoformat\<close> and \<open>sha\<close> the
  hexadecimal SHA-256 of bytes. The fields of a dataclass have their declared types, so that the \<^verbatim>\<open>isinstance\<close> tests of
  \<^verbatim>\<open>__post_init__\<close> hold.
\<close>

section \<open>The target platform\<close>

type_synonym py_datetime = "int \<times> int option"

record platform_artifact =
  pa_architecture :: string
  pa_oci_manifest_digest :: string
  pa_payload_name :: string
  pa_payload_sha256 :: string
  pa_payload_size :: int

definition agent_architectures :: "string list" where
  "agent_architectures = [''linux-arm64'', ''linux-x86_64'']"

definition payload_name_char :: "char \<Rightarrow> bool" where
  "payload_name_char c \<longleftrightarrow> is_lower_alnum c \<or> c \<in> {CHR ''.'', CHR ''_'', CHR ''-''}"

definition artifact_check :: "platform_artifact \<Rightarrow> platform_artifact result" where
  "artifact_check a =
     raise_if (pa_architecture a \<notin> set agent_architectures) (ValueError ''platform agent architecture is invalid'') (
     raise_if (\<not> release_digest_ok (pa_oci_manifest_digest a)) (ValueError ''platform agent OCI digest is invalid'') (
     raise_if (\<not> is_slug payload_name_char (pa_payload_name a)) (ValueError ''platform agent payload name is invalid'') (
     raise_if (\<not> is_hex 64 (pa_payload_sha256 a)) (ValueError ''platform agent payload digest is invalid'') (
     raise_if (\<not> (64 \<le> pa_payload_size a \<and> pa_payload_size a \<le> 256 * 1024 * 1024))
       (ValueError ''platform agent payload size is invalid'') (Inr a)))))"

text \<open>\<^verbatim>\<open>_SEMVER\<close>: three numbers without leading zeros; \<^verbatim>\<open>_version_tuple\<close> reads them.\<close>

definition semver_number :: "string \<Rightarrow> (nat \<times> string) option" where
  "semver_number s =
    (let d = takeWhile is_digit s in
     if d = ''0'' \<or> d \<noteq> [] \<and> hd d \<noteq> CHR ''0'' then Some (dec_val d, dropWhile is_digit s) else None)"

definition semver_match :: "string \<Rightarrow> (nat \<times> nat \<times> nat) option" where
  "semver_match s =
    (case semver_number s of
       Some (a, CHR ''.'' # r) \<Rightarrow>
         (case semver_number r of
            Some (b, CHR ''.'' # r') \<Rightarrow> (case semver_number r' of Some (c, []) \<Rightarrow> Some (a, b, c) | _ \<Rightarrow> None)
          | _ \<Rightarrow> None)
     | _ \<Rightarrow> None)"

definition is_semver :: "string \<Rightarrow> bool" where
  "is_semver s \<longleftrightarrow> semver_match s \<noteq> None"

definition version_tuple :: "string \<Rightarrow> (nat \<times> nat \<times> nat) result" where
  "version_tuple s =
    (case semver_match s of None \<Rightarrow> Inl (ValueError ''semantic version is invalid'') | Some t \<Rightarrow> Inr t)"

definition commit_ok :: "string \<Rightarrow> bool" where
  "commit_ok s \<longleftrightarrow> 40 \<le> length s \<and> length s \<le> 64 \<and> list_all is_hexchar s"

record target_platform =
  tp_platform_version :: string
  tp_build_digest :: string
  tp_release_digest :: string
  tp_base_commit :: string
  tp_protocol_minimum :: int
  tp_protocol_maximum :: int
  tp_tuf_targets_version :: int
  tp_artifacts :: "platform_artifact list"

definition target_check :: "target_platform \<Rightarrow> target_platform result" where
  "target_check t =
     raise_if (\<not> is_semver (tp_platform_version t)) (ValueError ''target platform version is invalid'') (
     raise_if (\<not> release_digest_ok (tp_build_digest t) \<or> \<not> release_digest_ok (tp_release_digest t))
       (ValueError ''target platform digest is invalid'') (
     raise_if (\<not> commit_ok (tp_base_commit t)) (ValueError ''target platform commit is invalid'') (
     raise_if (\<not> (1 \<le> tp_protocol_minimum t \<and> tp_protocol_minimum t \<le> tp_protocol_maximum t \<and> tp_protocol_maximum t \<le> 65535) \<or>
         tp_tuf_targets_version t < 1) (ValueError ''target protocol range is invalid'') (
     let architectures = map pa_architecture (tp_artifacts t) in
     raise_if (architectures = [] \<or> \<not> distinct architectures)
       (ValueError ''target platform agent artifacts are invalid'') (Inr t)))))"

text \<open>\<^verbatim>\<open>str.removeprefix("sha256:")\<close>.\<close>

definition strip_sha256 :: "string \<Rightarrow> string" where
  "strip_sha256 s = (if starts_with ''sha256:'' s then drop 7 s else s)"

definition target_sha256 :: "target_platform \<Rightarrow> string" where
  "target_sha256 t = strip_sha256 (tp_release_digest t)"

definition release_target_name :: "string \<Rightarrow> string \<Rightarrow> string" where
  "release_target_name version sha256 = ''platform/releases/'' @ version @ ''/'' @ sha256 @ ''.json''"

definition target_name :: "target_platform \<Rightarrow> string" where
  "target_name t = release_target_name (tp_platform_version t) (target_sha256 t)"

section \<open>Observations of agents\<close>

record agent_observation =
  ao_node_id :: string
  ao_state :: string
  ao_online :: bool
  ao_architecture :: string
  ao_platform_version :: "string option"
  ao_build_digest :: "string option"
  ao_protocol_version :: "int option"
  ao_active_slot :: "string option"
  ao_agent_sha256 :: "string option"
  ao_supervisor_generation :: "int option"
  ao_capabilities :: "string list"
  ao_last_seen_at :: "py_datetime option"
  ao_supervisor_ready_generation :: "int option"
  ao_self_test_passed :: bool
  ao_contact_certificate_serial :: "string option"
  ao_contact_observation_digest :: "string option"

text \<open>A test on a value that may be absent.\<close>

definition if_present :: "('a \<Rightarrow> bool) \<Rightarrow> 'a option \<Rightarrow> bool" where
  "if_present P v = (case v of None \<Rightarrow> True | Some x \<Rightarrow> P x)"

definition generation_ok :: "int \<Rightarrow> bool" where
  "generation_ok g \<longleftrightarrow> 1 \<le> g \<and> g \<le> 999999999"

definition observation_check :: "agent_observation \<Rightarrow> agent_observation result" where
  "observation_check ob =
     raise_if (\<not> is_node_id (ao_node_id ob)) (ValueError ''agent node ID is invalid'') (
     raise_if (ao_state ob \<notin> {''active'', ''retired'', ''revoked'', ''pending''})
       (ValueError ''agent lifecycle state is invalid'') (
     raise_if (ao_architecture ob \<notin> set agent_architectures) (ValueError ''agent architecture is invalid'') (
     raise_if (\<not> if_present is_semver (ao_platform_version ob)) (ValueError ''agent platform version is invalid'') (
     raise_if (\<not> if_present release_digest_ok (ao_build_digest ob)) (ValueError ''agent build digest is invalid'') (
     raise_if (\<not> if_present (\<lambda>p. 1 \<le> p \<and> p \<le> 65535) (ao_protocol_version ob))
       (ValueError ''agent protocol version is invalid'') (
     raise_if (\<not> if_present (\<lambda>s. s \<in> {''A'', ''B''}) (ao_active_slot ob)) (ValueError ''agent active slot is invalid'') (
     raise_if (\<not> if_present (is_hex 64) (ao_agent_sha256 ob)) (ValueError ''agent executable digest is invalid'') (
     raise_if (\<not> if_present generation_ok (ao_supervisor_generation ob))
       (ValueError ''agent supervisor generation is invalid'') (
     raise_if (\<not> distinct (ao_capabilities ob) \<or> [] \<in> set (ao_capabilities ob))
       (ValueError ''agent capabilities are invalid'') (
     raise_if (\<not> if_present (\<lambda>t. snd t \<noteq> None) (ao_last_seen_at ob))
       (ValueError ''agent last-seen timestamp must be timezone-aware'') (
     raise_if (\<not> if_present generation_ok (ao_supervisor_ready_generation ob) \<or>
         (ao_self_test_passed ob \<and> ao_supervisor_ready_generation ob = None) \<or>
         \<not> if_present (is_hex 64) (ao_contact_observation_digest ob) \<or>
         \<not> if_present (\<lambda>s. s \<noteq> [] \<and> length s \<le> 128) (ao_contact_certificate_serial ob))
       (ValueError ''agent authenticated readiness evidence is invalid'') (Inr ob))))))))))))"

section \<open>Version skew\<close>

record node_skew =
  sk_node_id :: string
  sk_status :: string
  sk_compatible :: bool
  sk_update_required :: bool
  sk_reasons :: "string list"

definition skew :: "agent_observation \<Rightarrow> string \<Rightarrow> bool \<Rightarrow> bool \<Rightarrow> string list \<Rightarrow> node_skew" where
  "skew ob status compatible update reasons =
    \<lparr> sk_node_id = ao_node_id ob, sk_status = status, sk_compatible = compatible, sk_update_required = update,
      sk_reasons = reasons \<rparr>"

definition missing_identity :: "agent_observation \<Rightarrow> string list" where
  "missing_identity ob =
     (if ao_platform_version ob = None then [''missing-platform-version''] else []) @
     (if ao_build_digest ob = None then [''missing-build-digest''] else []) @
     (if ao_protocol_version ob = None then [''missing-protocol-version''] else []) @
     (if ao_active_slot ob = None then [''missing-active-slot''] else []) @
     (if ao_agent_sha256 ob = None then [''missing-agent-sha256''] else []) @
     (if ao_supervisor_generation ob = None then [''missing-supervisor-generation''] else [])"

definition node_skew_of :: "target_platform \<Rightarrow> agent_observation \<Rightarrow> node_skew result" where
  "node_skew_of t ob =
    (if ao_state ob = ''retired'' then Inr (skew ob ''retired'' True False [])
     else if ao_state ob \<noteq> ''active'' then Inr (skew ob ''incompatible'' False False [''agent-not-active''])
     else if missing_identity ob \<noteq> [] then Inr (skew ob ''incompatible'' False False (missing_identity ob))
     else if \<not> (tp_protocol_minimum t \<le> the (ao_protocol_version ob) \<and> the (ao_protocol_version ob) \<le> tp_protocol_maximum t) then
       Inr (skew ob ''incompatible'' False False [''protocol-outside-target-range''])
     else
       rbind (version_tuple (the (ao_platform_version ob))) (\<lambda>current_version.
       rbind (version_tuple (tp_platform_version t)) (\<lambda>target_version.
       if current_version > target_version then Inr (skew ob ''incompatible'' False False [''agent-newer-than-control''])
       else
         let update = (the (ao_platform_version ob) \<noteq> tp_platform_version t \<or> the (ao_build_digest ob) \<noteq> tp_build_digest t) in
         if \<not> ao_online ob then
           Inr (skew ob (if update then ''offline-pending'' else ''offline-current'') True update [''agent-offline''])
         else if \<not> update then Inr (skew ob ''current'' True False [])
         else if \<not> {''agent.rollback'', ''agent.update''} \<subseteq> set (ao_capabilities ob) then
           Inr (skew ob ''incompatible'' False True [''agent-update-capability-absent''])
         else if current_version = target_version then
           Inr (skew ob ''build-mismatch'' True True [''build-digest-differs''])
         else Inr (skew ob ''update-available'' True True [''control-release-newer'']))))"

record skew_report =
  sr_nodes :: "node_skew list"
  sr_affected_nodes :: "string list"
  sr_incompatible_nodes :: "string list"
  sr_prompt_required :: bool

definition compare_skew :: "target_platform \<Rightarrow> agent_observation list \<Rightarrow> skew_report result" where
  "compare_skew t obs =
     raise_if (\<not> distinct (map ao_node_id obs)) (ValueError ''agent observations overlap'') (
     rbind (map_r (node_skew_of t) (sort_key ao_node_id obs)) (\<lambda>ns.
     let affected = map sk_node_id (filter (\<lambda>s. sk_update_required s \<and> sk_status s \<noteq> ''retired'') ns) in
     Inr \<lparr> sr_nodes = ns, sr_affected_nodes = affected,
       sr_incompatible_nodes = map sk_node_id (filter (\<lambda>s. \<not> sk_compatible s \<and> sk_status s \<noteq> ''retired'') ns),
       sr_prompt_required = (affected \<noteq> []) \<rparr>))"

section \<open>Workloads, exclusions and policies\<close>

record replica_observation =
  ro_node_id :: string
  ro_healthy :: bool
  ro_serving :: bool
  ro_observed_at :: py_datetime
  ro_evidence_digest :: string

definition replica_check :: "replica_observation \<Rightarrow> replica_observation result" where
  "replica_check r =
     raise_if (\<not> is_node_id (ro_node_id r) \<or> snd (ro_observed_at r) = None \<or> \<not> is_hex 64 (ro_evidence_digest r))
       (ValueError ''workload replica observation is invalid'') (Inr r)"

record distributed_workload =
  dw_workload_id :: string
  dw_members :: "string list"
  dw_minimum_available :: int
  dw_replicas :: "replica_observation list"

definition workload_check :: "distributed_workload \<Rightarrow> distributed_workload result" where
  "workload_check w =
     raise_if (dw_workload_id w = [] \<or> length (dw_workload_id w) > 128) (ValueError ''workload ID is invalid'') (
     raise_if (dw_members w = [] \<or> \<not> distinct (dw_members w) \<or> \<not> list_all is_node_id (dw_members w))
       (ValueError ''workload members are invalid'') (
     raise_if (\<not> (0 \<le> dw_minimum_available w \<and> dw_minimum_available w \<le> int (length (dw_members w))))
       (ValueError ''workload availability bound is invalid'') (
     raise_if (dw_replicas w \<noteq> [] \<and>
         (\<not> distinct (map ro_node_id (dw_replicas w)) \<or> set (map ro_node_id (dw_replicas w)) \<noteq> set (dw_members w)))
       (ValueError ''workload replica observations are incomplete'') (Inr w))))"

record topology_exclusion =
  te_exclusion_id :: string
  te_members :: "string list"
  te_maximum_unavailable :: int

definition exclusion_check :: "topology_exclusion \<Rightarrow> topology_exclusion result" where
  "exclusion_check x =
     raise_if (te_exclusion_id x = [] \<or> length (te_exclusion_id x) > 128) (ValueError ''topology exclusion ID is invalid'') (
     raise_if (length (te_members x) < 2 \<or> \<not> distinct (te_members x) \<or> \<not> list_all is_node_id (te_members x) \<or>
         \<not> (1 \<le> te_maximum_unavailable x \<and> te_maximum_unavailable x < int (length (te_members x))))
       (ValueError ''topology exclusion is invalid'') (Inr x))"

record rollout_policy =
  rp_batch_size :: int
  rp_soak_seconds :: int
  rp_preferred_canary :: "string option"

definition policy_check :: "rollout_policy \<Rightarrow> rollout_policy result" where
  "policy_check p =
     raise_if (\<not> (1 \<le> rp_batch_size p \<and> rp_batch_size p \<le> 1024) \<or> \<not> (0 \<le> rp_soak_seconds p \<and> rp_soak_seconds p \<le> 86400))
       (ValueError ''rollout policy bounds are invalid'') (
     raise_if (\<not> if_present is_node_id (rp_preferred_canary p)) (ValueError ''preferred canary is invalid'') (Inr p))"

section \<open>Batches\<close>

definition conflicts :: "string \<Rightarrow> string list \<Rightarrow> distributed_workload list \<Rightarrow> topology_exclusion list \<Rightarrow> bool" where
  "conflicts candidate batch ws xs \<longleftrightarrow>
     list_ex (\<lambda>w. candidate \<in> set (dw_members w) \<and> set batch \<inter> set (dw_members w) \<noteq> {}) ws \<or>
     list_ex (\<lambda>x. candidate \<in> set (te_members x) \<and>
       int (card (set batch \<inter> set (te_members x))) \<ge> te_maximum_unavailable x) xs"

text \<open>The inner loop: nodes join the batch or are deferred.\<close>

fun fill_batch :: "int \<Rightarrow> distributed_workload list \<Rightarrow> topology_exclusion list \<Rightarrow> string list \<Rightarrow> string list \<Rightarrow> string list \<Rightarrow>
    string list \<times> string list" where
  "fill_batch limit ws xs [] batch deferred = (batch, deferred)"
| "fill_batch limit ws xs (n # ns) batch deferred =
    (if int (length batch) \<ge> limit \<or> conflicts n batch ws xs then fill_batch limit ws xs ns batch (deferred @ [n])
     else fill_batch limit ws xs ns (batch @ [n]) deferred)"

text \<open>One turn of the outer loop: an empty batch takes the first deferred node.\<close>

definition next_batch :: "int \<Rightarrow> distributed_workload list \<Rightarrow> topology_exclusion list \<Rightarrow> string list \<Rightarrow>
    string list \<times> string list" where
  "next_batch limit ws xs remaining =
    (case fill_batch limit ws xs remaining [] [] of
       (batch, deferred) \<Rightarrow> if batch = [] then ([hd deferred], tl deferred) else (batch, deferred))"

lemma fill_batch_length:
  "fill_batch limit ws xs ns batch deferred = (b, d) \<Longrightarrow>
     length b + length d = length ns + length batch + length deferred \<and> length batch \<le> length b"
  by (induction limit ws xs ns batch deferred rule: fill_batch.induct) (fastforce split: if_splits)+

lemma next_batch_shrinks:
  assumes "next_batch limit ws xs ns = (b, d)" "ns \<noteq> []"
  shows "length d < length ns"
proof -
  obtain b0 d0 where f: "fill_batch limit ws xs ns [] [] = (b0, d0)" by fastforce
  from fill_batch_length [OF f] assms f show ?thesis
    by (cases b0; cases d0) (auto simp: next_batch_def)
qed

function batch_loop :: "int \<Rightarrow> distributed_workload list \<Rightarrow> topology_exclusion list \<Rightarrow> string list \<Rightarrow> string list list" where
  "batch_loop limit ws xs remaining =
    (if remaining = [] then []
     else case next_batch limit ws xs remaining of (batch, deferred) \<Rightarrow> batch # batch_loop limit ws xs deferred)"
  by pat_completeness auto
termination
  by (relation "measure (\<lambda>(limit, ws, xs, remaining). length remaining)") (auto dest: next_batch_shrinks [OF sym])

declare batch_loop.simps [simp del]

section \<open>Documents and digests\<close>

definition opt_int :: "int option \<Rightarrow> json" where
  "opt_int v = (case v of None \<Rightarrow> JNull | Some i \<Rightarrow> JInt i)"

definition opt_string :: "string option \<Rightarrow> json" where
  "opt_string v = (case v of None \<Rightarrow> JNull | Some s \<Rightarrow> JStr s)"

definition prefixed_digest :: "(string \<Rightarrow> string) \<Rightarrow> json \<Rightarrow> string" where
  "prefixed_digest sha v = ''sha256:'' @ sha (canonical_line v)"

definition raw_digest :: "string \<Rightarrow> string result" where
  "raw_digest s =
     raise_if (\<not> release_digest_ok s) (ValueError ''prefixed SHA-256 digest is invalid'') (Inr (strip_sha256 s))"

definition artifact_document :: "platform_artifact \<Rightarrow> json" where
  "artifact_document a = JObj
    [(''architecture'', JStr (pa_architecture a)), (''oci_manifest_digest'', JStr (pa_oci_manifest_digest a)),
     (''payload_name'', JStr (pa_payload_name a)), (''payload_sha256'', JStr (pa_payload_sha256 a)),
     (''payload_size'', JInt (pa_payload_size a))]"

definition target_document :: "target_platform \<Rightarrow> json" where
  "target_document t = JObj
    [(''platform_version'', JStr (tp_platform_version t)), (''build_digest'', JStr (tp_build_digest t)),
     (''release_digest'', JStr (tp_release_digest t)), (''base_commit'', JStr (tp_base_commit t)),
     (''protocol_minimum'', JInt (tp_protocol_minimum t)), (''protocol_maximum'', JInt (tp_protocol_maximum t)),
     (''tuf_targets_version'', JInt (tp_tuf_targets_version t)),
     (''artifacts'', JList (map artifact_document (tp_artifacts t))),
     (''target_name'', JStr (target_name t)), (''target_sha256'', JStr (target_sha256 t))]"

definition observation_document :: "(py_datetime \<Rightarrow> string) \<Rightarrow> agent_observation \<Rightarrow> json" where
  "observation_document isof ob = JObj
    [(''node_id'', JStr (ao_node_id ob)), (''state'', JStr (ao_state ob)), (''online'', JBool (ao_online ob)),
     (''architecture'', JStr (ao_architecture ob)), (''platform_version'', opt_string (ao_platform_version ob)),
     (''build_digest'', opt_string (ao_build_digest ob)), (''protocol_version'', opt_int (ao_protocol_version ob)),
     (''active_slot'', opt_string (ao_active_slot ob)), (''agent_sha256'', opt_string (ao_agent_sha256 ob)),
     (''supervisor_generation'', opt_int (ao_supervisor_generation ob)),
     (''capabilities'', JList (map JStr (ao_capabilities ob))),
     (''last_seen_at'', opt_string (map_option isof (ao_last_seen_at ob))),
     (''supervisor_ready_generation'', opt_int (ao_supervisor_ready_generation ob)),
     (''self_test_passed'', JBool (ao_self_test_passed ob)),
     (''contact_certificate_serial'', opt_string (ao_contact_certificate_serial ob)),
     (''contact_observation_digest'', opt_string (ao_contact_observation_digest ob))]"

definition replica_document :: "(py_datetime \<Rightarrow> string) \<Rightarrow> replica_observation \<Rightarrow> json" where
  "replica_document isof r = JObj
    [(''evidence_digest'', JStr (ro_evidence_digest r)), (''healthy'', JBool (ro_healthy r)),
     (''node_id'', JStr (ro_node_id r)), (''observed_at'', JStr (isof (ro_observed_at r))),
     (''serving'', JBool (ro_serving r))]"

definition workload_document :: "(py_datetime \<Rightarrow> string) \<Rightarrow> distributed_workload \<Rightarrow> json" where
  "workload_document isof w = JObj
    [(''members'', JList (map JStr (dw_members w))), (''minimum_available'', JInt (dw_minimum_available w)),
     (''replicas'', JList (map (replica_document isof) (dw_replicas w))), (''workload_id'', JStr (dw_workload_id w))]"

definition exclusion_document :: "topology_exclusion \<Rightarrow> json" where
  "exclusion_document x = JObj
    [(''exclusion_id'', JStr (te_exclusion_id x)), (''members'', JList (map JStr (te_members x))),
     (''maximum_unavailable'', JInt (te_maximum_unavailable x))]"

definition policy_document :: "rollout_policy \<Rightarrow> json" where
  "policy_document p = JObj
    [(''batch_size'', JInt (rp_batch_size p)), (''soak_seconds'', JInt (rp_soak_seconds p)),
     (''preferred_canary'', opt_string (rp_preferred_canary p))]"

section \<open>The planner\<close>

record update_plan =
  up_target :: target_platform
  up_canary_node :: "string option"
  up_batches :: "string list list"
  up_offline_pending :: "string list"
  up_incompatible :: "string list"
  up_soak_seconds :: int
  up_fleet_digest :: string
  up_topology_digest :: string
  up_agent_input_digest :: string
  up_node_architectures :: "(string \<times> string) list"
  up_source_observations :: "agent_observation list"
  up_workloads :: "distributed_workload list"
  up_topology_exclusions :: "topology_exclusion list"
  up_policy :: rollout_policy
  up_plan_digest :: string

text \<open>A member that counts as available: active, online and, where replicas are reported, healthy and serving.\<close>

definition member_available :: "agent_observation list \<Rightarrow> distributed_workload \<Rightarrow> string \<Rightarrow> bool" where
  "member_available obs w n =
    (case map_of (map (\<lambda>ob. (ao_node_id ob, ob)) obs) n of
       None \<Rightarrow> False
     | Some ob \<Rightarrow> ao_state ob = ''active'' \<and> ao_online ob \<and>
         (dw_replicas w = [] \<or>
          list_ex (\<lambda>r. ro_node_id r = n \<and> ro_healthy r \<and> ro_serving r) (dw_replicas w)))"

definition eligible_nodes :: "skew_report \<Rightarrow> string list" where
  "eligible_nodes report =
     sort (map sk_node_id (filter (\<lambda>s. sk_status s \<in> {''update-available'', ''build-mismatch''}) (sr_nodes report)))"

definition offline_nodes :: "skew_report \<Rightarrow> string list" where
  "offline_nodes report = map sk_node_id (filter (\<lambda>s. sk_status s = ''offline-pending'') (sr_nodes report))"

definition touches :: "string list \<Rightarrow> distributed_workload \<Rightarrow> bool" where
  "touches elig w \<longleftrightarrow> set (dw_members w) \<inter> set elig \<noteq> {}"

text \<open>The guards of \<^verbatim>\<open>UpdatePlanner.plan\<close>, in order.\<close>

definition plan_guards :: "target_platform \<Rightarrow> agent_observation list \<Rightarrow> distributed_workload list \<Rightarrow> topology_exclusion list \<Rightarrow>
    string list \<Rightarrow> unit result" where
  "plan_guards t obs ws xs elig =
    (let known = map ao_node_id obs;
         blocked = sort (map dw_workload_id (filter (\<lambda>w. dw_minimum_available w = int (length (dw_members w)) \<and> touches elig w) ws));
         unavailable = sort (map dw_workload_id (filter (\<lambda>w.
           int (length (filter (member_available obs w) (dw_members w))) \<le> dw_minimum_available w \<and> touches elig w) ws));
         missing = sort (remdups (map ao_architecture (filter (\<lambda>ob. ao_node_id ob \<in> set elig \<and>
           ao_architecture ob \<notin> set (map pa_architecture (tp_artifacts t))) obs))) in
     raise_if (\<not> distinct (map dw_workload_id ws)) (ValueError ''distributed workload IDs overlap'') (
     raise_if (\<not> list_all (\<lambda>w. set (dw_members w) \<subseteq> set known) ws) (ValueError ''workload references an unknown node'') (
     raise_if (\<not> distinct (map te_exclusion_id xs) \<or> \<not> list_all (\<lambda>x. set (te_members x) \<subseteq> set known) xs)
       (ValueError ''topology exclusions are invalid'') (
     raise_if (blocked \<noteq> [])
       (ValueError (''distributed workload has no update disruption budget: '' @ join_with '', '' blocked)) (
     raise_if (unavailable \<noteq> [])
       (ValueError (''distributed workload has no current update capacity: '' @ join_with '', '' unavailable)) (
     raise_if (missing \<noteq> []) (ValueError (''target release lacks agent artifact: '' @ join_with '', '' missing)) (Inr ())))))))"

definition canary_of :: "rollout_policy \<Rightarrow> string list \<Rightarrow> string option" where
  "canary_of p elig =
    (case elig of
       [] \<Rightarrow> None
     | e # _ \<Rightarrow> (case rp_preferred_canary p of
          Some c \<Rightarrow> Some (if c \<in> set elig then c else e)
        | None \<Rightarrow> Some e))"

definition plan_batches :: "rollout_policy \<Rightarrow> distributed_workload list \<Rightarrow> topology_exclusion list \<Rightarrow> string list \<Rightarrow> string list list" where
  "plan_batches p ws xs elig =
    (case canary_of p elig of
       None \<Rightarrow> []
     | Some c \<Rightarrow> [c] # batch_loop (rp_batch_size p) ws xs (filter (\<lambda>n. n \<noteq> c) elig))"

definition fleet_document :: "agent_observation list \<Rightarrow> json" where
  "fleet_document obs = JList (map (\<lambda>ob. JObj [(''architecture'', JStr (ao_architecture ob)), (''node_id'', JStr (ao_node_id ob)),
     (''state'', JStr (ao_state ob))]) (sort_key ao_node_id obs))"

definition topology_document :: "(py_datetime \<Rightarrow> string) \<Rightarrow> topology_exclusion list \<Rightarrow> distributed_workload list \<Rightarrow> json" where
  "topology_document isof xs ws = JObj
    [(''exclusions'', JList (map exclusion_document (sort_key te_exclusion_id xs))),
     (''workloads'', JList (map (workload_document isof) (sort_key dw_workload_id ws)))]"

definition plan_content :: "update_plan \<Rightarrow> json" where
  "plan_content p = JObj
    [(''agent_input_digest'', JStr (up_agent_input_digest p)),
     (''batches'', JList (map (\<lambda>b. JList (map JStr b)) (up_batches p))), (''canary_node'', opt_string (up_canary_node p)),
     (''fleet_digest'', JStr (up_fleet_digest p)), (''incompatible'', JList (map JStr (up_incompatible p))),
     (''offline_pending'', JList (map JStr (up_offline_pending p))),
     (''node_architectures'', JList (map (\<lambda>(n, a). JList [JStr n, JStr a]) (up_node_architectures p))),
     (''policy'', policy_document (up_policy p)), (''target'', target_document (up_target p)),
     (''topology_digest'', JStr (up_topology_digest p))]"

definition plan_update :: "(string \<Rightarrow> string) \<Rightarrow> (py_datetime \<Rightarrow> string) \<Rightarrow> target_platform \<Rightarrow> agent_observation list \<Rightarrow>
    distributed_workload list \<Rightarrow> rollout_policy \<Rightarrow> topology_exclusion list \<Rightarrow> update_plan result" where
  "plan_update sha isof t obs ws p xs =
     rbind (compare_skew t obs) (\<lambda>report.
     let elig = eligible_nodes report in
     rbind (plan_guards t obs ws xs elig) (\<lambda>_.
     let sorted_obs = sort_key ao_node_id obs;
         draft = \<lparr> up_target = t, up_canary_node = canary_of p elig, up_batches = plan_batches p ws xs elig,
           up_offline_pending = offline_nodes report, up_incompatible = sr_incompatible_nodes report,
           up_soak_seconds = rp_soak_seconds p, up_fleet_digest = prefixed_digest sha (fleet_document obs),
           up_topology_digest = prefixed_digest sha (topology_document isof xs ws),
           up_agent_input_digest = prefixed_digest sha (JList (map (observation_document isof) sorted_obs)),
           up_node_architectures = map (\<lambda>ob. (ao_node_id ob, ao_architecture ob)) (filter (\<lambda>ob. ao_node_id ob \<in> set elig) sorted_obs),
           up_source_observations = sorted_obs, up_workloads = sort_key dw_workload_id ws,
           up_topology_exclusions = sort_key te_exclusion_id xs, up_policy = p, up_plan_digest = [] \<rparr> in
     Inr (draft \<lparr> up_plan_digest := prefixed_digest sha (plan_content draft) \<rparr>)))"

section \<open>Persisted plans\<close>

definition release_document :: "json \<Rightarrow> json \<Rightarrow> json \<Rightarrow> json \<Rightarrow> json" where
  "release_document build version maximum minimum = JObj
    [(''build_digest'', build), (''platform_version'', version), (''protocol_maximum'', maximum),
     (''protocol_minimum'', minimum)]"

definition payload_for :: "update_plan \<Rightarrow> string \<Rightarrow> json result" where
  "payload_for p n =
    (let t = up_target p in
     raise_if (n \<notin> set (concat (up_batches p))) (KeyError n) (
     case map_of (up_node_architectures p) n of
       None \<Rightarrow> Inl (KeyError n)
     | Some arch \<Rightarrow>
         (case filter (\<lambda>a. pa_architecture a = arch) (tp_artifacts t) of
            [] \<Rightarrow> Inl (RuntimeError ''StopIteration'')
          | a # _ \<Rightarrow> Inr (JObj
              [(''artifact'', artifact_document a),
               (''release'', release_document (JStr (tp_build_digest t)) (JStr (tp_platform_version t))
                  (JInt (tp_protocol_maximum t)) (JInt (tp_protocol_minimum t)))]))))"

definition source_for :: "update_plan \<Rightarrow> string \<Rightarrow> agent_observation result" where
  "source_for p n =
    (case filter (\<lambda>ob. ao_node_id ob = n) (up_source_observations p) of
       [] \<Rightarrow> Inl (KeyError n)
     | ob # _ \<Rightarrow> Inr ob)"

definition plan_document :: "(py_datetime \<Rightarrow> string) \<Rightarrow> update_plan \<Rightarrow> json result" where
  "plan_document isof p =
     rbind (map_r (\<lambda>n. rbind (payload_for p n) (\<lambda>v. Inr (n, v))) (concat (up_batches p))) (\<lambda>payloads.
     Inr (JObj
      [(''agent_input_digest'', JStr (up_agent_input_digest p)),
       (''batches'', JList (map (\<lambda>b. JList (map JStr b)) (up_batches p))), (''canary_node'', opt_string (up_canary_node p)),
       (''fleet_digest'', JStr (up_fleet_digest p)), (''incompatible'', JList (map JStr (up_incompatible p))),
       (''node_payloads'', JObj (dict_of payloads)),
       (''offline_pending'', JList (map JStr (up_offline_pending p))), (''plan_digest'', JStr (up_plan_digest p)),
       (''policy'', policy_document (up_policy p)), (''schema_version'', JInt 1), (''soak_seconds'', JInt (up_soak_seconds p)),
       (''source_observations'', JObj (dict_of (map (\<lambda>ob. (ao_node_id ob, observation_document isof ob)) (up_source_observations p)))),
       (''target'', target_document (up_target p)), (''topology_digest'', JStr (up_topology_digest p)),
       (''topology_exclusions'', JList (map exclusion_document (up_topology_exclusions p))),
       (''node_architectures'', JList (map (\<lambda>(n, a). JList [JStr n, JStr a]) (up_node_architectures p))),
       (''workloads'', JList (map (workload_document isof) (up_workloads p)))]))"

text \<open>The columns of \<^verbatim>\<open>update_rollouts\<close> and of its nodes that the creation of a rollout sets.\<close>

record update_rollout =
  ur_id :: string
  ur_job_id :: string
  ur_state :: string
  ur_plan_digest :: string
  ur_release_digest :: string
  ur_base_commit :: string
  ur_fleet_digest :: string
  ur_topology_digest :: string
  ur_agent_input_digest :: string
  ur_target_platform_version :: string
  ur_target_build_digest :: string
  ur_tuf_targets_version :: int
  ur_update_admin_grant :: "json option"
  ur_plan :: json
  ur_current_batch :: nat
  ur_created_at :: int
  ur_updated_at :: int

definition plan_fields :: "string list" where
  "plan_fields =
    [''agent_input_digest'', ''batches'', ''canary_node'', ''fleet_digest'', ''incompatible'', ''node_architectures'',
     ''node_payloads'', ''offline_pending'', ''plan_digest'', ''policy'', ''schema_version'', ''soak_seconds'',
     ''source_observations'', ''target'', ''topology_digest'', ''topology_exclusions'', ''workloads'']"

definition plan_pins :: "update_rollout \<Rightarrow> (string, json) dict \<Rightarrow> (string, json) dict \<Rightarrow> bool" where
  "plan_pins r document target \<longleftrightarrow>
     py_eq (jget document ''schema_version'') (JInt 1) \<and>
     jget document ''plan_digest'' = JStr (''sha256:'' @ ur_plan_digest r) \<and>
     jget document ''fleet_digest'' = JStr (''sha256:'' @ ur_fleet_digest r) \<and>
     jget document ''topology_digest'' = JStr (''sha256:'' @ ur_topology_digest r) \<and>
     jget document ''agent_input_digest'' = JStr (''sha256:'' @ ur_agent_input_digest r) \<and>
     jget target ''base_commit'' = JStr (ur_base_commit r) \<and>
     jget target ''platform_version'' = JStr (ur_target_platform_version r) \<and>
     jget target ''build_digest'' = JStr (ur_target_build_digest r) \<and>
     jget target ''release_digest'' = JStr (''sha256:'' @ ur_release_digest r) \<and>
     jget target ''target_name'' = JStr (release_target_name (ur_target_platform_version r) (ur_release_digest r)) \<and>
     jget target ''target_sha256'' = JStr (ur_release_digest r) \<and>
     py_eq (jget target ''tuf_targets_version'') (JInt (ur_tuf_targets_version r))"

definition digest_content :: "(string, json) dict \<Rightarrow> json" where
  "digest_content document = JObj (map (\<lambda>k. (k, jget document k))
    [''agent_input_digest'', ''batches'', ''canary_node'', ''fleet_digest'', ''incompatible'', ''node_architectures'',
     ''offline_pending'', ''policy'', ''target'', ''topology_digest''])"

definition fleet_of_documents :: "json list \<Rightarrow> json" where
  "fleet_of_documents items = JList (map (\<lambda>i. JObj (map (\<lambda>k. (k, jget (the_obj i) k)) [''architecture'', ''node_id'', ''state'']))
     (filter is_obj items))"

definition input_digests_ok :: "(string \<Rightarrow> string) \<Rightarrow> (string, json) dict \<Rightarrow> bool" where
  "input_digests_ok sha document =
    (let ordered = map snd (sort_key fst (the_obj (jget document ''source_observations''))) in
     JStr (prefixed_digest sha (JList ordered)) = jget document ''agent_input_digest'' \<and>
     JStr (prefixed_digest sha (fleet_of_documents ordered)) = jget document ''fleet_digest'' \<and>
     JStr (prefixed_digest sha (JObj [(''exclusions'', jget document ''topology_exclusions''),
       (''workloads'', jget document ''workloads'')])) = jget document ''topology_digest'')"

definition binding_ok :: "json \<Rightarrow> bool" where
  "binding_ok b \<longleftrightarrow> is_list b \<and> length (the_list b) = 2 \<and> list_all (is_str_with (\<lambda>_. True)) (the_list b)"

definition binding_pair :: "json \<Rightarrow> string \<times> string" where
  "binding_pair b = (the_str (the_list b ! 0), the_str (the_list b ! 1))"

text \<open>\<^verbatim>\<open>artifacts.get(architecture)\<close>: the last artifact of the list with that architecture.\<close>

definition artifact_for :: "json list \<Rightarrow> string \<Rightarrow> json option" where
  "artifact_for items arch =
     map_of (map (\<lambda>i. (jget (the_obj i) ''architecture'', i)) (rev (filter is_obj items))) (JStr arch)"

definition validate_node_payloads :: "(string, json) dict \<Rightarrow> unit result" where
  "validate_node_payloads document =
    (let target = the_obj (jget document ''target''); payloads = jget document ''node_payloads'';
         bindings = jget document ''node_architectures''; items = the_list (jget target ''artifacts'') in
     raise_if (\<not> is_obj (jget document ''target'') \<or> \<not> is_obj payloads \<or> \<not> is_list bindings \<or>
         \<not> is_list (jget target ''artifacts'')) (TypeError ''persisted update payload authority is invalid'') (
     raise_if (\<not> list_all (\<lambda>i. hash_ok (jget (the_obj i) ''architecture'')) (filter is_obj items))
       (TypeError ''unhashable type'') (
     raise_if (\<not> list_all binding_ok (the_list bindings))
       (ValueError ''persisted update architecture binding is invalid'') (
     let by_node = dict_of (map binding_pair (the_list bindings)) in
     raise_if (set (map fst (the_obj payloads)) \<noteq> set (map fst by_node))
       (ValueError ''persisted update payload target set disagrees'') (
     raise_if (\<not> list_all (\<lambda>(n, arch). case artifact_for items arch of
           None \<Rightarrow> False
         | Some a \<Rightarrow> py_eq (jget (the_obj payloads) n) (JObj [(''artifact'', a),
             (''release'', release_document (jget target ''build_digest'') (jget target ''platform_version'')
                (jget target ''protocol_maximum'') (jget target ''protocol_minimum''))])) by_node)
       (ValueError ''persisted update node payload disagrees'') (Inr ()))))))"

definition validate_persisted_plan :: "(string \<Rightarrow> string) \<Rightarrow> update_rollout \<Rightarrow> unit result" where
  "validate_persisted_plan sha r =
    (let document = the_obj (ur_plan r); target = jget document ''target''; policy = jget document ''policy'' in
     raise_if (\<not> is_obj (ur_plan r) \<or> \<not> has_fields plan_fields document) (ValueError ''persisted update plan fields are invalid'') (
     raise_if (\<not> is_obj target) (TypeError ''persisted update target is invalid'') (
     raise_if (\<not> plan_pins r document (the_obj target)) (ValueError ''persisted update plan pins disagree'') (
     raise_if (\<not> is_obj policy \<or> \<not> py_eq (jget document ''soak_seconds'') (jget (the_obj policy) ''soak_seconds''))
       (ValueError ''persisted update plan policy disagrees'') (
     raise_if (JStr (prefixed_digest sha (digest_content document)) \<noteq> jget document ''plan_digest'')
       (ValueError ''persisted update plan digest disagrees'') (
     raise_if (\<not> is_obj (jget document ''source_observations'') \<or> \<not> is_list (jget document ''workloads'') \<or>
         \<not> is_list (jget document ''topology_exclusions'')) (TypeError ''persisted update plan inputs are invalid'') (
     raise_if (\<not> input_digests_ok sha document) (ValueError ''persisted update plan input digest disagrees'') (
     validate_node_payloads document))))))))"

definition soak_seconds_of :: "(string, json) dict \<Rightarrow> int result" where
  "soak_seconds_of document =
    (case jget document ''soak_seconds'' of
       JInt n \<Rightarrow> raise_if (\<not> (0 \<le> n \<and> n \<le> 86400)) (ValueError ''persisted rollout soak interval is invalid'') (Inr n)
     | _ \<Rightarrow> Inl (ValueError ''persisted rollout soak interval is invalid''))"

definition node_payload :: "(string, json) dict \<Rightarrow> string \<Rightarrow> (string, json) dict result" where
  "node_payload document n =
    (case jget document ''node_payloads'' of
       JObj payloads \<Rightarrow>
         (case jget payloads n of JObj d \<Rightarrow> Inr d | _ \<Rightarrow> Inl (TypeError ''persisted rollout node payload is invalid''))
     | _ \<Rightarrow> Inl (TypeError ''persisted rollout payloads are invalid''))"

definition node_source :: "(string, json) dict \<Rightarrow> string \<Rightarrow> (string, json) dict result" where
  "node_source document n =
    (case jget document ''source_observations'' of
       JObj observed \<Rightarrow>
         (case jget observed n of JObj d \<Rightarrow> Inr d | _ \<Rightarrow> Inl (TypeError ''persisted rollout node source is invalid''))
     | _ \<Rightarrow> Inl (TypeError ''persisted rollout source observations are invalid''))"

section \<open>Creation of a rollout\<close>

record rollout_node =
  rn_rollout_id :: string
  rn_node_id :: string
  rn_batch_index :: int
  rn_node_order :: nat
  rn_is_canary :: bool
  rn_state :: string
  rn_source_identity_digest :: string
  rn_target_artifact_digest :: string

record rollout_db =
  rd_rollouts :: "update_rollout list"
  rd_nodes :: "rollout_node list"
  rd_jobs :: "job list"

definition rollout_actor_ok :: "string \<Rightarrow> bool" where
  "rollout_actor_ok s \<longleftrightarrow> \<not> is_blank s \<and> length s \<le> 200"

definition rollout_request_ok :: "string \<Rightarrow> bool" where
  "rollout_request_ok s \<longleftrightarrow> uuid_norm s = Some s"

definition find_rollout :: "rollout_db \<Rightarrow> string \<Rightarrow> update_rollout option" where
  "find_rollout db digest_text = find (\<lambda>r. ur_plan_digest r = digest_text) (rd_rollouts db)"

definition batch_rows :: "(string \<Rightarrow> string) \<Rightarrow> (py_datetime \<Rightarrow> string) \<Rightarrow> update_plan \<Rightarrow> string \<Rightarrow> rollout_node list result" where
  "batch_rows sha isof p rid =
     map_r (\<lambda>(b, i, n).
       rbind (source_for p n) (\<lambda>source.
       rbind (payload_for p n) (\<lambda>payload.
       rbind (raw_digest (prefixed_digest sha (observation_document isof source))) (\<lambda>identity.
       Inr \<lparr> rn_rollout_id = rid, rn_node_id = n, rn_batch_index = int b, rn_node_order = i,
         rn_is_canary = (Some n = up_canary_node p), rn_state = ''pending'', rn_source_identity_digest = identity,
         rn_target_artifact_digest = the_str (jget (the_obj (jget (the_obj payload) ''artifact'')) ''payload_sha256'') \<rparr>))))
     (concat (map (\<lambda>(b, batch). map (\<lambda>(i, n). (b, i, n)) (enumerate 0 batch)) (enumerate 0 (up_batches p))))"

definition offline_rows :: "(string \<Rightarrow> string) \<Rightarrow> (py_datetime \<Rightarrow> string) \<Rightarrow> update_plan \<Rightarrow> string \<Rightarrow> rollout_node list result" where
  "offline_rows sha isof p rid =
     map_r (\<lambda>(i, n).
       rbind (source_for p n) (\<lambda>source.
       case map_of (rev (map (\<lambda>a. (pa_architecture a, a)) (tp_artifacts (up_target p)))) (ao_architecture source) of
         None \<Rightarrow> Inl (ValueError ''target release lacks offline agent artifact'')
       | Some a \<Rightarrow>
           rbind (raw_digest (prefixed_digest sha (observation_document isof source))) (\<lambda>identity.
           Inr \<lparr> rn_rollout_id = rid, rn_node_id = n, rn_batch_index = - 1, rn_node_order = i, rn_is_canary = False,
             rn_state = ''offline-pending'', rn_source_identity_digest = identity,
             rn_target_artifact_digest = pa_payload_sha256 a \<rparr>)))
     (enumerate 0 (up_offline_pending p))"

definition new_rollout :: "update_plan \<Rightarrow> json \<Rightarrow> json option \<Rightarrow> string \<Rightarrow> string \<Rightarrow> int \<Rightarrow> update_rollout result" where
  "new_rollout p document grant rid jid now =
     rbind (raw_digest (up_plan_digest p)) (\<lambda>plan_raw.
     rbind (raw_digest (tp_release_digest (up_target p))) (\<lambda>release_raw.
     rbind (raw_digest (up_fleet_digest p)) (\<lambda>fleet_raw.
     rbind (raw_digest (up_topology_digest p)) (\<lambda>topology_raw.
     rbind (raw_digest (up_agent_input_digest p)) (\<lambda>input_raw.
     Inr \<lparr> ur_id = rid, ur_job_id = jid, ur_state = ''planned'', ur_plan_digest = plan_raw, ur_release_digest = release_raw,
       ur_base_commit = tp_base_commit (up_target p), ur_fleet_digest = fleet_raw, ur_topology_digest = topology_raw,
       ur_agent_input_digest = input_raw, ur_target_platform_version = tp_platform_version (up_target p),
       ur_target_build_digest = tp_build_digest (up_target p), ur_tuf_targets_version = tp_tuf_targets_version (up_target p),
       ur_update_admin_grant = grant, ur_plan = document, ur_current_batch = 0, ur_created_at = now, ur_updated_at = now \<rparr>)))))"

definition new_rollout_job :: "(string \<Rightarrow> string) \<Rightarrow> update_plan \<Rightarrow> json \<Rightarrow> string \<Rightarrow> string \<Rightarrow> string \<Rightarrow> int \<Rightarrow> job result" where
  "new_rollout_job sha p document actor request_id jid now =
     rbind (raw_digest (prefixed_digest sha document)) (\<lambda>payload_raw.
     Inr \<lparr> jb_id = jid, jb_request_id = request_id, jb_kind = ''platform.update'', jb_state = ''running'', jb_actor = actor,
       jb_base_commit = tp_base_commit (up_target p), jb_targets = concat (up_batches p), jb_payload_digest = payload_raw,
       jb_payload = document, jb_result = None, jb_status_reason = None, jb_current_attempt = 0, jb_created_at = now,
       jb_updated_at = now, jb_reconciliation_id = None \<rparr>)"

text \<open>
  The transaction of \<^verbatim>\<open>_create_locked\<close>: look the plan up again, then write the job, the rollout and its nodes. A flush
  that violates a unique column raises \<open>IntegrityError\<close>.
\<close>

definition write_rollout :: "(string \<Rightarrow> string) \<Rightarrow> (py_datetime \<Rightarrow> string) \<Rightarrow> rollout_db \<Rightarrow> update_plan \<Rightarrow> string \<Rightarrow> string \<Rightarrow> int \<Rightarrow>
    string \<Rightarrow> string \<Rightarrow> json \<Rightarrow> json option \<Rightarrow> job_error + rollout_db \<times> string" where
  "write_rollout sha isof db p actor request_id now rid jid document grant =
     rbind (lift_exc (raw_digest (up_plan_digest p))) (\<lambda>plan_raw.
     case find_rollout db plan_raw of
       Some r \<Rightarrow> Inr (db, ur_id r)
     | None \<Rightarrow>
         rbind (lift_exc (new_rollout_job sha p document actor request_id jid now)) (\<lambda>job_row.
         rbind (lift_exc (new_rollout p document grant rid jid now)) (\<lambda>rollout_row.
         rbind (lift_exc (validate_persisted_plan sha rollout_row)) (\<lambda>_.
         raise_if (rid \<in> set (map ur_id (rd_rollouts db)) \<or> jid \<in> set (map ur_job_id (rd_rollouts db)) \<or>
             jid \<in> set (map jb_id (rd_jobs db)) \<or> request_id \<in> set (map jb_request_id (rd_jobs db))) IntegrityError (
         rbind (lift_exc (batch_rows sha isof p rid)) (\<lambda>scheduled.
         rbind (lift_exc (offline_rows sha isof p rid)) (\<lambda>offline.
         Inr (db \<lparr> rd_rollouts := rd_rollouts db @ [rollout_row], rd_nodes := rd_nodes db @ scheduled @ offline,
           rd_jobs := rd_jobs db @ [job_row] \<rparr>, rid))))))))"

text \<open>\<^verbatim>\<open>admin_grant_factory\<close>, if there is one, is asked for a grant for the first batch.\<close>

definition ask_grant :: "(string \<Rightarrow> string \<Rightarrow> string list \<Rightarrow> string \<Rightarrow> job_error + json) option \<Rightarrow> update_plan \<Rightarrow> string \<Rightarrow> string \<Rightarrow>
    job_error + json option" where
  "ask_grant grant_factory p rid jid =
    (case grant_factory of
       None \<Rightarrow> Inr None
     | Some f \<Rightarrow> rbind (f rid jid (hd (up_batches p)) (tp_release_digest (up_target p))) (\<lambda>g.
         raise_if (\<not> is_obj g) (JobExc (TypeError ''API-issued update authorization grant is invalid'')) (Inr (Some g))))"

text \<open>
  \<^verbatim>\<open>UpdateOrchestrator._create_locked\<close>. The rollout is looked up twice: in \<open>db0\<close>, before the grant is asked for, and in
  \<open>db\<close>, in the transaction that writes it; \<open>rid\<close> and \<open>jid\<close> are the generated identifiers.
\<close>

definition create_rollout :: "(string \<Rightarrow> string) \<Rightarrow> (py_datetime \<Rightarrow> string) \<Rightarrow>
    (string \<Rightarrow> string \<Rightarrow> string list \<Rightarrow> string \<Rightarrow> job_error + json) option \<Rightarrow> rollout_db \<Rightarrow> rollout_db \<Rightarrow>
    update_plan \<Rightarrow> string \<Rightarrow> string \<Rightarrow> int \<Rightarrow> string \<Rightarrow> string \<Rightarrow> job_error + rollout_db \<times> string" where
  "create_rollout sha isof grant_factory db0 db p actor request_id now rid jid =
     raise_if (up_batches p = []) (JobExc (ValueError ''update plan has no online compatible targets'')) (
     raise_if (up_incompatible p \<noteq> []) (JobExc (ValueError ''incompatible agent skew blocks platform update'')) (
     raise_if (\<not> rollout_actor_ok actor) (JobExc (ValueError ''update rollout actor is invalid'')) (
     raise_if (\<not> rollout_request_ok request_id) (JobExc (ValueError ''update rollout request ID is invalid'')) (
     rbind (lift_exc (raw_digest (up_plan_digest p))) (\<lambda>plan_raw.
     case find_rollout db0 plan_raw of
       Some r \<Rightarrow> Inr (db, ur_id r)
     | None \<Rightarrow>
         rbind (lift_exc (plan_document isof p)) (\<lambda>document.
         rbind (ask_grant grant_factory p rid jid) (\<lambda>grant.
         write_rollout sha isof db p actor request_id now rid jid document grant)))))))"

end
