(* ===== verification/Planning_Properties.thy ===== *)
theory Planning_Properties
  imports Update_Planning
begin

text \<open>
  What the planner of agent updates guarantees: which agents a plan schedules, what stays available while a batch is down,
  that the persisted form of a plan passes its validation, and that a plan has one rollout. A rollout over two nodes shows
  that the hypotheses hold together.
\<close>

section \<open>Batches are safe and complete\<close>

definition safe_batch :: "int \<Rightarrow> distributed_workload list \<Rightarrow> topology_exclusion list \<Rightarrow> string list \<Rightarrow> bool" where
  "safe_batch limit ws xs b \<longleftrightarrow>
     int (length b) \<le> limit \<and>
     (\<forall>w \<in> set ws. card (set b \<inter> set (dw_members w)) \<le> 1) \<and>
     (\<forall>x \<in> set xs. int (card (set b \<inter> set (te_members x))) \<le> te_maximum_unavailable x)"

lemma card_snoc_inter: "card (set (b @ [n]) \<inter> M) \<le> card (set b \<inter> M) + (if n \<in> M then 1 else 0)"
  by (auto simp: card_insert_if insert_absorb Int_insert_left)

lemma safe_batch_snoc:
  assumes safe: "safe_batch limit ws xs b" and room: "\<not> int (length b) \<ge> limit" and free: "\<not> conflicts n b ws xs"
  shows "safe_batch limit ws xs (b @ [n])"
  unfolding safe_batch_def
proof (intro conjI ballI)
  show "int (length (b @ [n])) \<le> limit" using room by simp
next
  fix w assume w: "w \<in> set ws"
  show "card (set (b @ [n]) \<inter> set (dw_members w)) \<le> 1"
  proof (cases "n \<in> set (dw_members w)")
    case True
    then have "set b \<inter> set (dw_members w) = {}" using free w by (auto simp: conflicts_def list_ex_iff)
    then show ?thesis using card_snoc_inter [of b n "set (dw_members w)"] True by simp
  next
    case False
    then show ?thesis using card_snoc_inter [of b n "set (dw_members w)"] safe w by (force simp: safe_batch_def)
  qed
next
  fix x assume x: "x \<in> set xs"
  show "int (card (set (b @ [n]) \<inter> set (te_members x))) \<le> te_maximum_unavailable x"
  proof (cases "n \<in> set (te_members x)")
    case True
    then have "int (card (set b \<inter> set (te_members x))) < te_maximum_unavailable x"
      using free x by (force simp: conflicts_def list_ex_iff not_le)
    then show ?thesis using card_snoc_inter [of b n "set (te_members x)"] True by simp
  next
    case False
    then show ?thesis using card_snoc_inter [of b n "set (te_members x)"] safe x by (force simp: safe_batch_def)
  qed
qed

lemma fill_batch_safe:
  "fill_batch limit ws xs ns b d = (b', d') \<Longrightarrow> safe_batch limit ws xs b \<Longrightarrow> safe_batch limit ws xs b'"
  by (induction limit ws xs ns b d rule: fill_batch.induct) (auto split: if_splits intro: safe_batch_snoc)

lemma fill_batch_mset:
  "fill_batch limit ws xs ns b d = (b', d') \<Longrightarrow> mset b' + mset d' = mset ns + mset b + mset d"
  by (induction limit ws xs ns b d rule: fill_batch.induct) (auto split: if_splits simp: ac_simps)

definition limits_ok :: "int \<Rightarrow> topology_exclusion list \<Rightarrow> bool" where
  "limits_ok limit xs \<longleftrightarrow> 1 \<le> limit \<and> (\<forall>x \<in> set xs. 1 \<le> te_maximum_unavailable x)"

lemma safe_batch_Nil: "limits_ok limit xs \<Longrightarrow> safe_batch limit ws xs []"
  by (force simp: safe_batch_def limits_ok_def)

lemma safe_batch_single: "limits_ok limit xs \<Longrightarrow> safe_batch limit ws xs [n]"
  using safe_batch_snoc [OF safe_batch_Nil, where n = n and limit = limit and xs = xs and ws = ws] by (force simp: limits_ok_def conflicts_def list_ex_iff)

lemma next_batch_spec:
  assumes "limits_ok limit xs" "ns \<noteq> []" "next_batch limit ws xs ns = (b, d)"
  shows "safe_batch limit ws xs b" "b \<noteq> []" "mset b + mset d = mset ns"
proof -
  obtain b0 d0 where f: "fill_batch limit ws xs ns [] [] = (b0, d0)" by fastforce
  note m = fill_batch_mset [OF f] and s = fill_batch_safe [OF f safe_batch_Nil [OF assms(1)]]
  show "safe_batch limit ws xs b" "b \<noteq> []"
    using assms(3) f s safe_batch_single [OF assms(1)] by (auto simp: next_batch_def split: if_splits)
  have "d0 \<noteq> []" if "b0 = []" using m that assms(2) by auto
  then show "mset b + mset d = mset ns"
    using assms(3) f m by (cases d0) (auto simp: next_batch_def split: if_splits)
qed

lemma batch_loop_spec:
  assumes "limits_ok limit xs"
  shows "mset (concat (batch_loop limit ws xs ns)) = mset ns \<and>
    (\<forall>b \<in> set (batch_loop limit ws xs ns). safe_batch limit ws xs b \<and> b \<noteq> [])"
  using assms
proof (induction limit ws xs ns rule: batch_loop.induct)
  case (1 limit ws xs ns)
  show ?case
  proof (cases "ns = []")
    case False
    obtain b d where n: "next_batch limit ws xs ns = (b, d)" by fastforce
    note spec = next_batch_spec [OF 1(2) False n]
    have "batch_loop limit ws xs ns = b # batch_loop limit ws xs d"
      using False n by (subst batch_loop.simps) simp
    then show ?thesis using spec "1.IH" [OF False n [symmetric] 1(2)] by simp
  qed (simp add: batch_loop.simps)
qed

section \<open>What is scheduled\<close>

text \<open>An agent that the target release replaces: active and online, with its identity known, no newer than the target, and able to update and to roll back.\<close>

definition updatable :: "target_platform \<Rightarrow> agent_observation \<Rightarrow> bool" where
  "updatable t ob \<longleftrightarrow>
     ao_state ob = ''active'' \<and> ao_online ob \<and> missing_identity ob = [] \<and>
     tp_protocol_minimum t \<le> the (ao_protocol_version ob) \<and> the (ao_protocol_version ob) \<le> tp_protocol_maximum t \<and>
     the (semver_match (the (ao_platform_version ob))) \<le> the (semver_match (tp_platform_version t)) \<and>
     (the (ao_platform_version ob) \<noteq> tp_platform_version t \<or> the (ao_build_digest ob) \<noteq> tp_build_digest t) \<and>
     {''agent.rollback'', ''agent.update''} \<subseteq> set (ao_capabilities ob)"

lemma version_tuple_Inr [result_simps]: "version_tuple s = Inr v \<longleftrightarrow> semver_match s = Some v"
  by (auto simp: version_tuple_def split: option.splits)

lemma skew_sel [simp]:
  "sk_node_id (skew ob st c u rs) = ao_node_id ob" "sk_status (skew ob st c u rs) = st"
  "sk_compatible (skew ob st c u rs) = c" "sk_update_required (skew ob st c u rs) = u"
  by (simp_all add: skew_def)

text \<open>The analysis of an agent whose identity is known, as one case distinction on the versions.\<close>

definition known_skew :: "target_platform \<Rightarrow> agent_observation \<Rightarrow> nat \<times> nat \<times> nat \<Rightarrow> nat \<times> nat \<times> nat \<Rightarrow> string" where
  "known_skew t ob cv tv =
    (let update = (the (ao_platform_version ob) \<noteq> tp_platform_version t \<or> the (ao_build_digest ob) \<noteq> tp_build_digest t) in
     if cv > tv then ''incompatible''
     else if \<not> ao_online ob then (if update then ''offline-pending'' else ''offline-current'')
     else if \<not> update then ''current''
     else if \<not> {''agent.rollback'', ''agent.update''} \<subseteq> set (ao_capabilities ob) then ''incompatible''
     else if cv = tv then ''build-mismatch'' else ''update-available'')"

lemma node_skew_of_cases:
  assumes "node_skew_of t ob = Inr s"
  obtains "sk_node_id s = ao_node_id ob" "sk_status s \<in> {''retired'', ''incompatible''}" "\<not> updatable t ob"
  | cv tv where "sk_node_id s = ao_node_id ob" "sk_status s = known_skew t ob cv tv"
      "semver_match (the (ao_platform_version ob)) = Some cv" "semver_match (tp_platform_version t) = Some tv"
      "ao_state ob = ''active''" "missing_identity ob = []"
      "tp_protocol_minimum t \<le> the (ao_protocol_version ob)" "the (ao_protocol_version ob) \<le> tp_protocol_maximum t"
proof (cases "ao_state ob = ''active'' \<and> missing_identity ob = [] \<and>
    tp_protocol_minimum t \<le> the (ao_protocol_version ob) \<and> the (ao_protocol_version ob) \<le> tp_protocol_maximum t")
  case False
  then have "sk_node_id s = ao_node_id ob \<and> sk_status s \<in> {''retired'', ''incompatible''}"
    using assms unfolding node_skew_of_def
    by (cases "ao_state ob = ''retired''"; cases "ao_state ob = ''active''"; cases "missing_identity ob = []") (auto split: if_split_asm)
  with False that(1) show thesis by (auto simp: updatable_def)
next
  case True
  then obtain cv tv where v: "semver_match (the (ao_platform_version ob)) = Some cv" "semver_match (tp_platform_version t) = Some tv"
    using assms unfolding node_skew_of_def by (auto simp: result_simps)
  have "sk_node_id s = ao_node_id ob \<and> sk_status s = known_skew t ob cv tv"
  proof -
    have "(let update = (the (ao_platform_version ob) \<noteq> tp_platform_version t \<or> the (ao_build_digest ob) \<noteq> tp_build_digest t) in
        if tv < cv then skew ob ''incompatible'' False False [''agent-newer-than-control'']
        else if \<not> ao_online ob then skew ob (if update then ''offline-pending'' else ''offline-current'') True update [''agent-offline'']
        else if \<not> update then skew ob ''current'' True False []
        else if \<not> {''agent.rollback'', ''agent.update''} \<subseteq> set (ao_capabilities ob) then
          skew ob ''incompatible'' False True [''agent-update-capability-absent'']
        else if cv = tv then skew ob ''build-mismatch'' True True [''build-digest-differs'']
        else skew ob ''update-available'' True True [''control-release-newer'']) = s"
      using assms True v unfolding node_skew_of_def version_tuple_def by (simp add: Let_def del: insert_subset split: if_split_asm) blast+
    then show ?thesis unfolding known_skew_def Let_def by (auto split: if_split_asm)
  qed
  with True v that(2) show thesis by blast
qed

lemma node_skew_of_id: "node_skew_of t ob = Inr s \<Longrightarrow> sk_node_id s = ao_node_id ob"
  by (erule node_skew_of_cases)

lemma node_skew_of_updatable:
  assumes "node_skew_of t ob = Inr s"
  shows "sk_status s \<in> {''update-available'', ''build-mismatch''} \<longleftrightarrow> updatable t ob"
  using assms
proof (cases rule: node_skew_of_cases)
  case (2 cv tv)
  then show ?thesis by (simp add: known_skew_def updatable_def Let_def not_less) (auto dest: leD)
qed auto

lemma compare_skew_Inr:
  assumes "compare_skew t obs = Inr rep"
  shows "distinct (map ao_node_id obs)" "list_all2 (\<lambda>ob s. node_skew_of t ob = Inr s) (sort_key ao_node_id obs) (sr_nodes rep)"
  using assms by (auto simp: compare_skew_def result_simps map_r_Inr Let_def)

lemma compare_skew_ids:
  assumes "compare_skew t obs = Inr rep"
  shows "map sk_node_id (sr_nodes rep) = map ao_node_id (sort_key ao_node_id obs)"
  using compare_skew_Inr(2) [OF assms]
  by (induction rule: list_all2_induct) (auto dest: node_skew_of_id)

lemma distinct_map_sort_key: "distinct (map f (sort_key g xs)) \<longleftrightarrow> distinct (map f xs)"
  by (simp add: distinct_map)

lemma eligible_distinct:
  assumes "compare_skew t obs = Inr rep"
  shows "distinct (eligible_nodes rep)"
proof -
  have "distinct (map sk_node_id (sr_nodes rep))"
    using compare_skew_Inr(1) [OF assms] compare_skew_ids [OF assms] by (simp add: distinct_map_sort_key)
  then show ?thesis unfolding eligible_nodes_def distinct_sort by (rule distinct_map_filter)
qed

lemma eligible_iff:
  assumes "compare_skew t obs = Inr rep"
  shows "n \<in> set (eligible_nodes rep) \<longleftrightarrow> (\<exists>ob \<in> set obs. ao_node_id ob = n \<and> updatable t ob)"
proof -
  have "(\<exists>s \<in> set ss. sk_node_id s = n \<and> sk_status s \<in> {''update-available'', ''build-mismatch''}) \<longleftrightarrow>
      (\<exists>ob \<in> set os. ao_node_id ob = n \<and> updatable t ob)"
    if "list_all2 (\<lambda>ob s. node_skew_of t ob = Inr s) os ss" for os ss
    using that
  proof (induction rule: list_all2_induct)
    case (Cons ob os s ss)
    then show ?case using node_skew_of_updatable [OF Cons(1)] node_skew_of_id [OF Cons(1)] by auto
  qed simp
  from this [OF compare_skew_Inr(2) [OF assms]] show ?thesis by (auto simp: eligible_nodes_def)
qed

section \<open>Plans\<close>

lemma plan_update_Inr:
  assumes "plan_update sha isof t obs ws p xs = Inr pl"
  obtains rep where "compare_skew t obs = Inr rep" "plan_guards t obs ws xs (eligible_nodes rep) = Inr ()"
    "up_batches pl = plan_batches p ws xs (eligible_nodes rep)" "up_canary_node pl = canary_of p (eligible_nodes rep)"
  using assms by (auto simp: plan_update_def result_simps Let_def)

lemma canary_of_cases:
  "canary_of p es = None \<longleftrightarrow> es = []"
  "canary_of p es = Some c \<Longrightarrow> c \<in> set es"
  by (auto simp: canary_of_def split: list.splits option.splits if_splits)

lemma plan_batches_spec:
  assumes "limits_ok (rp_batch_size p) xs" "distinct es"
  shows "mset (concat (plan_batches p ws xs es)) = mset es"
    "b \<in> set (plan_batches p ws xs es) \<Longrightarrow> safe_batch (rp_batch_size p) ws xs b \<and> b \<noteq> []"
proof -
  show "mset (concat (plan_batches p ws xs es)) = mset es"
  proof (cases "canary_of p es")
    case None
    then have "es = []" by (simp only: canary_of_cases(1))
    with None show ?thesis by (simp add: plan_batches_def)
  next
    case (Some c)
    then have c: "c \<in> set es" by (rule canary_of_cases)
    have "filter (\<lambda>n. n \<noteq> c) es = remove1 c es"
      using assms(2) by (simp add: distinct_remove1_removeAll removeAll_filter_not_eq eq_commute)
    with c have "mset (filter (\<lambda>n. n \<noteq> c) es) + {#c#} = mset es" by simp
    then show ?thesis
      using Some batch_loop_spec [OF assms(1), of ws "filter (\<lambda>n. n \<noteq> c) es"] by (simp add: plan_batches_def)
  qed
  show "safe_batch (rp_batch_size p) ws xs b \<and> b \<noteq> []" if "b \<in> set (plan_batches p ws xs es)"
    using that batch_loop_spec [OF assms(1)] safe_batch_single [OF assms(1)]
    by (auto simp: plan_batches_def split: option.splits)
qed

lemma checked_limits:
  assumes "policy_check p = Inr p" "\<forall>x \<in> set xs. exclusion_check x = Inr x"
  shows "limits_ok (rp_batch_size p) xs"
  using assms by (auto simp: limits_ok_def policy_check_def exclusion_check_def result_simps)

lemma plan_guards_capacity:
  assumes "plan_guards t obs ws xs es = Inr ()" "w \<in> set ws" "touches es w"
  shows "dw_minimum_available w < int (length (filter (member_available obs w) (dw_members w)))"
  using assms by (auto simp: plan_guards_def Let_def result_simps filter_empty_conv)

lemma length_filter_minus_one:
  assumes "distinct ms" "card (B \<inter> set ms) \<le> 1" "finite B"
  shows "length (filter P ms) \<le> length (filter (\<lambda>n. P n \<and> n \<notin> B) ms) + 1"
proof -
  have "card {n \<in> set ms. P n} \<le> card ({n \<in> set ms. P n \<and> n \<notin> B} \<union> (B \<inter> set ms))"
    by (rule card_mono) auto
  also have "\<dots> \<le> card {n \<in> set ms. P n \<and> n \<notin> B} + card (B \<inter> set ms)" by (rule card_Un_le)
  finally show ?thesis
    using assms by (simp add: distinct_card [symmetric] Int_def conj_commute)
qed

text \<open>C5: An update keeps every workload available. While a batch of a plan is down, each workload with a member in the batch still has at least its minimum of available members, no topology exclusion has more members down than it allows, and no two members of a workload are down together.\<close>

theorem plan_keeps_capacity:
  assumes plan: "plan_update sha isof t obs ws p xs = Inr pl"
    and checked: "policy_check p = Inr p" "\<forall>w \<in> set ws. workload_check w = Inr w" "\<forall>x \<in> set xs. exclusion_check x = Inr x"
    and b: "b \<in> set (up_batches pl)"
  shows "(\<forall>w \<in> set ws. set (dw_members w) \<inter> set b \<noteq> {} \<longrightarrow>
        dw_minimum_available w \<le> int (length (filter (\<lambda>n. member_available obs w n \<and> n \<notin> set b) (dw_members w)))) \<and>
    (\<forall>w \<in> set ws. card (set b \<inter> set (dw_members w)) \<le> 1) \<and>
    (\<forall>x \<in> set xs. int (card (set b \<inter> set (te_members x))) \<le> te_maximum_unavailable x)"
proof -
  from plan obtain rep where rep: "compare_skew t obs = Inr rep" "plan_guards t obs ws xs (eligible_nodes rep) = Inr ()"
    and bs: "up_batches pl = plan_batches p ws xs (eligible_nodes rep)" by (rule plan_update_Inr)
  note spec = plan_batches_spec [OF checked_limits [OF checked(1,3)] eligible_distinct [OF rep(1)], where ws = ws]
  have safe: "safe_batch (rp_batch_size p) ws xs b" using spec(2) b bs by auto
  have sub: "set b \<subseteq> set (eligible_nodes rep)"
    using spec(1) b bs by (metis UN_upper set_concat set_mset_mset)
  have "dw_minimum_available w \<le> int (length (filter (\<lambda>n. member_available obs w n \<and> n \<notin> set b) (dw_members w)))"
    if w: "w \<in> set ws" "set (dw_members w) \<inter> set b \<noteq> {}" for w
  proof -
    have "touches (eligible_nodes rep) w" using w sub by (auto simp: touches_def)
    from plan_guards_capacity [OF rep(2) w(1) this]
    have "dw_minimum_available w < int (length (filter (member_available obs w) (dw_members w)))" .
    moreover have "distinct (dw_members w)" using checked(2) w(1) by (auto simp: workload_check_def result_simps)
    moreover have "card (set b \<inter> set (dw_members w)) \<le> 1" using safe w(1) by (simp add: safe_batch_def)
    ultimately show ?thesis using length_filter_minus_one [of "dw_members w" "set b" "member_available obs w"] by simp
  qed
  with safe show ?thesis by (simp add: safe_batch_def)
qed

text \<open>C35: A plan schedules exactly the agents that the target release replaces, each once. The canary goes first and alone, and no batch is empty or larger than the policy allows.\<close>

theorem plan_schedules_exactly:
  assumes plan: "plan_update sha isof t obs ws p xs = Inr pl"
    and checked: "policy_check p = Inr p" "\<forall>x \<in> set xs. exclusion_check x = Inr x"
  shows "distinct (concat (up_batches pl)) \<and>
    (\<forall>n. n \<in> set (concat (up_batches pl)) \<longleftrightarrow> (\<exists>ob \<in> set obs. ao_node_id ob = n \<and> updatable t ob)) \<and>
    (\<forall>b \<in> set (up_batches pl). b \<noteq> [] \<and> int (length b) \<le> rp_batch_size p) \<and>
    (up_batches pl \<noteq> [] \<longrightarrow> (\<exists>c. up_canary_node pl = Some c \<and> hd (up_batches pl) = [c]))"
proof -
  from plan obtain rep where rep: "compare_skew t obs = Inr rep"
    and bs: "up_batches pl = plan_batches p ws xs (eligible_nodes rep)" "up_canary_node pl = canary_of p (eligible_nodes rep)"
    by (rule plan_update_Inr)
  note spec = plan_batches_spec [OF checked_limits [OF checked] eligible_distinct [OF rep], where ws = ws]
  have m: "mset (concat (up_batches pl)) = mset (eligible_nodes rep)" using spec(1) bs(1) by simp
  have "distinct (concat (up_batches pl))" using m eligible_distinct [OF rep] by (metis distinct_count_atmost_1 set_mset_mset)
  moreover have "set (concat (up_batches pl)) = set (eligible_nodes rep)" using m by (metis set_mset_mset)
  moreover have "\<forall>b \<in> set (up_batches pl). b \<noteq> [] \<and> int (length b) \<le> rp_batch_size p"
    using spec(2) bs(1) by (auto simp: safe_batch_def)
  moreover have "up_batches pl \<noteq> [] \<longrightarrow> (\<exists>c. up_canary_node pl = Some c \<and> hd (up_batches pl) = [c])"
    using bs by (auto simp: plan_batches_def split: option.splits)
  ultimately show ?thesis using eligible_iff [OF rep] by simp
qed

section \<open>Persisted plans\<close>

lemma release_digest_strip:
  assumes "release_digest_ok s"
  shows "s = ''sha256:'' @ strip_sha256 s"
proof -
  have t: "take 7 s = ''sha256:''" using assms by (simp add: release_digest_ok_def)
  then have "strip_sha256 s = drop 7 s" by (simp add: strip_sha256_def starts_with_def numeral_eq_Suc)
  with t append_take_drop_id [of 7 s] show ?thesis by simp
qed

lemma raw_digest_Inr [result_simps]: "raw_digest s = Inr r \<longleftrightarrow> release_digest_ok s \<and> r = strip_sha256 s"
  by (auto simp: raw_digest_def result_simps)

lemma prefixed_digest_ok: "is_hex 64 (sha m) \<Longrightarrow> m = canonical_line v \<Longrightarrow> release_digest_ok (prefixed_digest sha v)"
  by (simp add: prefixed_digest_def release_digest_ok_def)

lemma plan_update_fields:
  assumes "plan_update sha isof t obs ws p xs = Inr pl"
  shows "up_target pl = t" "up_policy pl = p" "up_soak_seconds pl = rp_soak_seconds p"
    "up_fleet_digest pl = prefixed_digest sha (fleet_document obs)"
    "up_topology_digest pl = prefixed_digest sha (topology_document isof xs ws)"
    "up_agent_input_digest pl = prefixed_digest sha (JList (map (observation_document isof) (sort_key ao_node_id obs)))"
    "up_source_observations pl = sort_key ao_node_id obs" "up_workloads pl = sort_key dw_workload_id ws"
    "up_topology_exclusions pl = sort_key te_exclusion_id xs"
    "up_plan_digest pl = prefixed_digest sha (plan_content pl)"
  using assms by (auto simp: plan_update_def result_simps Let_def plan_content_def)

lemma plan_update_architectures:
  assumes "plan_update sha isof t obs ws p xs = Inr pl" "compare_skew t obs = Inr rep"
  shows "up_node_architectures pl =
    map (\<lambda>ob. (ao_node_id ob, ao_architecture ob)) (filter (\<lambda>ob. ao_node_id ob \<in> set (eligible_nodes rep)) (sort_key ao_node_id obs))"
  using assms by (auto simp: plan_update_def result_simps Let_def)

lemma plan_guards_artifacts:
  assumes "plan_guards t obs ws xs es = Inr ()" "ob \<in> set obs" "ao_node_id ob \<in> set es"
  shows "ao_architecture ob \<in> set (map pa_architecture (tp_artifacts t))"
  using assms by (auto simp: plan_guards_def Let_def result_simps filter_empty_conv)

definition node_payload_document :: "target_platform \<Rightarrow> platform_artifact \<Rightarrow> json" where
  "node_payload_document t a = JObj
    [(''artifact'', artifact_document a),
     (''release'', release_document (JStr (tp_build_digest t)) (JStr (tp_platform_version t))
        (JInt (tp_protocol_maximum t)) (JInt (tp_protocol_minimum t)))]"

lemma map_of_observed:
  assumes "distinct (map f os)" "x \<in> set os"
  shows "map_of (map (\<lambda>y. (f y, g y)) os) (f x) = Some (g x)"
  using assms by (induction os) (auto simp: image_iff)

lemma artifact_unique:
  assumes "distinct (map pa_architecture as)" "a \<in> set as"
  shows "filter (\<lambda>y. pa_architecture y = pa_architecture a) as = [a]"
  using assms by (induction as) (auto simp: filter_empty_conv image_iff)

lemma payload_for_scheduled:
  assumes plan: "plan_update sha isof t obs ws p xs = Inr pl" and rep: "compare_skew t obs = Inr rep"
    and guards: "plan_guards t obs ws xs (eligible_nodes rep) = Inr ()" and target: "target_check t = Inr t"
    and sched: "set (concat (up_batches pl)) = set (eligible_nodes rep)"
    and ob: "ob \<in> set obs" "ao_node_id ob \<in> set (eligible_nodes rep)"
  shows "\<exists>a \<in> set (tp_artifacts t). pa_architecture a = ao_architecture ob \<and>
    payload_for pl (ao_node_id ob) = Inr (node_payload_document t a)"
proof -
  obtain a where a: "a \<in> set (tp_artifacts t)" "pa_architecture a = ao_architecture ob"
    using plan_guards_artifacts [OF guards ob] by auto
  have "distinct (map pa_architecture (tp_artifacts t))"
    using target by (auto simp: target_check_def result_simps Let_def)
  note only = artifact_unique [OF this a(1)]
  have "map_of (up_node_architectures pl) (ao_node_id ob) = Some (ao_architecture ob)"
    unfolding plan_update_architectures [OF plan rep]
    by (rule map_of_observed) (use ob compare_skew_Inr(1) [OF rep] in \<open>simp_all add: distinct_map_filter distinct_map_sort_key\<close>)
  then have "payload_for pl (ao_node_id ob) = Inr (node_payload_document t a)"
    using only a(2) ob(2) sched by (simp add: payload_for_def node_payload_document_def plan_update_fields(1) [OF plan] Let_def)
  with a show ?thesis by blast
qed

definition persisted_document :: "(py_datetime \<Rightarrow> string) \<Rightarrow> update_plan \<Rightarrow> (string, json) dict \<Rightarrow> (string, json) dict" where
  "persisted_document isof p payloads =
    [(''agent_input_digest'', JStr (up_agent_input_digest p)),
     (''batches'', JList (map (\<lambda>b. JList (map JStr b)) (up_batches p))), (''canary_node'', opt_string (up_canary_node p)),
     (''fleet_digest'', JStr (up_fleet_digest p)), (''incompatible'', JList (map JStr (up_incompatible p))),
     (''node_payloads'', JObj payloads),
     (''offline_pending'', JList (map JStr (up_offline_pending p))), (''plan_digest'', JStr (up_plan_digest p)),
     (''policy'', policy_document (up_policy p)), (''schema_version'', JInt 1), (''soak_seconds'', JInt (up_soak_seconds p)),
     (''source_observations'', JObj (dict_of (map (\<lambda>ob. (ao_node_id ob, observation_document isof ob)) (up_source_observations p)))),
     (''target'', target_document (up_target p)), (''topology_digest'', JStr (up_topology_digest p)),
     (''topology_exclusions'', JList (map exclusion_document (up_topology_exclusions p))),
     (''node_architectures'', JList (map (\<lambda>(n, a). JList [JStr n, JStr a]) (up_node_architectures p))),
     (''workloads'', JList (map (workload_document isof) (up_workloads p)))]"

lemma plan_document_Inr:
  "plan_document isof p = Inr doc \<longleftrightarrow>
     (\<exists>payloads. map_r (\<lambda>n. rbind (payload_for p n) (\<lambda>v. Inr (n, v))) (concat (up_batches p)) = Inr payloads \<and>
        doc = JObj (persisted_document isof p (dict_of payloads)))"
  by (auto simp: plan_document_def persisted_document_def result_simps)

lemma persisted_get:
  "jget (persisted_document isof p pay) ''agent_input_digest'' = JStr (up_agent_input_digest p)"
  "jget (persisted_document isof p pay) ''batches'' = JList (map (\<lambda>b. JList (map JStr b)) (up_batches p))"
  "jget (persisted_document isof p pay) ''canary_node'' = opt_string (up_canary_node p)"
  "jget (persisted_document isof p pay) ''fleet_digest'' = JStr (up_fleet_digest p)"
  "jget (persisted_document isof p pay) ''incompatible'' = JList (map JStr (up_incompatible p))"
  "jget (persisted_document isof p pay) ''node_payloads'' = JObj pay"
  "jget (persisted_document isof p pay) ''offline_pending'' = JList (map JStr (up_offline_pending p))"
  "jget (persisted_document isof p pay) ''plan_digest'' = JStr (up_plan_digest p)"
  "jget (persisted_document isof p pay) ''policy'' = policy_document (up_policy p)"
  "jget (persisted_document isof p pay) ''schema_version'' = JInt 1"
  "jget (persisted_document isof p pay) ''soak_seconds'' = JInt (up_soak_seconds p)"
  "jget (persisted_document isof p pay) ''source_observations'' =
     JObj (dict_of (map (\<lambda>ob. (ao_node_id ob, observation_document isof ob)) (up_source_observations p)))"
  "jget (persisted_document isof p pay) ''target'' = target_document (up_target p)"
  "jget (persisted_document isof p pay) ''topology_digest'' = JStr (up_topology_digest p)"
  "jget (persisted_document isof p pay) ''topology_exclusions'' = JList (map exclusion_document (up_topology_exclusions p))"
  "jget (persisted_document isof p pay) ''node_architectures'' = JList (map (\<lambda>(n, a). JList [JStr n, JStr a]) (up_node_architectures p))"
  "jget (persisted_document isof p pay) ''workloads'' = JList (map (workload_document isof) (up_workloads p))"
  unfolding persisted_document_def jget_def by simp_all

lemma persisted_fields: "has_fields plan_fields (persisted_document isof p pay)"
  unfolding has_fields_all persisted_document_def plan_fields_def by simp

lemma target_document_get:
  "is_obj (target_document t)"
  "jget (the_obj (target_document t)) ''platform_version'' = JStr (tp_platform_version t)"
  "jget (the_obj (target_document t)) ''build_digest'' = JStr (tp_build_digest t)"
  "jget (the_obj (target_document t)) ''release_digest'' = JStr (tp_release_digest t)"
  "jget (the_obj (target_document t)) ''base_commit'' = JStr (tp_base_commit t)"
  "jget (the_obj (target_document t)) ''protocol_minimum'' = JInt (tp_protocol_minimum t)"
  "jget (the_obj (target_document t)) ''protocol_maximum'' = JInt (tp_protocol_maximum t)"
  "jget (the_obj (target_document t)) ''tuf_targets_version'' = JInt (tp_tuf_targets_version t)"
  "jget (the_obj (target_document t)) ''artifacts'' = JList (map artifact_document (tp_artifacts t))"
  "jget (the_obj (target_document t)) ''target_name'' = JStr (target_name t)"
  "jget (the_obj (target_document t)) ''target_sha256'' = JStr (target_sha256 t)"
  unfolding target_document_def jget_def by (simp_all add: is_obj_def)

lemma digest_content_persisted:
  "canonical_line (digest_content (persisted_document isof p pay)) = canonical_line (plan_content p)"
  unfolding digest_content_def plan_content_def list.map persisted_get canonical_line_def json_dumps.simps(6) by simp

lemma persisted_input_digests:
  assumes plan: "plan_update sha isof t obs ws p xs = Inr pl"
  shows "input_digests_ok sha (persisted_document isof pl pay)"
proof -
  let ?os = "sort_key ao_node_id obs"
  let ?kvs = "map (\<lambda>ob. (ao_node_id ob, observation_document isof ob)) ?os"
  note f = plan_update_fields [OF plan]
  obtain rep where rep: "compare_skew t obs = Inr rep" using plan by (rule plan_update_Inr)
  have d: "wf_dict ?kvs" using compare_skew_Inr(1) [OF rep] by (simp add: comp_def distinct_map_sort_key)
  have "sorted (map fst ?kvs)" by (simp add: comp_def)
  then have sorted_kvs: "sort_key fst (dict_of ?kvs) = ?kvs" by (simp add: dict_of_distinct [OF d] sort_key_fst_id)
  have fleet: "fleet_of_documents (map (observation_document isof) ?os) = fleet_document obs"
    by (simp add: fleet_of_documents_def fleet_document_def observation_document_def is_obj_def jget_def comp_def)
  show ?thesis
    unfolding input_digests_ok_def persisted_get f Let_def the_obj.simps sorted_kvs
    by (simp add: comp_def fleet topology_document_def)
qed

lemma artifact_for_document:
  assumes "distinct (map pa_architecture as)" "a \<in> set as"
  shows "artifact_for (map artifact_document as) (pa_architecture a) = Some (artifact_document a)"
proof -
  have arch: "jget (the_obj (artifact_document y)) ''architecture'' = JStr (pa_architecture y)" "is_obj (artifact_document y)" for y
    by (simp_all add: artifact_document_def jget_def is_obj_def)
  have "map_of (map (\<lambda>y. (JStr (pa_architecture y), artifact_document y)) (rev as)) (JStr (pa_architecture a)) = Some (artifact_document a)"
    by (rule map_of_observed [where f = "\<lambda>y. JStr (pa_architecture y)"])
       (use assms in \<open>simp_all add: distinct_map inj_on_def\<close>)
  moreover have "map (\<lambda>i. (jget (the_obj i) ''architecture'', i)) (rev (filter is_obj (map artifact_document as))) =
      map (\<lambda>y. (JStr (pa_architecture y), artifact_document y)) (rev as)"
    by (simp add: filter_map comp_def arch rev_map)
  ultimately show ?thesis by (simp add: artifact_for_def)
qed

lemma map_r_total:
  assumes "\<And>x. x \<in> set xs \<Longrightarrow> f x = Inr (g x)"
  shows "map_r f xs = Inr (map g xs)"
  using assms by (induction xs) auto

lemma eligible_observed:
  assumes "compare_skew t obs = Inr rep" "n \<in> set (eligible_nodes rep)"
  obtains ob where "ob \<in> set obs" "ao_node_id ob = n" "ao_node_id ob \<in> set (eligible_nodes rep)"
  using assms eligible_iff [OF assms(1)] by blast

lemma plan_scheduled_set:
  assumes "plan_update sha isof t obs ws p xs = Inr pl" "compare_skew t obs = Inr rep"
    "policy_check p = Inr p" "\<forall>x \<in> set xs. exclusion_check x = Inr x"
  shows "mset (concat (up_batches pl)) = mset (eligible_nodes rep)"
proof -
  obtain rep' where rep': "compare_skew t obs = Inr rep'" and bs: "up_batches pl = plan_batches p ws xs (eligible_nodes rep')"
    using assms(1) by (rule plan_update_Inr)
  then show ?thesis
    using plan_batches_spec(1) [OF checked_limits [OF assms(3,4)] eligible_distinct [OF assms(2)]] assms(2) by simp
qed

lemma plan_update_guards:
  assumes "plan_update sha isof t obs ws p xs = Inr pl" "compare_skew t obs = Inr rep"
  shows "plan_guards t obs ws xs (eligible_nodes rep) = Inr ()"
  using assms by (auto simp: plan_update_def result_simps Let_def)

lemma binding_documents:
  "list_all binding_ok (map (\<lambda>(n, a). JList [JStr n, JStr a]) ps)"
  "map binding_pair (map (\<lambda>(n, a). JList [JStr n, JStr a]) ps) = ps"
  by (induction ps) (auto simp: binding_ok_def binding_pair_def is_str_with_def)

text \<open>The document of a plan: each scheduled node with the payload for its architecture.\<close>

lemma plan_document_total:
  assumes plan: "plan_update sha isof t obs ws p xs = Inr pl" and target: "target_check t = Inr t"
    and checked: "policy_check p = Inr p" "\<forall>x \<in> set xs. exclusion_check x = Inr x"
  obtains pay where "plan_document isof pl = Inr (JObj (persisted_document isof pl (map (\<lambda>n. (n, pay n)) (concat (up_batches pl)))))"
    "\<And>ob. ob \<in> set obs \<Longrightarrow> ao_node_id ob \<in> set (concat (up_batches pl)) \<Longrightarrow>
       \<exists>a \<in> set (tp_artifacts t). pa_architecture a = ao_architecture ob \<and> pay (ao_node_id ob) = node_payload_document t a"
    "\<And>n. n \<in> set (concat (up_batches pl)) \<Longrightarrow> payload_for pl n = Inr (pay n)"
proof -
  obtain rep where rep: "compare_skew t obs = Inr rep" using plan by (rule plan_update_Inr)
  note m = plan_scheduled_set [OF plan rep checked]
  have s: "set (concat (up_batches pl)) = set (eligible_nodes rep)" using m by (metis set_mset_mset)
  have dist: "distinct (concat (up_batches pl))" using m eligible_distinct [OF rep] by (metis distinct_count_atmost_1 set_mset_mset)
  define pay where "pay n = projr (payload_for pl n)" for n
  note scheduled = payload_for_scheduled [OF plan rep plan_update_guards [OF plan rep] target s]
  have ok: "payload_for pl n = Inr (pay n)" if n: "n \<in> set (concat (up_batches pl))" for n
  proof -
    obtain ob where "ob \<in> set obs" "ao_node_id ob = n" "ao_node_id ob \<in> set (eligible_nodes rep)"
      using eligible_observed [OF rep] n s by blast
    then show ?thesis using scheduled [of ob] by (auto simp: pay_def)
  qed
  have art: "\<exists>a \<in> set (tp_artifacts t). pa_architecture a = ao_architecture ob \<and> pay (ao_node_id ob) = node_payload_document t a"
    if "ob \<in> set obs" "ao_node_id ob \<in> set (concat (up_batches pl))" for ob
    using scheduled [OF that(1) that(2) [unfolded s]] by (auto simp: pay_def)
  have "map_r (\<lambda>n. rbind (payload_for pl n) (\<lambda>v. Inr (n, v))) (concat (up_batches pl)) = Inr (map (\<lambda>n. (n, pay n)) (concat (up_batches pl)))"
    by (rule map_r_total) (simp only: ok rbind.simps)
  moreover have "dict_of (map (\<lambda>n. (n, pay n)) (concat (up_batches pl))) = map (\<lambda>n. (n, pay n)) (concat (up_batches pl))"
    using dist by (intro dict_of_distinct) (simp add: comp_def)
  ultimately have "plan_document isof pl = Inr (JObj (persisted_document isof pl (map (\<lambda>n. (n, pay n)) (concat (up_batches pl)))))"
    unfolding plan_document_Inr by metis
  from that [OF this art ok] show thesis .
qed

lemma artifact_documents_hashable:
  "list_all (\<lambda>i. hash_ok (jget (the_obj i) ''architecture'')) (filter is_obj (map artifact_document as))"
  by (auto simp: list_all_iff artifact_document_def jget_def hash_ok_def)

text \<open>The steps of the validation on a document whose parts are known.\<close>

lemma validate_node_payloadsI:
  assumes "jget document ''target'' = JObj target" "jget document ''node_payloads'' = JObj payloads"
    "jget document ''node_architectures'' = JList (map (\<lambda>(n, a). JList [JStr n, JStr a]) archs)"
    "jget target ''artifacts'' = JList (map artifact_document as)"
    "wf_dict archs" "fst ` set payloads = fst ` set archs"
    "\<And>n arch. (n, arch) \<in> set archs \<Longrightarrow> \<exists>a. artifact_for (map artifact_document as) arch = Some a \<and>
       jget payloads n = JObj [(''artifact'', a),
         (''release'', release_document (jget target ''build_digest'') (jget target ''platform_version'')
            (jget target ''protocol_maximum'') (jget target ''protocol_minimum''))]"
  shows "validate_node_payloads document = Inr ()"
proof -
  have "case artifact_for (map artifact_document as) arch of
        None \<Rightarrow> False
      | Some a \<Rightarrow> py_eq (jget payloads n) (JObj [(''artifact'', a),
          (''release'', release_document (jget target ''build_digest'') (jget target ''platform_version'')
             (jget target ''protocol_maximum'') (jget target ''protocol_minimum''))])"
    if "(n, arch) \<in> set archs" for n arch
    using assms(7) [OF that] by (elim exE conjE) (simp only: option.case py_eq_refl)
  then have "list_all (\<lambda>(n, arch). case artifact_for (map artifact_document as) arch of
        None \<Rightarrow> False
      | Some a \<Rightarrow> py_eq (jget payloads n) (JObj [(''artifact'', a),
          (''release'', release_document (jget target ''build_digest'') (jget target ''platform_version'')
             (jget target ''protocol_maximum'') (jget target ''protocol_minimum''))])) archs"
    unfolding list_all_iff by blast
  moreover have "set (map fst payloads) = set (map fst archs)" using assms(6) by simp
  ultimately show ?thesis
    unfolding validate_node_payloads_def assms(1-3) the_obj.simps assms(4) the_list.simps Let_def
      binding_documents(2) dict_of_distinct [OF assms(5)]
    by (simp add: raise_if_def is_obj_def binding_documents(1) artifact_documents_hashable del: map_map)
qed

lemma persisted_payloads_valid:
  assumes plan: "plan_update sha isof t obs ws p xs = Inr pl" and target: "target_check t = Inr t"
    and checked: "policy_check p = Inr p" "\<forall>x \<in> set xs. exclusion_check x = Inr x"
    and art: "\<And>ob. ob \<in> set obs \<Longrightarrow> ao_node_id ob \<in> set (concat (up_batches pl)) \<Longrightarrow>
       \<exists>a \<in> set (tp_artifacts t). pa_architecture a = ao_architecture ob \<and> pay (ao_node_id ob) = node_payload_document t a"
  shows "validate_node_payloads (persisted_document isof pl (map (\<lambda>n. (n, pay n)) (concat (up_batches pl)))) = Inr ()"
proof -
  let ?ns = "concat (up_batches pl)" and ?archs = "up_node_architectures pl"
  obtain rep where rep: "compare_skew t obs = Inr rep" using plan by (rule plan_update_Inr)
  have s: "set ?ns = set (eligible_nodes rep)" using plan_scheduled_set [OF plan rep checked] by (metis set_mset_mset)
  have archs: "?archs = map (\<lambda>ob. (ao_node_id ob, ao_architecture ob)) (filter (\<lambda>ob. ao_node_id ob \<in> set ?ns) (sort_key ao_node_id obs))"
    unfolding s by (rule plan_update_architectures [OF plan rep])
  have in_archs: "(n, arch) \<in> set ?archs \<longleftrightarrow> (\<exists>ob \<in> set obs. ao_node_id ob = n \<and> ao_architecture ob = arch \<and> n \<in> set ?ns)" for n arch
    unfolding archs by auto
  have das: "distinct (map pa_architecture (tp_artifacts t))"
    using target by (auto simp: target_check_def result_simps Let_def)
  obtain tgt where tgt: "target_document t = JObj tgt" by (simp add: target_document_def)
  note get = target_document_get [of t, unfolded tgt the_obj.simps]
  show ?thesis
  proof (rule validate_node_payloadsI [where target = tgt and archs = ?archs and as = "tp_artifacts t"])
    show "wf_dict ?archs"
      using compare_skew_Inr(1) [OF rep] by (simp add: archs comp_def distinct_map_filter distinct_map_sort_key)
    show "fst ` set (map (\<lambda>n. (n, pay n)) ?ns) = fst ` set ?archs"
    proof -
      have "n \<in> fst ` set ?archs" if "n \<in> set ?ns" for n
        using eligible_observed [OF rep, of n] that s in_archs by (metis fst_conv imageI)
      moreover have "n \<in> set ?ns" if "n \<in> fst ` set ?archs" for n using that in_archs by auto
      ultimately have "fst ` set ?archs = set ?ns" by blast
      then show ?thesis by (simp only: set_map image_image fst_conv image_ident)
    qed
  next
    fix n arch assume "(n, arch) \<in> set ?archs"
    then obtain ob where ob: "ob \<in> set obs" "ao_node_id ob = n" "ao_architecture ob = arch" "n \<in> set ?ns" using in_archs by blast
    then obtain a where a: "a \<in> set (tp_artifacts t)" "pa_architecture a = arch" "pay n = node_payload_document t a"
      using art [of ob] by auto
    have "map_of (map (\<lambda>n. (n, pay n)) ?ns) n = Some (pay n)"
      by (simp only: map_of_map_restrict ob(4) restrict_in comp_apply)
    then have "jget (map (\<lambda>n. (n, pay n)) ?ns) n = node_payload_document t a" by (simp only: jget_def option.case a(3))
    with artifact_for_document [OF das a(1)] show "\<exists>a. artifact_for (map artifact_document (tp_artifacts t)) arch = Some a \<and>
       jget (map (\<lambda>n. (n, pay n)) ?ns) n = JObj [(''artifact'', a),
         (''release'', release_document (jget tgt ''build_digest'') (jget tgt ''platform_version'')
            (jget tgt ''protocol_maximum'') (jget tgt ''protocol_minimum''))]"
      unfolding a(2) get node_payload_document_def by blast
  qed (simp_all only: persisted_get plan_update_fields(1) [OF plan] tgt get)
qed

lemma target_check_digests:
  "target_check t = Inr t \<Longrightarrow> release_digest_ok (tp_release_digest t)"
  by (auto simp: target_check_def result_simps)

lemma new_rollout_total:
  assumes plan: "plan_update sha isof t obs ws p xs = Inr pl" and target: "target_check t = Inr t" and sha: "\<And>m. is_hex 64 (sha m)"
  obtains r where "new_rollout pl doc grant rid jid now = Inr r" "ur_plan r = doc" "ur_id r = rid"
    "ur_plan_digest r = strip_sha256 (up_plan_digest pl)"
    "\<And>isof' pay. doc = JObj (persisted_document isof' pl pay) \<Longrightarrow>
       plan_pins r (persisted_document isof' pl pay) (the_obj (target_document t))"
proof -
  note f = plan_update_fields [OF plan]
  have ok: "release_digest_ok (up_plan_digest pl)" "release_digest_ok (up_fleet_digest pl)" "release_digest_ok (up_topology_digest pl)"
    "release_digest_ok (up_agent_input_digest pl)" "release_digest_ok (tp_release_digest t)"
    using sha target_check_digests [OF target] by (simp_all add: f prefixed_digest_ok)
  define r where "r = \<lparr> ur_id = rid, ur_job_id = jid, ur_state = ''planned'', ur_plan_digest = strip_sha256 (up_plan_digest pl),
    ur_release_digest = strip_sha256 (tp_release_digest t), ur_base_commit = tp_base_commit t,
    ur_fleet_digest = strip_sha256 (up_fleet_digest pl), ur_topology_digest = strip_sha256 (up_topology_digest pl),
    ur_agent_input_digest = strip_sha256 (up_agent_input_digest pl), ur_target_platform_version = tp_platform_version t,
    ur_target_build_digest = tp_build_digest t, ur_tuf_targets_version = tp_tuf_targets_version t,
    ur_update_admin_grant = grant, ur_plan = doc, ur_current_batch = 0, ur_created_at = now, ur_updated_at = now \<rparr>"
  have new: "new_rollout pl doc grant rid jid now = Inr r"
    unfolding new_rollout_def f(1) raw_digest_def raise_if_def r_def by (simp add: ok)
  have pins: "plan_pins r (persisted_document isof' pl pay) (the_obj (target_document t))" for isof' pay
    unfolding plan_pins_def persisted_get target_document_get target_name_def target_sha256_def r_def update_rollout.simps
      release_digest_strip [OF ok(1), symmetric] release_digest_strip [OF ok(2), symmetric]
      release_digest_strip [OF ok(3), symmetric] release_digest_strip [OF ok(4), symmetric]
      release_digest_strip [OF ok(5), symmetric]
    by simp
  show thesis by (rule that [OF new _ _ _ pins]) (simp_all add: r_def)
qed

lemma policy_document_soak: "is_obj (policy_document p) \<and> jget (the_obj (policy_document p)) ''soak_seconds'' = JInt (rp_soak_seconds p)"
  by (simp add: policy_document_def is_obj_def jget_def)

lemma persisted_plan_valid:
  assumes plan: "plan_update sha isof t obs ws p xs = Inr pl" and target: "target_check t = Inr t" and sha: "\<And>m. is_hex 64 (sha m)"
    and checked: "policy_check p = Inr p" "\<forall>x \<in> set xs. exclusion_check x = Inr x"
  shows "\<exists>doc r. plan_document isof pl = Inr doc \<and> new_rollout pl doc grant rid jid now = Inr r \<and>
    validate_persisted_plan sha r = Inr () \<and> ur_id r = rid \<and> ur_plan_digest r = strip_sha256 (up_plan_digest pl)"
proof -
  obtain pay where doc: "plan_document isof pl = Inr (JObj (persisted_document isof pl (map (\<lambda>n. (n, pay n)) (concat (up_batches pl)))))"
    and art: "\<And>ob. ob \<in> set obs \<Longrightarrow> ao_node_id ob \<in> set (concat (up_batches pl)) \<Longrightarrow>
       \<exists>a \<in> set (tp_artifacts t). pa_architecture a = ao_architecture ob \<and> pay (ao_node_id ob) = node_payload_document t a"
    using plan_document_total [OF plan target checked] by metis
  define d where "d = persisted_document isof pl (map (\<lambda>n. (n, pay n)) (concat (up_batches pl)))"
  obtain r where r: "new_rollout pl (JObj d) grant rid jid now = Inr r" "ur_plan r = JObj d" "ur_id r = rid"
    "ur_plan_digest r = strip_sha256 (up_plan_digest pl)"
    and pins: "plan_pins r d (the_obj (target_document t))"
    using new_rollout_total [OF plan target sha, of "JObj d" grant rid jid now] d_def by metis
  note f = plan_update_fields [OF plan]
  have digest: "prefixed_digest sha (digest_content d) = up_plan_digest pl"
    unfolding d_def prefixed_digest_def digest_content_persisted f(10) ..
  have payloads: "validate_node_payloads d = Inr ()"
    unfolding d_def by (rule persisted_payloads_valid [OF plan target checked art])
  have inputs: "input_digests_ok sha d" unfolding d_def by (rule persisted_input_digests [OF plan])
  have get: "jget d ''target'' = target_document t" "jget d ''policy'' = policy_document p" "jget d ''soak_seconds'' = JInt (rp_soak_seconds p)"
    "jget d ''plan_digest'' = JStr (up_plan_digest pl)" "is_obj (jget d ''source_observations'')" "is_list (jget d ''workloads'')"
    "is_list (jget d ''topology_exclusions'')" "has_fields plan_fields d"
    unfolding d_def persisted_get f(1-3) by (simp_all add: is_obj_def persisted_fields)
  have "validate_persisted_plan sha r = Inr ()"
    unfolding validate_persisted_plan_def r(2) the_obj.simps Let_def get(1-4) digest
    using pins inputs payloads get(5-8) policy_document_soak [of p] target_document_get(1) [of t]
    by (simp add: raise_if_def is_obj_def [of "JObj d"])
  with doc r show ?thesis unfolding d_def by blast
qed

text \<open>C36: A plan can be persisted. The document of a plan of the planner carries the payload of every scheduled node, and the row that is written for it passes the validation that every later step makes: pins, digests of the plan and of its inputs, and the payload of each node.\<close>

theorem planned_rollout_validates:
  assumes "plan_update sha isof t obs ws p xs = Inr pl" "target_check t = Inr t" "\<And>m. is_hex 64 (sha m)"
    "policy_check p = Inr p" "\<forall>x \<in> set xs. exclusion_check x = Inr x"
  shows "\<exists>doc r. plan_document isof pl = Inr doc \<and> new_rollout pl doc grant rid jid now = Inr r \<and>
    validate_persisted_plan sha r = Inr ()"
  using persisted_plan_valid [OF assms] by blast

section \<open>Rollouts are created once\<close>

lemma find_rollout_Some:
  "find_rollout db g = Some r \<Longrightarrow> r \<in> set (rd_rollouts db) \<and> ur_plan_digest r = g"
  by (auto simp: find_rollout_def find_Some_iff)

lemma find_rollout_None: "find_rollout db g = None \<longleftrightarrow> g \<notin> ur_plan_digest ` set (rd_rollouts db)"
  by (auto simp: find_rollout_def find_None_iff)

lemma new_rollout_Inr:
  "new_rollout p doc grant rid jid now = Inr r \<Longrightarrow> ur_id r = rid \<and> ur_plan_digest r = strip_sha256 (up_plan_digest p)"
  by (auto simp: new_rollout_def result_simps)

lemma write_rollout_Inr:
  assumes "write_rollout sha isof db p actor rq now rid jid doc grant = Inr (db', i)"
  obtains (found) r where "find_rollout db (strip_sha256 (up_plan_digest p)) = Some r" "db' = db" "i = ur_id r"
  | (added) r where "find_rollout db (strip_sha256 (up_plan_digest p)) = None" "new_rollout p doc grant rid jid now = Inr r"
      "rd_rollouts db' = rd_rollouts db @ [r]" "i = rid"
proof (cases "find_rollout db (strip_sha256 (up_plan_digest p))")
  case None
  with assms that(2) show thesis
    unfolding write_rollout_def rbind_Inr lift_exc_Inr raw_digest_Inr by (elim exE conjE) (auto simp: result_simps)
next
  case (Some r)
  with assms that(1) show thesis
    unfolding write_rollout_def rbind_Inr lift_exc_Inr raw_digest_Inr by (elim exE conjE) auto
qed

text \<open>What a creation that returns leaves: the rollout was there, or it is added at the end.\<close>

lemma create_rollout_Inr:
  assumes "create_rollout sha isof gf db0 db p actor rq now rid jid = Inr (db', i)"
    and old: "set (rd_rollouts db0) \<subseteq> set (rd_rollouts db)"
  shows "up_batches p \<noteq> []" "up_incompatible p = []" "release_digest_ok (up_plan_digest p)"
    "(db' = db \<and> (\<exists>r \<in> set (rd_rollouts db). ur_plan_digest r = strip_sha256 (up_plan_digest p) \<and> ur_id r = i)) \<or>
     (find_rollout db (strip_sha256 (up_plan_digest p)) = None \<and>
      (\<exists>r. rd_rollouts db' = rd_rollouts db @ [r] \<and> ur_plan_digest r = strip_sha256 (up_plan_digest p) \<and> ur_id r = i))"
proof -
  let ?g = "strip_sha256 (up_plan_digest p)"
  from assms(1) show "up_batches p \<noteq> []" "up_incompatible p = []" "release_digest_ok (up_plan_digest p)"
    unfolding create_rollout_def raise_if_Inr rbind_Inr lift_exc_Inr raw_digest_Inr by blast+
  show "(db' = db \<and> (\<exists>r \<in> set (rd_rollouts db). ur_plan_digest r = ?g \<and> ur_id r = i)) \<or>
     (find_rollout db ?g = None \<and> (\<exists>r. rd_rollouts db' = rd_rollouts db @ [r] \<and> ur_plan_digest r = ?g \<and> ur_id r = i))"
  proof (cases "find_rollout db0 ?g")
    case (Some r)
    then have "db' = db" "i = ur_id r"
      using assms(1) unfolding create_rollout_def raise_if_Inr rbind_Inr lift_exc_Inr raw_digest_Inr by auto
    then show ?thesis using find_rollout_Some [OF Some] old by blast
  next
    case None
    then obtain doc grant where "write_rollout sha isof db p actor rq now rid jid doc grant = Inr (db', i)"
      using assms(1) unfolding create_rollout_def raise_if_Inr rbind_Inr lift_exc_Inr raw_digest_Inr by (auto simp: result_simps)
    then show ?thesis
    proof (cases rule: write_rollout_Inr)
      case found
      then show ?thesis using find_rollout_Some [OF found(1)] by blast
    next
      case added
      then show ?thesis using new_rollout_Inr [OF added(2)] by blast
    qed
  qed
qed

text \<open>C37: A plan has one rollout. Creating it keeps the digests of plans unique; the identifier that is returned is that of the rollout of the plan; and creating the same plan again, by whoever and under whatever request, changes nothing and returns the same identifier.\<close>

theorem rollout_created_once:
  assumes created: "create_rollout sha isof gf db0 db p actor rq now rid jid = Inr (db', i)"
    and old: "set (rd_rollouts db0) \<subseteq> set (rd_rollouts db)" and uniq: "distinct (map ur_plan_digest (rd_rollouts db))"
    and again: "rollout_actor_ok actor'" "rollout_request_ok rq'"
  shows "distinct (map ur_plan_digest (rd_rollouts db')) \<and>
    (\<exists>r \<in> set (rd_rollouts db'). up_plan_digest p = ''sha256:'' @ ur_plan_digest r \<and> ur_id r = i) \<and>
    create_rollout sha isof gf' db' db' p actor' rq' now' rid' jid' = Inr (db', i)"
proof -
  let ?g = "strip_sha256 (up_plan_digest p)"
  note inv = create_rollout_Inr [OF created old]
  have d': "distinct (map ur_plan_digest (rd_rollouts db'))"
    using inv(4) uniq by (auto simp: find_rollout_None)
  have "\<exists>r \<in> set (rd_rollouts db'). ur_plan_digest r = ?g \<and> ur_id r = i" using inv(4) by auto
  then obtain r where r: "r \<in> set (rd_rollouts db')" "ur_plan_digest r = ?g" "ur_id r = i" by blast
  then have "find_rollout db' ?g \<noteq> None" by (metis find_rollout_None imageI)
  then obtain r' where r': "find_rollout db' ?g = Some r'" by blast
  have "r' = r" using find_rollout_Some [OF r'] r d' distinct_map_unique by metis
  then have "create_rollout sha isof gf' db' db' p actor' rq' now' rid' jid' = Inr (db', i)"
    using inv(1-3) again r r' by (simp add: create_rollout_def raise_if_def raw_digest_def)
  moreover have "up_plan_digest p = ''sha256:'' @ ur_plan_digest r" using release_digest_strip [OF inv(3)] r(2) by simp
  ultimately show ?thesis using d' r by blast
qed

section \<open>A rollout over two nodes\<close>

definition ex_image :: string where
  "ex_image = ''sha256:'' @ replicate 64 (CHR ''e'')"

definition ex_hash :: "string \<Rightarrow> string" where
  "ex_hash m = replicate 64 (CHR ''b'')"

lemma ex_hash_hex: "is_hex 64 (ex_hash m)"
  by (simp add: ex_hash_def is_hex_def list_all_iff is_hexchar_def between_def)

definition ex_iso :: "py_datetime \<Rightarrow> string" where
  "ex_iso d = ''t''"

definition ex_artifact :: platform_artifact where
  "ex_artifact = \<lparr> pa_architecture = ''linux-arm64'', pa_oci_manifest_digest = ex_image, pa_payload_name = ''agent'',
     pa_payload_sha256 = replicate 64 (CHR ''a''), pa_payload_size = 4096 \<rparr>"

definition ex_platform :: target_platform where
  "ex_platform = \<lparr> tp_platform_version = ''1.1.0'', tp_build_digest = ex_image, tp_release_digest = ex_image,
     tp_base_commit = replicate 40 (CHR ''c''), tp_protocol_minimum = 1, tp_protocol_maximum = 2, tp_tuf_targets_version = 3,
     tp_artifacts = [ex_artifact] \<rparr>"

definition ex_agent :: "string \<Rightarrow> agent_observation" where
  "ex_agent n = \<lparr> ao_node_id = n, ao_state = ''active'', ao_online = True, ao_architecture = ''linux-arm64'',
     ao_platform_version = Some ''1.0.9'', ao_build_digest = Some ex_image, ao_protocol_version = Some 1, ao_active_slot = Some ''A'',
     ao_agent_sha256 = Some (replicate 64 (CHR ''a'')), ao_supervisor_generation = Some 1,
     ao_capabilities = [''agent.update'', ''agent.rollback''], ao_last_seen_at = None, ao_supervisor_ready_generation = None,
     ao_self_test_passed = False, ao_contact_certificate_serial = None, ao_contact_observation_digest = None \<rparr>"

definition ex_workload :: distributed_workload where
  "ex_workload = \<lparr> dw_workload_id = ''w'', dw_members = [node_a, node_b], dw_minimum_available = 1, dw_replicas = [] \<rparr>"

definition ex_exclusion :: topology_exclusion where
  "ex_exclusion = \<lparr> te_exclusion_id = ''x'', te_members = [node_a, node_b], te_maximum_unavailable = 1 \<rparr>"

definition ex_rollout_policy :: rollout_policy where
  "ex_rollout_policy = \<lparr> rp_batch_size = 2, rp_soak_seconds = 60, rp_preferred_canary = Some node_b \<rparr>"

lemma ex_nodes: "node_a \<noteq> node_b" "node_a < node_b" "is_node_id node_a" "is_node_id node_b"
  by code_simp+

lemma ex_image_ok: "release_digest_ok ex_image"
  by (simp add: ex_image_def release_digest_ok_def is_hex_def list_all_iff is_hexchar_def between_def)

lemma ex_semver: "semver_match ''1.1.0'' = Some (1, 1, 0)" "semver_match ''1.0.9'' = Some (1, 0, 9)"
  by code_simp+

lemma ex_rollout_checked:
  "policy_check ex_rollout_policy = Inr ex_rollout_policy" "\<forall>w \<in> set [ex_workload]. workload_check w = Inr w"
  "\<forall>x \<in> set [ex_exclusion]. exclusion_check x = Inr x" "target_check ex_platform = Inr ex_platform"
  by (simp_all add: policy_check_def workload_check_def exclusion_check_def target_check_def raise_if_def ex_rollout_policy_def
      ex_workload_def ex_exclusion_def ex_platform_def ex_artifact_def if_present_def ex_nodes ex_image_ok is_semver_def ex_semver
      commit_ok_def list_all_iff is_hexchar_def between_def)

lemma ex_skew: "node_skew_of ex_platform (ex_agent n) = Inr (skew (ex_agent n) ''update-available'' True True [''control-release-newer''])"
  by (simp add: node_skew_of_def missing_identity_def version_tuple_def ex_agent_def ex_platform_def ex_semver)

definition ex_agents :: "agent_observation list" where
  "ex_agents = [ex_agent node_a, ex_agent node_b]"

definition ex_rep :: skew_report where
  "ex_rep = \<lparr> sr_nodes = map (\<lambda>ob. skew ob ''update-available'' True True [''control-release-newer'']) ex_agents,
     sr_affected_nodes = [node_a, node_b], sr_incompatible_nodes = [], sr_prompt_required = True \<rparr>"

lemma ex_agent_sel [simp]: "ao_node_id (ex_agent n) = n" "ao_architecture (ex_agent n) = ''linux-arm64''"
  "ao_state (ex_agent n) = ''active''" "ao_online (ex_agent n)"
  by (simp_all add: ex_agent_def)

lemma ex_report: "compare_skew ex_platform ex_agents = Inr ex_rep"
  using ex_nodes by (simp add: compare_skew_def ex_agents_def ex_skew ex_rep_def less_imp_le)

lemma ex_eligible: "eligible_nodes ex_rep = [node_a, node_b]" "offline_nodes ex_rep = []"
  using ex_nodes by (simp_all add: eligible_nodes_def offline_nodes_def ex_rep_def ex_agents_def less_imp_le)

lemma ex_guards: "plan_guards ex_platform ex_agents [ex_workload] [ex_exclusion] [node_a, node_b] = Inr ()"
proof -
  have "member_available ex_agents ex_workload node_a" "member_available ex_agents ex_workload node_b"
    using ex_nodes by (simp_all add: member_available_def ex_agents_def ex_workload_def)
  then show ?thesis
    by (simp add: plan_guards_def Let_def ex_workload_def ex_exclusion_def ex_agents_def ex_platform_def ex_artifact_def raise_if_def)
qed

lemma ex_batches: "plan_batches ex_rollout_policy [ex_workload] [ex_exclusion] [node_a, node_b] = [[node_b], [node_a]]"
  using ex_nodes
  by (simp add: plan_batches_def canary_of_def ex_rollout_policy_def batch_loop.simps next_batch_def conflicts_def ex_workload_def ex_exclusion_def)

lemma ex_plan_made:
  "\<exists>pl. plan_update ex_hash ex_iso ex_platform ex_agents [ex_workload] ex_rollout_policy [ex_exclusion] = Inr pl \<and>
     up_batches pl = [[node_b], [node_a]] \<and> up_incompatible pl = [] \<and> up_offline_pending pl = [] \<and>
     up_canary_node pl = Some node_b"
  unfolding plan_update_def ex_report rbind.simps Let_def ex_eligible ex_guards ex_batches
  by (simp add: ex_rep_def canary_of_def ex_rollout_policy_def)

definition ex_plan_value :: update_plan where
  "ex_plan_value = projr (plan_update ex_hash ex_iso ex_platform ex_agents [ex_workload] ex_rollout_policy [ex_exclusion])"

lemma ex_planned:
  "plan_update ex_hash ex_iso ex_platform ex_agents [ex_workload] ex_rollout_policy [ex_exclusion] = Inr ex_plan_value"
  "up_batches ex_plan_value = [[node_b], [node_a]]" "up_incompatible ex_plan_value = []" "up_offline_pending ex_plan_value = []"
  "up_canary_node ex_plan_value = Some node_b"
  using ex_plan_made by (auto simp: ex_plan_value_def)

theorem plan_keeps_capacity_witness:
  "dw_minimum_available ex_workload \<le>
     int (length (filter (\<lambda>n. member_available ex_agents ex_workload n \<and> n \<notin> set [node_b]) (dw_members ex_workload)))"
proof -
  have "[node_b] \<in> set (up_batches ex_plan_value)" by (simp add: ex_planned)
  from plan_keeps_capacity [OF ex_planned(1) ex_rollout_checked(1-3) this]
  show ?thesis by (auto simp: ex_workload_def)
qed

theorem plan_schedules_exactly_witness:
  "distinct (concat (up_batches ex_plan_value)) \<and> hd (up_batches ex_plan_value) = [node_b]"
  using plan_schedules_exactly [OF ex_planned(1) ex_rollout_checked(1,3)] by (simp add: ex_planned)

theorem planned_rollout_validates_witness:
  "\<exists>doc r. plan_document ex_iso ex_plan_value = Inr doc \<and> new_rollout ex_plan_value doc None ''r'' ''j'' 5 = Inr r \<and>
     validate_persisted_plan ex_hash r = Inr ()"
  by (rule planned_rollout_validates [OF ex_planned(1) ex_rollout_checked(4) _ ex_rollout_checked(1,3)]) (rule ex_hash_hex)

definition ex_rollout_db :: rollout_db where
  "ex_rollout_db = \<lparr> rd_rollouts = [], rd_nodes = [], rd_jobs = [] \<rparr>"

lemma ex_request_id: "rollout_request_ok ex_id" "rollout_actor_ok ''admin''"
  by (simp_all add: rollout_request_ok_def uuid_norm_canonical [OF ex_id_uuid] rollout_actor_ok_def is_blank_iff py_space_def)

lemma ex_source_total: "n \<in> {node_a, node_b} \<Longrightarrow> source_for ex_plan_value n = Inr (ex_agent n)"
  using ex_nodes plan_update_fields(7) [OF ex_planned(1)] by (auto simp: source_for_def ex_agents_def less_imp_le)

lemma ex_raw: "raw_digest (prefixed_digest ex_hash v) = Inr (strip_sha256 (prefixed_digest ex_hash v))"
  using prefixed_digest_ok [where sha = ex_hash, OF ex_hash_hex] by (simp add: raw_digest_def raise_if_def)

lemma ex_rows: "\<exists>rows. batch_rows ex_hash ex_iso ex_plan_value rid = Inr rows" "offline_rows ex_hash ex_iso ex_plan_value rid = Inr []"
proof -
  obtain pay where "\<And>n. n \<in> set (concat (up_batches ex_plan_value)) \<Longrightarrow> payload_for ex_plan_value n = Inr (pay n)"
    using plan_document_total [OF ex_planned(1) ex_rollout_checked(4,1,3)] by metis
  then have "payload_for ex_plan_value node_a = Inr (pay node_a)" "payload_for ex_plan_value node_b = Inr (pay node_b)"
    by (simp_all add: ex_planned)
  then show "\<exists>rows. batch_rows ex_hash ex_iso ex_plan_value rid = Inr rows"
    by (simp add: batch_rows_def ex_planned ex_source_total ex_raw)
  show "offline_rows ex_hash ex_iso ex_plan_value rid = Inr []" by (simp add: offline_rows_def ex_planned)
qed

lemma ex_created:
  "\<exists>db. create_rollout ex_hash ex_iso None ex_rollout_db ex_rollout_db ex_plan_value ''admin'' ex_id 5 ''r'' ''j'' = Inr (db, ''r'')"
proof -
  obtain doc r where doc: "plan_document ex_iso ex_plan_value = Inr doc" "new_rollout ex_plan_value doc None ''r'' ''j'' 5 = Inr r"
    "validate_persisted_plan ex_hash r = Inr ()"
    using persisted_plan_valid [OF ex_planned(1) ex_rollout_checked(4) ex_hash_hex ex_rollout_checked(1,3)] by metis
  obtain rows where rows: "batch_rows ex_hash ex_iso ex_plan_value ''r'' = Inr rows" using ex_rows(1) by blast
  have digest: "raw_digest (up_plan_digest ex_plan_value) = Inr (strip_sha256 (up_plan_digest ex_plan_value))"
    unfolding plan_update_fields(10) [OF ex_planned(1)] by (rule ex_raw)
  have none: "find_rollout ex_rollout_db g = None" for g by (simp add: find_rollout_def ex_rollout_db_def)
  show ?thesis
    by (simp add: create_rollout_def ex_planned(2,3) ex_request_id digest none doc ask_grant_def write_rollout_def new_rollout_job_def
        ex_raw rows ex_rows(2) raise_if_def) (simp add: ex_rollout_db_def)
qed

theorem rollout_created_once_witness:
  "\<exists>db. create_rollout ex_hash ex_iso None ex_rollout_db ex_rollout_db ex_plan_value ''admin'' ex_id 5 ''r'' ''j'' = Inr (db, ''r'') \<and>
     create_rollout ex_hash ex_iso None db db ex_plan_value ''admin'' ex_id 9 ''s'' ''k'' = Inr (db, ''r'')"
proof -
  obtain db where db: "create_rollout ex_hash ex_iso None ex_rollout_db ex_rollout_db ex_plan_value ''admin'' ex_id 5 ''r'' ''j'' = Inr (db, ''r'')"
    using ex_created by blast
  have "create_rollout ex_hash ex_iso None db db ex_plan_value ''admin'' ex_id 9 ''s'' ''k'' = Inr (db, ''r'')"
    using rollout_created_once [OF db _ _ ex_request_id(2,1)] by (simp add: ex_rollout_db_def)
  with db show ?thesis by blast
qed

end
