(* ===== verification/Recipe_Topology.thy ===== *)
theory Recipe_Topology
  imports Json Profiles Job_Queue
begin

text \<open>
  What run and install admission reads of a recipe and of the inventory: the deployment profiles
  of a recipe (\<^verbatim>\<open>recipe_contract.py\<close>), the validation of placements against a profile
  (\<^verbatim>\<open>topology.py\<close>) and the append-only inventory of the nodes (\<^verbatim>\<open>inventory_repository.py\<close>).

  Recipes are JSON documents whose fields the code reads with \<^verbatim>\<open>[]\<close>, \<^verbatim>\<open>.get\<close>, \<^verbatim>\<open>int()\<close> and
  \<^verbatim>\<open>str()\<close>; the Python semantics of these is written out, with every exception as a value.
  Times are microseconds. \<open>canon_ip\<close> stands for \<^verbatim>\<open>str(ipaddress.ip_address(x))\<close>, \<open>isof\<close> for
  \<^verbatim>\<open>datetime.isoformat\<close> and \<open>h\<close> for the hexadecimal SHA-256 digest; \<open>agents\<close> are the registered nodes.
\<close>

section \<open>Exceptions\<close>

datatype adm_exc =
    AdmExc exc
  | RecipeContractError string string string
  | TopologyError string string
  | ArtifactSizeError string
  | ClusterMappingError string string
  | PlanConflict string
  | IntegrityError string

section \<open>Reading a document\<close>

text \<open>\<^verbatim>\<open>d[k]\<close> on a dictionary.\<close>

definition py_item :: "(string, json) dict \<Rightarrow> string \<Rightarrow> adm_exc + json" where
  "py_item d k = (case dict_get d k of None \<Rightarrow> Inl (AdmExc (KeyError k)) | Some v \<Rightarrow> Inr v)"

text \<open>\<^verbatim>\<open>repr\<close> of a string: the quote, the escapes, and \<^verbatim>\<open>\xhh\<close> for what is not printable.\<close>

definition repr_char :: "char \<Rightarrow> char \<Rightarrow> string" where
  "repr_char q c =
     (let n = (of_char c :: nat) in
      if c = q \<or> c = CHR 0x5C then [CHR 0x5C, c]
      else if n = 10 then [CHR 0x5C, CHR ''n''] else if n = 13 then [CHR 0x5C, CHR ''r'']
      else if n = 9 then [CHR 0x5C, CHR ''t'']
      else if n < 32 \<or> 127 \<le> n \<and> n \<le> 160 \<or> n = 173
      then [CHR 0x5C, CHR ''x'', hex_char (n div 16), hex_char (n mod 16)]
      else [c])"

definition repr_string :: "string \<Rightarrow> string" where
  "repr_string s =
     (let q = (if CHR 0x27 \<in> set s \<and> CHR 0x22 \<notin> set s then CHR 0x22 else CHR 0x27)
      in q # concat (map (repr_char q) s) @ [q])"

primrec py_repr :: "json \<Rightarrow> string" where
  "py_repr JNull = ''None''"
| "py_repr (JBool b) = (if b then ''True'' else ''False'')"
| "py_repr (JInt i) = dec_int i"
| "py_repr (JStr s) = repr_string s"
| "py_repr (JList xs) = ''['' @ join_with '', '' (map py_repr xs) @ '']''"
| "py_repr (JObj kvs) =
     ''{'' @ join_with '', '' (map (\<lambda>(k, t). repr_string k @ '': '' @ t) (map (map_prod id py_repr) kvs)) @ ''}''"

definition py_str :: "json \<Rightarrow> string" where
  "py_str v = (case v of JStr s \<Rightarrow> s | _ \<Rightarrow> py_repr v)"

text \<open>\<^verbatim>\<open>int(s)\<close> of a string: surrounding white space, a sign, digits with single underscores between them.\<close>

fun dec_body :: "nat \<Rightarrow> string \<Rightarrow> nat option" where
  "dec_body acc [] = Some acc"
| "dec_body acc (c # cs) =
    (if is_digit c then dec_body (10 * acc + (of_char c - 48)) cs
     else if c = CHR ''_'' \<and> cs \<noteq> [] \<and> is_digit (hd cs) then dec_body acc cs
     else None)"

definition int_of_text :: "string \<Rightarrow> int option" where
  "int_of_text s =
     (let t = py_strip s;
          neg = (t \<noteq> [] \<and> hd t = CHR ''-'');
          u = (if t \<noteq> [] \<and> (hd t = CHR ''-'' \<or> hd t = CHR ''+'') then List.tl t else t)
      in if u = [] \<or> \<not> is_digit (hd u) \<or> 4300 < length (filter is_digit u) then None
         else map_option (\<lambda>n. if neg then - int n else int n) (dec_body 0 u))"

definition py_int_text :: "string \<Rightarrow> adm_exc + int" where
  "py_int_text s =
     (case int_of_text s of
        None \<Rightarrow> Inl (AdmExc (ValueError (''invalid literal for int() with base 10: '' @ repr_string s)))
      | Some i \<Rightarrow> Inr i)"

definition py_int :: "json \<Rightarrow> adm_exc + int" where
  "py_int v =
     (case v of
        JInt i \<Rightarrow> Inr i
      | JBool b \<Rightarrow> Inr (if b then 1 else 0)
      | JStr s \<Rightarrow> py_int_text s
      | _ \<Rightarrow> Inl (AdmExc (TypeError ''int() argument must be a string, a bytes-like object or a real number'')))"

text \<open>\<^verbatim>\<open>int(d[k])\<close>.\<close>

definition int_item :: "(string, json) dict \<Rightarrow> string \<Rightarrow> adm_exc + int" where
  "int_item d k = rbind (py_item d k) py_int"

text \<open>\<^verbatim>\<open>str.isdigit\<close>: besides the decimal digits it holds of the superscripts one, two and three.\<close>

definition py_isdigit :: "string \<Rightarrow> bool" where
  "py_isdigit s \<longleftrightarrow> s \<noteq> [] \<and> list_all (\<lambda>c. is_digit c \<or> (of_char c :: nat) \<in> {178, 179, 185}) s"

section \<open>Deployment profiles\<close>

text \<open>Fields of a document: \<^verbatim>\<open>.get(k)\<close> of a mapping, and the values that are mappings.\<close>

definition the_maps :: "json list \<Rightarrow> (string, json) dict list" where
  "the_maps vs = List.map_filter (\<lambda>v. case v of JObj d \<Rightarrow> Some d | _ \<Rightarrow> None) vs"

definition get_list :: "(string, json) dict \<Rightarrow> string \<Rightarrow> json list option" where
  "get_list d k = (case dict_get d k of Some (JList xs) \<Rightarrow> Some xs | _ \<Rightarrow> None)"

definition get_map :: "(string, json) dict \<Rightarrow> string \<Rightarrow> (string, json) dict option" where
  "get_map d k = (case dict_get d k of Some (JObj e) \<Rightarrow> Some e | _ \<Rightarrow> None)"

definition deployment_profile :: "(string, json) dict \<Rightarrow> string \<Rightarrow> adm_exc + (string, json) dict" where
  "deployment_profile document name =
     (case get_list document ''deployment_profiles'' of
        None \<Rightarrow> Inl (RecipeContractError ''recipe.profiles'' ''deployment_profiles'' ''profiles are required'')
      | Some profiles \<Rightarrow>
          (case filter (\<lambda>p. dict_get p ''name'' = Some (JStr name)) (the_maps profiles) of
             [p] \<Rightarrow> Inr p
           | _ \<Rightarrow> Inl (RecipeContractError ''recipe.profile_unknown'' ''deployment_profiles''
                    ''profile name is missing or not unique'')))"

section \<open>Topology\<close>

record placement =
  pc_node_id :: string
  pc_rank :: int
  pc_role :: string

definition fabric_capability :: "string \<Rightarrow> adm_exc + string \<times> int" where
  "fabric_capability value =
     (case split_on (CHR ''.'') value of
        [a, b, c, d] \<Rightarrow>
          if a = ''fabric'' \<and> c = ''mbps'' \<and> py_isdigit d
          then rbind (py_int_text d) (\<lambda>n. Inr (b, n)) else Inr ('''', 0)
      | _ \<Rightarrow> Inr ('''', 0))"

definition expected_roles :: "json list \<Rightarrow> adm_exc + string list" where
  "expected_roles roles =
     rbind (map_r (\<lambda>role. rbind (int_item role ''count'') (\<lambda>n.
         if n \<le> 0 then Inr []
         else rbind (py_item role ''name'') (\<lambda>v. Inr (replicate (nat n) (py_str v))))) (the_maps roles))
       (\<lambda>rss. Inr (sort (concat rss)))"

definition accepted_fabrics :: "string \<Rightarrow> string list" where
  "accepted_fabrics connectivity =
     (if connectivity = ''connected'' then [''connected'', ''full_mesh'', ''switch'']
      else if connectivity = ''full_mesh'' then [''full_mesh'', ''switch'']
      else if connectivity = ''switch'' then [''switch''] else [])"

definition fabric_speeds :: "string \<Rightarrow> string list \<Rightarrow> adm_exc + int list" where
  "fabric_speeds connectivity caps =
     rbind (map_r fabric_capability caps)
       (\<lambda>ks. Inr (map snd (filter (\<lambda>(kind, speed). kind \<in> set (accepted_fabrics connectivity)) ks)))"

text \<open>\<^verbatim>\<open>capabilities.get(node, ())\<close>.\<close>

definition caps_of :: "(string, string list) dict \<Rightarrow> string \<Rightarrow> string list" where
  "caps_of capabilities n = (case dict_get capabilities n of None \<Rightarrow> [] | Some cs \<Rightarrow> cs)"

primrec check_fabric ::
  "(string, string list) dict \<Rightarrow> string \<Rightarrow> int \<Rightarrow> string list \<Rightarrow> adm_exc + unit" where
  "check_fabric capabilities connectivity required [] = Inr ()"
| "check_fabric capabilities connectivity required (n # ns) =
     rbind (fabric_speeds connectivity (caps_of capabilities n)) (\<lambda>speeds.
     raise_if (speeds = [] \<or> Max (set speeds) < required)
       (TopologyError ''topology.fabric_insufficient''
         (n @ '' lacks '' @ dec_int required @ '' Mbps '' @ connectivity @ '' fabric''))
       (check_fabric capabilities connectivity required ns))"

text \<open>The short-circuit of the guard: \<^verbatim>\<open>profile["node_count"]\<close> is read last.\<close>

definition check_placement :: "(string, json) dict \<Rightarrow> placement list \<Rightarrow> adm_exc + unit" where
  "check_placement profile ordered =
     (let invalid = TopologyError ''topology.placement_invalid''
        ''placement must match the exact profile with unique contiguous ranks'' in
      raise_if (ordered = [] \<or> \<not> distinct (map pc_node_id ordered) \<or>
          map pc_rank ordered \<noteq> map int [0..<length ordered]) invalid (
      rbind (py_item profile ''node_count'') (\<lambda>v.
      raise_if (\<not> py_eq (JInt (int (length ordered))) v) invalid (Inr ()))))"

definition check_connectivity ::
  "(string, json) dict \<Rightarrow> placement list \<Rightarrow> (string, string list) dict \<Rightarrow> adm_exc + placement list" where
  "check_connectivity fabric ordered capabilities =
     rbind (py_item fabric ''connectivity'') (\<lambda>c. let connectivity = py_str c in
     rbind (int_item fabric ''minimum_bandwidth_mbps'') (\<lambda>required.
     if length ordered = 1 then
       raise_if (connectivity \<noteq> ''none'')
         (TopologyError ''topology.fabric_invalid'' ''single-node profile must use no fabric'') (Inr ordered)
     else
       raise_if (connectivity = ''none'')
         (TopologyError ''topology.fabric_invalid'' ''multi-node profile must declare fabric'') (
       rbind (check_fabric capabilities connectivity required (map pc_node_id ordered)) (\<lambda>_. Inr ordered))))"

text \<open>\<^verbatim>\<open>str(error)\<close> of a contract error is its path and its detail.\<close>

definition topology_profile :: "(string, json) dict \<Rightarrow> string \<Rightarrow> adm_exc + (string, json) dict" where
  "topology_profile recipe name =
     (case deployment_profile recipe name of
        Inl (RecipeContractError c p d) \<Rightarrow> Inl (TopologyError ''topology.profile_unknown'' (p @ '': '' @ d))
      | r \<Rightarrow> r)"

definition validate_topology ::
  "(string, json) dict \<Rightarrow> string \<Rightarrow> placement list \<Rightarrow> (string, string list) dict \<Rightarrow> adm_exc + placement list"
where
  "validate_topology recipe profile_name placements capabilities =
     rbind (topology_profile recipe profile_name) (\<lambda>profile.
     let ordered = sort_key pc_rank placements; nodes = map pc_node_id ordered in
     rbind (check_placement profile ordered) (\<lambda>_.
     case get_list profile ''roles'' of
       None \<Rightarrow> Inl (TopologyError ''topology.profile_invalid'' ''profile roles are invalid'')
     | Some roles \<Rightarrow>
         rbind (expected_roles roles) (\<lambda>expected.
         raise_if (sort (map pc_role ordered) \<noteq> expected)
           (TopologyError ''topology.role_mismatch'' ''placement roles do not match the profile'') (
         raise_if (\<exists>n \<in> set nodes. ''runtime.vonk.v1'' \<notin> set (caps_of capabilities n))
           (TopologyError ''topology.runtime_capability_missing''
             ''every GPU node must advertise runtime.vonk.v1'') (
         case get_map profile ''fabric'' of
           None \<Rightarrow> Inl (TopologyError ''topology.fabric_missing'' ''profile fabric is missing'')
         | Some fabric \<Rightarrow> check_connectivity fabric ordered capabilities)))))"

section \<open>Inventory\<close>

record inventory_input =
  iv_node_id :: string
  iv_observed_at :: int
  iv_disk_total_bytes :: int
  iv_disk_free_bytes :: int
  iv_host_memory_total_bytes :: int
  iv_host_memory_free_bytes :: int
  iv_gpu_memory_total_bytes :: int
  iv_gpu_memory_free_bytes :: int
  iv_gpu_count :: int
  iv_artifact_store_read_only :: bool
  iv_capabilities :: "string list"
  iv_fabric_address :: "string option"
  iv_fabric_bandwidth_mbps :: "int option"
  iv_nvidia_driver_version :: string
  iv_container_runtime_version :: string

record inventory_snapshot = inventory_input +
  iv_received_at :: int
  iv_evidence_digest :: string

record inventory_view = inventory_snapshot +
  iv_stale :: bool

definition json_opt_str :: "string option \<Rightarrow> json" where
  "json_opt_str v = (case v of None \<Rightarrow> JNull | Some s \<Rightarrow> JStr s)"

definition json_opt_int :: "int option \<Rightarrow> json" where
  "json_opt_int v = (case v of None \<Rightarrow> JNull | Some i \<Rightarrow> JInt i)"

definition evidence_document :: "(int \<Rightarrow> string) \<Rightarrow> inventory_input \<Rightarrow> json" where
  "evidence_document isof v = JObj
     [(''node_id'', JStr (iv_node_id v)), (''observed_at'', JStr (isof (iv_observed_at v))),
      (''disk_total_bytes'', JInt (iv_disk_total_bytes v)), (''disk_free_bytes'', JInt (iv_disk_free_bytes v)),
      (''host_memory_total_bytes'', JInt (iv_host_memory_total_bytes v)),
      (''host_memory_free_bytes'', JInt (iv_host_memory_free_bytes v)),
      (''gpu_memory_total_bytes'', JInt (iv_gpu_memory_total_bytes v)),
      (''gpu_memory_free_bytes'', JInt (iv_gpu_memory_free_bytes v)),
      (''gpu_count'', JInt (iv_gpu_count v)),
      (''artifact_store_read_only'', JBool (iv_artifact_store_read_only v)),
      (''capabilities'', JList (map JStr (sort (iv_capabilities v)))),
      (''fabric_address'', json_opt_str (iv_fabric_address v)),
      (''fabric_bandwidth_mbps'', json_opt_int (iv_fabric_bandwidth_mbps v)),
      (''nvidia_driver_version'', JStr (iv_nvidia_driver_version v)),
      (''container_runtime_version'', JStr (iv_container_runtime_version v))]"

text \<open>The fabric evidence: an address in canonical form and a bandwidth, or neither.\<close>

definition check_fabric_evidence :: "(string \<Rightarrow> string option) \<Rightarrow> inventory_input \<Rightarrow> adm_exc + unit" where
  "check_fabric_evidence canon_ip v =
     raise_if ((iv_fabric_address v = None) \<noteq> (iv_fabric_bandwidth_mbps v = None))
       (AdmExc (ValueError ''inventory fabric evidence is incomplete'')) (
     case (iv_fabric_address v, iv_fabric_bandwidth_mbps v) of
       (Some a, Some bw) \<Rightarrow>
         raise_if (canon_ip a \<noteq> Some a \<or> bw = 0 \<or> 1000000 < bw)
           (AdmExc (ValueError ''inventory fabric address is invalid'')) (Inr ())
     | _ \<Rightarrow> Inr ())"

definition version_invalid :: "string \<Rightarrow> bool" where
  "version_invalid s \<longleftrightarrow> s = [] \<or> 256 < length s \<or> \<not> list_all (\<lambda>c. (of_char c :: nat) < 128) s"

text \<open>The constraints of the table \<^verbatim>\<open>node_inventory_snapshots\<close>, checked when the transaction commits.\<close>

definition snapshot_constraints :: "inventory_snapshot list \<Rightarrow> inventory_snapshot \<Rightarrow> bool" where
  "snapshot_constraints snaps r \<longleftrightarrow>
     (\<forall>s \<in> set snaps. iv_node_id s = iv_node_id r \<longrightarrow> iv_observed_at s \<noteq> iv_observed_at r) \<and>
     (\<forall>s \<in> set snaps. iv_evidence_digest s \<noteq> iv_evidence_digest r) \<and>
     0 \<le> iv_disk_free_bytes r \<and> iv_disk_free_bytes r \<le> iv_disk_total_bytes r \<and>
     0 \<le> iv_host_memory_free_bytes r \<and> iv_host_memory_free_bytes r \<le> iv_host_memory_total_bytes r \<and>
     0 \<le> iv_gpu_memory_free_bytes r \<and> iv_gpu_memory_free_bytes r \<le> iv_gpu_memory_total_bytes r \<and>
     0 \<le> iv_gpu_count r \<and>
     (iv_fabric_address r = None \<and> iv_fabric_bandwidth_mbps r = None \<or>
      iv_fabric_address r \<noteq> None \<and> (\<exists>b \<in> set_option (iv_fabric_bandwidth_mbps r). 0 < b))"

definition record_snapshot ::
  "(string \<Rightarrow> string option) \<Rightarrow> (int \<Rightarrow> string) \<Rightarrow> (string \<Rightarrow> string) \<Rightarrow> int \<Rightarrow> string list \<Rightarrow> inventory_input \<Rightarrow>
   inventory_snapshot list \<Rightarrow> adm_exc + inventory_snapshot list" where
  "record_snapshot canon_ip isof h clock agents v snaps =
     raise_if (\<not> distinct (iv_capabilities v) \<or> (\<exists>c \<in> set (iv_capabilities v). c = [] \<or> 128 < length c))
       (AdmExc (ValueError ''inventory evidence is invalid'')) (
     rbind (check_fabric_evidence canon_ip v) (\<lambda>_.
     raise_if (version_invalid (iv_nvidia_driver_version v) \<or> version_invalid (iv_container_runtime_version v))
       (AdmExc (ValueError ''inventory runtime evidence is invalid'')) (
     let row = inventory_input.extend (v\<lparr>iv_capabilities := sort (iv_capabilities v)\<rparr>)
           \<lparr>iv_received_at = clock, iv_evidence_digest = h (json_dumps True (evidence_document isof v))\<rparr> in
     raise_if (iv_node_id v \<notin> set agents \<or> \<not> snapshot_constraints snaps row) (IntegrityError ''node_inventory_snapshots'')
       (Inr (snaps @ [row])))))"

text \<open>The newest snapshot of a node; \<^verbatim>\<open>None\<close> where the code raises \<^verbatim>\<open>KeyError\<close>.\<close>

definition latest_row :: "string \<Rightarrow> inventory_snapshot list \<Rightarrow> inventory_snapshot option" where
  "latest_row n snaps =
     (case sort_key (\<lambda>s. - iv_observed_at s) (filter (\<lambda>s. iv_node_id s = n) snaps) of
        [] \<Rightarrow> None | s # _ \<Rightarrow> Some s)"

definition latest :: "int \<Rightarrow> int \<Rightarrow> inventory_snapshot list \<Rightarrow> string \<Rightarrow> inventory_view option" where
  "latest now maximum_age snaps n =
     map_option (\<lambda>s. inventory_snapshot.extend s \<lparr>iv_stale = seconds maximum_age < now - iv_observed_at s\<rparr>)
       (latest_row n snaps)"

definition snapshot_count :: "inventory_snapshot list \<Rightarrow> string \<Rightarrow> nat" where
  "snapshot_count snaps n = length (filter (\<lambda>s. iv_node_id s = n) snaps)"

section \<open>What a validated topology guarantees\<close>

lemma check_placement_Inr:
  "check_placement profile ordered = Inr u \<longleftrightarrow>
     ordered \<noteq> [] \<and> distinct (map pc_node_id ordered) \<and> map pc_rank ordered = map int [0..<length ordered] \<and>
     (\<exists>v. dict_get profile ''node_count'' = Some v \<and> py_eq (JInt (int (length ordered))) v)"
  by (auto simp: check_placement_def Let_def result_simps py_item_def split: option.splits)

lemma fabric_speeds_Max:
  assumes "fabric_speeds connectivity caps = Inr speeds" "speeds \<noteq> []" "required \<le> Max (set speeds)"
  shows "\<exists>c \<in> set caps. \<exists>kind speed. fabric_capability c = Inr (kind, speed) \<and>
    kind \<in> set (accepted_fabrics connectivity) \<and> required \<le> speed"
proof -
  obtain ks where ks: "map_r fabric_capability caps = Inr ks"
    and speeds: "speeds = map snd (filter (\<lambda>(kind, speed). kind \<in> set (accepted_fabrics connectivity)) ks)"
    using assms(1) by (auto simp: fabric_speeds_def result_simps)
  have "Max (set speeds) \<in> set speeds" using assms(2) by simp
  then obtain kind where k: "(kind, Max (set speeds)) \<in> set ks" "kind \<in> set (accepted_fabrics connectivity)"
    unfolding speeds by auto
  from map_r_Inr_set [OF ks k(1)] show ?thesis using k(2) assms(3) by blast
qed

lemma check_fabric_Inr:
  "check_fabric capabilities connectivity required ns = Inr () \<Longrightarrow> n \<in> set ns \<Longrightarrow>
     \<exists>c \<in> set (caps_of capabilities n). \<exists>kind speed. fabric_capability c = Inr (kind, speed) \<and>
       kind \<in> set (accepted_fabrics connectivity) \<and> required \<le> speed"
proof (induction ns)
  case (Cons m ns)
  then obtain speeds where speeds: "fabric_speeds connectivity (caps_of capabilities m) = Inr speeds" "speeds \<noteq> []"
      "required \<le> Max (set speeds)" and rest: "check_fabric capabilities connectivity required ns = Inr ()"
    by (auto simp: result_simps)
  from fabric_speeds_Max [OF speeds] Cons.IH [OF rest] Cons.prems(2) show ?case by auto
qed simp

lemma topology_profile_Inr: "topology_profile recipe name = Inr p \<longleftrightarrow> deployment_profile recipe name = Inr p"
  by (auto simp: topology_profile_def split: sum.splits adm_exc.splits)

text \<open>A validated topology, step by step.\<close>

lemma validate_topology_Inr:
  assumes "validate_topology recipe name ps capabilities = Inr ordered"
  obtains profile roles fabric where
    "deployment_profile recipe name = Inr profile" "get_list profile ''roles'' = Some roles"
    "get_map profile ''fabric'' = Some fabric" "ordered = sort_key pc_rank ps"
    "check_placement profile ordered = Inr ()"
    "expected_roles roles = Inr (sort (map pc_role ordered))"
    "\<And>n. n \<in> set (map pc_node_id ordered) \<Longrightarrow> ''runtime.vonk.v1'' \<in> set (caps_of capabilities n)"
    "check_connectivity fabric ordered capabilities = Inr ordered"
proof -
  have conn: "check_connectivity f o' c = Inr r \<Longrightarrow> r = o'" for f o' c r
    by (auto simp: check_connectivity_def Let_def result_simps split: if_splits)
  show ?thesis
    using assms that conn
    by (fastforce simp: validate_topology_def Let_def result_simps topology_profile_Inr split: option.splits)
qed

lemma validated_placement:
  assumes "validate_topology recipe name ps capabilities = Inr ordered"
  shows "ordered = sort_key pc_rank ps" "ordered \<noteq> []" "distinct (map pc_node_id ordered)"
    "map pc_rank ordered = map int [0..<length ordered]"
  using assms by (auto elim!: validate_topology_Inr simp: check_placement_Inr)

section \<open>The inventory\<close>

lemma latest_row_newest:
  "latest_row n snaps = Some s \<Longrightarrow> s \<in> set snaps \<and> iv_node_id s = n \<and>
     (\<forall>t \<in> set snaps. iv_node_id t = n \<longrightarrow> iv_observed_at t \<le> iv_observed_at s)"
proof -
  assume "latest_row n snaps = Some s"
  then obtain ss where ss: "sort_key (\<lambda>s. - iv_observed_at s) (filter (\<lambda>s. iv_node_id s = n) snaps) = s # ss"
    by (auto simp: latest_row_def split: list.splits)
  then have "set (s # ss) = {t \<in> set snaps. iv_node_id t = n}" by (metis set_filter set_sort)
  moreover have "sorted (map (\<lambda>s. - iv_observed_at s) (s # ss))" using ss by (metis sorted_sort_key)
  ultimately show ?thesis by auto
qed

lemma latest_row_None: "latest_row n snaps = None \<longleftrightarrow> (\<forall>t \<in> set snaps. iv_node_id t \<noteq> n)"
proof -
  have "latest_row n snaps = None \<longleftrightarrow> sort_key (\<lambda>s. - iv_observed_at s) (filter (\<lambda>s. iv_node_id s = n) snaps) = []"
    by (auto simp: latest_row_def simp del: sort_Nil_iff split: list.splits)
  then show ?thesis by (simp add: filter_empty_conv)
qed

end
