(* ===== verification/Admission_Tables.thy ===== *)
theory Admission_Tables
  imports Recipe_Topology
begin

text \<open>
  The tables that run and install admission share (\<^verbatim>\<open>models.py\<close>) and the ledger of resource
  reservations: what is active on a node, the unique index on active ports, and the locale
  \<open>capacity_ledger\<close>, the contract between the check of a plan and the rows added for it.
  Each table is a list of rows; row ids that nothing refers to are left out.
\<close>

section \<open>Tables\<close>

record recipe_installation =
  ri_id :: string
  ri_recipe_revision_id :: string
  ri_mapping_id :: string
  ri_mapping_generation :: int
  ri_recipe_build_id :: string
  ri_image_digest :: string
  ri_plan_digest :: string
  ri_plan :: json
  ri_state :: string
  ri_actor :: string
  ri_created_at :: int
  ri_updated_at :: int

record cluster_mapping =
  cm_id :: string
  cm_recipe_revision_id :: string
  cm_profile_name :: string
  cm_generation :: int
  cm_node_count :: int
  cm_state :: string
  cm_parameters :: json
  cm_placement_digest :: string
  cm_endpoint_owner_node_id :: string
  cm_created_by :: string
  cm_created_at :: int
  cm_updated_at :: int

record cluster_mapping_node =
  mn_mapping_id :: string
  mn_node_id :: string
  mn_rank :: int
  mn_role :: string
  mn_endpoint_owner :: bool
  mn_created_at :: int

record recipe_revision =
  rv_id :: string
  rv_lifecycle :: string
  rv_document :: "(string, json) dict"
  rv_content_sha256 :: "string option"

record recipe_build =
  rb_id :: string
  rb_recipe_revision_id :: string
  rb_state :: string
  rb_image_digest :: "string option"
  rb_image_bytes :: "int option"

record node_artifact =
  na_node_id :: string
  na_kind :: string
  na_digest :: string
  na_source :: string
  na_size_bytes :: int
  na_state :: string

record installation_node =
  in_installation_id :: string
  in_node_id :: string
  in_rank :: int
  in_role :: string
  in_state :: string
  in_required_bytes :: int
  in_installed_bytes :: int
  in_updated_at :: int

record recipe_run =
  rr_id :: string
  rr_installation_id :: string
  rr_mapping_id :: string
  rr_mapping_generation :: int
  rr_alias :: string
  rr_plan_digest :: string
  rr_plan :: json
  rr_state :: string
  rr_route_state :: string
  rr_actor :: string
  rr_created_at :: int
  rr_updated_at :: int

record run_node =
  rn_run_id :: string
  rn_node_id :: string
  rn_rank :: int
  rn_role :: string
  rn_state :: string
  rn_port :: int
  rn_reserved_memory_bytes :: int
  rn_updated_at :: int

record resource_reservation =
  rs_node_id :: string
  rs_kind :: string
  rs_resource_key :: string
  rs_amount_bytes :: int
  rs_owner_kind :: string
  rs_owner_id :: string
  rs_state :: string
  rs_plan_digest :: string
  rs_created_at :: int

record admission_db =
  agent_nodes :: "string list"
  node_inventory_snapshots :: "inventory_snapshot list"
  local_recipe_revisions :: "recipe_revision list"
  recipe_builds :: "recipe_build list"
  node_artifacts :: "node_artifact list"
  cluster_mappings :: "cluster_mapping list"
  cluster_mapping_nodes :: "cluster_mapping_node list"
  recipe_installations :: "recipe_installation list"
  installation_nodes :: "installation_node list"
  recipe_runs :: "recipe_run list"
  run_nodes :: "run_node list"
  resource_reservations :: "resource_reservation list"

text \<open>\<^verbatim>\<open>session.get(Table, id)\<close>.\<close>

definition row_of :: "('r \<Rightarrow> string) \<Rightarrow> 'r list \<Rightarrow> string \<Rightarrow> 'r option" where
  "row_of key tab i = find (\<lambda>r. key r = i) tab"

definition mapping_rows :: "admission_db \<Rightarrow> string \<Rightarrow> cluster_mapping_node list" where
  "mapping_rows db i = sort_key mn_rank (filter (\<lambda>n. mn_mapping_id n = i) (cluster_mapping_nodes db))"

type_synonym admission_reason = "string \<times> string"

section \<open>Reservations\<close>

definition is_active :: "string \<Rightarrow> string \<Rightarrow> resource_reservation \<Rightarrow> bool" where
  "is_active n kind r \<longleftrightarrow> rs_node_id r = n \<and> rs_kind r = kind \<and> rs_state r = ''active''"

text \<open>\<^verbatim>\<open>coalesce(sum(amount_bytes), 0)\<close> over the active reservations of a kind on a node.\<close>

definition active_sum :: "resource_reservation list \<Rightarrow> string \<Rightarrow> string \<Rightarrow> int" where
  "active_sum rs n kind = sum_list (map rs_amount_bytes (filter (is_active n kind) rs))"

text \<open>An active reservation of that port on that node.\<close>

definition port_taken :: "resource_reservation list \<Rightarrow> string \<Rightarrow> int \<Rightarrow> bool" where
  "port_taken rs n port \<longleftrightarrow> list_ex (\<lambda>r. is_active n ''port'' r \<and> rs_resource_key r = dec_int port) rs"

text \<open>The index \<^verbatim>\<open>uq_active_node_port\<close>: an active port of a node has one reservation.\<close>

definition active_ports :: "resource_reservation list \<Rightarrow> (string \<times> string) list" where
  "active_ports rs =
     map (\<lambda>r. (rs_node_id r, rs_resource_key r)) (filter (\<lambda>r. rs_kind r = ''port'' \<and> rs_state r = ''active'') rs)"

definition ports_exclusive :: "resource_reservation list \<Rightarrow> bool" where
  "ports_exclusive rs \<longleftrightarrow> distinct (active_ports rs)"

lemma active_sum_append [simp]: "active_sum (a @ b) n k = active_sum a n k + active_sum b n k"
  by (simp add: active_sum_def)

lemma active_sum_other_node: "(\<And>r. r \<in> set rs \<Longrightarrow> rs_node_id r \<noteq> n) \<Longrightarrow> active_sum rs n k = 0"
  by (simp add: active_sum_def is_active_def filter_False)

lemma active_ports_append [simp]: "active_ports (a @ b) = active_ports a @ active_ports b"
  by (simp add: active_ports_def)

lemma port_taken_iff: "port_taken rs n port \<longleftrightarrow> (n, dec_int port) \<in> set (active_ports rs)"
  by (auto simp: port_taken_def active_ports_def is_active_def list_ex_iff)

lemma dec_int_inject [simp]: "dec_int i = dec_int j \<longleftrightarrow> i = j"
proof
  have minus: "CHR ''-'' # s \<noteq> dec_nat n" for s n
    using dec_nat_digits [of "CHR ''-''" n] by (auto simp: is_digit_def between_def dest: sym)
  have nat: "dec_nat m = dec_nat n \<Longrightarrow> m = n" for m n by (metis dec_val_dec_nat)
  assume "dec_int i = dec_int j"
  then show "i = j" using minus minus [symmetric] nat by (fastforce simp: dec_int_def split: if_splits)
qed simp

section \<open>Rows and documents\<close>

lemma map_key_transfer:
  assumes "map f xs = map f ys" and key: "\<And>x y. f x = f y \<Longrightarrow> g x = g y"
  shows "map g xs = map g ys"
  using assms(1)
proof (induction xs arbitrary: ys)
  case (Cons x xs)
  from Cons.prems obtain y zs where y: "ys = y # zs" "f x = f y" "map f xs = map f zs" by (cases ys) simp_all
  from Cons.IH [OF y(3)] key [OF y(2)] y(1) show ?case by simp
qed simp

lemma canon_field:
  assumes "json_canon (JObj a) = json_canon (JObj b)" "wf_dict a" "wf_dict b"
  shows "map_option json_canon (dict_get a k) = map_option json_canon (dict_get b k)"
proof -
  have "map (map_prod id json_canon) (sort_key fst a) = map (map_prod id json_canon) (sort_key fst b)"
    using assms(1) by (simp only: json_canon_obj json.inject)
  then have "map_of (map (map_prod id json_canon) (sort_key fst a)) k = map_of (map (map_prod id json_canon) (sort_key fst b)) k"
    by (simp only:)
  then show ?thesis by (simp only: map_of_map_prod map_of_sort_key [OF assms(2)] map_of_sort_key [OF assms(3)])
qed

lemma json_opt_int_simps [simp]: "json_canon (json_opt_int x) = json_opt_int x" "json_wf (json_opt_int x)" "json_opt_int x = json_opt_int y \<longleftrightarrow> x = y"
  by (auto simp: json_opt_int_def split: option.splits)

lemma json_opt_str_simps [simp]: "json_canon (json_opt_str x) = json_opt_str x" "json_wf (json_opt_str x)" "json_opt_str x = json_opt_str y \<longleftrightarrow> x = y"
  by (auto simp: json_opt_str_def split: option.splits)

lemma row_of_Some: "row_of key tab i = Some r \<Longrightarrow> key r = i \<and> r \<in> set tab"
  by (auto simp: row_of_def find_Some_iff)

section \<open>The ledger\<close>

text \<open>
  Plans reserve per node: \<open>rows_of p\<close> are the rows added for the node plan \<open>p\<close>, \<open>kind_of\<close> the kind
  whose capacity the plan was checked against, \<open>amount\<close> what it takes of it.
\<close>

locale capacity_ledger =
  fixes node_of :: "'p \<Rightarrow> string" and kind_of :: "'p \<Rightarrow> string" and amount :: "'p \<Rightarrow> int"
    and rows_of :: "'p \<Rightarrow> resource_reservation list" and valid :: "'p \<Rightarrow> bool"
  assumes rows_on_node: "valid p \<Longrightarrow> r \<in> set (rows_of p) \<Longrightarrow> rs_node_id r = node_of p"
    and rows_amount: "valid p \<Longrightarrow> active_sum (rows_of p) (node_of p) (kind_of p) = amount p"
begin

lemma others_add_nothing:
  "list_all valid ps \<Longrightarrow> n \<notin> node_of ` set ps \<Longrightarrow> active_sum (concat (map rows_of ps)) n k = 0"
  using rows_on_node by (intro active_sum_other_node) (fastforce simp: list_all_iff)

lemma added_amount:
  "list_all valid ps \<Longrightarrow> distinct (map node_of ps) \<Longrightarrow> p \<in> set ps \<Longrightarrow>
     active_sum (concat (map rows_of ps)) (node_of p) (kind_of p) = amount p"
proof (induction ps)
  case (Cons q ps)
  show ?case
  proof (cases "p = q")
    case True
    then show ?thesis using Cons.prems others_add_nothing [of ps "node_of p"] rows_amount by simp
  next
    case False
    with Cons.prems have p: "p \<in> set ps" and ne: "node_of q \<noteq> node_of p" by auto
    have "active_sum (rows_of q) (node_of p) (kind_of p) = 0"
      using Cons.prems(1) ne rows_on_node by (intro active_sum_other_node) auto
    with Cons p show ?thesis by simp
  qed
qed simp

lemma reserved_within:
  assumes "list_all valid ps" "distinct (map node_of ps)" "p \<in> set ps"
    and "floor \<le> capacity - active_sum rs (node_of p) (kind_of p) - amount p"
  shows "floor \<le> capacity - active_sum (rs @ concat (map rows_of ps)) (node_of p) (kind_of p)"
  using assms(4) added_amount [OF assms(1-3)] by simp

end

end
