(* ===== verification/Run_Admission.thy ===== *)
theory Run_Admission
  imports Admission_Tables
begin

text \<open>
  Admission of recipe runs (\<^verbatim>\<open>run_admission.py\<close>): planning a run of an installation on the nodes of
  its mapping, and accepting a plan, which reserves memory and ports on every node.

  \<^verbatim>\<open>plan_run\<close> reads the tables without changing them; its
  several short sessions are taken to read one state. \<^verbatim>\<open>accept_run_in_session\<close> plans again, compares
  the digests, checks every node under its lock and adds the rows. Row ids that nothing refers to
  are left out; \<open>run_id\<close> is the generated id of the new run.
\<close>

section \<open>Run plans\<close>

definition reservation_kind :: "string \<Rightarrow> adm_exc + string" where
  "reservation_kind memory_kind =
     (if memory_kind = ''unified'' then Inr ''unified-memory''
      else if memory_kind = ''host'' then Inr ''host-memory''
      else if memory_kind = ''accelerator'' then Inr ''gpu-memory''
      else Inl (AdmExc (KeyError memory_kind)))"

record run_node_plan =
  np_node_id :: string
  np_rank :: int
  np_role :: string
  np_endpoint_owner :: bool
  np_port :: int
  np_allowed :: bool
  np_inventory_observed_at :: "int option"
  np_memory_kind :: string
  np_required_memory_bytes :: int
  np_available_memory_bytes :: "int option"
  np_active_reserved_bytes :: int
  np_free_after_bytes :: "int option"
  np_memory_floor_bytes :: int
  np_fabric_address :: "string option"
  np_fabric_bandwidth_mbps :: "int option"
  np_rendezvous_port :: "int option"
  np_blockers :: "admission_reason list"
  np_warnings :: "admission_reason list"

record run_plan =
  rp_installation_id :: string
  rp_mapping_id :: string
  rp_mapping_generation :: int
  rp_recipe_revision_id :: string
  rp_allowed :: bool
  rp_nodes :: "run_node_plan list"
  rp_plan_digest :: string

text \<open>The arguments of the service: \<^verbatim>\<open>inventory_max_age\<close> and \<^verbatim>\<open>memory_floor_bytes\<close>.\<close>

record run_service =
  sv_max_age :: int
  sv_floor :: int

definition reason_document :: "admission_reason \<Rightarrow> json" where
  "reason_document r = JObj [(''code'', JStr (fst r)), (''detail'', JStr (snd r))]"

definition run_node_document :: "(int \<Rightarrow> string) \<Rightarrow> run_node_plan \<Rightarrow> json" where
  "run_node_document isof p = JObj
     [(''node_id'', JStr (np_node_id p)), (''rank'', JInt (np_rank p)), (''role'', JStr (np_role p)),
      (''endpoint_owner'', JBool (np_endpoint_owner p)), (''port'', JInt (np_port p)),
      (''allowed'', JBool (np_allowed p)),
      (''inventory_observed_at'', json_opt_str (map_option isof (np_inventory_observed_at p))),
      (''memory_kind'', JStr (np_memory_kind p)),
      (''required_memory_bytes'', JInt (np_required_memory_bytes p)),
      (''available_memory_bytes'', json_opt_int (np_available_memory_bytes p)),
      (''active_reserved_bytes'', JInt (np_active_reserved_bytes p)),
      (''free_after_bytes'', json_opt_int (np_free_after_bytes p)),
      (''memory_floor_bytes'', JInt (np_memory_floor_bytes p)),
      (''fabric_address'', json_opt_str (np_fabric_address p)),
      (''fabric_bandwidth_mbps'', json_opt_int (np_fabric_bandwidth_mbps p)),
      (''rendezvous_port'', json_opt_int (np_rendezvous_port p)),
      (''blockers'', JList (map reason_document (np_blockers p))),
      (''warnings'', JList (map reason_document (np_warnings p)))]"

section \<open>Planning a run\<close>

record run_rows =
  rw_mapping :: cluster_mapping
  rw_revision :: recipe_revision
  rw_mapping_nodes :: "cluster_mapping_node list"
  rw_installed :: "(string \<times> int \<times> string) list"

definition installed_ranks :: "admission_db \<Rightarrow> string \<Rightarrow> (string \<times> int \<times> string) list" where
  "installed_ranks db iid =
     map (\<lambda>r. (in_node_id r, in_rank r, in_role r))
       (filter (\<lambda>r. in_installation_id r = iid \<and> in_state r = ''installed'') (installation_nodes db))"

definition load_run_rows :: "admission_db \<Rightarrow> string \<Rightarrow> adm_exc + run_rows" where
  "load_run_rows db iid =
     (case row_of ri_id (recipe_installations db) iid of
        None \<Rightarrow> Inl (AdmExc (KeyError iid))
      | Some inst \<Rightarrow>
          raise_if (ri_state inst \<noteq> ''installed'') (AdmExc (ValueError ''recipe installation is not complete'')) (
          let changed = AdmExc (ValueError ''cluster mapping generation changed after installation'');
              unavailable = AdmExc (ValueError ''recipe revision is unavailable'') in
          case row_of cm_id (cluster_mappings db) (ri_mapping_id inst) of
            None \<Rightarrow> Inl changed
          | Some m \<Rightarrow>
              raise_if (cm_state m \<noteq> ''ready'' \<or> cm_generation m \<noteq> ri_mapping_generation inst) changed (
              case row_of rv_id (local_recipe_revisions db) (ri_recipe_revision_id inst) of
                None \<Rightarrow> Inl unavailable
              | Some v \<Rightarrow>
                  raise_if (rv_lifecycle v \<noteq> ''resolved'') unavailable
                    (Inr \<lparr>rw_mapping = m, rw_revision = v, rw_mapping_nodes = mapping_rows db (cm_id m),
                          rw_installed = installed_ranks db iid\<rparr>))))"

definition placement_of :: "cluster_mapping_node \<Rightarrow> placement" where
  "placement_of n = \<lparr>pc_node_id = mn_node_id n, pc_rank = mn_rank n, pc_role = mn_role n\<rparr>"

text \<open>\<^verbatim>\<open>snapshots\<close> and \<^verbatim>\<open>capabilities\<close>: one entry for every placement whose node has an inventory.\<close>

definition snapshot_dict ::
  "run_service \<Rightarrow> int \<Rightarrow> admission_db \<Rightarrow> placement list \<Rightarrow> (string, inventory_view) dict" where
  "snapshot_dict sv now db ps =
     dict_of (List.map_filter (\<lambda>p. map_option (Pair (pc_node_id p))
       (latest now (sv_max_age sv) (node_inventory_snapshots db) (pc_node_id p))) ps)"

definition capability_dict :: "(string, inventory_view) dict \<Rightarrow> (string, string list) dict" where
  "capability_dict snaps = map (map_prod id iv_capabilities) snaps"

text \<open>A topology error becomes a blocker of every node; other exceptions escape.\<close>

definition run_topology ::
  "run_rows \<Rightarrow> placement list \<Rightarrow> (string, inventory_view) dict \<Rightarrow> adm_exc + placement list \<times> admission_reason list"
where
  "run_topology rw ps snaps =
     (case validate_topology (rv_document (rw_revision rw)) (cm_profile_name (rw_mapping rw)) ps (capability_dict snaps) of
        Inr ordered \<Rightarrow> Inr (ordered, [])
      | Inl (TopologyError code detail) \<Rightarrow> Inr (sort_key pc_rank ps, [(code, detail)])
      | Inl e \<Rightarrow> Inl e)"

text \<open>\<^verbatim>\<open>{str(role["name"]): role for role in roles if isinstance(role, dict)}\<close>.\<close>

definition role_dict :: "json list \<Rightarrow> adm_exc + (string, (string, json) dict) dict" where
  "role_dict roles =
     rbind (map_r (\<lambda>r. rbind (py_item r ''name'') (\<lambda>v. Inr (py_str v, r))) (the_maps roles))
       (\<lambda>kvs. Inr (dict_of kvs))"

text \<open>The roles of the profile by name, and the port of the endpoint.\<close>

definition run_contract ::
  "run_rows \<Rightarrow> adm_exc + (string, (string, json) dict) dict \<times> int" where
  "run_contract rw =
     (let document = rv_document (rw_revision rw) in
      rbind (deployment_profile document (cm_profile_name (rw_mapping rw))) (\<lambda>profile.
      case (get_list profile ''roles'', get_map document ''runtime'') of
        (Some roles, Some runtime) \<Rightarrow>
          rbind (role_dict roles) (\<lambda>role_by_name.
          case get_map runtime ''endpoint'' of
            None \<Rightarrow> Inl (AdmExc (TypeError ''recipe endpoint is invalid''))
          | Some endpoint \<Rightarrow> rbind (int_item endpoint ''port'') (\<lambda>port. Inr (role_by_name, port)))
      | _ \<Rightarrow> Inl (AdmExc (TypeError ''recipe runtime profile is invalid''))))"

definition role_memory :: "(string, (string, json) dict) dict \<Rightarrow> string \<Rightarrow> adm_exc + (string, json) dict" where
  "role_memory role_by_name role =
     (case Option.bind (dict_get role_by_name role)
         (\<lambda>r. Option.bind (get_map r ''resources'') (\<lambda>res. get_map res ''memory'')) of
        None \<Rightarrow> Inl (AdmExc (TypeError ''profile role memory is invalid''))
      | Some memory \<Rightarrow> Inr memory)"

text \<open>What a role needs: the larger of the start-up peak and the grown steady state, plus the reserve.\<close>

definition required_memory :: "(string, json) dict \<Rightarrow> adm_exc + int" where
  "required_memory memory =
     rbind (int_item memory ''startup_peak_bytes'') (\<lambda>peak.
     rbind (int_item memory ''steady_state_bytes'') (\<lambda>steady.
     rbind (int_item memory ''runtime_growth_bytes'') (\<lambda>growth.
     rbind (int_item memory ''system_reserve_bytes'') (\<lambda>reserve.
     Inr (max peak (steady + growth) + reserve)))))"

definition available_memory :: "string \<Rightarrow> 'a inventory_input_scheme \<Rightarrow> int" where
  "available_memory memory_kind s =
     (if memory_kind = ''unified'' then min (iv_host_memory_free_bytes s) (iv_gpu_memory_free_bytes s)
      else if memory_kind = ''host'' then iv_host_memory_free_bytes s
      else iv_gpu_memory_free_bytes s)"

text \<open>What the loop over the placements knows: everything that is the same for all nodes.\<close>

record run_context =
  rc_sv :: run_service
  rc_reservations :: "resource_reservation list"
  rc_snapshots :: "(string, inventory_view) dict"
  rc_topology :: "admission_reason list"
  rc_installed :: "(string \<times> int \<times> string) list"
  rc_roles :: "(string, (string, json) dict) dict"
  rc_port :: int
  rc_owner :: string
  rc_multi :: bool

definition rendezvous_port :: "run_context \<Rightarrow> string \<Rightarrow> int option" where
  "rendezvous_port c n = (if rc_multi c \<and> n = rc_owner c then Some 29500 else None)"

definition node_blockers ::
  "run_context \<Rightarrow> placement \<Rightarrow> int option \<Rightarrow> admission_reason list" where
  "node_blockers c p free_after =
     (let n = pc_node_id p; snap = dict_get (rc_snapshots c) n in
      rc_topology c @
      (if (n, pc_rank p, pc_role p) \<notin> set (rc_installed c)
       then [(''run.not_installed'', ''Recipe content is not installed for this mapped rank.'')] else []) @
      (case snap of
         None \<Rightarrow> [(''run.inventory_missing'', ''No authenticated memory inventory is available.'')]
       | Some s \<Rightarrow> (if iv_stale s then [(''run.stale_inventory'', ''GPU node memory inventory is stale.'')] else [])) @
      (if port_taken (rc_reservations c) n (rc_port c)
       then [(''run.port_occupied'', ''Port '' @ dec_int (rc_port c) @ '' is already reserved on this GPU node.'')] else []) @
      (if rendezvous_port c n = Some (rc_port c) \<or>
          rendezvous_port c n \<noteq> None \<and> port_taken (rc_reservations c) n 29500
       then [(''run.rendezvous_port_occupied'', ''Multi-node rendezvous port 29500 is already reserved.'')] else []) @
      (if rc_multi c \<and> (case snap of None \<Rightarrow> True
           | Some s \<Rightarrow> iv_fabric_address s = None \<or> iv_fabric_bandwidth_mbps s = None)
       then [(''run.fabric_address_missing'', ''Authenticated direct-fabric evidence is unavailable.'')] else []) @
      (case free_after of
         None \<Rightarrow> []
       | Some f \<Rightarrow>
           if f < sv_floor (rc_sv c)
           then [(''run.insufficient_memory'', ''Run would leave '' @ dec_int f @ '' bytes, below the '' @
                  dec_int (sv_floor (rc_sv c)) @ ''-byte memory floor.'')] else []))"

definition plan_node :: "run_context \<Rightarrow> placement \<Rightarrow> adm_exc + run_node_plan" where
  "plan_node c p =
     rbind (role_memory (rc_roles c) (pc_role p)) (\<lambda>memory.
     rbind (required_memory memory) (\<lambda>required.
     rbind (py_item memory ''kind'') (\<lambda>k. let memory_kind = py_str k in
     rbind (reservation_kind memory_kind) (\<lambda>kind.
     let n = pc_node_id p;
         snap = dict_get (rc_snapshots c) n;
         reserved = active_sum (rc_reservations c) n kind;
         available = map_option (available_memory memory_kind) snap;
         free_after = map_option (\<lambda>a. a - reserved - required) available;
         blockers = node_blockers c p free_after in
     Inr \<lparr>np_node_id = n, np_rank = pc_rank p, np_role = pc_role p, np_endpoint_owner = (n = rc_owner c),
          np_port = rc_port c, np_allowed = (blockers = []),
          np_inventory_observed_at = map_option iv_observed_at snap, np_memory_kind = memory_kind,
          np_required_memory_bytes = required, np_available_memory_bytes = available,
          np_active_reserved_bytes = reserved, np_free_after_bytes = free_after,
          np_memory_floor_bytes = sv_floor (rc_sv c),
          np_fabric_address = Option.bind snap iv_fabric_address,
          np_fabric_bandwidth_mbps = Option.bind snap iv_fabric_bandwidth_mbps,
          np_rendezvous_port = rendezvous_port c n, np_blockers = blockers, np_warnings = []\<rparr>))))"

text \<open>The addresses collected by the loop, and the blocker for two nodes with the same one.\<close>

definition fabric_addresses :: "run_node_plan list \<Rightarrow> string list" where
  "fabric_addresses plans = List.map_filter np_fabric_address plans"

definition block_duplicates :: "bool \<Rightarrow> run_node_plan list \<Rightarrow> run_node_plan list" where
  "block_duplicates multi plans =
     (if multi \<and> \<not> distinct (fabric_addresses plans)
      then map (\<lambda>p. p\<lparr>np_allowed := False, np_blockers := np_blockers p @
             [(''run.fabric_address_duplicate'', ''Mapped GPU nodes must have unique direct-fabric addresses.'')]\<rparr>) plans
      else plans)"

definition run_identity :: "(int \<Rightarrow> string) \<Rightarrow> string \<Rightarrow> string \<Rightarrow> int \<Rightarrow> string \<Rightarrow> run_node_plan list \<Rightarrow> json" where
  "run_identity isof iid mid gen rid plans = JObj
     [(''schema_version'', JInt 1), (''installation_id'', JStr iid), (''mapping_id'', JStr mid),
      (''mapping_generation'', JInt gen), (''recipe_revision_id'', JStr rid),
      (''nodes'', JList (map (run_node_document isof) plans))]"

definition plan_run ::
  "(int \<Rightarrow> string) \<Rightarrow> (string \<Rightarrow> string) \<Rightarrow> run_service \<Rightarrow> int \<Rightarrow> admission_db \<Rightarrow> string \<Rightarrow> adm_exc + run_plan" where
  "plan_run isof h sv now db iid =
     rbind (load_run_rows db iid) (\<lambda>rw.
     let ps = map placement_of (rw_mapping_nodes rw); snaps = snapshot_dict sv now db ps in
     rbind (run_topology rw ps snaps) (\<lambda>(ordered, topology).
     rbind (run_contract rw) (\<lambda>(role_by_name, port).
     case find mn_endpoint_owner (rw_mapping_nodes rw) of
       None \<Rightarrow> Inl (AdmExc (TypeError ''mapping endpoint owner is missing''))
     | Some owner \<Rightarrow>
         let multi = 1 < length ordered;
             c = \<lparr>rc_sv = sv, rc_reservations = resource_reservations db, rc_snapshots = snaps,
                  rc_topology = topology, rc_installed = rw_installed rw, rc_roles = role_by_name,
                  rc_port = port, rc_owner = mn_node_id owner, rc_multi = multi\<rparr> in
         rbind (map_r (plan_node c) ordered) (\<lambda>nodes0.
         let plans = block_duplicates multi nodes0; m = rw_mapping rw; v = rw_revision rw in
         Inr \<lparr>rp_installation_id = iid, rp_mapping_id = cm_id m, rp_mapping_generation = cm_generation m,
              rp_recipe_revision_id = rv_id v, rp_allowed = list_all np_allowed plans, rp_nodes = plans,
              rp_plan_digest = h (json_dumps True
                (run_identity isof iid (cm_id m) (cm_generation m) (rv_id v) plans))\<rparr>))))"

section \<open>Accepting a plan\<close>

definition node_ports :: "run_node_plan \<Rightarrow> int list" where
  "node_ports p = np_port p # (case np_rendezvous_port p of None \<Rightarrow> [] | Some r \<Rightarrow> [r])"

definition check_run_node :: "run_service \<Rightarrow> admission_db \<Rightarrow> run_node_plan \<Rightarrow> adm_exc + unit" where
  "check_run_node sv db p =
     raise_if (np_node_id p \<notin> set (agent_nodes db)) (PlanConflict ''run node disappeared'') (
     raise_if (latest_row (np_node_id p) (node_inventory_snapshots db) = None)
       (PlanConflict ''run inventory disappeared'') (
     rbind (reservation_kind (np_memory_kind p)) (\<lambda>kind.
     raise_if (case np_available_memory_bytes p of
           None \<Rightarrow> True
         | Some a \<Rightarrow> a - active_sum (resource_reservations db) (np_node_id p) kind - np_required_memory_bytes p < sv_floor sv)
       (PlanConflict ''memory capacity changed while reserving'') (
     raise_if (list_ex (port_taken (resource_reservations db) (np_node_id p)) (node_ports p))
       (PlanConflict ''run port changed while reserving'') (Inr ())))))"

definition run_of_plan :: "(int \<Rightarrow> string) \<Rightarrow> run_plan \<Rightarrow> string \<Rightarrow> string \<Rightarrow> int \<Rightarrow> string \<Rightarrow> recipe_run" where
  "run_of_plan isof p alias actor now run_id =
     \<lparr>rr_id = run_id, rr_installation_id = rp_installation_id p, rr_mapping_id = rp_mapping_id p,
      rr_mapping_generation = rp_mapping_generation p, rr_alias = alias, rr_plan_digest = rp_plan_digest p,
      rr_plan = JObj
        [(''schema_version'', JInt 1), (''installation_id'', JStr (rp_installation_id p)),
         (''mapping_id'', JStr (rp_mapping_id p)), (''mapping_generation'', JInt (rp_mapping_generation p)),
         (''recipe_revision_id'', JStr (rp_recipe_revision_id p)), (''plan_digest'', JStr (rp_plan_digest p)),
         (''nodes'', JList (map (run_node_document isof) (rp_nodes p)))],
      rr_state = ''planned'', rr_route_state = ''withdrawn'', rr_actor = actor,
      rr_created_at = now, rr_updated_at = now\<rparr>"

definition run_node_of :: "int \<Rightarrow> string \<Rightarrow> run_node_plan \<Rightarrow> run_node" where
  "run_node_of now run_id p =
     \<lparr>rn_run_id = run_id, rn_node_id = np_node_id p, rn_rank = np_rank p, rn_role = np_role p,
      rn_state = ''planned'', rn_port = np_port p,
      rn_reserved_memory_bytes = np_required_memory_bytes p, rn_updated_at = now\<rparr>"

definition run_reservation :: "int \<Rightarrow> string \<Rightarrow> string \<Rightarrow> string \<Rightarrow> string \<Rightarrow> string \<Rightarrow> int \<Rightarrow> resource_reservation" where
  "run_reservation now dg run_id n kind key amount =
     \<lparr>rs_node_id = n, rs_kind = kind, rs_resource_key = key, rs_amount_bytes = amount,
      rs_owner_kind = ''run'', rs_owner_id = run_id, rs_state = ''active'',
      rs_plan_digest = dg, rs_created_at = now\<rparr>"

definition node_reservations :: "int \<Rightarrow> string \<Rightarrow> string \<Rightarrow> run_node_plan \<Rightarrow> adm_exc + resource_reservation list" where
  "node_reservations now dg run_id p =
     rbind (reservation_kind (np_memory_kind p)) (\<lambda>kind.
       Inr (run_reservation now dg run_id (np_node_id p) kind dg (np_required_memory_bytes p) #
            map (\<lambda>port. run_reservation now dg run_id (np_node_id p) ''port'' (dec_int port) 0) (node_ports p)))"

definition accept_run_in_session ::
  "(int \<Rightarrow> string) \<Rightarrow> (string \<Rightarrow> string) \<Rightarrow> run_service \<Rightarrow> string \<Rightarrow> admission_db \<Rightarrow> run_plan \<Rightarrow>
   string \<Rightarrow> string \<Rightarrow> int \<Rightarrow> adm_exc + admission_db" where
  "accept_run_in_session isof h sv run_id db p alias actor now =
     rbind (plan_run isof h sv now db (rp_installation_id p)) (\<lambda>fresh.
     raise_if (\<not> rp_allowed fresh \<or> rp_plan_digest fresh \<noteq> rp_plan_digest p \<or>
         rp_mapping_generation fresh \<noteq> rp_mapping_generation p)
       (PlanConflict ''run plan is stale or blocked'') (
     let changed = PlanConflict ''mapping generation changed while reserving'' in
     case row_of cm_id (cluster_mappings db) (rp_mapping_id p) of
       None \<Rightarrow> Inl changed
     | Some m \<Rightarrow>
         raise_if (cm_state m \<noteq> ''ready'' \<or> cm_generation m \<noteq> rp_mapping_generation p) changed (
         rbind (map_r (check_run_node sv db) (sort_key np_node_id (rp_nodes p))) (\<lambda>_.
         raise_if (list_ex (\<lambda>r. rr_plan_digest r = rp_plan_digest p) (recipe_runs db))
           (IntegrityError ''recipe_runs.plan_digest'') (
         rbind (map_r (node_reservations now (rp_plan_digest p) run_id) (rp_nodes p)) (\<lambda>rss.
         Inr (db\<lparr>recipe_runs := recipe_runs db @ [run_of_plan isof p alias actor now run_id],
                 run_nodes := run_nodes db @ map (run_node_of now run_id) (rp_nodes p),
                 resource_reservations := resource_reservations db @ concat rss\<rparr>)))))))"

text \<open>The constraints of the tables that the new rows meet when the transaction commits.\<close>

definition run_node_row_ok :: "run_node \<Rightarrow> bool" where
  "run_node_row_ok r \<longleftrightarrow>
     0 \<le> rn_rank r \<and> 1024 \<le> rn_port r \<and> rn_port r \<le> 65535 \<and> 0 \<le> rn_reserved_memory_bytes r \<and>
     1 \<le> length (rn_role r) \<and> length (rn_role r) \<le> 64"

definition run_tables_ok :: "admission_db \<Rightarrow> bool" where
  "run_tables_ok db \<longleftrightarrow>
     list_all run_node_row_ok (run_nodes db) \<and>
     distinct (map (\<lambda>r. (rn_run_id r, rn_node_id r)) (run_nodes db)) \<and>
     distinct (map (\<lambda>r. (rn_run_id r, rn_rank r)) (run_nodes db)) \<and>
     list_all (\<lambda>r. 0 \<le> rs_amount_bytes r) (resource_reservations db) \<and>
     ports_exclusive (resource_reservations db)"

definition accept_run ::
  "(int \<Rightarrow> string) \<Rightarrow> (string \<Rightarrow> string) \<Rightarrow> run_service \<Rightarrow> string \<Rightarrow> admission_db \<Rightarrow> run_plan \<Rightarrow>
   string \<Rightarrow> string \<Rightarrow> int \<Rightarrow> adm_exc + admission_db" where
  "accept_run isof h sv run_id db p alias actor now =
     rbind (accept_run_in_session isof h sv run_id db p alias actor now) (\<lambda>db'.
     raise_if (\<not> run_tables_ok db') (IntegrityError ''run_nodes'') (Inr db'))"

end
