(* ===== verification/Run_Properties.thy ===== *)
theory Run_Properties
  imports Run_Admission
begin

text \<open>
  What run admission guarantees: an accepted run leaves the memory floor on every node and keeps
  active ports unique; an allowed plan is accepted when nothing changed; an installation does not
  run twice.
\<close>

section \<open>Allowed plans\<close>

lemma plan_run_Inr:
  assumes "plan_run isof h sv now db iid = Inr p"
  obtains rw ordered topology roles port owner c nodes0 where
    "load_run_rows db iid = Inr rw"
    "run_topology rw (map placement_of (rw_mapping_nodes rw))
       (snapshot_dict sv now db (map placement_of (rw_mapping_nodes rw))) = Inr (ordered, topology)"
    "run_contract rw = Inr (roles, port)"
    "find mn_endpoint_owner (rw_mapping_nodes rw) = Some owner"
    "c = \<lparr>rc_sv = sv, rc_reservations = resource_reservations db,
          rc_snapshots = snapshot_dict sv now db (map placement_of (rw_mapping_nodes rw)),
          rc_topology = topology, rc_installed = rw_installed rw, rc_roles = roles,
          rc_port = port, rc_owner = mn_node_id owner, rc_multi = 1 < length ordered\<rparr>"
    "map_r (plan_node c) ordered = Inr nodes0"
    "p = \<lparr>rp_installation_id = iid, rp_mapping_id = cm_id (rw_mapping rw),
          rp_mapping_generation = cm_generation (rw_mapping rw), rp_recipe_revision_id = rv_id (rw_revision rw),
          rp_allowed = list_all np_allowed (block_duplicates (1 < length ordered) nodes0),
          rp_nodes = block_duplicates (1 < length ordered) nodes0,
          rp_plan_digest = h (json_dumps True (run_identity isof iid (cm_id (rw_mapping rw))
            (cm_generation (rw_mapping rw)) (rv_id (rw_revision rw)) (block_duplicates (1 < length ordered) nodes0)))\<rparr>"
  using assms that unfolding plan_run_def Let_def
  by (auto simp: result_simps split: option.splits prod.splits)

definition plan_text :: "(int \<Rightarrow> string) \<Rightarrow> run_plan \<Rightarrow> string" where
  "plan_text isof p = json_dumps True (run_identity isof (rp_installation_id p) (rp_mapping_id p)
     (rp_mapping_generation p) (rp_recipe_revision_id p) (rp_nodes p))"

lemma plan_run_fields:
  assumes "plan_run isof h sv now db iid = Inr p"
  shows "rp_installation_id p = iid" "rp_plan_digest p = h (plan_text isof p)"
    "rp_allowed p \<longleftrightarrow> list_all np_allowed (rp_nodes p)"
  using assms by (auto elim!: plan_run_Inr simp: plan_text_def)

lemma plan_node_Inr:
  assumes "plan_node c p = Inr q"
  obtains kind where
    "reservation_kind (np_memory_kind q) = Inr kind"
    "np_node_id q = pc_node_id p" "np_rank q = pc_rank p" "np_role q = pc_role p" "np_port q = rc_port c"
    "np_rendezvous_port q = rendezvous_port c (pc_node_id p)"
    "np_available_memory_bytes q = map_option (available_memory (np_memory_kind q)) (dict_get (rc_snapshots c) (pc_node_id p))"
    "np_free_after_bytes q = map_option (\<lambda>a. a - active_sum (rc_reservations c) (pc_node_id p) kind - np_required_memory_bytes q)
       (np_available_memory_bytes q)"
    "np_allowed q \<longleftrightarrow> node_blockers c p (np_free_after_bytes q) = []"
  using assms that unfolding plan_node_def Let_def by (auto simp: result_simps)

lemma node_blockers_Nil:
  assumes "node_blockers c p free_after = []"
  shows "rc_topology c = []" "\<not> port_taken (rc_reservations c) (pc_node_id p) (rc_port c)"
    "\<exists>s. dict_get (rc_snapshots c) (pc_node_id p) = Some s \<and> \<not> iv_stale s"
    "(pc_node_id p, pc_rank p, pc_role p) \<in> set (rc_installed c)"
    "rendezvous_port c (pc_node_id p) = Some r \<Longrightarrow> r \<noteq> rc_port c \<and> \<not> port_taken (rc_reservations c) (pc_node_id p) r"
    "free_after = Some f \<Longrightarrow> sv_floor (rc_sv c) \<le> f"
  using assms by (auto simp: node_blockers_def Let_def rendezvous_port_def split: if_splits option.splits)

lemma block_duplicates_allowed:
  "list_all np_allowed (block_duplicates multi ps) \<Longrightarrow> block_duplicates multi ps = ps"
  by (cases ps) (auto simp: block_duplicates_def fabric_addresses_def)

lemma snapshot_dict_latest:
  "dict_get (snapshot_dict sv now db ps) n = Some s \<Longrightarrow>
     latest now (sv_max_age sv) (node_inventory_snapshots db) n = Some s"
proof -
  assume "dict_get (snapshot_dict sv now db ps) n = Some s"
  then have "(n, s) \<in> set (dict_of (List.map_filter (\<lambda>p. map_option (Pair (pc_node_id p))
      (latest now (sv_max_age sv) (node_inventory_snapshots db) (pc_node_id p))) ps))"
    by (auto simp: snapshot_dict_def dest: map_of_SomeD)
  then show ?thesis using set_dict_of by (fastforce simp: map_filter_def)
qed

lemma run_topology_Inr:
  "run_topology rw ps snaps = Inr (ordered, topology) \<Longrightarrow> ordered = sort_key pc_rank ps \<and>
     (topology = [] \<longrightarrow> distinct (map pc_node_id ordered) \<and> map pc_rank ordered = map int [0..<length ordered])"
  by (auto simp: run_topology_def validated_placement split: sum.splits adm_exc.splits)

text \<open>The node plans of an allowed plan, with everything the acceptance relies on.\<close>

definition node_ready :: "run_service \<Rightarrow> int \<Rightarrow> admission_db \<Rightarrow> run_node_plan \<Rightarrow> bool" where
  "node_ready sv now db q \<longleftrightarrow>
     (\<exists>s kind. latest_row (np_node_id q) (node_inventory_snapshots db) = Some s \<and>
        now - iv_observed_at s \<le> seconds (sv_max_age sv) \<and>
        reservation_kind (np_memory_kind q) = Inr kind \<and>
        np_available_memory_bytes q = Some (available_memory (np_memory_kind q) s) \<and>
        sv_floor sv \<le> available_memory (np_memory_kind q) s -
          active_sum (resource_reservations db) (np_node_id q) kind - np_required_memory_bytes q) \<and>
     distinct (node_ports q) \<and> list_all (\<lambda>port. \<not> port_taken (resource_reservations db) (np_node_id q) port) (node_ports q)"

lemma latest_view:
  "latest now age snaps n = Some s \<Longrightarrow> \<exists>r. latest_row n snaps = Some r \<and>
     iv_stale s = (seconds age < now - iv_observed_at r) \<and>
     (\<forall>mk. available_memory mk s = available_memory mk r)"
  by (auto simp: latest_def available_memory_def inventory_snapshot.defs)

lemma allowed_node_ready:
  assumes q: "plan_node c p = Inr q" "np_allowed q"
    and c: "rc_sv c = sv" "rc_reservations c = resource_reservations db" "rc_snapshots c = snapshot_dict sv now db ps"
  shows "node_ready sv now db q"
proof -
  from q(1) obtain kind where f:
    "reservation_kind (np_memory_kind q) = Inr kind" "np_node_id q = pc_node_id p" "np_port q = rc_port c"
    "np_rendezvous_port q = rendezvous_port c (pc_node_id p)"
    "np_available_memory_bytes q = map_option (available_memory (np_memory_kind q)) (dict_get (rc_snapshots c) (pc_node_id p))"
    "np_free_after_bytes q = map_option (\<lambda>a. a - active_sum (rc_reservations c) (pc_node_id p) kind - np_required_memory_bytes q)
       (np_available_memory_bytes q)"
    "node_blockers c p (np_free_after_bytes q) = []"
    using q(2) by (auto elim!: plan_node_Inr)
  note nil = node_blockers_Nil [OF f(7)]
  from nil(3) obtain s where s: "dict_get (rc_snapshots c) (pc_node_id p) = Some s" "\<not> iv_stale s" by blast
  from latest_view [OF snapshot_dict_latest [OF s(1) [unfolded c(3)]]] obtain r where
    r: "latest_row (pc_node_id p) (node_inventory_snapshots db) = Some r"
       "iv_stale s = (seconds (sv_max_age sv) < now - iv_observed_at r)"
       "available_memory (np_memory_kind q) s = available_memory (np_memory_kind q) r" by auto
  have "distinct (node_ports q) \<and> list_all (\<lambda>port. \<not> port_taken (rc_reservations c) (np_node_id q) port) (node_ports q)"
    using f nil by (auto simp: node_ports_def split: option.splits)
  with f s r nil(6) show ?thesis by (auto simp: node_ready_def c)
qed

lemma plan_nodes_fields:
  assumes "list_all2 (\<lambda>x y. plan_node c x = Inr y) ps qs"
  shows "map np_node_id qs = map pc_node_id ps" "map np_rank qs = map pc_rank ps"
    "q \<in> set qs \<Longrightarrow> np_port q = rc_port c"
  using assms by (induction rule: list_all2_induct) (auto elim: plan_node_Inr)

lemma plan_node_allowed: "plan_node c p = Inr q \<Longrightarrow> np_allowed q \<longleftrightarrow> node_blockers c p (np_free_after_bytes q) = []"
  by (auto elim: plan_node_Inr)

lemma plan_nodes:
  assumes plan: "plan_run isof h sv now db iid = Inr p"
  obtains c rw roles ordered topology nodes0 where
    "load_run_rows db iid = Inr rw" "run_contract rw = Inr (roles, rc_port c)"
    "rc_sv c = sv" "rc_reservations c = resource_reservations db"
    "rc_snapshots c = snapshot_dict sv now db (map placement_of (rw_mapping_nodes rw))"
    "rc_topology c = topology" "ordered = sort_key pc_rank (map placement_of (rw_mapping_nodes rw))" "ordered \<noteq> []"
    "topology = [] \<longrightarrow> distinct (map pc_node_id ordered) \<and> map pc_rank ordered = map int [0..<length ordered]"
    "map_r (plan_node c) ordered = Inr nodes0" "rp_nodes p = block_duplicates (1 < length ordered) nodes0"
proof (rule plan_run_Inr [OF plan])
  fix rw ordered topology roles port owner c nodes0
  assume rows: "load_run_rows db iid = Inr rw" "run_contract rw = Inr (roles, port)"
    and *: "run_topology rw (map placement_of (rw_mapping_nodes rw))
       (snapshot_dict sv now db (map placement_of (rw_mapping_nodes rw))) = Inr (ordered, topology)"
    "find mn_endpoint_owner (rw_mapping_nodes rw) = Some owner"
    "c = \<lparr>rc_sv = sv, rc_reservations = resource_reservations db,
          rc_snapshots = snapshot_dict sv now db (map placement_of (rw_mapping_nodes rw)),
          rc_topology = topology, rc_installed = rw_installed rw, rc_roles = roles,
          rc_port = port, rc_owner = mn_node_id owner, rc_multi = 1 < length ordered\<rparr>"
    "map_r (plan_node c) ordered = Inr nodes0"
    "p = \<lparr>rp_installation_id = iid, rp_mapping_id = cm_id (rw_mapping rw),
          rp_mapping_generation = cm_generation (rw_mapping rw), rp_recipe_revision_id = rv_id (rw_revision rw),
          rp_allowed = list_all np_allowed (block_duplicates (1 < length ordered) nodes0),
          rp_nodes = block_duplicates (1 < length ordered) nodes0,
          rp_plan_digest = h (json_dumps True (run_identity isof iid (cm_id (rw_mapping rw))
            (cm_generation (rw_mapping rw)) (rv_id (rw_revision rw)) (block_duplicates (1 < length ordered) nodes0)))\<rparr>"
  have "rw_mapping_nodes rw \<noteq> []" using *(2) by auto
  then have ne: "ordered \<noteq> []" using run_topology_Inr [OF *(1)] by simp
  show ?thesis
  proof (rule that)
    show "map_r (plan_node c) ordered = Inr nodes0" by (rule *(4))
    show "rp_nodes p = block_duplicates (1 < length ordered) nodes0" by (simp only: *(5) run_plan.simps)
    show "ordered = sort_key pc_rank (map placement_of (rw_mapping_nodes rw))" using run_topology_Inr [OF *(1)] by blast
    show "topology = [] \<longrightarrow> distinct (map pc_node_id ordered) \<and> map pc_rank ordered = map int [0..<length ordered]"
      using run_topology_Inr [OF *(1)] by blast
  qed (simp_all add: ne *(3) rows)
qed

lemma allowed_plan_ready:
  assumes plan: "plan_run isof h sv now db iid = Inr p" and allowed: "rp_allowed p"
  shows "list_all (node_ready sv now db) (rp_nodes p)" "distinct (map np_node_id (rp_nodes p))"
    "rp_nodes p \<noteq> []" "map np_rank (rp_nodes p) = map int [0..<length (rp_nodes p)]"
proof -
  obtain c and rw :: run_rows and ordered topology nodes0 where
    c: "rc_sv c = sv" "rc_reservations c = resource_reservations db"
       "rc_snapshots c = snapshot_dict sv now db (map placement_of (rw_mapping_nodes rw))" "rc_topology c = topology"
    and ne: "ordered \<noteq> []"
    and top: "topology = [] \<longrightarrow> distinct (map pc_node_id ordered) \<and> map pc_rank ordered = map int [0..<length ordered]"
    and nodes: "map_r (plan_node c) ordered = Inr nodes0" and p: "rp_nodes p = block_duplicates (1 < length ordered) nodes0"
    by (rule plan_nodes [OF plan], rule that, assumption+)
  have all: "list_all np_allowed (rp_nodes p)" using allowed plan_run_fields(3) [OF plan] by blast
  then have eq: "rp_nodes p = nodes0" using p block_duplicates_allowed by metis
  have rel: "list_all2 (\<lambda>x y. plan_node c x = Inr y) ordered nodes0" using nodes by (simp add: map_r_Inr)
  have ready: "node_ready sv now db q" if q: "q \<in> set nodes0" for q
  proof -
    from map_r_Inr_set [OF nodes q] obtain x where "plan_node c x = Inr q" by blast
    moreover have "np_allowed q" using all q eq by (simp add: list_all_iff)
    ultimately show ?thesis by (rule allowed_node_ready [OF _ _ c(1-3)])
  qed
  then show "list_all (node_ready sv now db) (rp_nodes p)" by (simp add: eq list_all_iff)
  show "rp_nodes p \<noteq> []" using rel ne eq by (metis list_all2_Nil2)
  have "topology = []"
  proof -
    obtain x xs where x: "ordered = x # xs" using ne by (cases ordered) simp_all
    then obtain y ys where y: "nodes0 = y # ys" "plan_node c x = Inr y" using rel by (auto simp: list_all2_Cons1)
    have "node_blockers c x (np_free_after_bytes y) = []" using all eq plan_node_allowed [OF y(2)] by (simp add: y(1))
    from node_blockers_Nil(1) [OF this] show ?thesis by (simp add: c)
  qed
  moreover have "map np_node_id nodes0 = map pc_node_id ordered" "map np_rank nodes0 = map pc_rank ordered"
    using plan_nodes_fields [OF rel] by auto
  ultimately show "distinct (map np_node_id (rp_nodes p))" "map np_rank (rp_nodes p) = map int [0..<length (rp_nodes p)]"
    using top eq list_all2_lengthD [OF rel] by simp_all
qed

section \<open>Plans with the same digest\<close>

text \<open>What the acceptance reads of a node plan.\<close>

definition np_key :: "run_node_plan \<Rightarrow> string \<times> int \<times> string \<times> int \<times> int option \<times> int option" where
  "np_key q = (np_node_id q, np_port q, np_memory_kind q, np_required_memory_bytes q,
     np_available_memory_bytes q, np_rendezvous_port q)"

lemma node_ready_key: "np_key q = np_key q' \<Longrightarrow> node_ready sv now db q = node_ready sv now db q'"
  by (simp add: node_ready_def node_ports_def np_key_def)

lemma run_document_wf: "json_wf (run_node_document isof q)"
  by (simp add: run_node_document_def reason_document_def list_all_iff)

lemma run_document_key:
  assumes "json_canon (run_node_document isof q) = json_canon (run_node_document isof q')"
  shows "np_key q = np_key q'"
proof -
  have wf: "wf_dict (the_obj (run_node_document isof x))" for x by (simp add: run_node_document_def)
  have obj: "run_node_document isof x = JObj (the_obj (run_node_document isof x))" for x by (simp add: run_node_document_def)
  have field: "map_option json_canon (dict_get (the_obj (run_node_document isof q)) k) =
      map_option json_canon (dict_get (the_obj (run_node_document isof q')) k)" for k
    using assms by (intro canon_field wf) (simp only: obj [symmetric])
  show ?thesis
    using field [of "''node_id''"] field [of "''port''"] field [of "''memory_kind''"] field [of "''required_memory_bytes''"]
      field [of "''available_memory_bytes''"] field [of "''rendezvous_port''"]
    by (simp add: run_node_document_def np_key_def)
qed

lemma same_text_nodes:
  assumes "plan_text isof p = plan_text isof q"
  shows "map np_key (rp_nodes p) = map np_key (rp_nodes q)"
proof -
  define d where "d x = run_identity isof (rp_installation_id x) (rp_mapping_id x) (rp_mapping_generation x)
    (rp_recipe_revision_id x) (rp_nodes x)" for x :: run_plan
  have wf: "json_wf (d x)" for x by (simp add: d_def run_identity_def list_all_iff run_document_wf)
  have obj: "JObj (the_obj (d x)) = d x" for x by (simp add: d_def run_identity_def)
  have keys: "wf_dict (the_obj (d x))" for x by (simp add: d_def run_identity_def)
  have nodes: "dict_get (the_obj (d x)) ''nodes'' = Some (JList (map (run_node_document isof) (rp_nodes x)))" for x
    by (simp add: d_def run_identity_def)
  have "json_dumps True (d p) = json_dumps True (d q)" using assms by (simp only: plan_text_def d_def)
  from json_dumps_inject [OF wf wf this] have "json_canon (JObj (the_obj (d p))) = json_canon (JObj (the_obj (d q)))"
    by (simp only: obj)
  from canon_field [OF this keys keys, of "''nodes''"]
  have "map (json_canon \<circ> run_node_document isof) (rp_nodes p) = map (json_canon \<circ> run_node_document isof) (rp_nodes q)"
    by (simp add: nodes)
  then show ?thesis by (rule map_key_transfer) (rule run_document_key, simp only: comp_apply)
qed

section \<open>Accepted plans\<close>

lemma load_run_rows_cong:
  assumes "recipe_installations db' = recipe_installations db" "cluster_mappings db' = cluster_mappings db"
    "local_recipe_revisions db' = local_recipe_revisions db" "cluster_mapping_nodes db' = cluster_mapping_nodes db"
    "installation_nodes db' = installation_nodes db"
  shows "load_run_rows db' i = load_run_rows db i"
  unfolding load_run_rows_def mapping_rows_def installed_ranks_def assms ..

lemma accept_run_Inr:
  assumes "accept_run_in_session isof h sv run_id db p label actor now = Inr db'"
  obtains fresh rss where
    "plan_run isof h sv now db (rp_installation_id p) = Inr fresh" "rp_allowed fresh"
    "rp_plan_digest fresh = rp_plan_digest p"
    "map_r (node_reservations now (rp_plan_digest p) run_id) (rp_nodes p) = Inr rss"
    "db' = db\<lparr>recipe_runs := recipe_runs db @ [run_of_plan isof p label actor now run_id],
              run_nodes := run_nodes db @ map (run_node_of now run_id) (rp_nodes p),
              resource_reservations := resource_reservations db @ concat rss\<rparr>"
  using assms that unfolding accept_run_in_session_def Let_def
  by (auto simp: result_simps split: option.splits)

definition memory_kind_of :: "run_node_plan \<Rightarrow> string" where
  "memory_kind_of q = projr (reservation_kind (np_memory_kind q))"

definition run_rows_of :: "int \<Rightarrow> string \<Rightarrow> string \<Rightarrow> run_node_plan \<Rightarrow> resource_reservation list" where
  "run_rows_of now d run_id q = projr (node_reservations now d run_id q)"

definition has_kind :: "run_node_plan \<Rightarrow> bool" where
  "has_kind q \<longleftrightarrow> \<not> isl (reservation_kind (np_memory_kind q))"

lemma run_rows_of_eq:
  "has_kind q \<Longrightarrow> run_rows_of now d run_id q =
     run_reservation now d run_id (np_node_id q) (memory_kind_of q) d (np_required_memory_bytes q) #
     map (\<lambda>port. run_reservation now d run_id (np_node_id q) ''port'' (dec_int port) 0) (node_ports q)"
  "has_kind q \<Longrightarrow> memory_kind_of q \<noteq> ''port''"
  by (auto simp: has_kind_def run_rows_of_def memory_kind_of_def node_reservations_def reservation_kind_def)

interpretation run_ledger: capacity_ledger np_node_id memory_kind_of np_required_memory_bytes "run_rows_of now d run_id" has_kind
  for now d run_id
proof
  fix q r
  assume q: "has_kind q"
  note rows = run_rows_of_eq [OF q]
  show "r \<in> set (run_rows_of now d run_id q) \<Longrightarrow> rs_node_id r = np_node_id q"
    by (auto simp: rows(1) run_reservation_def)
  have "filter (is_active (np_node_id q) (memory_kind_of q))
      (map (\<lambda>port. run_reservation now d run_id (np_node_id q) ''port'' (dec_int port) 0) (node_ports q)) = []"
    using rows(2) by (auto simp: filter_empty_conv is_active_def run_reservation_def)
  moreover have "is_active (np_node_id q) (memory_kind_of q)
      (run_reservation now d run_id (np_node_id q) (memory_kind_of q) d (np_required_memory_bytes q))"
    "rs_amount_bytes (run_reservation now d run_id n k d amount) = amount" for n k amount
    by (simp_all add: is_active_def run_reservation_def)
  ultimately show "active_sum (run_rows_of now d run_id q) (np_node_id q) (memory_kind_of q) = np_required_memory_bytes q"
    by (simp add: rows(1) active_sum_def)
qed

lemma active_ports_rows:
  "has_kind q \<Longrightarrow> active_ports (run_rows_of now d run_id q) = map (\<lambda>port. (np_node_id q, dec_int port)) (node_ports q)"
  using run_rows_of_eq(1) [of q now d run_id] run_rows_of_eq(2) [of q] by (auto simp: active_ports_def run_reservation_def filter_map comp_def)

lemma active_ports_concat:
  "list_all has_kind qs \<Longrightarrow> active_ports (concat (map (run_rows_of now d run_id) qs)) =
     concat (map (\<lambda>q. map (\<lambda>port. (np_node_id q, dec_int port)) (node_ports q)) qs)"
  by (induction qs) (simp_all add: active_ports_rows, simp add: active_ports_def)

lemma new_ports_distinct:
  "distinct (map np_node_id qs) \<Longrightarrow> list_all (\<lambda>q. distinct (node_ports q)) qs \<Longrightarrow>
     distinct (concat (map (\<lambda>q. map (\<lambda>port. (np_node_id q, dec_int port)) (node_ports q)) qs))"
  by (induction qs) (auto simp: distinct_map inj_on_def)

lemma ready_has_kind: "node_ready sv now db q \<Longrightarrow> has_kind q"
  by (auto simp: node_ready_def has_kind_def)

lemma reservations_rows:
  "map_r (node_reservations now d run_id) qs = Inr rss \<Longrightarrow> rss = map (run_rows_of now d run_id) qs"
  by (auto simp: map_r_Inr list_all2_conv_all_nth list_eq_iff_nth_eq run_rows_of_def)

lemma ready_ports_exclusive:
  assumes ready: "list_all (node_ready sv now db) qs" and nodes: "distinct (map np_node_id qs)"
    and ex: "ports_exclusive (resource_reservations db)"
  shows "ports_exclusive (resource_reservations db @ concat (map (run_rows_of now' d run_id) qs))"
proof -
  have kind: "list_all has_kind qs" using ready ready_has_kind by (auto simp: list_all_iff)
  have "list_all (\<lambda>q. distinct (node_ports q)) qs" using ready by (auto simp: list_all_iff node_ready_def)
  moreover have "(np_node_id q, dec_int port) \<notin> set (active_ports (resource_reservations db))"
    if "q \<in> set qs" "port \<in> set (node_ports q)" for q port
    using ready that by (auto simp: list_all_iff node_ready_def port_taken_iff)
  ultimately show ?thesis
    using ex new_ports_distinct [OF nodes] by (auto simp: ports_exclusive_def active_ports_concat [OF kind])
qed

lemma ready_capacity:
  assumes ready: "list_all (node_ready sv now db) qs" and nodes: "distinct (map np_node_id qs)" and q: "q \<in> set qs"
  shows "\<exists>s kind. latest_row (np_node_id q) (node_inventory_snapshots db) = Some s \<and>
     now - iv_observed_at s \<le> seconds (sv_max_age sv) \<and> reservation_kind (np_memory_kind q) = Inr kind \<and>
     sv_floor sv \<le> available_memory (np_memory_kind q) s -
       active_sum (resource_reservations db @ concat (map (run_rows_of now' d run_id) qs)) (np_node_id q) kind"
proof -
  have kind: "list_all has_kind qs" using ready ready_has_kind by (auto simp: list_all_iff)
  from ready q obtain s kind where s: "latest_row (np_node_id q) (node_inventory_snapshots db) = Some s"
     "now - iv_observed_at s \<le> seconds (sv_max_age sv)" "reservation_kind (np_memory_kind q) = Inr kind"
     "sv_floor sv \<le> available_memory (np_memory_kind q) s -
          active_sum (resource_reservations db) (np_node_id q) kind - np_required_memory_bytes q"
    by (auto simp: list_all_iff node_ready_def)
  have k: "memory_kind_of q = kind" by (simp add: memory_kind_of_def s)
  from run_ledger.reserved_within [OF kind nodes q, of "sv_floor sv" "available_memory (np_memory_kind q) s"
      "resource_reservations db" now' d run_id, unfolded k] s
  show ?thesis by blast
qed

text \<open>A plan that was issued and is accepted: its nodes are ready in the state that accepts it.\<close>

lemma accepted_ready:
  assumes issued: "plan_run isof h sv0 now0 db0 iid = Inr p"
    and accepted: "accept_run_in_session isof h sv run_id db p label actor now = Inr db'"
    and separates: "\<And>q. plan_run isof h sv now db iid = Inr q \<Longrightarrow> h (plan_text isof q) = h (plan_text isof p) \<Longrightarrow>
      plan_text isof q = plan_text isof p"
  obtains fresh where "plan_run isof h sv now db iid = Inr fresh" "rp_allowed fresh"
    "map np_key (rp_nodes fresh) = map np_key (rp_nodes p)"
    "list_all (node_ready sv now db) (rp_nodes p)" "distinct (map np_node_id (rp_nodes p))" "rp_nodes p \<noteq> []"
    "resource_reservations db' = resource_reservations db @
       concat (map (run_rows_of now (rp_plan_digest p) run_id) (rp_nodes p))"
    "\<And>i. load_run_rows db' i = load_run_rows db i"
proof -
  note fields = plan_run_fields [OF issued]
  obtain fresh rss where
    fresh: "plan_run isof h sv now db iid = Inr fresh" "rp_allowed fresh" "rp_plan_digest fresh = rp_plan_digest p"
    and rss: "map_r (node_reservations now (rp_plan_digest p) run_id) (rp_nodes p) = Inr rss"
    and db': "db' = db\<lparr>recipe_runs := recipe_runs db @ [run_of_plan isof p label actor now run_id],
              run_nodes := run_nodes db @ map (run_node_of now run_id) (rp_nodes p),
              resource_reservations := resource_reservations db @ concat rss\<rparr>"
    by (rule accept_run_Inr [OF accepted, unfolded fields(1)])
  have "plan_text isof fresh = plan_text isof p"
    using separates [OF fresh(1)] fresh(3) fields plan_run_fields [OF fresh(1)] by simp
  then have keys: "map np_key (rp_nodes fresh) = map np_key (rp_nodes p)" by (rule same_text_nodes)
  note ready = allowed_plan_ready [OF fresh(1,2)]
  have same: "map (node_ready sv now db) (rp_nodes fresh) = map (node_ready sv now db) (rp_nodes p)"
    using keys by (rule map_key_transfer) (rule node_ready_key)
  have "\<forall>b \<in> set (map (node_ready sv now db) (rp_nodes p)). b"
    unfolding same [symmetric] using ready(1) by (simp add: list_all_iff)
  then have "list_all (node_ready sv now db) (rp_nodes p)" by (simp add: list_all_iff)
  moreover have "distinct (map np_node_id (rp_nodes p))"
    using ready(2) arg_cong [OF keys, of "map fst"] by (simp add: comp_def np_key_def)
  moreover have "rp_nodes p \<noteq> []" using ready(3) keys by auto
  moreover have "load_run_rows db' i = load_run_rows db i" for i
    by (rule load_run_rows_cong) (simp_all add: db')
  ultimately show ?thesis using that fresh keys reservations_rows [OF rss] by (simp add: db')
qed

lemma plan_port:
  assumes "plan_run isof h sv now db iid = Inr p" "load_run_rows db iid = Inr rw"
  shows "map np_node_id (rp_nodes p) = map pc_node_id (sort_key pc_rank (map placement_of (rw_mapping_nodes rw)))"
    "\<exists>roles port. run_contract rw = Inr (roles, port) \<and> (\<forall>x \<in> set (rp_nodes p). np_port x = port)"
    "rp_nodes p \<noteq> []"
proof -
  obtain c roles ordered nodes0 where contract: "run_contract rw = Inr (roles, rc_port c)"
    and ordered: "ordered = sort_key pc_rank (map placement_of (rw_mapping_nodes rw))" "ordered \<noteq> []"
    and nodes: "map_r (plan_node c) ordered = Inr nodes0" and p: "rp_nodes p = block_duplicates (1 < length ordered) nodes0"
    by (rule plan_nodes [OF assms(1)]) (use assms(2) in auto)
  have keep: "map np_node_id (block_duplicates m xs) = map np_node_id xs" "map np_port (block_duplicates m xs) = map np_port xs"
    "length (block_duplicates m xs) = length xs" for m xs
    by (simp_all add: block_duplicates_def comp_def)
  have rel: "list_all2 (\<lambda>x y. plan_node c x = Inr y) ordered nodes0" using nodes by (simp add: map_r_Inr)
  show "map np_node_id (rp_nodes p) = map pc_node_id (sort_key pc_rank (map placement_of (rw_mapping_nodes rw)))"
    using plan_nodes_fields(1) [OF rel] by (simp add: p keep ordered(1))
  have "np_port ` set (rp_nodes p) = np_port ` set nodes0" unfolding p using keep(2) by (metis set_map)
  then have "np_port x = rc_port c" if "x \<in> set (rp_nodes p)" for x
    using plan_nodes_fields(3) [OF rel] that by force
  with contract show "\<exists>roles port. run_contract rw = Inr (roles, port) \<and> (\<forall>x \<in> set (rp_nodes p). np_port x = port)" by blast
  show "rp_nodes p \<noteq> []" using list_all2_lengthD [OF rel] ordered(2) keep(3) p by (metis length_0_conv)
qed

text \<open>The nodes and the port of a plan come from rows that accepting a run leaves alone.\<close>

lemma same_node_and_port:
  assumes fresh: "plan_run isof h sv now db iid = Inr fresh" and fresh': "plan_run isof' h' sv' now' db' iid = Inr fresh'"
    and rows: "\<And>i. load_run_rows db' i = load_run_rows db i"
    and keys: "map np_key (rp_nodes fresh) = map np_key (rp_nodes p)"
    and q': "q' \<in> set (rp_nodes fresh')"
  obtains q where "q \<in> set (rp_nodes p)" "np_node_id q = np_node_id q'" "np_port q = np_port q'"
proof -
  obtain rw where rw: "load_run_rows db iid = Inr rw" by (rule plan_nodes [OF fresh])
  then have rw': "load_run_rows db' iid = Inr rw" by (simp add: rows)
  note parts = plan_port [OF fresh rw] and parts' = plan_port [OF fresh' rw']
  have "np_node_id q' \<in> set (map np_node_id (rp_nodes fresh))" using q' unfolding parts(1) parts'(1) [symmetric] by simp
  then obtain y where y: "y \<in> set (rp_nodes fresh)" "np_node_id y = np_node_id q'" by auto
  have "np_port y = np_port q'" using parts(2) parts'(2) y(1) q' by auto
  from y(1) keys have "np_key y \<in> np_key ` set (rp_nodes p)" by (metis image_eqI image_set)
  then obtain q where "q \<in> set (rp_nodes p)" "np_key q = np_key y" by auto
  with y \<open>np_port y = np_port q'\<close> that show thesis by (auto simp: np_key_def)
qed

lemma rows_take_port:
  "has_kind q \<Longrightarrow> q \<in> set qs \<Longrightarrow> list_all has_kind qs \<Longrightarrow>
     port_taken (rs @ concat (map (run_rows_of now d run_id) qs)) (np_node_id q) (np_port q)"
  by (force simp: port_taken_iff active_ports_concat node_ports_def)

section \<open>Accepting an unchanged plan\<close>

lemma load_run_rows_mapping:
  assumes "load_run_rows db iid = Inr rw"
  shows "row_of cm_id (cluster_mappings db) (cm_id (rw_mapping rw)) = Some (rw_mapping rw)" "cm_state (rw_mapping rw) = ''ready''"
    "rw_mapping_nodes rw = mapping_rows db (cm_id (rw_mapping rw))"
  using assms row_of_Some [of cm_id "cluster_mappings db"]
  by (auto simp: load_run_rows_def Let_def result_simps split: option.splits)

lemma plan_run_mapping:
  "plan_run isof h sv now db iid = Inr p \<Longrightarrow> load_run_rows db iid = Inr rw \<Longrightarrow>
     rp_mapping_id p = cm_id (rw_mapping rw) \<and> rp_mapping_generation p = cm_generation (rw_mapping rw)"
  by (erule plan_run_Inr) simp

lemma check_ready: "node_ready sv now db q \<Longrightarrow> np_node_id q \<in> set (agent_nodes db) \<Longrightarrow> check_run_node sv db q = Inr ()"
  by (auto simp: node_ready_def check_run_node_def raise_if_def list_all_iff list_ex_iff)

lemma node_reservations_rows: "has_kind q \<Longrightarrow> node_reservations now d run_id q = Inr (run_rows_of now d run_id q)"
  by (cases "reservation_kind (np_memory_kind q)") (simp_all add: has_kind_def run_rows_of_def node_reservations_def)

lemma distinct_map_append:
  "distinct (map f xs) \<Longrightarrow> distinct (map f ys) \<Longrightarrow> (\<And>x y. x \<in> set xs \<Longrightarrow> y \<in> set ys \<Longrightarrow> f x \<noteq> f y) \<Longrightarrow>
     distinct (map f (xs @ ys))"
  by auto

lemma plan_nodes_known:
  assumes plan: "plan_run isof h sv now db iid = Inr p"
    and known: "\<And>r. r \<in> set (cluster_mapping_nodes db) \<Longrightarrow> mn_node_id r \<in> set (agent_nodes db)"
    and q: "q \<in> set (rp_nodes p)"
  shows "np_node_id q \<in> set (agent_nodes db)"
proof -
  obtain rw where rw: "load_run_rows db iid = Inr rw" by (rule plan_nodes [OF plan])
  have "np_node_id q \<in> set (map np_node_id (rp_nodes p))" using q by simp
  then show ?thesis
    unfolding plan_port(1) [OF plan rw] load_run_rows_mapping(3) [OF rw]
    using known by (auto simp: mapping_rows_def placement_of_def)
qed

lemma unchanged_plan_accepted:
  assumes plan: "plan_run isof h sv now db iid = Inr p" and allowed: "rp_allowed p"
    and known: "\<And>r. r \<in> set (cluster_mapping_nodes db) \<Longrightarrow> mn_node_id r \<in> set (agent_nodes db)"
    and new: "\<And>r. r \<in> set (recipe_runs db) \<Longrightarrow> rr_plan_digest r \<noteq> rp_plan_digest p"
  shows "accept_run_in_session isof h sv run_id db p label actor now =
    Inr (db\<lparr>recipe_runs := recipe_runs db @ [run_of_plan isof p label actor now run_id],
            run_nodes := run_nodes db @ map (run_node_of now run_id) (rp_nodes p),
            resource_reservations := resource_reservations db @
              concat (map (run_rows_of now (rp_plan_digest p) run_id) (rp_nodes p))\<rparr>)"
proof -
  note ready = allowed_plan_ready [OF plan allowed]
  obtain rw where rw: "load_run_rows db iid = Inr rw" by (rule plan_nodes [OF plan])
  have checks: "map_r (check_run_node sv db) (sort_key np_node_id (rp_nodes p)) =
      Inr (map (\<lambda>_. ()) (sort_key np_node_id (rp_nodes p)))"
    using ready(1) plan_nodes_known [OF plan known] by (intro map_r_all_Inr check_ready) (auto simp: list_all_iff)
  have rows: "map_r (node_reservations now (rp_plan_digest p) run_id) (rp_nodes p) =
      Inr (map (run_rows_of now (rp_plan_digest p) run_id) (rp_nodes p))"
    using ready(1) ready_has_kind by (intro map_r_all_Inr node_reservations_rows) (auto simp: list_all_iff)
  show ?thesis
    using plan_run_mapping [OF plan rw] load_run_rows_mapping [OF rw] new allowed
    by (simp add: accept_run_in_session_def plan_run_fields(1) [OF plan] plan checks rows list_ex_iff)
qed

definition node_valid :: "run_node_plan \<Rightarrow> bool" where
  "node_valid q \<longleftrightarrow> 1024 \<le> np_port q \<and> np_port q \<le> 65535 \<and> 0 \<le> np_required_memory_bytes q \<and>
     1 \<le> length (np_role q) \<and> length (np_role q) \<le> 64"

lemma new_run_nodes_ok:
  assumes "list_all node_valid qs" "map np_rank qs = map int [0..<length qs]" "distinct (map np_node_id qs)"
  shows "list_all run_node_row_ok (map (run_node_of now run_id) qs)"
    "distinct (map (\<lambda>r. (rn_run_id r, rn_node_id r)) (map (run_node_of now run_id) qs))"
    "distinct (map (\<lambda>r. (rn_run_id r, rn_rank r)) (map (run_node_of now run_id) qs))"
proof -
  have "0 \<le> np_rank q" if "q \<in> set qs" for q
  proof -
    have "np_rank q \<in> set (map np_rank qs)" using that by simp
    then show ?thesis unfolding assms(2) by auto
  qed
  then show "list_all run_node_row_ok (map (run_node_of now run_id) qs)"
    using assms(1) by (auto simp: list_all_iff run_node_row_ok_def run_node_of_def node_valid_def)
  show "distinct (map (\<lambda>r. (rn_run_id r, rn_node_id r)) (map (run_node_of now run_id) qs))"
    using assms(3) by (auto simp: distinct_map inj_on_def run_node_of_def)
  have "distinct (map np_rank qs)" by (simp add: assms(2) distinct_map)
  then show "distinct (map (\<lambda>r. (rn_run_id r, rn_rank r)) (map (run_node_of now run_id) qs))"
    by (auto simp: distinct_map inj_on_def run_node_of_def)
qed

lemma rows_amounts: "has_kind q \<Longrightarrow> node_valid q \<Longrightarrow> r \<in> set (run_rows_of now d run_id q) \<Longrightarrow> 0 \<le> rs_amount_bytes r"
  by (auto simp: run_rows_of_eq run_reservation_def node_valid_def)

section \<open>Properties\<close>


text \<open>C9: An installation does not run twice. Once a run of an installation is accepted, no plan of the
  same installation is accepted in the state that results: planning again finds the port of every
  node taken, so the new plan is blocked, whatever plan is presented and however the clock and the
  service are set.\<close>

theorem installation_runs_once:
  assumes issued: "plan_run isof h sv0 now0 db0 iid = Inr p"
    and accepted: "accept_run_in_session isof h sv run_id db p label actor now = Inr db'"
    and separates: "\<And>q. plan_run isof h sv now db iid = Inr q \<Longrightarrow> h (plan_text isof q) = h (plan_text isof p) \<Longrightarrow>
      plan_text isof q = plan_text isof p"
    and again: "rp_installation_id p' = iid"
  shows "\<exists>e. accept_run_in_session isof' h' sv' run_id' db' p' label' actor' now' = Inl e"
proof (rule ccontr)
  assume "\<not> ?thesis"
  then obtain db'' where second: "accept_run_in_session isof' h' sv' run_id' db' p' label' actor' now' = Inr db''"
    by (cases "accept_run_in_session isof' h' sv' run_id' db' p' label' actor' now'") auto
  obtain fresh' where fresh': "plan_run isof' h' sv' now' db' iid = Inr fresh'" "rp_allowed fresh'"
    by (rule accept_run_Inr [OF second]) (use again in blast)
  obtain fresh where fresh: "plan_run isof h sv now db iid = Inr fresh"
    and keys: "map np_key (rp_nodes fresh) = map np_key (rp_nodes p)"
    and ready: "list_all (node_ready sv now db) (rp_nodes p)" and rows: "\<And>i. load_run_rows db' i = load_run_rows db i"
    and db': "resource_reservations db' = resource_reservations db @
       concat (map (run_rows_of now (rp_plan_digest p) run_id) (rp_nodes p))"
    using accepted_ready [OF issued accepted separates] by metis
  note ready' = allowed_plan_ready [OF fresh']
  obtain q' where q': "q' \<in> set (rp_nodes fresh')" using ready'(3) by (cases "rp_nodes fresh'") auto
  obtain q where q: "q \<in> set (rp_nodes p)" "np_node_id q = np_node_id q'" "np_port q = np_port q'"
    by (rule same_node_and_port [OF fresh fresh'(1) rows keys q'])
  have kinds: "list_all has_kind (rp_nodes p)" using ready ready_has_kind by (auto simp: list_all_iff)
  then have "port_taken (resource_reservations db') (np_node_id q') (np_port q')"
    unfolding db' q(2) [symmetric] q(3) [symmetric] using q(1) by (intro rows_take_port) (auto simp: list_all_iff)
  moreover have "\<not> port_taken (resource_reservations db') (np_node_id q') (np_port q')"
    using ready'(1) q' by (auto simp: list_all_iff node_ready_def node_ports_def)
  ultimately show False by blast
qed

text \<open>C39: An allowed plan can be accepted. If \<^verbatim>\<open>plan_run\<close> returns an allowed plan and nothing changes
  before it is accepted, the acceptance succeeds and commits, provided that the mapped nodes are
  registered, no run has the digest of the plan yet, the id of the run is new, and the port, the
  memory and the roles of the plan are in the ranges of the table columns. In particular the checks
  under the locks and the unique index on ports never reject a plan that planning allowed.\<close>

theorem allowed_plan_accepted:
  assumes plan: "plan_run isof h sv now db iid = Inr p" and allowed: "rp_allowed p"
    and known: "\<And>r. r \<in> set (cluster_mapping_nodes db) \<Longrightarrow> mn_node_id r \<in> set (agent_nodes db)"
    and new: "\<And>r. r \<in> set (recipe_runs db) \<Longrightarrow> rr_plan_digest r \<noteq> rp_plan_digest p"
    and tables: "run_tables_ok db" and fresh_id: "\<And>r. r \<in> set (run_nodes db) \<Longrightarrow> rn_run_id r \<noteq> run_id"
    and valid: "list_all node_valid (rp_nodes p)"
  shows "\<exists>db'. accept_run isof h sv run_id db p label actor now = Inr db' \<and> run_tables_ok db' \<and>
    recipe_runs db' = recipe_runs db @ [run_of_plan isof p label actor now run_id]"
proof -
  note ready = allowed_plan_ready [OF plan allowed] and ok = new_run_nodes_ok [OF valid ready(4,2)]
  let ?rows = "concat (map (run_rows_of now (rp_plan_digest p) run_id) (rp_nodes p))"
  have amounts: "list_all (\<lambda>r. 0 \<le> rs_amount_bytes r) ?rows"
    using ready(1) valid by (auto simp: list_all_iff) (blast intro: rows_amounts ready_has_kind)
  have other: "rn_run_id r \<noteq> rn_run_id r'" if "r \<in> set (run_nodes db)" "r' \<in> set (map (run_node_of now run_id) (rp_nodes p))" for r r'
    using fresh_id [OF that(1)] that(2) by (auto simp: run_node_of_def)
  let ?db' = "db\<lparr>recipe_runs := recipe_runs db @ [run_of_plan isof p label actor now run_id],
      run_nodes := run_nodes db @ map (run_node_of now run_id) (rp_nodes p),
      resource_reservations := resource_reservations db @ ?rows\<rparr>"
  have nodes': "run_nodes ?db' = run_nodes db @ map (run_node_of now run_id) (rp_nodes p)" by simp
  have tables': "run_tables_ok ?db'"
    unfolding run_tables_ok_def
  proof (intro conjI)
    show "distinct (map (\<lambda>r. (rn_run_id r, rn_node_id r)) (run_nodes ?db'))"
      "distinct (map (\<lambda>r. (rn_run_id r, rn_rank r)) (run_nodes ?db'))"
      unfolding nodes' using tables ok(2,3) other
      by (intro distinct_map_append; fastforce simp: run_tables_ok_def)+
  qed (use tables ok(1) amounts ready_ports_exclusive [OF ready(1,2)] in \<open>simp_all add: run_tables_ok_def\<close>)
  then show ?thesis
    by (simp add: accept_run_def unchanged_plan_accepted [OF plan allowed known new])
qed

section \<open>An example\<close>

definition run_ex_memory :: json where
  "run_ex_memory = JObj [(''kind'', JStr ''unified''), (''startup_peak_bytes'', JInt 20), (''steady_state_bytes'', JInt 12),
     (''runtime_growth_bytes'', JInt 4), (''system_reserve_bytes'', JInt 5)]"

definition run_ex_recipe :: "(string, json) dict" where
  "run_ex_recipe =
     [(''deployment_profiles'', JList [JObj
        [(''name'', JStr ''solo''), (''node_count'', JInt 1),
         (''roles'', JList [JObj [(''name'', JStr ''worker''), (''count'', JInt 1),
            (''resources'', JObj [(''memory'', run_ex_memory)])]]),
         (''fabric'', JObj [(''connectivity'', JStr ''none''), (''minimum_bandwidth_mbps'', JInt 0)])]]),
      (''runtime'', JObj [(''endpoint'', JObj [(''port'', JInt 8080)])])]"

definition run_ex_snapshot :: inventory_snapshot where
  "run_ex_snapshot = \<lparr>iv_node_id = ''n1'', iv_observed_at = 100, iv_disk_total_bytes = 900, iv_disk_free_bytes = 800,
     iv_host_memory_total_bytes = 200, iv_host_memory_free_bytes = 90, iv_gpu_memory_total_bytes = 200,
     iv_gpu_memory_free_bytes = 80, iv_gpu_count = 1, iv_artifact_store_read_only = False,
     iv_capabilities = [''runtime.vonk.v1''], iv_fabric_address = None, iv_fabric_bandwidth_mbps = None,
     iv_nvidia_driver_version = ''1'', iv_container_runtime_version = ''1'', iv_received_at = 101, iv_evidence_digest = ''e''\<rparr>"

definition run_ex_db :: admission_db where
  "run_ex_db = \<lparr>agent_nodes = [''n1''], node_inventory_snapshots = [run_ex_snapshot],
     local_recipe_revisions = [\<lparr>rv_id = ''v'', rv_lifecycle = ''resolved'', rv_document = run_ex_recipe, rv_content_sha256 = Some ''c''\<rparr>],
     recipe_builds = [], node_artifacts = [],
     cluster_mappings = [\<lparr>cm_id = ''m'', cm_recipe_revision_id = ''v'', cm_profile_name = ''solo'', cm_generation = 1, cm_node_count = 1,
       cm_state = ''ready'', cm_parameters = JObj [], cm_placement_digest = ''p'', cm_endpoint_owner_node_id = ''n1'', cm_created_by = ''a'',
       cm_created_at = 1, cm_updated_at = 1\<rparr>],
     cluster_mapping_nodes = [\<lparr>mn_mapping_id = ''m'', mn_node_id = ''n1'', mn_rank = 0, mn_role = ''worker'', mn_endpoint_owner = True, mn_created_at = 1\<rparr>],
     recipe_installations = [\<lparr>ri_id = ''i'', ri_recipe_revision_id = ''v'', ri_mapping_id = ''m'', ri_mapping_generation = 1,
       ri_recipe_build_id = ''b'', ri_image_digest = ''g'', ri_plan_digest = ''d0'', ri_plan = JNull, ri_state = ''installed'',
       ri_actor = ''a'', ri_created_at = 1, ri_updated_at = 2\<rparr>],
     installation_nodes = [\<lparr>in_installation_id = ''i'', in_node_id = ''n1'', in_rank = 0, in_role = ''worker'', in_state = ''installed'',
       in_required_bytes = 1, in_installed_bytes = 1, in_updated_at = 2\<rparr>],
     recipe_runs = [], run_nodes = [],
     resource_reservations = [\<lparr>rs_node_id = ''n1'', rs_kind = ''unified-memory'', rs_resource_key = ''k'', rs_amount_bytes = 30,
       rs_owner_kind = ''run'', rs_owner_id = ''r0'', rs_state = ''active'', rs_plan_digest = ''k'', rs_created_at = 3\<rparr>]\<rparr>"

definition run_ex_service :: run_service where
  "run_ex_service = \<lparr>sv_max_age = 300, sv_floor = 10\<rparr>"

definition run_ex_node :: run_node_plan where
  "run_ex_node = \<lparr>np_node_id = ''n1'', np_rank = 0, np_role = ''worker'', np_endpoint_owner = True, np_port = 8080,
     np_allowed = True, np_inventory_observed_at = Some 100, np_memory_kind = ''unified'',
     np_required_memory_bytes = 25, np_available_memory_bytes = Some 80, np_active_reserved_bytes = 30,
     np_free_after_bytes = Some 25, np_memory_floor_bytes = 10, np_fabric_address = None,
     np_fabric_bandwidth_mbps = None, np_rendezvous_port = None, np_blockers = [], np_warnings = []\<rparr>"

definition run_ex_plan :: run_plan where
  "run_ex_plan = \<lparr>rp_installation_id = ''i'', rp_mapping_id = ''m'', rp_mapping_generation = 1, rp_recipe_revision_id = ''v'',
     rp_allowed = True, rp_nodes = [run_ex_node], rp_plan_digest = ''d''\<rparr>"


lemma run_ex_rows: "load_run_rows run_ex_db ''i'' = Inr \<lparr>rw_mapping = hd (cluster_mappings run_ex_db), rw_revision = hd (local_recipe_revisions run_ex_db),
    rw_mapping_nodes = cluster_mapping_nodes run_ex_db, rw_installed = [(''n1'', 0, ''worker'')]\<rparr>"
  by (simp add: load_run_rows_def row_of_def mapping_rows_def installed_ranks_def run_ex_db_def Let_def)

definition run_ex_view :: inventory_view where
  "run_ex_view = inventory_snapshot.extend run_ex_snapshot \<lparr>iv_stale = False\<rparr>"

lemma run_ex_snaps: "snapshot_dict run_ex_service 200 run_ex_db [\<lparr>pc_node_id = ''n1'', pc_rank = 0, pc_role = ''worker''\<rparr>] = [(''n1'', run_ex_view)]"
  by (simp add: snapshot_dict_def latest_def latest_row_def run_ex_db_def run_ex_service_def run_ex_view_def map_filter_simps dict_of_def
      seconds_def run_ex_snapshot_def)

lemma run_ex_profile: "deployment_profile run_ex_recipe ''solo'' = Inr (the_obj (hd (case snd (hd run_ex_recipe) of JList xs \<Rightarrow> xs | _ \<Rightarrow> [])))"
  by (simp add: deployment_profile_def get_list_def the_maps_def map_filter_simps run_ex_recipe_def)

definition run_ex_role :: "(string, json) dict" where
  "run_ex_role = [(''name'', JStr ''worker''), (''count'', JInt 1), (''resources'', JObj [(''memory'', run_ex_memory)])]"

lemma run_ex_validated:
  "validate_topology run_ex_recipe ''solo'' [\<lparr>pc_node_id = ''n1'', pc_rank = 0, pc_role = ''worker''\<rparr>] [(''n1'', [''runtime.vonk.v1''])] =
     Inr [\<lparr>pc_node_id = ''n1'', pc_rank = 0, pc_role = ''worker''\<rparr>]"
  by (simp add: validate_topology_def topology_profile_def run_ex_profile)
    (simp add: run_ex_recipe_def check_placement_def py_item_def Let_def get_list_def get_map_def expected_roles_def the_maps_def map_filter_simps int_item_def py_int_def py_str_def caps_of_def
      check_connectivity_def)

lemma run_ex_contract:
  "run_contract \<lparr>rw_mapping = hd (cluster_mappings run_ex_db), rw_revision = hd (local_recipe_revisions run_ex_db),
     rw_mapping_nodes = cluster_mapping_nodes run_ex_db, rw_installed = [(''n1'', 0, ''worker'')]\<rparr> = Inr ([(''worker'', run_ex_role)], 8080)"
  by (simp add: run_contract_def run_ex_db_def run_ex_profile)
    (simp add: run_ex_recipe_def run_ex_role_def role_dict_def get_list_def get_map_def the_maps_def map_filter_simps py_item_def
      int_item_def py_int_def py_str_def dict_of_def)

lemma run_ex_node_planned:
  assumes "rc_roles c = [(''worker'', run_ex_role)]" "rc_snapshots c = [(''n1'', run_ex_view)]" "rc_reservations c = resource_reservations run_ex_db"
    "rc_sv c = run_ex_service" "rc_topology c = []" "rc_installed c = [(''n1'', 0, ''worker'')]" "rc_port c = 8080"
    "rc_owner c = ''n1''" "\<not> rc_multi c"
  shows "plan_node c \<lparr>pc_node_id = ''n1'', pc_rank = 0, pc_role = ''worker''\<rparr> = Inr run_ex_node"
  by (simp add: assms plan_node_def role_memory_def run_ex_role_def get_map_def run_ex_memory_def required_memory_def int_item_def
      py_item_def py_int_def py_str_def reservation_kind_def Let_def active_sum_def is_active_def run_ex_db_def run_ex_view_def run_ex_snapshot_def
      run_ex_service_def available_memory_def node_blockers_def rendezvous_port_def port_taken_def run_ex_node_def inventory_snapshot.defs)

lemma run_ex_planned: "plan_run (\<lambda>_. ''t'') (\<lambda>_. ''d'') run_ex_service 200 run_ex_db ''i'' = Inr run_ex_plan"
proof -
  have ps: "map placement_of (cluster_mapping_nodes run_ex_db) = [\<lparr>pc_node_id = ''n1'', pc_rank = 0, pc_role = ''worker''\<rparr>]"
    and owner: "find mn_endpoint_owner (cluster_mapping_nodes run_ex_db) = Some (hd (cluster_mapping_nodes run_ex_db))"
    "mn_node_id (hd (cluster_mapping_nodes run_ex_db)) = ''n1''"
    and rows: "rv_document (hd (local_recipe_revisions run_ex_db)) = run_ex_recipe" "rv_id (hd (local_recipe_revisions run_ex_db)) = ''v''"
    "cm_id (hd (cluster_mappings run_ex_db)) = ''m''" "cm_profile_name (hd (cluster_mappings run_ex_db)) = ''solo''"
    "cm_generation (hd (cluster_mappings run_ex_db)) = 1"
    by (simp_all add: run_ex_db_def placement_of_def)
  have caps: "capability_dict [(''n1'', run_ex_view)] = [(''n1'', [''runtime.vonk.v1''])]"
    by (simp add: capability_dict_def run_ex_view_def run_ex_snapshot_def inventory_snapshot.defs)
  show ?thesis
    by (simp add: plan_run_def run_ex_rows ps run_ex_snaps run_topology_def rows caps run_ex_validated run_ex_contract owner Let_def
        run_ex_node_planned block_duplicates_def run_ex_plan_def)
      (simp add: run_ex_node_def)
qed

lemma run_ex_accepted: "accept_run_in_session (\<lambda>_. ''t'') (\<lambda>_. ''d'') run_ex_service ''r'' run_ex_db run_ex_plan ''alias'' ''actor'' 200 =
  Inr (run_ex_db\<lparr>recipe_runs := [run_of_plan (\<lambda>_. ''t'') run_ex_plan ''alias'' ''actor'' 200 ''r''],
     run_nodes := [run_node_of 200 ''r'' run_ex_node],
     resource_reservations := resource_reservations run_ex_db @ run_rows_of 200 ''d'' ''r'' run_ex_node\<rparr>)"
  using unchanged_plan_accepted [OF run_ex_planned, where run_id = "''r''" and label = "''alias''" and actor = "''actor''"]
  by (simp add: run_ex_plan_def) (simp add: run_ex_db_def)

text \<open>In the example the node has 80 bytes free; 30 were reserved, the run takes 25 and the floor is 10.\<close>

definition run_ex_db' :: admission_db where
  "run_ex_db' = run_ex_db\<lparr>recipe_runs := [run_of_plan (\<lambda>_. ''t'') run_ex_plan ''alias'' ''actor'' 200 ''r''],
     run_nodes := [run_node_of 200 ''r'' run_ex_node],
     resource_reservations := resource_reservations run_ex_db @ run_rows_of 200 ''d'' ''r'' run_ex_node\<rparr>"


theorem installation_runs_once_witness:
  "\<exists>e. accept_run_in_session (\<lambda>_. ''t'') (\<lambda>_. ''d'') run_ex_service ''s'' run_ex_db' run_ex_plan ''alias'' ''actor'' 300 = Inl e"
  by (rule installation_runs_once [OF run_ex_planned run_ex_accepted [folded run_ex_db'_def]]) (simp_all add: run_ex_planned, simp add: run_ex_plan_def)

theorem allowed_plan_accepted_witness:
  "\<exists>db'. accept_run (\<lambda>_. ''t'') (\<lambda>_. ''d'') run_ex_service ''r'' run_ex_db run_ex_plan ''alias'' ''actor'' 200 = Inr db' \<and> run_tables_ok db' \<and>
     recipe_runs db' = [run_of_plan (\<lambda>_. ''t'') run_ex_plan ''alias'' ''actor'' 200 ''r'']"
  using allowed_plan_accepted [OF run_ex_planned, where run_id = "''r''" and label = "''alias''" and actor = "''actor''"]
  by (simp add: run_ex_plan_def run_ex_node_def node_valid_def)
    (simp add: run_ex_db_def run_tables_ok_def ports_exclusive_def active_ports_def)

section \<open>Topology\<close>

lemma connectivity_checked:
  assumes "check_connectivity fabric ordered capabilities = Inr r" "ordered \<noteq> []"
  shows "\<exists>c required. dict_get fabric ''connectivity'' = Some c \<and> int_item fabric ''minimum_bandwidth_mbps'' = Inr required \<and>
    (length ordered = 1 \<and> py_str c = ''none'' \<or>
     1 < length ordered \<and> (\<forall>n \<in> set (map pc_node_id ordered). \<exists>v \<in> set (caps_of capabilities n). \<exists>kind speed.
       fabric_capability v = Inr (kind, speed) \<and> kind \<in> set (accepted_fabrics (py_str c)) \<and> required \<le> speed))"
proof -
  obtain c required where c: "dict_get fabric ''connectivity'' = Some c" "int_item fabric ''minimum_bandwidth_mbps'' = Inr required"
    using assms(1) by (auto simp: check_connectivity_def Let_def result_simps py_item_def split: option.splits)
  have "length ordered = 1 \<and> py_str c = ''none'' \<or>
     1 < length ordered \<and> check_fabric capabilities (py_str c) required (map pc_node_id ordered) = Inr ()"
    using assms c by (cases ordered) (auto simp: check_connectivity_def Let_def result_simps py_item_def split: if_splits)
  then show ?thesis using c check_fabric_Inr by blast
qed

text \<open>C40: A validated placement fits its profile. When \<^verbatim>\<open>validate_topology\<close> returns, the result is the
  placements in the order of their ranks, which are 0 to n-1; the nodes are distinct; their number
  is the node count of the one profile of that name and their roles are, with multiplicity, the
  roles the profile counts; every node advertises the runtime; a single node uses no fabric, and in
  a larger placement every node advertises a fabric of an accepted kind with the bandwidth that the
  profile asks for.\<close>

theorem validated_topology_fits:
  assumes "validate_topology recipe name ps capabilities = Inr ordered"
  shows "\<exists>profile roles fabric c required v.
    deployment_profile recipe name = Inr profile \<and> get_list profile ''roles'' = Some roles \<and>
    get_map profile ''fabric'' = Some fabric \<and> dict_get fabric ''connectivity'' = Some c \<and>
    int_item fabric ''minimum_bandwidth_mbps'' = Inr required \<and>
    mset ordered = mset ps \<and> map pc_rank ordered = map int [0..<length ps] \<and> distinct (map pc_node_id ps) \<and>
    dict_get profile ''node_count'' = Some v \<and> py_eq (JInt (int (length ps))) v \<and>
    expected_roles roles = Inr (sort (map pc_role ps)) \<and>
    (\<forall>n \<in> pc_node_id ` set ps. ''runtime.vonk.v1'' \<in> set (caps_of capabilities n)) \<and>
    (length ps = 1 \<and> py_str c = ''none'' \<or>
     1 < length ps \<and> (\<forall>n \<in> pc_node_id ` set ps. \<exists>cap \<in> set (caps_of capabilities n). \<exists>kind speed.
       fabric_capability cap = Inr (kind, speed) \<and> kind \<in> set (accepted_fabrics (py_str c)) \<and> required \<le> speed))"
proof -
  obtain profile roles fabric where p: "deployment_profile recipe name = Inr profile" "get_list profile ''roles'' = Some roles"
    "get_map profile ''fabric'' = Some fabric" and o: "ordered = sort_key pc_rank ps"
    and place: "check_placement profile ordered = Inr ()" and roles: "expected_roles roles = Inr (sort (map pc_role ordered))"
    and runtime: "\<And>n. n \<in> set (map pc_node_id ordered) \<Longrightarrow> ''runtime.vonk.v1'' \<in> set (caps_of capabilities n)"
    and fabric: "check_connectivity fabric ordered capabilities = Inr ordered"
    by (rule validate_topology_Inr [OF assms]) blast
  have len: "length ordered = length ps" "pc_node_id ` set ordered = pc_node_id ` set ps" by (simp_all add: o)
  have m: "mset (map pc_role ordered) = mset (map pc_role ps)" "mset (map pc_node_id ordered) = mset (map pc_node_id ps)"
    by (simp_all add: o)
  note place' = place [unfolded check_placement_Inr len(1)]
  have ids: "distinct (map pc_node_id ps)" using place' m(2) by (metis mset_eq_imp_distinct_iff)
  have roles': "expected_roles roles = Inr (sort (map pc_role ps))"
    using roles m(1) by (metis sort_eq_iff_mset)
  from place' have "ordered \<noteq> []" by blast
  from connectivity_checked [OF fabric this] show ?thesis
    using p place' ids roles' runtime unfolding len set_map by (auto simp: o)
qed

theorem validated_topology_fits_witness:
  "\<exists>profile v. deployment_profile run_ex_recipe ''solo'' = Inr profile \<and> dict_get profile ''node_count'' = Some v \<and> py_eq (JInt 1) v"
  using validated_topology_fits [OF run_ex_validated] by auto

text \<open>The order in which placements are given does not matter: two lists with the same placements
  validate to the same result or to the same error.\<close>

lemma topology_order_irrelevant:
  assumes "mset ps = mset qs"
  shows "validate_topology recipe name ps capabilities = validate_topology recipe name qs capabilities"
proof (cases "distinct (map pc_rank ps)")
  case True
  then have "sort_key pc_rank ps = sort_key pc_rank qs"
    using assms by (metis distinct_map mset_sort sort_key_inj_key_eq sorted_sort_key)
  then show ?thesis by (simp add: validate_topology_def)
next
  case False
  have dup: "map pc_rank (sort_key pc_rank xs) \<noteq> map int [0..<length (sort_key pc_rank xs)]" if "mset xs = mset ps" for xs
  proof
    assume "map pc_rank (sort_key pc_rank xs) = map int [0..<length (sort_key pc_rank xs)]"
    then have "distinct (map pc_rank (sort_key pc_rank xs))" by (simp add: distinct_map)
    moreover have "mset (map pc_rank (sort_key pc_rank xs)) = mset (map pc_rank ps)" using that by simp
    ultimately show False using False by (metis mset_eq_imp_distinct_iff)
  qed
  have "check_placement profile (sort_key pc_rank xs) = Inl (TopologyError ''topology.placement_invalid''
      ''placement must match the exact profile with unique contiguous ranks'')" if "mset xs = mset ps" for xs profile
    using dup [OF that] by (simp add: check_placement_def)
  then show ?thesis using assms by (simp add: validate_topology_def Let_def)
qed

end
