(* ===== verification/Install_Admission.thy ===== *)
theory Install_Admission
  imports Run_Admission
begin

text \<open>
  Admission of installations (\<^verbatim>\<open>install_admission.py\<close>) and the artifact sizes it relies on
  (\<^verbatim>\<open>artifact_sizes.py\<close>): planning an installation of a built image on the nodes of a mapping, and
  accepting a plan, which reserves disk space on every node. The size resolver is an argument of
  the service, as in the code; both resolvers of the code are modelled.
\<close>

section \<open>Artifact sizes\<close>

record artifact_size =
  az_source :: string
  az_digest :: string
  az_size_bytes :: int

text \<open>\<^verbatim>\<open>{item.source: item for item in artifacts}\<close>.\<close>

definition by_source :: "artifact_size list \<Rightarrow> (string, artifact_size) dict" where
  "by_source artifacts = dict_of (map (\<lambda>a. (az_source a, a)) artifacts)"

definition get_text :: "(string, json) dict \<Rightarrow> string \<Rightarrow> string" where
  "get_text d k = py_str (case dict_get d k of None \<Rightarrow> JNull | Some v \<Rightarrow> v)"

primrec expected_sources :: "json list \<Rightarrow> adm_exc + string list" where
  "expected_sources [] = Inr []"
| "expected_sources (v # vs) =
     (case v of
        JObj d \<Rightarrow> rbind (expected_sources vs) (\<lambda>ss. Inr ((get_text d ''repository'' @ ''@'' @ get_text d ''revision'') # ss))
      | _ \<Rightarrow> Inl (ArtifactSizeError ''recipe artifact identity is invalid''))"

definition static_resolve :: "artifact_size list \<Rightarrow> (string, json) dict \<Rightarrow> adm_exc + artifact_size list" where
  "static_resolve artifacts recipe =
     (case get_list recipe ''artifacts'' of
        None \<Rightarrow> Inl (ArtifactSizeError ''recipe artifact identities are invalid'')
      | Some vs \<Rightarrow>
          rbind (expected_sources vs) (\<lambda>expected.
          let bs = by_source artifacts in
          raise_if (set (map fst bs) \<noteq> set expected \<or>
              list_ex (\<lambda>a. length (az_digest a) \<noteq> 64 \<or> az_size_bytes a < 0) (map snd bs))
            (ArtifactSizeError ''artifact sizes are incomplete'')
            (Inr (map snd (sort_key fst bs)))))"

text \<open>One declared artifact: its id, and its source bound to its size.\<close>

definition declared_artifact :: "(string \<Rightarrow> string) \<Rightarrow> json \<Rightarrow> adm_exc + string \<times> artifact_size" where
  "declared_artifact h v =
     (let invalid = ArtifactSizeError ''recipe artifact size is invalid'' in
      case v of
        JObj d \<Rightarrow>
          (case (dict_get d ''id'', dict_get d ''repository'', dict_get d ''revision'', dict_get d ''installed_bytes'') of
             (Some (JStr i), Some (JStr repository), Some (JStr revision), Some (JInt expected)) \<Rightarrow>
               raise_if (expected < 1) invalid (
               let source = repository @ ''@'' @ revision in
               Inr (i, \<lparr>az_source = source,
                        az_digest = h (utf8 (source @ CHR 0x00 # dec_int expected)), az_size_bytes = expected\<rparr>))
           | _ \<Rightarrow> Inl invalid)
      | _ \<Rightarrow> Inl invalid)"

primrec declared_artifacts :: "(string \<Rightarrow> string) \<Rightarrow> string list \<Rightarrow> json list \<Rightarrow> adm_exc + (string \<times> artifact_size) list" where
  "declared_artifacts h seen [] = Inr []"
| "declared_artifacts h seen (v # vs) =
     rbind (declared_artifact h v) (\<lambda>(i, a).
     raise_if (az_source a \<in> set seen) (ArtifactSizeError ''recipe artifact identity is duplicated'') (
     rbind (declared_artifacts h (az_source a # seen) vs) (\<lambda>r. Inr ((i, a) # r))))"

definition check_role_artifacts :: "(string, int) dict \<Rightarrow> json \<Rightarrow> adm_exc + unit" where
  "check_role_artifacts installed v =
     (case v of
        JObj role \<Rightarrow>
          (case get_list role ''artifacts'' of
             None \<Rightarrow> Inl (ArtifactSizeError ''recipe role artifact sizes are invalid'')
           | Some items \<Rightarrow>
               let required = sum_list (map (\<lambda>x. case dict_get installed (py_str x) of None \<Rightarrow> 0 | Some n \<Rightarrow> n) items) in
               case Option.bind (get_map role ''resources'')
                   (\<lambda>res. Option.bind (get_map res ''disk'') (\<lambda>disk. dict_get disk ''artifact_bytes'')) of
                 Some (JInt declared) \<Rightarrow>
                   raise_if (declared < required)
                     (ArtifactSizeError ''profile artifact size is smaller than the declared artifact total'') (Inr ())
               | _ \<Rightarrow> Inl (ArtifactSizeError ''recipe role artifact size is invalid''))
      | _ \<Rightarrow> Inl (ArtifactSizeError ''recipe role artifact sizes are invalid''))"

definition check_profile_artifacts :: "(string, int) dict \<Rightarrow> json \<Rightarrow> adm_exc + unit" where
  "check_profile_artifacts installed v =
     (case v of
        JObj profile \<Rightarrow>
          (case get_list profile ''roles'' of
             None \<Rightarrow> Inl (ArtifactSizeError ''recipe profile artifact sizes are invalid'')
           | Some roles \<Rightarrow> rbind (map_r (check_role_artifacts installed) roles) (\<lambda>_. Inr ()))
      | _ \<Rightarrow> Inl (ArtifactSizeError ''recipe profile artifact sizes are invalid''))"

definition declared_resolve :: "(string \<Rightarrow> string) \<Rightarrow> (string, json) dict \<Rightarrow> adm_exc + artifact_size list" where
  "declared_resolve h recipe =
     (case (get_list recipe ''artifacts'', get_list recipe ''deployment_profiles'') of
        (Some artifacts, Some profiles) \<Rightarrow>
          rbind (declared_artifacts h [] artifacts) (\<lambda>resolved.
          rbind (map_r (check_profile_artifacts (dict_of (map (map_prod id az_size_bytes) resolved))) profiles) (\<lambda>_.
          Inr (sort_key az_source (map snd resolved))))
      | _ \<Rightarrow> Inl (ArtifactSizeError ''recipe artifact sizes are invalid''))"

section \<open>Install plans\<close>

record install_node_plan =
  ip_node_id :: string
  ip_rank :: int
  ip_role :: string
  ip_allowed :: bool
  ip_inventory_observed_at :: "int option"
  ip_free_bytes :: "int option"
  ip_active_reserved_bytes :: int
  ip_reused_bytes :: int
  ip_required_download_bytes :: int
  ip_required_bytes :: int
  ip_disk_floor_bytes :: int
  ip_free_after_bytes :: "int option"
  ip_blockers :: "admission_reason list"
  ip_warnings :: "admission_reason list"

record install_plan =
  il_mapping_id :: string
  il_mapping_generation :: int
  il_recipe_build_id :: string
  il_image_digest :: string
  il_recipe_revision_id :: string
  il_recipe_content_sha256 :: string
  il_allowed :: bool
  il_nodes :: "install_node_plan list"
  il_plan_digest :: string

record install_service =
  is_resolve :: "(string, json) dict \<Rightarrow> adm_exc + artifact_size list"
  is_max_age :: int
  is_disk_floor :: int

definition install_node_document :: "(int \<Rightarrow> string) \<Rightarrow> install_node_plan \<Rightarrow> json" where
  "install_node_document isof p = JObj
     [(''node_id'', JStr (ip_node_id p)), (''rank'', JInt (ip_rank p)), (''role'', JStr (ip_role p)),
      (''allowed'', JBool (ip_allowed p)),
      (''inventory_observed_at'', json_opt_str (map_option isof (ip_inventory_observed_at p))),
      (''free_bytes'', json_opt_int (ip_free_bytes p)),
      (''active_reserved_bytes'', JInt (ip_active_reserved_bytes p)),
      (''reused_bytes'', JInt (ip_reused_bytes p)),
      (''required_download_bytes'', JInt (ip_required_download_bytes p)),
      (''required_bytes'', JInt (ip_required_bytes p)),
      (''disk_floor_bytes'', JInt (ip_disk_floor_bytes p)),
      (''free_after_bytes'', json_opt_int (ip_free_after_bytes p)),
      (''blockers'', JList (map reason_document (ip_blockers p))),
      (''warnings'', JList (map reason_document (ip_warnings p)))]"

section \<open>Planning an installation\<close>

record install_rows =
  iw_mapping :: cluster_mapping
  iw_revision :: recipe_revision
  iw_content_sha256 :: string
  iw_mapping_nodes :: "cluster_mapping_node list"
  iw_image_digest :: string
  iw_image_bytes :: int

definition load_install_rows :: "admission_db \<Rightarrow> string \<Rightarrow> string \<Rightarrow> adm_exc + install_rows" where
  "load_install_rows db mid bid =
     (case row_of cm_id (cluster_mappings db) mid of
        None \<Rightarrow> Inl (AdmExc (KeyError mid))
      | Some m \<Rightarrow>
     (case row_of rb_id (recipe_builds db) bid of
        None \<Rightarrow> Inl (AdmExc (KeyError bid))
      | Some b \<Rightarrow>
          raise_if (cm_state m \<noteq> ''ready'') (AdmExc (ValueError ''cluster mapping is not ready'')) (
          let mismatch = AdmExc (ValueError ''successful recipe build does not match the mapping'');
              unresolved = AdmExc (ValueError ''recipe revision is not resolved'') in
          raise_if (rb_state b \<noteq> ''succeeded'') mismatch (
          case (rb_image_digest b, rb_image_bytes b) of
            (Some image_digest, Some image_bytes) \<Rightarrow>
              raise_if (rb_recipe_revision_id b \<noteq> cm_recipe_revision_id m) mismatch (
              case row_of rv_id (local_recipe_revisions db) (cm_recipe_revision_id m) of
                None \<Rightarrow> Inl unresolved
              | Some v \<Rightarrow>
                  raise_if (rv_lifecycle v \<noteq> ''resolved'') unresolved (
                  case rv_content_sha256 v of
                    None \<Rightarrow> Inl unresolved
                  | Some sha \<Rightarrow>
                      Inr \<lparr>iw_mapping = m, iw_revision = v, iw_content_sha256 = sha,
                           iw_mapping_nodes = mapping_rows db (cm_id m),
                           iw_image_digest = image_digest, iw_image_bytes = image_bytes\<rparr>))
          | _ \<Rightarrow> Inl mismatch))))"

text \<open>A resolver that raises \<^verbatim>\<open>ArtifactSizeError\<close> leaves no artifacts; other exceptions escape.\<close>

definition resolve_sizes :: "install_service \<Rightarrow> (string, json) dict \<Rightarrow> adm_exc + artifact_size list" where
  "resolve_sizes sv document =
     (case is_resolve sv document of Inl (ArtifactSizeError e) \<Rightarrow> Inr [] | r \<Rightarrow> r)"

definition source_dict :: "json list \<Rightarrow> adm_exc + (string, string) dict" where
  "source_dict raw =
     rbind (map_r (\<lambda>d. rbind (py_item d ''id'') (\<lambda>i. rbind (py_item d ''repository'') (\<lambda>rep.
         rbind (py_item d ''revision'') (\<lambda>rev. Inr (py_str i, py_str rep @ ''@'' @ py_str rev))))) (the_maps raw))
       (\<lambda>kvs. Inr (dict_of kvs))"

record install_context =
  ic_sv :: install_service
  ic_now :: int
  ic_db :: admission_db
  ic_roles :: "(string, (string, json) dict) dict"
  ic_artifacts :: "artifact_size list"
  ic_sources :: "(string, string) dict"
  ic_image_digest :: string
  ic_image_bytes :: int

text \<open>The disk resources of a role and the sources of the artifacts it needs.\<close>

definition role_disk :: "install_context \<Rightarrow> string \<Rightarrow> adm_exc + (string, json) dict \<times> string list" where
  "role_disk c role =
     (case dict_get (ic_roles c) role of
        None \<Rightarrow> Inl (AdmExc (TypeError ''mapping role is absent from deployment profile''))
      | Some r \<Rightarrow>
     (case get_map r ''resources'' of
        None \<Rightarrow> Inl (AdmExc (TypeError ''mapping role is absent from deployment profile''))
      | Some resources \<Rightarrow>
     (case (get_map resources ''disk'', get_list r ''artifacts'') of
        (Some disk, Some xs) \<Rightarrow>
          rbind (map_r (\<lambda>x. case dict_get (ic_sources c) (py_str x) of
              None \<Rightarrow> Inl (AdmExc (KeyError (py_str x))) | Some src \<Rightarrow> Inr src) xs)
            (\<lambda>required. Inr (disk, required))
      | _ \<Rightarrow> Inl (AdmExc (TypeError ''role disk resources are invalid'')))))"

definition verified_artifacts :: "admission_db \<Rightarrow> string \<Rightarrow> node_artifact list" where
  "verified_artifacts db n = filter (\<lambda>a. na_node_id a = n \<and> na_state a = ''verified'') (node_artifacts db)"

definition removeprefix :: "string \<Rightarrow> string \<Rightarrow> string" where
  "removeprefix p s = (if starts_with p s then drop (length p) s else s)"

definition image_present :: "install_context \<Rightarrow> string \<Rightarrow> bool" where
  "image_present c n \<longleftrightarrow>
     list_ex (\<lambda>a. na_kind a = ''image'' \<and> na_digest a = removeprefix ''sha256:'' (ic_image_digest c) \<and>
       na_size_bytes a = ic_image_bytes c) (verified_artifacts (ic_db c) n)"

definition reused_artifact_bytes :: "install_context \<Rightarrow> string \<Rightarrow> string list \<Rightarrow> int" where
  "reused_artifact_bytes c n required =
     sum_list (map az_size_bytes (filter (\<lambda>a. az_source a \<in> set required \<and>
       list_ex (\<lambda>b. na_source b = az_source a \<and> na_size_bytes b = az_size_bytes a) (verified_artifacts (ic_db c) n))
       (ic_artifacts c)))"

definition reason_if :: "bool \<Rightarrow> string \<Rightarrow> string \<Rightarrow> admission_reason list" where
  "reason_if b code detail = (if b then [(code, detail)] else [])"

definition inventory_blockers :: "inventory_view option \<Rightarrow> admission_reason list" where
  "inventory_blockers snap =
     (case snap of
        None \<Rightarrow> [(''install.inventory_missing'', ''No authenticated inventory is available for this GPU node.'')]
      | Some s \<Rightarrow>
          reason_if (iv_stale s) ''install.stale_inventory''
            ''GPU node disk inventory is stale; refresh it before installing.'' @
          reason_if (iv_artifact_store_read_only s) ''install.artifact_store_read_only''
            ''The GPU node artifact store is read-only.'')"

definition plan_install_node :: "install_context \<Rightarrow> cluster_mapping_node \<Rightarrow> adm_exc + install_node_plan" where
  "plan_install_node c mn =
     (let n = mn_node_id mn; db = ic_db c in
      rbind (role_disk c (mn_role mn)) (\<lambda>(disk, required_artifacts).
      let resolved = map (dict_get (by_source (ic_artifacts c))) required_artifacts;
          actual = sum_list (map az_size_bytes (List.map_filter id resolved)) in
      rbind (int_item disk ''image_bytes'') (\<lambda>image_declared.
      rbind (int_item disk ''artifact_bytes'') (\<lambda>artifact_declared.
      let snap = latest (ic_now c) (is_max_age (ic_sv c)) (node_inventory_snapshots db) n;
          reserved = active_sum (resource_reservations db) n ''disk'';
          reused_image = (if image_present c n then ic_image_bytes c else 0);
          reused_artifacts = reused_artifact_bytes c n required_artifacts;
          download = max 0 (actual - reused_artifacts) in
      rbind (int_item disk ''staging_bytes'') (\<lambda>staging.
      rbind (int_item disk ''cache_bytes'') (\<lambda>cache.
      rbind (int_item disk ''rollback_bytes'') (\<lambda>rollback.
      rbind (int_item disk ''safety_margin_bytes'') (\<lambda>margin.
      let required = download + staging + cache + rollback;
          limit = max (is_disk_floor (ic_sv c)) margin;
          free = map_option iv_disk_free_bytes snap;
          free_after = map_option (\<lambda>f. f - reserved - required) free;
          blockers =
            reason_if (None \<in> set resolved) ''install.unknown_artifact_size''
              ''External artifact size metadata is incomplete.'' @
            reason_if (image_declared < ic_image_bytes c) ''install.image_size_underdeclared''
              ''Built image is larger than this role declares.'' @
            reason_if (artifact_declared < actual) ''install.artifact_size_underdeclared''
              ''External artifacts are larger than this role declares.'' @
            inventory_blockers snap @
            reason_if (reused_image = 0) ''install.image_not_distributed''
              ''The exact built image must be imported on this GPU node before installation.'' @
            (case free_after of
               None \<Rightarrow> []
             | Some f \<Rightarrow> reason_if (f < limit) ''install.insufficient_disk''
                 (''Installation would leave '' @ dec_int f @ '' bytes, below the required '' @ dec_int limit @ ''-byte floor.''))
      in
      Inr \<lparr>ip_node_id = n, ip_rank = mn_rank mn, ip_role = mn_role mn, ip_allowed = (blockers = []),
           ip_inventory_observed_at = map_option iv_observed_at snap, ip_free_bytes = free,
           ip_active_reserved_bytes = reserved, ip_reused_bytes = reused_image + reused_artifacts,
           ip_required_download_bytes = download, ip_required_bytes = required,
           ip_disk_floor_bytes = limit, ip_free_after_bytes = free_after,
           ip_blockers = blockers, ip_warnings = []\<rparr>))))))))"

text \<open>The roles, the artifacts and their sources, read before the loop over the nodes.\<close>

definition install_context_of :: "install_service \<Rightarrow> int \<Rightarrow> admission_db \<Rightarrow> install_rows \<Rightarrow> adm_exc + install_context" where
  "install_context_of sv now db iw =
     (let document = rv_document (iw_revision iw) in
      rbind (deployment_profile document (cm_profile_name (iw_mapping iw))) (\<lambda>profile.
      case get_list profile ''roles'' of
        None \<Rightarrow> Inl (AdmExc (TypeError ''recipe profile roles are invalid''))
      | Some roles \<Rightarrow>
          rbind (role_dict roles) (\<lambda>role_by_name.
          rbind (resolve_sizes sv document) (\<lambda>artifacts.
          case get_list document ''artifacts'' of
            None \<Rightarrow> Inl (AdmExc (TypeError ''recipe artifacts are invalid''))
          | Some raw \<Rightarrow>
              rbind (source_dict raw) (\<lambda>sources.
              Inr \<lparr>ic_sv = sv, ic_now = now, ic_db = db, ic_roles = role_by_name, ic_artifacts = artifacts,
                   ic_sources = sources, ic_image_digest = iw_image_digest iw, ic_image_bytes = iw_image_bytes iw\<rparr>)))))"

definition install_identity :: "(int \<Rightarrow> string) \<Rightarrow> install_plan \<Rightarrow> json" where
  "install_identity isof p = JObj
     [(''schema_version'', JInt 1), (''mapping_id'', JStr (il_mapping_id p)),
      (''mapping_generation'', JInt (il_mapping_generation p)), (''recipe_build_id'', JStr (il_recipe_build_id p)),
      (''image_digest'', JStr (il_image_digest p)), (''recipe_revision_id'', JStr (il_recipe_revision_id p)),
      (''recipe_content_sha256'', JStr (il_recipe_content_sha256 p)),
      (''nodes'', JList (map (install_node_document isof) (il_nodes p)))]"

definition plan_install ::
  "(int \<Rightarrow> string) \<Rightarrow> (string \<Rightarrow> string) \<Rightarrow> install_service \<Rightarrow> int \<Rightarrow> admission_db \<Rightarrow> string \<Rightarrow> string \<Rightarrow>
   adm_exc + install_plan" where
  "plan_install isof h sv now db mid bid =
     rbind (load_install_rows db mid bid) (\<lambda>iw.
     rbind (install_context_of sv now db iw) (\<lambda>c.
     rbind (map_r (plan_install_node c) (iw_mapping_nodes iw)) (\<lambda>plans.
     let p = \<lparr>il_mapping_id = mid, il_mapping_generation = cm_generation (iw_mapping iw), il_recipe_build_id = bid,
              il_image_digest = iw_image_digest iw, il_recipe_revision_id = rv_id (iw_revision iw),
              il_recipe_content_sha256 = iw_content_sha256 iw, il_allowed = list_all ip_allowed plans,
              il_nodes = plans, il_plan_digest = ''''\<rparr> in
     Inr (p\<lparr>il_plan_digest := h (json_dumps True (install_identity isof p))\<rparr>))))"

section \<open>Accepting an installation\<close>

definition check_install_node :: "admission_db \<Rightarrow> install_node_plan \<Rightarrow> adm_exc + unit" where
  "check_install_node db p =
     raise_if (ip_node_id p \<notin> set (agent_nodes db)) (PlanConflict ''installation node disappeared'') (
     raise_if (case ip_free_bytes p of
           None \<Rightarrow> True
         | Some f \<Rightarrow> f - active_sum (resource_reservations db) (ip_node_id p) ''disk'' - ip_required_bytes p < ip_disk_floor_bytes p)
       (PlanConflict ''disk capacity changed while reserving'') (Inr ()))"

definition installation_of_plan :: "(int \<Rightarrow> string) \<Rightarrow> install_plan \<Rightarrow> string \<Rightarrow> int \<Rightarrow> string \<Rightarrow> recipe_installation" where
  "installation_of_plan isof p actor now inst_id =
     \<lparr>ri_id = inst_id, ri_recipe_revision_id = il_recipe_revision_id p, ri_mapping_id = il_mapping_id p,
      ri_mapping_generation = il_mapping_generation p, ri_recipe_build_id = il_recipe_build_id p,
      ri_image_digest = il_image_digest p, ri_plan_digest = il_plan_digest p,
      ri_plan = JObj
        [(''schema_version'', JInt 1), (''mapping_id'', JStr (il_mapping_id p)),
         (''mapping_generation'', JInt (il_mapping_generation p)), (''recipe_build_id'', JStr (il_recipe_build_id p)),
         (''image_digest'', JStr (il_image_digest p)), (''recipe_revision_id'', JStr (il_recipe_revision_id p)),
         (''recipe_content_sha256'', JStr (il_recipe_content_sha256 p)), (''plan_digest'', JStr (il_plan_digest p)),
         (''nodes'', JList (map (install_node_document isof) (il_nodes p)))],
      ri_state = ''planned'', ri_actor = actor, ri_created_at = now, ri_updated_at = now\<rparr>"

definition installation_node_of :: "int \<Rightarrow> string \<Rightarrow> install_node_plan \<Rightarrow> installation_node" where
  "installation_node_of now inst_id p =
     \<lparr>in_installation_id = inst_id, in_node_id = ip_node_id p, in_rank = ip_rank p, in_role = ip_role p,
      in_state = ''planned'', in_required_bytes = ip_required_bytes p, in_installed_bytes = 0, in_updated_at = now\<rparr>"

definition install_reservation :: "int \<Rightarrow> string \<Rightarrow> string \<Rightarrow> install_node_plan \<Rightarrow> resource_reservation" where
  "install_reservation now d inst_id p =
     \<lparr>rs_node_id = ip_node_id p, rs_kind = ''disk'', rs_resource_key = d, rs_amount_bytes = ip_required_bytes p,
      rs_owner_kind = ''installation'', rs_owner_id = inst_id, rs_state = ''active'',
      rs_plan_digest = d, rs_created_at = now\<rparr>"

definition accept_install_in_session ::
  "(int \<Rightarrow> string) \<Rightarrow> (string \<Rightarrow> string) \<Rightarrow> install_service \<Rightarrow> string \<Rightarrow> admission_db \<Rightarrow> install_plan \<Rightarrow>
   string \<Rightarrow> int \<Rightarrow> adm_exc + admission_db" where
  "accept_install_in_session isof h sv inst_id db p actor now =
     rbind (plan_install isof h sv now db (il_mapping_id p) (il_recipe_build_id p)) (\<lambda>fresh.
     raise_if (\<not> il_allowed fresh \<or> il_plan_digest fresh \<noteq> il_plan_digest p \<or>
         il_mapping_generation fresh \<noteq> il_mapping_generation p)
       (PlanConflict ''installation plan is stale or blocked'') (
     let changed = PlanConflict ''mapping or build changed while reserving'' in
     case (row_of cm_id (cluster_mappings db) (il_mapping_id p), row_of rb_id (recipe_builds db) (il_recipe_build_id p)) of
       (Some m, Some b) \<Rightarrow>
         raise_if (cm_generation m \<noteq> il_mapping_generation p \<or> cm_state m \<noteq> ''ready'' \<or>
             rb_state b \<noteq> ''succeeded'' \<or> rb_image_digest b \<noteq> Some (il_image_digest p)) changed (
         rbind (map_r (check_install_node db) (sort_key ip_node_id (il_nodes p))) (\<lambda>_.
         raise_if (list_ex (\<lambda>r. ri_plan_digest r = il_plan_digest p) (recipe_installations db))
           (IntegrityError ''recipe_installations.plan_digest'')
           (Inr (db\<lparr>recipe_installations := recipe_installations db @ [installation_of_plan isof p actor now inst_id],
                    installation_nodes := installation_nodes db @ map (installation_node_of now inst_id) (il_nodes p),
                    resource_reservations := resource_reservations db @
                      map (install_reservation now (il_plan_digest p) inst_id) (il_nodes p)\<rparr>))))
     | _ \<Rightarrow> Inl changed))"

text \<open>The constraints of the tables that the new rows meet when the transaction commits.\<close>

definition install_tables_ok :: "admission_db \<Rightarrow> bool" where
  "install_tables_ok db \<longleftrightarrow>
     list_all (\<lambda>r. 0 \<le> in_required_bytes r \<and> 0 \<le> in_installed_bytes r) (installation_nodes db) \<and>
     distinct (map (\<lambda>r. (in_installation_id r, in_node_id r)) (installation_nodes db)) \<and>
     list_all (\<lambda>r. 0 \<le> rs_amount_bytes r) (resource_reservations db)"

definition accept_install ::
  "(int \<Rightarrow> string) \<Rightarrow> (string \<Rightarrow> string) \<Rightarrow> install_service \<Rightarrow> string \<Rightarrow> admission_db \<Rightarrow> install_plan \<Rightarrow>
   string \<Rightarrow> int \<Rightarrow> adm_exc + admission_db" where
  "accept_install isof h sv inst_id db p actor now =
     rbind (accept_install_in_session isof h sv inst_id db p actor now) (\<lambda>db'.
     raise_if (\<not> install_tables_ok db') (IntegrityError ''installation_nodes'') (Inr db'))"

section \<open>Allowed plans\<close>

text \<open>A verified copy of the image on a node.\<close>

definition image_at :: "admission_db \<Rightarrow> string \<Rightarrow> string \<Rightarrow> bool" where
  "image_at db dg n \<longleftrightarrow>
     (\<exists>a \<in> set (node_artifacts db). na_node_id a = n \<and> na_state a = ''verified'' \<and> na_kind a = ''image'' \<and>
        na_digest a = removeprefix ''sha256:'' dg)"

definition install_ready :: "install_service \<Rightarrow> int \<Rightarrow> admission_db \<Rightarrow> install_node_plan \<Rightarrow> bool" where
  "install_ready sv now db q \<longleftrightarrow>
     (\<exists>s. latest_row (ip_node_id q) (node_inventory_snapshots db) = Some s \<and>
        now - iv_observed_at s \<le> seconds (is_max_age sv) \<and> \<not> iv_artifact_store_read_only s \<and>
        is_disk_floor sv \<le> ip_disk_floor_bytes q \<and>
        ip_disk_floor_bytes q \<le> iv_disk_free_bytes s - active_sum (resource_reservations db) (ip_node_id q) ''disk'' - ip_required_bytes q)"

lemma reason_if_Nil [simp]: "reason_if b x y = [] \<longleftrightarrow> \<not> b"
  by (simp add: reason_if_def)

lemma inventory_blockers_Nil:
  "inventory_blockers snap = [] \<longleftrightarrow> (\<exists>s. snap = Some s \<and> \<not> iv_stale s \<and> \<not> iv_artifact_store_read_only s)"
  by (auto simp: inventory_blockers_def split: option.splits)

lemma plan_install_node_Inr:
  assumes "plan_install_node c mn = Inr q"
  shows "ip_node_id q = mn_node_id mn" "is_disk_floor (ic_sv c) \<le> ip_disk_floor_bytes q"
  using assms by (auto simp: plan_install_node_def Let_def result_simps)

lemma allowed_install_image:
  "plan_install_node c mn = Inr q \<Longrightarrow> ip_allowed q \<Longrightarrow> image_present c (mn_node_id mn)"
  by (cases "image_present c (mn_node_id mn)") (auto simp: plan_install_node_def Let_def result_simps)

lemma allowed_install_snapshot:
  assumes "plan_install_node c mn = Inr q" "ip_allowed q"
  shows "\<exists>s. latest (ic_now c) (is_max_age (ic_sv c)) (node_inventory_snapshots (ic_db c)) (mn_node_id mn) = Some s \<and>
       \<not> iv_stale s \<and> \<not> iv_artifact_store_read_only s \<and>
       ip_disk_floor_bytes q \<le> iv_disk_free_bytes s -
         active_sum (resource_reservations (ic_db c)) (mn_node_id mn) ''disk'' - ip_required_bytes q"
proof (cases "latest (ic_now c) (is_max_age (ic_sv c)) (node_inventory_snapshots (ic_db c)) (mn_node_id mn)")
  case None
  then show ?thesis using assms by (auto simp: plan_install_node_def Let_def result_simps inventory_blockers_Nil)
next
  case (Some s)
  then show ?thesis using assms by (auto simp: plan_install_node_def Let_def result_simps inventory_blockers_Nil)
qed

lemma latest_install_view:
  "latest now age snaps n = Some s \<Longrightarrow> \<exists>r. latest_row n snaps = Some r \<and> iv_stale s = (seconds age < now - iv_observed_at r) \<and>
     iv_disk_free_bytes s = iv_disk_free_bytes r \<and> iv_artifact_store_read_only s = iv_artifact_store_read_only r"
  by (auto simp: latest_def inventory_snapshot.defs)

lemma allowed_install_ready:
  assumes q: "plan_install_node c mn = Inr q" "ip_allowed q"
  shows "install_ready (ic_sv c) (ic_now c) (ic_db c) q" "image_at (ic_db c) (ic_image_digest c) (ip_node_id q)"
proof -
  note node = plan_install_node_Inr [OF q(1)]
  from allowed_install_snapshot [OF q] obtain s where
    s: "latest (ic_now c) (is_max_age (ic_sv c)) (node_inventory_snapshots (ic_db c)) (mn_node_id mn) = Some s"
       "\<not> iv_stale s" "\<not> iv_artifact_store_read_only s"
       "ip_disk_floor_bytes q \<le> iv_disk_free_bytes s -
         active_sum (resource_reservations (ic_db c)) (mn_node_id mn) ''disk'' - ip_required_bytes q" by blast
  from latest_install_view [OF s(1)] s node(1,2) show "install_ready (ic_sv c) (ic_now c) (ic_db c) q"
    by (auto simp: install_ready_def)
  from allowed_install_image [OF q] node(1) show "image_at (ic_db c) (ic_image_digest c) (ip_node_id q)"
    by (auto simp: image_at_def image_present_def verified_artifacts_def list_ex_iff)
qed

lemma install_context_fields:
  assumes "install_context_of sv now db iw = Inr c"
  shows "ic_sv c = sv" "ic_now c = now" "ic_db c = db" "ic_image_digest c = iw_image_digest iw"
  using assms by (auto simp: install_context_of_def Let_def result_simps split: option.splits)

lemma load_install_rows_mapping:
  assumes "load_install_rows db mid bid = Inr iw"
  shows "iw_mapping_nodes iw = mapping_rows db mid"
  using assms row_of_Some [of cm_id "cluster_mappings db"]
  by (auto simp: load_install_rows_def Let_def result_simps split: option.splits prod.splits)

definition install_text :: "(int \<Rightarrow> string) \<Rightarrow> install_plan \<Rightarrow> string" where
  "install_text isof p = json_dumps True (install_identity isof p)"

lemma plan_install_Inr:
  assumes "plan_install isof h sv now db mid bid = Inr p"
  obtains c where "list_all2 (\<lambda>mn q. plan_install_node c mn = Inr q) (mapping_rows db mid) (il_nodes p)"
    "ic_sv c = sv" "ic_now c = now" "ic_db c = db" "ic_image_digest c = il_image_digest p"
    "il_mapping_id p = mid" "il_recipe_build_id p = bid" "il_plan_digest p = h (install_text isof p)"
    "il_allowed p = list_all ip_allowed (il_nodes p)"
proof -
  obtain iw c plans where *: "load_install_rows db mid bid = Inr iw" "install_context_of sv now db iw = Inr c"
      "map_r (plan_install_node c) (iw_mapping_nodes iw) = Inr plans"
    and p: "il_nodes p = plans" "il_image_digest p = iw_image_digest iw" "il_mapping_id p = mid" "il_recipe_build_id p = bid"
      "il_plan_digest p = h (install_text isof p)" "il_allowed p = list_all ip_allowed plans"
    using assms by (auto simp: plan_install_def Let_def result_simps install_text_def install_identity_def)
  show ?thesis
    using that [of c] * p install_context_fields [OF *(2)] load_install_rows_mapping [OF *(1)] by (simp add: map_r_Inr)
qed

lemma install_node_ids:
  "list_all2 (\<lambda>mn q. plan_install_node c mn = Inr q) ms qs \<Longrightarrow> map ip_node_id qs = map mn_node_id ms"
  by (induction rule: list_all2_induct) (auto dest: plan_install_node_Inr(1))

lemma mapping_rows_distinct:
  assumes "distinct (map (\<lambda>r. (mn_mapping_id r, mn_node_id r)) (cluster_mapping_nodes db))"
  shows "distinct (map mn_node_id (mapping_rows db mid))"
proof -
  let ?rows = "filter (\<lambda>n. mn_mapping_id n = mid) (cluster_mapping_nodes db)"
  have "distinct (map mn_node_id ?rows)" using assms by (auto simp: distinct_map inj_on_def)
  moreover have "mset (map mn_node_id (mapping_rows db mid)) = mset (map mn_node_id ?rows)" by (simp add: mapping_rows_def)
  ultimately show ?thesis by (metis mset_eq_imp_distinct_iff)
qed

lemma allowed_install_plan:
  assumes plan: "plan_install isof h sv now db mid bid = Inr p" and allowed: "il_allowed p"
    and unique: "distinct (map (\<lambda>r. (mn_mapping_id r, mn_node_id r)) (cluster_mapping_nodes db))"
  shows "distinct (map ip_node_id (il_nodes p))"
    "q \<in> set (il_nodes p) \<Longrightarrow> install_ready sv now db q \<and> image_at db (il_image_digest p) (ip_node_id q)"
proof -
  obtain c where rel: "list_all2 (\<lambda>mn q. plan_install_node c mn = Inr q) (mapping_rows db mid) (il_nodes p)"
    and c: "ic_sv c = sv" "ic_now c = now" "ic_db c = db" "ic_image_digest c = il_image_digest p"
    and all: "il_allowed p = list_all ip_allowed (il_nodes p)"
    by (rule plan_install_Inr [OF plan])
  show "distinct (map ip_node_id (il_nodes p))" using install_node_ids [OF rel] mapping_rows_distinct [OF unique] by simp
  show "install_ready sv now db q \<and> image_at db (il_image_digest p) (ip_node_id q)" if "q \<in> set (il_nodes p)"
  proof -
    have "map_r (plan_install_node c) (mapping_rows db mid) = Inr (il_nodes p)" using rel by (simp add: map_r_Inr)
    from map_r_Inr_set [OF this that] obtain mn where "plan_install_node c mn = Inr q" by blast
    moreover have "ip_allowed q" using all allowed that by (simp add: list_all_iff)
    ultimately show ?thesis using allowed_install_ready [of c mn q] by (simp add: c)
  qed
qed

section \<open>Plans with the same digest\<close>

definition ip_key :: "install_node_plan \<Rightarrow> string \<times> int \<times> int" where
  "ip_key q = (ip_node_id q, ip_required_bytes q, ip_disk_floor_bytes q)"

lemma install_ready_key: "ip_key q = ip_key q' \<Longrightarrow> install_ready sv now db q = install_ready sv now db q'"
  by (simp add: install_ready_def ip_key_def)

lemma install_document_key:
  assumes "json_canon (install_node_document isof q) = json_canon (install_node_document isof q')"
  shows "ip_key q = ip_key q'"
proof -
  have wf: "wf_dict (the_obj (install_node_document isof x))" for x by (simp add: install_node_document_def)
  have obj: "install_node_document isof x = JObj (the_obj (install_node_document isof x))" for x by (simp add: install_node_document_def)
  have field: "map_option json_canon (dict_get (the_obj (install_node_document isof q)) k) =
      map_option json_canon (dict_get (the_obj (install_node_document isof q')) k)" for k
    using assms by (intro canon_field wf) (simp only: obj [symmetric])
  show ?thesis
    using field [of "''node_id''"] field [of "''required_bytes''"] field [of "''disk_floor_bytes''"]
    by (simp add: install_node_document_def ip_key_def)
qed

lemma same_install_text:
  assumes "install_text isof p = install_text isof q"
  shows "map ip_key (il_nodes p) = map ip_key (il_nodes q)" "il_image_digest p = il_image_digest q"
proof -
  let ?d = "install_identity isof"
  have wf: "json_wf (?d x)" for x
    by (simp add: install_identity_def install_node_document_def reason_document_def list_all_iff)
  have obj: "JObj (the_obj (?d x)) = ?d x" and keys: "wf_dict (the_obj (?d x))"
    and nodes: "dict_get (the_obj (?d x)) ''nodes'' = Some (JList (map (install_node_document isof) (il_nodes x)))"
    and image: "dict_get (the_obj (?d x)) ''image_digest'' = Some (JStr (il_image_digest x))" for x
    by (simp_all add: install_identity_def)
  have "json_canon (JObj (the_obj (?d p))) = json_canon (JObj (the_obj (?d q)))"
    using json_dumps_inject [OF wf wf assms [unfolded install_text_def]] by (simp only: obj)
  note field = canon_field [OF this keys keys]
  from field [of "''nodes''"]
  have "map (json_canon \<circ> install_node_document isof) (il_nodes p) = map (json_canon \<circ> install_node_document isof) (il_nodes q)"
    by (simp add: nodes)
  then show "map ip_key (il_nodes p) = map ip_key (il_nodes q)"
    by (rule map_key_transfer) (rule install_document_key, simp only: comp_apply)
  from field [of "''image_digest''"] show "il_image_digest p = il_image_digest q" by (simp add: image)
qed

section \<open>Accepted installations\<close>

interpretation install_ledger: capacity_ledger ip_node_id "\<lambda>_. ''disk''" ip_required_bytes
  "\<lambda>q. [install_reservation now d inst_id q]" "\<lambda>_. True" for now d inst_id
  by unfold_locales (auto simp: install_reservation_def active_sum_def is_active_def)

lemma accept_install_Inr:
  assumes "accept_install_in_session isof h sv inst_id db p actor now = Inr db'"
  obtains fresh where "plan_install isof h sv now db (il_mapping_id p) (il_recipe_build_id p) = Inr fresh" "il_allowed fresh"
    "il_plan_digest fresh = il_plan_digest p"
    "resource_reservations db' = resource_reservations db @
       concat (map (\<lambda>q. [install_reservation now (il_plan_digest p) inst_id q]) (il_nodes p))"
  using assms that unfolding accept_install_in_session_def Let_def
  by (auto simp: result_simps concat_map_singleton split: option.splits prod.splits)

text \<open>A plan that was issued and is accepted: its nodes are ready in the state that accepts it.\<close>

lemma accepted_install_ready:
  assumes issued: "plan_install isof h sv0 now0 db0 mid bid = Inr p"
    and accepted: "accept_install_in_session isof h sv inst_id db p actor now = Inr db'"
    and separates: "\<forall>q. plan_install isof h sv now db mid bid = Inr q \<and>
      h (install_text isof q) = h (install_text isof p) \<longrightarrow> install_text isof q = install_text isof p"
    and unique: "distinct (map (\<lambda>r. (mn_mapping_id r, mn_node_id r)) (cluster_mapping_nodes db))"
  shows "distinct (map ip_node_id (il_nodes p))"
    "q \<in> set (il_nodes p) \<Longrightarrow> install_ready sv now db q \<and> image_at db (il_image_digest p) (ip_node_id q)"
    "resource_reservations db' = resource_reservations db @
       concat (map (\<lambda>q. [install_reservation now (il_plan_digest p) inst_id q]) (il_nodes p))"
proof -
  have ids: "il_mapping_id p = mid" "il_recipe_build_id p = bid" "il_plan_digest p = h (install_text isof p)"
    by (rule plan_install_Inr [OF issued], assumption)+
  obtain fresh where fresh: "plan_install isof h sv now db mid bid = Inr fresh" "il_allowed fresh"
      "il_plan_digest fresh = il_plan_digest p"
    and db': "resource_reservations db' = resource_reservations db @
       concat (map (\<lambda>q. [install_reservation now (il_plan_digest p) inst_id q]) (il_nodes p))"
    by (rule accept_install_Inr [OF accepted, unfolded ids(1,2)])
  show "resource_reservations db' = resource_reservations db @
       concat (map (\<lambda>q. [install_reservation now (il_plan_digest p) inst_id q]) (il_nodes p))" by (rule db')
  have "il_plan_digest fresh = h (install_text isof fresh)" by (rule plan_install_Inr [OF fresh(1)])
  with fresh(3) ids(3) have "h (install_text isof fresh) = h (install_text isof p)" by argo
  with separates fresh(1) have "install_text isof fresh = install_text isof p" by blast
  note same = same_install_text [OF this] and ready = allowed_install_plan [OF fresh(1,2) unique]
  show "distinct (map ip_node_id (il_nodes p))"
    using ready(1) arg_cong [OF same(1), of "map fst"] by (simp add: comp_def ip_key_def)
  show "install_ready sv now db q \<and> image_at db (il_image_digest p) (ip_node_id q)" if q: "q \<in> set (il_nodes p)"
  proof -
    have "ip_key q \<in> set (map ip_key (il_nodes p))" using q by simp
    then have "ip_key q \<in> set (map ip_key (il_nodes fresh))" by (simp only: same(1))
    then obtain r where r: "r \<in> set (il_nodes fresh)" "ip_key q = ip_key r" by auto
    then have "ip_node_id r = ip_node_id q" by (simp add: ip_key_def)
    then show ?thesis using ready(2) [OF r(1)] install_ready_key [OF r(2), of sv now db] same(2) by simp
  qed
qed


section \<open>An example\<close>

definition install_ex_recipe :: "(string, json) dict" where
  "install_ex_recipe =
     [(''deployment_profiles'', JList [JObj
        [(''name'', JStr ''solo''),
         (''roles'', JList [JObj [(''name'', JStr ''worker''), (''artifacts'', JList [JStr ''weights'']),
            (''resources'', JObj [(''disk'', JObj [(''image_bytes'', JInt 50), (''artifact_bytes'', JInt 70), (''staging_bytes'', JInt 5),
               (''cache_bytes'', JInt 6), (''rollback_bytes'', JInt 7), (''safety_margin_bytes'', JInt 10)])])]])]]),
      (''artifacts'', JList [JObj [(''id'', JStr ''weights''), (''repository'', JStr ''org/model''), (''revision'', JStr ''r1''),
         (''installed_bytes'', JInt 70)]])]"

definition install_ex_snapshot :: inventory_snapshot where
  "install_ex_snapshot = \<lparr>iv_node_id = ''n1'', iv_observed_at = 100, iv_disk_total_bytes = 900, iv_disk_free_bytes = 800,
     iv_host_memory_total_bytes = 200, iv_host_memory_free_bytes = 90, iv_gpu_memory_total_bytes = 200,
     iv_gpu_memory_free_bytes = 80, iv_gpu_count = 1, iv_artifact_store_read_only = False,
     iv_capabilities = [], iv_fabric_address = None, iv_fabric_bandwidth_mbps = None,
     iv_nvidia_driver_version = ''1'', iv_container_runtime_version = ''1'', iv_received_at = 101, iv_evidence_digest = ''e''\<rparr>"

definition install_ex_db :: admission_db where
  "install_ex_db = \<lparr>agent_nodes = [''n1''], node_inventory_snapshots = [install_ex_snapshot],
     local_recipe_revisions = [\<lparr>rv_id = ''v'', rv_lifecycle = ''resolved'', rv_document = install_ex_recipe, rv_content_sha256 = Some ''c''\<rparr>],
     recipe_builds = [\<lparr>rb_id = ''b'', rb_recipe_revision_id = ''v'', rb_state = ''succeeded'', rb_image_digest = Some ''sha256:ab'', rb_image_bytes = Some 40\<rparr>],
     node_artifacts = [\<lparr>na_node_id = ''n1'', na_kind = ''image'', na_digest = ''ab'', na_source = ''build'', na_size_bytes = 40, na_state = ''verified''\<rparr>],
     cluster_mappings = [\<lparr>cm_id = ''m'', cm_recipe_revision_id = ''v'', cm_profile_name = ''solo'', cm_generation = 1, cm_node_count = 1,
       cm_state = ''ready'', cm_parameters = JObj [], cm_placement_digest = ''p'', cm_endpoint_owner_node_id = ''n1'', cm_created_by = ''a'',
       cm_created_at = 1, cm_updated_at = 1\<rparr>],
     cluster_mapping_nodes = [\<lparr>mn_mapping_id = ''m'', mn_node_id = ''n1'', mn_rank = 0, mn_role = ''worker'', mn_endpoint_owner = True, mn_created_at = 1\<rparr>],
     recipe_installations = [], installation_nodes = [], recipe_runs = [], run_nodes = [], resource_reservations = []\<rparr>"

definition install_ex_service :: install_service where
  "install_ex_service = \<lparr>is_resolve = declared_resolve (\<lambda>_. ''h''), is_max_age = 300, is_disk_floor = 100\<rparr>"

definition install_ex_node :: install_node_plan where
  "install_ex_node = \<lparr>ip_node_id = ''n1'', ip_rank = 0, ip_role = ''worker'', ip_allowed = True, ip_inventory_observed_at = Some 100,
     ip_free_bytes = Some 800, ip_active_reserved_bytes = 0, ip_reused_bytes = 40, ip_required_download_bytes = 70,
     ip_required_bytes = 88, ip_disk_floor_bytes = 100, ip_free_after_bytes = Some 712, ip_blockers = [], ip_warnings = []\<rparr>"

definition install_ex_plan :: install_plan where
  "install_ex_plan = \<lparr>il_mapping_id = ''m'', il_mapping_generation = 1, il_recipe_build_id = ''b'', il_image_digest = ''sha256:ab'',
     il_recipe_revision_id = ''v'', il_recipe_content_sha256 = ''c'', il_allowed = True, il_nodes = [install_ex_node], il_plan_digest = ''d''\<rparr>"

definition install_ex_artifacts :: "artifact_size list" where
  "install_ex_artifacts = [\<lparr>az_source = ''org/model@r1'', az_digest = ''h'', az_size_bytes = 70\<rparr>]"

lemma install_ex_resolved: "declared_resolve (\<lambda>_. ''h'') install_ex_recipe = Inr install_ex_artifacts"
  by (simp add: declared_resolve_def install_ex_recipe_def get_list_def get_map_def declared_artifact_def Let_def check_profile_artifacts_def
      check_role_artifacts_def py_str_def dict_of_def install_ex_artifacts_def)

lemma install_ex_context:
  "install_context_of install_ex_service 200 install_ex_db
     \<lparr>iw_mapping = hd (cluster_mappings install_ex_db), iw_revision = hd (local_recipe_revisions install_ex_db), iw_content_sha256 = ''c'',
      iw_mapping_nodes = cluster_mapping_nodes install_ex_db, iw_image_digest = ''sha256:ab'', iw_image_bytes = 40\<rparr> =
   Inr \<lparr>ic_sv = install_ex_service, ic_now = 200, ic_db = install_ex_db,
        ic_roles = [(''worker'', [(''name'', JStr ''worker''), (''artifacts'', JList [JStr ''weights'']),
            (''resources'', JObj [(''disk'', JObj [(''image_bytes'', JInt 50), (''artifact_bytes'', JInt 70), (''staging_bytes'', JInt 5),
               (''cache_bytes'', JInt 6), (''rollback_bytes'', JInt 7), (''safety_margin_bytes'', JInt 10)])])])],
        ic_artifacts = install_ex_artifacts, ic_sources = [(''weights'', ''org/model@r1'')],
        ic_image_digest = ''sha256:ab'', ic_image_bytes = 40\<rparr>"
proof -
  have "rv_document (hd (local_recipe_revisions install_ex_db)) = install_ex_recipe" "cm_profile_name (hd (cluster_mappings install_ex_db)) = ''solo''"
    by (simp_all add: install_ex_db_def)
  moreover have "resolve_sizes install_ex_service install_ex_recipe = Inr install_ex_artifacts"
    by (simp add: resolve_sizes_def install_ex_service_def install_ex_resolved)
  ultimately show ?thesis
    by (simp add: install_context_of_def)
      (simp add: install_ex_recipe_def deployment_profile_def get_list_def the_maps_def map_filter_simps role_dict_def py_item_def py_str_def
        dict_of_def source_dict_def)
qed

lemma install_ex_node_planned:
  assumes "ic_sv c = install_ex_service" "ic_now c = 200" "ic_db c = install_ex_db" "ic_artifacts c = install_ex_artifacts"
    "ic_roles c = [(''worker'', [(''name'', JStr ''worker''), (''artifacts'', JList [JStr ''weights'']),
            (''resources'', JObj [(''disk'', JObj [(''image_bytes'', JInt 50), (''artifact_bytes'', JInt 70), (''staging_bytes'', JInt 5),
               (''cache_bytes'', JInt 6), (''rollback_bytes'', JInt 7), (''safety_margin_bytes'', JInt 10)])])])]"
    "ic_sources c = [(''weights'', ''org/model@r1'')]" "ic_image_digest c = ''sha256:ab''" "ic_image_bytes c = 40"
  shows "plan_install_node c (hd (cluster_mapping_nodes install_ex_db)) = Inr install_ex_node"
proof -
  let ?s = "inventory_snapshot.extend install_ex_snapshot \<lparr>iv_stale = False\<rparr>"
  have snap: "latest 200 (is_max_age install_ex_service) (node_inventory_snapshots install_ex_db) ''n1'' = Some ?s"
    by (simp add: latest_def latest_row_def install_ex_snapshot_def seconds_def install_ex_db_def install_ex_service_def)
  have view: "iv_stale ?s = False" "iv_artifact_store_read_only ?s = False" "iv_disk_free_bytes ?s = 800" "iv_observed_at ?s = 100"
    by (simp_all add: install_ex_snapshot_def inventory_snapshot.defs)
  have disk: "role_disk c ''worker'' = Inr ([(''image_bytes'', JInt 50), (''artifact_bytes'', JInt 70), (''staging_bytes'', JInt 5),
      (''cache_bytes'', JInt 6), (''rollback_bytes'', JInt 7), (''safety_margin_bytes'', JInt 10)], [''org/model@r1''])"
    by (simp add: role_disk_def assms get_map_def get_list_def py_str_def)
  have sizes: "by_source install_ex_artifacts = [(''org/model@r1'', hd install_ex_artifacts)]" "az_size_bytes (hd install_ex_artifacts) = 70"
    by (simp_all add: by_source_def install_ex_artifacts_def dict_of_def)
  have row: "mn_node_id (hd (cluster_mapping_nodes install_ex_db)) = ''n1''" "mn_rank (hd (cluster_mapping_nodes install_ex_db)) = 0"
    "mn_role (hd (cluster_mapping_nodes install_ex_db)) = ''worker''" "resource_reservations install_ex_db = []"
    by (simp_all add: install_ex_db_def)
  have image: "image_present c ''n1''"
    by (simp add: image_present_def assms verified_artifacts_def install_ex_db_def removeprefix_def starts_with_def)
  have reused: "reused_artifact_bytes c ''n1'' [''org/model@r1''] = 0"
    by (simp add: reused_artifact_bytes_def assms verified_artifacts_def install_ex_db_def install_ex_artifacts_def)
  show ?thesis
    by (simp add: plan_install_node_def row disk assms snap sizes image reused int_item_def py_item_def py_int_def Let_def map_filter_simps
        reason_if_def inventory_blockers_def view active_sum_def install_ex_node_def)
      (simp add: install_ex_service_def)
qed

lemma install_ex_planned: "plan_install (\<lambda>_. ''t'') (\<lambda>_. ''d'') install_ex_service 200 install_ex_db ''m'' ''b'' = Inr install_ex_plan"
proof -
  have rows: "load_install_rows install_ex_db ''m'' ''b'' =
      Inr \<lparr>iw_mapping = hd (cluster_mappings install_ex_db), iw_revision = hd (local_recipe_revisions install_ex_db), iw_content_sha256 = ''c'',
      iw_mapping_nodes = cluster_mapping_nodes install_ex_db, iw_image_digest = ''sha256:ab'', iw_image_bytes = 40\<rparr>"
    by (simp add: load_install_rows_def row_of_def install_ex_db_def mapping_rows_def Let_def)
  have one: "cluster_mapping_nodes install_ex_db = [hd (cluster_mapping_nodes install_ex_db)]"
    and row: "cm_generation (hd (cluster_mappings install_ex_db)) = 1" "rv_id (hd (local_recipe_revisions install_ex_db)) = ''v''"
    by (simp_all add: install_ex_db_def)
  show ?thesis
    unfolding plan_install_def rows rbind.simps install_ex_context install_rows.simps
    by (subst one) (simp add: install_ex_node_planned row install_ex_plan_def, simp add: install_ex_node_def)
qed

lemma install_ex_accepted:
  "accept_install_in_session (\<lambda>_. ''t'') (\<lambda>_. ''d'') install_ex_service ''i'' install_ex_db install_ex_plan ''actor'' 200 =
   Inr (install_ex_db\<lparr>recipe_installations := [installation_of_plan (\<lambda>_. ''t'') install_ex_plan ''actor'' 200 ''i''],
      installation_nodes := [installation_node_of 200 ''i'' install_ex_node],
      resource_reservations := [install_reservation 200 ''d'' ''i'' install_ex_node]\<rparr>)"
proof -
  have "il_mapping_id install_ex_plan = ''m''" "il_recipe_build_id install_ex_plan = ''b''" "il_allowed install_ex_plan"
    "il_nodes install_ex_plan = [install_ex_node]" "il_plan_digest install_ex_plan = ''d''" "il_mapping_generation install_ex_plan = 1"
    "il_image_digest install_ex_plan = ''sha256:ab''"
    by (simp_all add: install_ex_plan_def)
  moreover have "check_install_node install_ex_db install_ex_node = Inr ()"
    by (simp add: check_install_node_def install_ex_db_def install_ex_node_def active_sum_def)
  ultimately show ?thesis
    by (simp add: accept_install_in_session_def install_ex_planned) (simp add: install_ex_db_def row_of_def)
qed


end
