(* ===== verification/Cluster_Mapping.thy ===== *)
theory Cluster_Mapping
  imports Run_Admission
begin

text \<open>
  Cluster mappings (\<^verbatim>\<open>cluster_mappings.py\<close>): binding a deployment profile of a recipe to nodes of the
  fleet. A plan takes the selected nodes in the order of their node_ids, gives them the roles of the
  profile in order and fixes the parameters; materializing a plan adds the mapping and its nodes
  once. The main result connects it with run admission: the placement of a mapping always passes the
  placement and role checks of \<^verbatim>\<open>validate_topology\<close>.

  \<open>rmatch\<close> stands for \<^verbatim>\<open>re.fullmatch\<close>, which may raise on a malformed pattern; \<open>agents\<close> is the table
  \<^verbatim>\<open>agent_nodes\<close> and \<open>mid\<close> the generated id of a new mapping.
\<close>

section \<open>Nodes\<close>

record agent_row =
  ag_node_id :: string
  ag_state :: string
  ag_revoked_at :: "int option"
  ag_architecture :: "string option"

definition active_nodes :: "agent_row list \<Rightarrow> string list \<Rightarrow> adm_exc + string list" where
  "active_nodes agents node_ids =
     raise_if (node_ids = [] \<or> \<not> distinct node_ids)
       (ClusterMappingError ''mapping.nodes_invalid'' ''mapping nodes must be unique and non-empty'') (
     let found = filter (\<lambda>r. ag_node_id r \<in> set node_ids) agents in
     raise_if (length found \<noteq> length node_ids)
       (ClusterMappingError ''mapping.node_unknown'' ''a selected GPU node is unknown'') (
     raise_if (list_ex (\<lambda>r. ag_state r \<noteq> ''active'' \<or> ag_revoked_at r \<noteq> None \<or> ag_architecture r \<noteq> Some ''linux-arm64'') found)
       (ClusterMappingError ''mapping.node_incompatible'' ''a selected GPU node is inactive or incompatible'')
       (Inr (map ag_node_id found))))"

section \<open>Parameters\<close>

definition dict_update :: "(string, json) dict \<Rightarrow> (string, json) dict \<Rightarrow> (string, json) dict" where
  "dict_update d e = foldl (\<lambda>d (k, v). dict_set d k v) d e"

text \<open>\<^verbatim>\<open>isinstance(x, int)\<close> holds of booleans too.\<close>

definition int_value :: "json \<Rightarrow> int option" where
  "int_value v = (case v of JInt i \<Rightarrow> Some i | JBool b \<Rightarrow> Some (if b then 1 else 0) | _ \<Rightarrow> None)"

definition valid_type :: "json \<Rightarrow> json \<Rightarrow> bool" where
  "valid_type kind v \<longleftrightarrow>
     (case v of
        JInt _ \<Rightarrow> kind = JStr ''integer''
      | JBool _ \<Rightarrow> kind = JStr ''boolean''
      | JStr _ \<Rightarrow> kind = JStr ''string'' \<or> kind = JStr ''enum''
      | _ \<Rightarrow> False)"

definition out_of_bounds :: "(string, json) dict \<Rightarrow> json \<Rightarrow> bool" where
  "out_of_bounds d v \<longleftrightarrow>
     (case (Option.bind (dict_get d ''minimum'') int_value, int_value v) of (Some lo, Some i) \<Rightarrow> i < lo | _ \<Rightarrow> False) \<or>
     (case (Option.bind (dict_get d ''maximum'') int_value, int_value v) of (Some hi, Some i) \<Rightarrow> hi < i | _ \<Rightarrow> False) \<or>
     (case get_list d ''allowed_values'' of Some xs \<Rightarrow> \<not> list_ex (py_eq v) xs | None \<Rightarrow> False)"

definition check_parameter ::
  "(string \<Rightarrow> string \<Rightarrow> adm_exc + bool) \<Rightarrow> (string, (string, json) dict) dict \<Rightarrow> string \<times> json \<Rightarrow> adm_exc + unit" where
  "check_parameter rmatch defs nv =
     (let (name, v) = nv in
      case dict_get defs name of
        None \<Rightarrow> Inl (AdmExc (KeyError name))
      | Some d \<Rightarrow>
          rbind (py_item d ''type'') (\<lambda>kind.
          raise_if (case kind of JList _ \<Rightarrow> True | JObj _ \<Rightarrow> True | _ \<Rightarrow> False) (AdmExc (TypeError ''unhashable type'')) (
          raise_if (\<not> valid_type kind v)
            (ClusterMappingError ''mapping.parameter_type'' (''parameter '' @ name @ '' has the wrong type'')) (
          let outside = ClusterMappingError ''mapping.parameter_value'' (''parameter '' @ name @ '' is outside its bounds'') in
          raise_if (out_of_bounds d v) outside (
          case (dict_get d ''pattern'', v) of
            (Some (JStr p), JStr s) \<Rightarrow> rbind (rmatch p s) (\<lambda>b. raise_if (\<not> b) outside (Inr ()))
          | _ \<Rightarrow> Inr ())))))"

definition effective_parameters ::
  "(string \<Rightarrow> string \<Rightarrow> adm_exc + bool) \<Rightarrow> (string, json) dict \<Rightarrow> (string, json) dict \<Rightarrow> (string, json) dict \<Rightarrow>
   adm_exc + (string, json) dict" where
  "effective_parameters rmatch document profile supplied =
     (case (get_list document ''parameters'', get_map profile ''parameter_overrides'') of
        (Some raw, Some overrides) \<Rightarrow>
          rbind (role_dict raw) (\<lambda>defs.
          raise_if (\<not> set (map fst supplied) \<subseteq> set (map fst defs))
            (ClusterMappingError ''mapping.parameter_unknown'' ''mapping contains an unknown parameter'') (
          rbind (map_r (\<lambda>(n, d). rbind (py_item d ''default'') (\<lambda>v. Inr (n, v))) defs) (\<lambda>defaults.
          let effective = dict_update (dict_update defaults overrides) supplied in
          rbind (map_r (check_parameter rmatch defs) effective) (\<lambda>_. Inr (sort_key fst effective)))))
      | _ \<Rightarrow> Inl (ClusterMappingError ''mapping.parameters_invalid'' ''recipe parameters are invalid''))"

section \<open>Plans\<close>

record mapping_placement =
  mp_node_id :: string
  mp_rank :: int
  mp_role :: string
  mp_endpoint_owner :: bool

record mapping_plan =
  pl_recipe_revision_id :: string
  pl_recipe_content_sha256 :: string
  pl_profile_name :: string
  pl_generation :: int
  pl_parameters :: "(string, json) dict"
  pl_nodes :: "mapping_placement list"
  pl_placement_digest :: string

text \<open>\<^verbatim>\<open>bool(x)\<close>.\<close>

definition py_truth :: "json \<Rightarrow> bool" where
  "py_truth v =
     (case v of
        JNull \<Rightarrow> False | JBool b \<Rightarrow> b | JInt i \<Rightarrow> i \<noteq> 0 | JStr s \<Rightarrow> s \<noteq> [] | JList xs \<Rightarrow> xs \<noteq> [] | JObj d \<Rightarrow> d \<noteq> [])"

definition expand_role :: "json \<Rightarrow> adm_exc + (string \<times> bool) list" where
  "expand_role raw =
     (case raw of
        JObj r \<Rightarrow>
          rbind (int_item r ''count'') (\<lambda>n.
          if n \<le> 0 then Inr []
          else rbind (py_item r ''name'') (\<lambda>name. rbind (py_item r ''endpoint_owner'') (\<lambda>own.
                 Inr (replicate (nat n) (py_str name, py_truth own)))))
      | _ \<Rightarrow> Inl (ClusterMappingError ''mapping.profile_invalid'' ''profile role is invalid''))"

text \<open>\<^verbatim>\<open>enumerate(zip(ordered_nodes, expanded, strict=True))\<close>.\<close>

definition place_nodes :: "string list \<Rightarrow> (string \<times> bool) list \<Rightarrow> adm_exc + mapping_placement list" where
  "place_nodes ordered expanded =
     raise_if (length expanded < length ordered) (AdmExc (ValueError ''zip() argument 2 is shorter than argument 1'')) (
     raise_if (length ordered < length expanded) (AdmExc (ValueError ''zip() argument 2 is longer than argument 1'')) (
     Inr (map (\<lambda>i. \<lparr>mp_node_id = ordered ! i, mp_rank = int i, mp_role = fst (expanded ! i),
                    mp_endpoint_owner = snd (expanded ! i)\<rparr>) [0..<length ordered])))"

definition mapping_identity :: "mapping_plan \<Rightarrow> json" where
  "mapping_identity p = JObj
     [(''schema_version'', JInt 1), (''recipe_revision_id'', JStr (pl_recipe_revision_id p)),
      (''recipe_content_sha256'', JStr (pl_recipe_content_sha256 p)), (''profile_name'', JStr (pl_profile_name p)),
      (''generation'', JInt 1), (''parameters'', JObj (pl_parameters p)),
      (''nodes'', JList (map (\<lambda>n. JObj [(''node_id'', JStr (mp_node_id n)), (''rank'', JInt (mp_rank n)),
         (''role'', JStr (mp_role n)), (''endpoint_owner'', JBool (mp_endpoint_owner n))]) (pl_nodes p)))]"

definition mapping_profile :: "(string, json) dict \<Rightarrow> string \<Rightarrow> adm_exc + (string, json) dict" where
  "mapping_profile document name =
     (case deployment_profile document name of
        Inl (RecipeContractError c p d) \<Rightarrow> Inl (ClusterMappingError ''mapping.profile_unknown'' (p @ '': '' @ d))
      | r \<Rightarrow> r)"

definition mapping_revision :: "admission_db \<Rightarrow> string \<Rightarrow> adm_exc + recipe_revision \<times> string" where
  "mapping_revision db rid =
     (case row_of rv_id (local_recipe_revisions db) rid of
        None \<Rightarrow> Inl (AdmExc (KeyError rid))
      | Some v \<Rightarrow>
          (let unresolved = ClusterMappingError ''mapping.recipe_unresolved'' ''only a resolved recipe can be mapped'' in
           case rv_content_sha256 v of
             None \<Rightarrow> Inl unresolved
           | Some sha \<Rightarrow> raise_if (rv_lifecycle v \<noteq> ''resolved'') unresolved (Inr (v, sha))))"

definition mapping_roles :: "(string, json) dict \<Rightarrow> adm_exc + (string \<times> bool) list" where
  "mapping_roles profile =
     (case get_list profile ''roles'' of
        None \<Rightarrow> Inl (ClusterMappingError ''mapping.profile_invalid'' ''profile roles are invalid'')
      | Some roles \<Rightarrow> rbind (map_r expand_role roles) (\<lambda>ess. Inr (concat ess)))"

definition plan_mapping ::
  "(string \<Rightarrow> string \<Rightarrow> adm_exc + bool) \<Rightarrow> (string \<Rightarrow> string) \<Rightarrow> agent_row list \<Rightarrow> admission_db \<Rightarrow>
   string \<Rightarrow> string \<Rightarrow> string list \<Rightarrow> (string, json) dict \<Rightarrow> adm_exc + mapping_plan" where
  "plan_mapping rmatch h agents db rid profile_name node_ids parameters =
     rbind (mapping_revision db rid) (\<lambda>(v, sha).
     rbind (active_nodes agents node_ids) (\<lambda>found.
     rbind (mapping_profile (rv_document v) profile_name) (\<lambda>profile.
     raise_if (case dict_get profile ''node_count'' of None \<Rightarrow> True | Some c \<Rightarrow> \<not> py_eq (JInt (int (length found))) c)
       (ClusterMappingError ''mapping.node_count'' ''selected GPU node count does not match the exact deployment profile'') (
     rbind (effective_parameters rmatch (rv_document v) profile parameters) (\<lambda>effective.
     rbind (mapping_roles profile) (\<lambda>expanded.
     rbind (place_nodes (sort found) expanded) (\<lambda>placed.
     let p = \<lparr>pl_recipe_revision_id = rv_id v, pl_recipe_content_sha256 = sha, pl_profile_name = profile_name, pl_generation = 1,
              pl_parameters = effective, pl_nodes = placed, pl_placement_digest = []\<rparr> in
     Inr (p\<lparr>pl_placement_digest := h (json_dumps True (mapping_identity p))\<rparr>))))))))"

section \<open>Materializing a plan\<close>

definition mapping_of_plan :: "string \<Rightarrow> mapping_plan \<Rightarrow> string \<Rightarrow> string \<Rightarrow> int \<Rightarrow> cluster_mapping" where
  "mapping_of_plan mid p owner actor now =
     \<lparr>cm_id = mid, cm_recipe_revision_id = pl_recipe_revision_id p, cm_profile_name = pl_profile_name p,
      cm_generation = pl_generation p, cm_node_count = int (length (pl_nodes p)), cm_state = ''ready'',
      cm_parameters = JObj (pl_parameters p), cm_placement_digest = pl_placement_digest p,
      cm_endpoint_owner_node_id = owner, cm_created_by = actor, cm_created_at = now, cm_updated_at = now\<rparr>"

definition mapping_node_of :: "string \<Rightarrow> int \<Rightarrow> mapping_placement \<Rightarrow> cluster_mapping_node" where
  "mapping_node_of mid now n =
     \<lparr>mn_mapping_id = mid, mn_node_id = mp_node_id n, mn_rank = mp_rank n, mn_role = mp_role n,
      mn_endpoint_owner = mp_endpoint_owner n, mn_created_at = now\<rparr>"

text \<open>The constraints of the tables \<^verbatim>\<open>cluster_mappings\<close> and \<^verbatim>\<open>cluster_mapping_nodes\<close> on the new rows.\<close>

definition mapping_rows_ok :: "cluster_mapping \<Rightarrow> cluster_mapping_node list \<Rightarrow> bool" where
  "mapping_rows_ok m ns \<longleftrightarrow>
     1 \<le> cm_generation m \<and> 1 \<le> cm_node_count m \<and> distinct (map mn_node_id ns) \<and> distinct (map mn_rank ns) \<and>
     list_all (\<lambda>n. 0 \<le> mn_rank n \<and> 1 \<le> length (mn_role n) \<and> length (mn_role n) \<le> 64) ns"

definition materialize ::
  "string \<Rightarrow> agent_row list \<Rightarrow> admission_db \<Rightarrow> mapping_plan \<Rightarrow> string \<Rightarrow> int \<Rightarrow> adm_exc + admission_db \<times> string" where
  "materialize mid agents db p actor0 now =
     (let actor = py_strip actor0;
          stale = ClusterMappingError ''mapping.stale_plan'' ''recipe changed after mapping preview'' in
      raise_if (actor = []) (ClusterMappingError ''mapping.actor'' ''mapping actor is invalid'') (
      case row_of rv_id (local_recipe_revisions db) (pl_recipe_revision_id p) of
        None \<Rightarrow> Inl stale
      | Some v \<Rightarrow>
          raise_if (rv_lifecycle v \<noteq> ''resolved'' \<or> rv_content_sha256 v \<noteq> Some (pl_recipe_content_sha256 p)) stale (
          rbind (active_nodes agents (map mp_node_id (pl_nodes p))) (\<lambda>_.
          case find (\<lambda>m. cm_placement_digest m = pl_placement_digest p) (cluster_mappings db) of
            Some m \<Rightarrow> Inr (db, cm_id m)
          | None \<Rightarrow>
              (case filter mp_endpoint_owner (pl_nodes p) of
                 [owner] \<Rightarrow>
                   let m = mapping_of_plan mid p (mp_node_id owner) actor now;
                       ns = map (mapping_node_of mid now) (pl_nodes p) in
                   raise_if (\<not> mapping_rows_ok m ns) (IntegrityError ''cluster_mapping_nodes'') (
                   Inr (db\<lparr>cluster_mappings := cluster_mappings db @ [m],
                           cluster_mapping_nodes := cluster_mapping_nodes db @ ns\<rparr>, mid))
               | _ \<Rightarrow> Inl (ClusterMappingError ''mapping.endpoint_owner'' ''mapping must have one endpoint owner''))))))"

section \<open>A planned mapping fits its profile\<close>

lemma active_nodes_Inr:
  assumes "active_nodes agents node_ids = Inr found" "distinct (map ag_node_id agents)"
  shows "distinct found" "found \<noteq> []" "set found \<subseteq> set (map ag_node_id agents)"
  using assms by (auto simp: active_nodes_def Let_def result_simps distinct_map inj_on_def)

lemma place_nodes_Inr:
  assumes "place_nodes ordered expanded = Inr placed"
  shows "map mp_node_id placed = ordered" "map mp_role placed = map fst expanded"
    "map mp_rank placed = map int [0..<length ordered]" "length placed = length ordered"
proof -
  from assms have len: "length expanded = length ordered"
    and placed: "placed = map (\<lambda>i. \<lparr>mp_node_id = ordered ! i, mp_rank = int i, mp_role = fst (expanded ! i),
      mp_endpoint_owner = snd (expanded ! i)\<rparr>) [0..<length ordered]"
    by (auto simp: place_nodes_def result_simps)
  show "map mp_node_id placed = ordered" by (simp add: placed comp_def map_nth)
  have "map fst expanded = map fst (map ((!) expanded) [0..<length expanded])" by (simp only: map_nth)
  then show "map mp_role placed = map fst expanded" by (simp add: placed comp_def len)
  show "map mp_rank placed = map int [0..<length ordered]" "length placed = length ordered" by (simp_all add: placed comp_def)
qed

lemma expand_role_map: "expand_role raw = Inr es \<Longrightarrow> \<exists>r. raw = JObj r"
  by (auto simp: expand_role_def split: json.splits)

lemma expanded_roles:
  "map_r expand_role roles = Inr ess \<Longrightarrow>
     map_r (\<lambda>role. rbind (int_item role ''count'') (\<lambda>n.
         if n \<le> 0 then Inr [] else rbind (py_item role ''name'') (\<lambda>v. Inr (replicate (nat n) (py_str v))))) (the_maps roles) =
       Inr (map (map fst) ess)"
proof (induction roles arbitrary: ess)
  case (Cons raw roles)
  then obtain es ess' where es: "expand_role raw = Inr es" "map_r expand_role roles = Inr ess'" "ess = es # ess'"
    by (auto simp: result_simps)
  from expand_role_map [OF es(1)] obtain r where r: "raw = JObj r" by blast
  have "rbind (int_item r ''count'') (\<lambda>n.
      if n \<le> 0 then Inr [] else rbind (py_item r ''name'') (\<lambda>v. Inr (replicate (nat n) (py_str v)))) = Inr (map fst es)"
    using es(1) by (auto simp: r expand_role_def result_simps split: if_splits)
  with Cons.IH [OF es(2)] show ?case by (simp add: r es(3) the_maps_def map_filter_simps)
qed (simp add: the_maps_def map_filter_simps)

definition mapping_placements :: "mapping_plan \<Rightarrow> placement list" where
  "mapping_placements p = map (\<lambda>n. \<lparr>pc_node_id = mp_node_id n, pc_rank = mp_rank n, pc_role = mp_role n\<rparr>) (pl_nodes p)"

lemma plan_mapping_Inr:
  assumes "plan_mapping rmatch h agents db rid name node_ids params = Inr p"
  obtains v sha found profile expanded where
    "mapping_revision db rid = Inr (v, sha)" "active_nodes agents node_ids = Inr found"
    "deployment_profile (rv_document v) name = Inr profile"
    "\<exists>c. dict_get profile ''node_count'' = Some c \<and> py_eq (JInt (int (length found))) c"
    "mapping_roles profile = Inr expanded" "place_nodes (sort found) expanded = Inr (pl_nodes p)"
proof -
  have profile: "mapping_profile d n = Inr q \<longleftrightarrow> deployment_profile d n = Inr q" for d n q
    by (auto simp: mapping_profile_def split: sum.splits adm_exc.splits)
  show ?thesis
    using assms that unfolding plan_mapping_def Let_def
    by (auto simp: result_simps profile split: option.splits prod.splits)
qed

lemma sort_key_sorted_id: "sorted (map f xs) \<Longrightarrow> sort_key f xs = xs"
  by (induction xs) (auto simp: insort_is_Cons)

lemma planned_placements:
  assumes plan: "plan_mapping rmatch h agents db rid name node_ids params = Inr p"
    and agents: "distinct (map ag_node_id agents)"
  obtains v sha profile raw where
    "mapping_revision db rid = Inr (v, sha)" "deployment_profile (rv_document v) name = Inr profile"
    "get_list profile ''roles'' = Some raw" "expected_roles raw = Inr (sort (map pc_role (mapping_placements p)))"
    "check_placement profile (mapping_placements p) = Inr ()" "map mp_rank (pl_nodes p) = map int [0..<length (pl_nodes p)]"
proof -
  obtain v sha found profile expanded where
    v: "mapping_revision db rid = Inr (v, sha)" and found: "active_nodes agents node_ids = Inr found"
    and profile: "deployment_profile (rv_document v) name = Inr profile"
    and count: "\<exists>c. dict_get profile ''node_count'' = Some c \<and> py_eq (JInt (int (length found))) c"
    and roles: "mapping_roles profile = Inr expanded" and placed: "place_nodes (sort found) expanded = Inr (pl_nodes p)"
    by (rule plan_mapping_Inr [OF plan])
  note nodes = active_nodes_Inr [OF found agents] and place = place_nodes_Inr [OF placed]
  let ?ps = "mapping_placements p"
  have maps: "map pc_node_id ?ps = sort found" "map pc_role ?ps = map fst expanded"
    "map pc_rank ?ps = map int [0..<length found]" "length ?ps = length found"
    using place by (simp_all add: mapping_placements_def comp_def)
  have "?ps \<noteq> []" using maps(4) nodes(2) by auto
  then have place_ok: "check_placement profile ?ps = Inr ()"
    unfolding check_placement_Inr using nodes(1) count by (simp add: maps)
  obtain raw ess where raw: "get_list profile ''roles'' = Some raw" "map_r expand_role raw = Inr ess" "expanded = concat ess"
    using roles by (auto simp: mapping_roles_def result_simps split: option.splits)
  have expected: "expected_roles raw = Inr (sort (map pc_role ?ps))"
    using expanded_roles [OF raw(2)] by (simp add: expected_roles_def raw(3) map_concat maps(2))
  show ?thesis using that [OF v profile raw(1) expected place_ok] place(3,4) by simp
qed

lemma materialize_new:
  assumes "materialize mid agents db p actor now = Inr (db', mid)" "mid \<notin> set (map cm_id (cluster_mappings db))"
  shows "\<exists>owner. cluster_mappings db' = cluster_mappings db @ [mapping_of_plan mid p owner (py_strip actor) now]"
    "cluster_mapping_nodes db' = cluster_mapping_nodes db @ map (mapping_node_of mid now) (pl_nodes p)"
  using assms
  by (auto simp: materialize_def Let_def result_simps find_Some_iff split: option.splits list.splits)

lemma materialized_rows:
  assumes new: "materialize mid agents db p actor now = Inr (db', mid)" "mid \<notin> set (map cm_id (cluster_mappings db))"
      "mid \<notin> set (map mn_mapping_id (cluster_mapping_nodes db))"
    and ranks: "map mp_rank (pl_nodes p) = map int [0..<length (pl_nodes p)]"
  shows "map placement_of (mapping_rows db' mid) = mapping_placements p"
proof -
  let ?new = "map (mapping_node_of mid now) (pl_nodes p)"
  have "filter (\<lambda>n. mn_mapping_id n = mid) (cluster_mapping_nodes db') = ?new"
    using new(3) by (auto simp: materialize_new(2) [OF new(1,2)] filter_empty_conv mapping_node_of_def)
  moreover have "map mn_rank ?new = map mp_rank (pl_nodes p)" by (simp add: comp_def mapping_node_of_def)
  then have "sort_key mn_rank ?new = ?new"
    using ranks by (intro sort_key_sorted_id) (simp add: sorted_map)
  ultimately show ?thesis
    by (simp add: mapping_rows_def mapping_placements_def comp_def placement_of_def mapping_node_of_def)
qed

text \<open>C38: A mapping fits the topology check of run admission. Take a plan of \<^verbatim>\<open>ClusterMappingService.plan\<close>
  over agents with distinct node_ids that \<^verbatim>\<open>materialize\<close> turns into a new mapping. The rows of the mapping,
  read by rank as \<^verbatim>\<open>plan_run\<close> reads them, are the placements of the plan, and \<^verbatim>\<open>validate_topology\<close> on
  them passes the profile, placement and role checks for any capabilities: its result is decided by
  the runtime capability of the nodes and by the fabric alone.\<close>

theorem mapping_validates:
  assumes plan: "plan_mapping rmatch h agents db rid name node_ids params = Inr p"
    and agents: "distinct (map ag_node_id agents)"
    and new: "materialize mid agents' db1 p actor now = Inr (db', mid)" "mid \<notin> set (map cm_id (cluster_mappings db1))"
      "mid \<notin> set (map mn_mapping_id (cluster_mapping_nodes db1))"
  shows "\<exists>v sha profile. mapping_revision db rid = Inr (v, sha) \<and> deployment_profile (rv_document v) name = Inr profile \<and>
    map placement_of (mapping_rows db' mid) = mapping_placements p \<and>
    validate_topology (rv_document v) name (map placement_of (mapping_rows db' mid)) capabilities =
      (if \<exists>n \<in> set (map mp_node_id (pl_nodes p)). ''runtime.vonk.v1'' \<notin> set (caps_of capabilities n)
       then Inl (TopologyError ''topology.runtime_capability_missing'' ''every GPU node must advertise runtime.vonk.v1'')
       else case get_map profile ''fabric'' of
         None \<Rightarrow> Inl (TopologyError ''topology.fabric_missing'' ''profile fabric is missing'')
       | Some fabric \<Rightarrow> check_connectivity fabric (mapping_placements p) capabilities)"
proof -
  obtain v sha profile raw where
    v: "mapping_revision db rid = Inr (v, sha)" and profile: "deployment_profile (rv_document v) name = Inr profile"
    and raw: "get_list profile ''roles'' = Some raw" "expected_roles raw = Inr (sort (map pc_role (mapping_placements p)))"
    and place: "check_placement profile (mapping_placements p) = Inr ()"
    and ranks: "map mp_rank (pl_nodes p) = map int [0..<length (pl_nodes p)]"
    by (rule planned_placements [OF plan agents])
  note rows = materialized_rows [OF new ranks]
  have sorted: "sort_key pc_rank (mapping_placements p) = mapping_placements p"
    using place by (intro sort_key_sorted_id) (simp add: check_placement_Inr sorted_map)
  have nodes: "set (map pc_node_id (mapping_placements p)) = set (map mp_node_id (pl_nodes p))"
    by (simp add: mapping_placements_def image_image)
  have "topology_profile (rv_document v) name = Inr profile" using profile by (simp add: topology_profile_Inr)
  then have "validate_topology (rv_document v) name (mapping_placements p) capabilities =
      (if \<exists>n \<in> set (map mp_node_id (pl_nodes p)). ''runtime.vonk.v1'' \<notin> set (caps_of capabilities n)
       then Inl (TopologyError ''topology.runtime_capability_missing'' ''every GPU node must advertise runtime.vonk.v1'')
       else case get_map profile ''fabric'' of
         None \<Rightarrow> Inl (TopologyError ''topology.fabric_missing'' ''profile fabric is missing'')
       | Some fabric \<Rightarrow> check_connectivity fabric (mapping_placements p) capabilities)"
    unfolding validate_topology_def Let_def by (simp only: rbind.simps sorted place raw option.case simp_thms raise_if_simps nodes)
      (simp add: raise_if_def)
  then show ?thesis using v profile rows by simp
qed

section \<open>An example\<close>

definition map_ex_recipe :: "(string, json) dict" where
  "map_ex_recipe =
     [(''deployment_profiles'', JList [JObj
        [(''name'', JStr ''solo''), (''node_count'', JInt 1),
         (''roles'', JList [JObj [(''name'', JStr ''worker''), (''count'', JInt 1), (''endpoint_owner'', JBool True)]]),
         (''fabric'', JObj [(''connectivity'', JStr ''none''), (''minimum_bandwidth_mbps'', JInt 0)]),
         (''parameter_overrides'', JObj [])]]),
      (''parameters'', JList [JObj [(''name'', JStr ''ctx''), (''type'', JStr ''integer''), (''default'', JInt 8), (''maximum'', JInt 64)]])]"

definition map_ex_db :: admission_db where
  "map_ex_db = \<lparr>agent_nodes = [''n1''], node_inventory_snapshots = [],
     local_recipe_revisions = [\<lparr>rv_id = ''v'', rv_lifecycle = ''resolved'', rv_document = map_ex_recipe, rv_content_sha256 = Some ''c''\<rparr>],
     recipe_builds = [], node_artifacts = [], cluster_mappings = [], cluster_mapping_nodes = [],
     recipe_installations = [], installation_nodes = [], recipe_runs = [], run_nodes = [], resource_reservations = []\<rparr>"

definition map_ex_agents :: "agent_row list" where
  "map_ex_agents = [\<lparr>ag_node_id = ''n1'', ag_state = ''active'', ag_revoked_at = None, ag_architecture = Some ''linux-arm64''\<rparr>]"

definition map_ex_plan :: mapping_plan where
  "map_ex_plan = \<lparr>pl_recipe_revision_id = ''v'', pl_recipe_content_sha256 = ''c'', pl_profile_name = ''solo'', pl_generation = 1,
     pl_parameters = [(''ctx'', JInt 16)],
     pl_nodes = [\<lparr>mp_node_id = ''n1'', mp_rank = 0, mp_role = ''worker'', mp_endpoint_owner = True\<rparr>], pl_placement_digest = ''d''\<rparr>"

lemma map_ex_planned:
  "plan_mapping (\<lambda>_ _. Inr True) (\<lambda>_. ''d'') map_ex_agents map_ex_db ''v'' ''solo'' [''n1''] [(''ctx'', JInt 16)] = Inr map_ex_plan"
proof -
  have revision: "mapping_revision map_ex_db ''v'' = Inr (hd (local_recipe_revisions map_ex_db), ''c'')"
    by (simp add: mapping_revision_def row_of_def map_ex_db_def Let_def)
  have row: "rv_document (hd (local_recipe_revisions map_ex_db)) = map_ex_recipe" "rv_id (hd (local_recipe_revisions map_ex_db)) = ''v''"
    by (simp_all add: map_ex_db_def)
  have nodes: "active_nodes map_ex_agents [''n1''] = Inr [''n1'']" by (simp add: active_nodes_def map_ex_agents_def)
  let ?profile = "[(''name'', JStr ''solo''), (''node_count'', JInt 1),
     (''roles'', JList [JObj [(''name'', JStr ''worker''), (''count'', JInt 1), (''endpoint_owner'', JBool True)]]),
     (''fabric'', JObj [(''connectivity'', JStr ''none''), (''minimum_bandwidth_mbps'', JInt 0)]), (''parameter_overrides'', JObj [])]"
  have profile: "mapping_profile map_ex_recipe ''solo'' = Inr ?profile"
    by (simp add: mapping_profile_def deployment_profile_def get_list_def the_maps_def map_filter_simps map_ex_recipe_def)
  have parameters: "effective_parameters (\<lambda>_ _. Inr True) map_ex_recipe ?profile [(''ctx'', JInt 16)] = Inr [(''ctx'', JInt 16)]"
    by (simp add: effective_parameters_def get_list_def get_map_def map_ex_recipe_def role_dict_def the_maps_def map_filter_simps
        py_item_def py_str_def dict_of_def dict_update_def check_parameter_def valid_type_def out_of_bounds_def int_value_def)
  have roles: "mapping_roles ?profile = Inr [(''worker'', True)]"
    by (simp add: mapping_roles_def get_list_def expand_role_def int_item_def py_item_def py_int_def py_str_def py_truth_def)
  show ?thesis
    by (simp add: plan_mapping_def revision row nodes profile parameters roles place_nodes_def map_ex_plan_def Let_def)
qed

lemma map_ex_materialized:
  "materialize ''m'' map_ex_agents map_ex_db map_ex_plan ''op'' 5 =
     Inr (map_ex_db\<lparr>cluster_mappings := [mapping_of_plan ''m'' map_ex_plan ''n1'' ''op'' 5],
       cluster_mapping_nodes := map (mapping_node_of ''m'' 5) (pl_nodes map_ex_plan)\<rparr>, ''m'')"
proof -
  have "py_strip ''op'' = ''op''" by (simp add: py_strip_def py_space_def)
  moreover have "active_nodes map_ex_agents [''n1''] = Inr [''n1'']" by (simp add: active_nodes_def map_ex_agents_def)
  ultimately show ?thesis
    by (simp add: materialize_def map_ex_plan_def map_ex_db_def row_of_def mapping_rows_ok_def mapping_of_plan_def mapping_node_of_def Let_def)
qed

theorem mapping_validates_witness:
  "\<exists>v sha. mapping_revision map_ex_db ''v'' = Inr (v, sha) \<and>
     validate_topology (rv_document v) ''solo'' (mapping_placements map_ex_plan) [] =
       Inl (TopologyError ''topology.runtime_capability_missing'' ''every GPU node must advertise runtime.vonk.v1'')"
  using mapping_validates [OF map_ex_planned _ map_ex_materialized, of "[]"]
  by (auto simp: map_ex_agents_def map_ex_db_def map_ex_plan_def caps_of_def)

end
