(* ===== verification/Spec2Isabelle.thy ===== *)
theory Spec2Isabelle
  imports Prelude Json Operation_Graph Fencing Node_Leases Python_Text Job_Queue Job_Properties
    Fleet Placement Profiles Catalog Profile_Admission Protocol Plan_Store
    Update_Signing Signing_Properties Update_Planning Planning_Properties
    Recipe_Topology Admission_Tables Run_Admission Run_Properties Install_Admission
    Cluster_Mapping
begin

text \<open>
  Vonk Forge is the control plane of a small fleet of GPU nodes. Profiles and workload definitions live in a
  repository; the control service turns them into plans of operations, stores the plans, hands jobs to workers and
  messages to the agents on the nodes, and keeps two changes of one node from running at once. This development models
  the parts of that path that decide what may happen, in the order in which a change passes through them.

  \<^bold>\<open>The parts and their theories.\<close>

  \<^item> \<open>Prelude\<close>, \<open>Json\<close>, \<open>Python_Text\<close>: exceptions as values, dictionaries in insertion order, JSON documents with
    \<^verbatim>\<open>json.dumps\<close>/\<^verbatim>\<open>json.loads\<close>, UTF-8, regular-expression classes, \<^verbatim>\<open>uuid.UUID\<close>.
  \<^item> \<open>Fleet\<close> (\<^verbatim>\<open>src/src/cluster_profiles/fleet/types.py\<close>, \<^verbatim>\<open>loaders.py\<close>): node records, fleets, topology references
    and the loader of a fleet document.
  \<^item> \<open>Placement\<close> (\<^verbatim>\<open>placement.py\<close>, \<^verbatim>\<open>admission.check_generic_admission\<close>): the planner of one requirement and the
    admission of several on shrinking observations.
  \<^item> \<open>Profiles\<close> (\<^verbatim>\<open>contracts.py\<close>, \<^verbatim>\<open>profile_compat.py\<close>): contracts and loaders of workloads and profiles.
  \<^item> \<open>Catalog\<close> (\<^verbatim>\<open>catalog.py\<close>): fingerprints, locks, maturity histories and evidence, and the load of the catalog.
  \<^item> \<open>Profile_Admission\<close> (\<^verbatim>\<open>admission.py\<close>): placement policy and fail-closed admission of a profile.
  \<^item> \<open>Operation_Graph\<close> (\<^verbatim>\<open>src/control/src/vonk_control/orchestration.py\<close>, plan parser): operations, the deterministic
    topological order, graph documents.
  \<^item> \<open>Plan_Store\<close> (the rest of \<^verbatim>\<open>orchestration.py\<close>): the table of reconciliations as a list of records, every operation
    of \<^verbatim>\<open>ReconciliationOrchestrator\<close>, and the validation of persisted plans.
  \<^item> \<open>Protocol\<close> (\<^verbatim>\<open>agent_protocol/contracts.py\<close>, \<^verbatim>\<open>package_operations.py\<close>): the messages between control plane and
    agents.
  \<^item> \<open>Update_Signing\<close> (\<^verbatim>\<open>update_grants.py\<close>, \<^verbatim>\<open>update_signer.py\<close>): the grants that the API signs for a rollout, and the
    isolated signer that checks them: its messages, its policy, the connection handler and the client.
    \<open>Signing_Properties\<close> holds what the two sides guarantee together.
  \<^item> \<open>Update_Planning\<close> (\<^verbatim>\<open>updates.py\<close>): observations and version skew, the planner of batches, persisted plans and the
    creation of a rollout. \<open>Planning_Properties\<close> holds what a plan guarantees.
  \<^item> \<open>Recipe_Topology\<close> (\<^verbatim>\<open>topology.py\<close>, \<^verbatim>\<open>inventory_repository.py\<close>, \<^verbatim>\<open>recipe_contract.deployment_profile\<close>): placements
    against the profile of a recipe, and the inventory of the nodes. \<open>Admission_Tables\<close> (\<^verbatim>\<open>models.py\<close>): the tables of
    runs, installations and reservations and the locale \<open>capacity_ledger\<close>, what a component promises that reserves capacity
    per node. \<open>Run_Admission\<close> (\<^verbatim>\<open>run_admission.py\<close>) plans and accepts runs, \<open>Install_Admission\<close> (\<^verbatim>\<open>install_admission.py\<close>,
    \<^verbatim>\<open>artifact_sizes.py\<close>) installations; they interpret the locale as \<open>run_ledger\<close> (in \<open>Run_Properties\<close>) and
    \<open>install_ledger\<close>. \<open>Cluster_Mapping\<close> (\<^verbatim>\<open>cluster_mappings.py\<close>) plans and creates the mappings that both read.
  \<^item> \<open>Fencing\<close>: the locale \<open>fenced_resource\<close>, what a component promises that hands out fences; \<open>Node_Leases\<close>
    (\<^verbatim>\<open>node_leases.py\<close>) interprets it as \<open>node_fence\<close> and \<open>Job_Queue\<close> (\<^verbatim>\<open>jobs.py\<close>) as \<open>job_fence\<close>.
  \<^item> \<open>Job_Properties\<close>: what the job queue guarantees to its callers.

  \<^bold>\<open>How state and operations correspond.\<close> A dataclass is a record, an enumeration a datatype, a table a list of
  records; a method is a definition with the state before as an argument and the state after in its result. Raised
  exceptions are the \<open>Inl\<close> side of a sum. Generated identifiers, clock readings, rows locked or committed by other
  transactions, the hash function, the Ed25519 keys, the TOML parser, \<^verbatim>\<open>datetime.fromisoformat\<close>,
  \<^verbatim>\<open>ipaddress\<close> and the JSON schema validator are arguments.
  Strings are lists of code points below 256, and JSON numbers are integers.

  \<^bold>\<open>What the lemmas show.\<close> Job queue and node leases: invariants of every reachable state by induction over the
  calls, from which mutual exclusion, single running attempts and the rejection of superseded fences follow through the
  locale. Operation graphs: the order is topological, independent of the input order, and exists exactly for acyclic
  graphs; persisted graphs parse back. Plan store: phases and completion generations. Placement and admission: soundness of
  what is selected or admitted against the observations, preference order, capacity over several requirements. Catalog:
  definitions, locks and maturity records agree, and acceptance is earned. Protocol: what an accepted message can contain.
  Signing: authorized requests were granted, issued grants are accepted, answers reach the client, and messages are read
  exactly when they are canonical. Planning: plans schedule what the release replaces, keep workloads available, persist
  validly and are created once. Run and install admission: accepted plans leave the memory and disk floors and unique ports,
  allowed plans are accepted when nothing changed, an installation does not run twice, validated placements fit their
  profile, and mappings always pass its placement and role checks.

  \<^bold>\<open>Recursion and bounds.\<close> Loops are structural recursion except the topological loop, the batch loop, the text scanners and the
  reader of chunked messages, whose termination is proved by the length of what is left, and the JSON parser, which runs with fuel one more than the length
  of the text; \<open>json_loads_dumps\<close> shows that this fuel is enough for every document that was written.

  \<^bold>\<open>Not modelled.\<close> The package contracts that the catalog loads (an argument of \<open>catalog_load\<close>); the signed cursor of the
  job listing; the dispatch to agents and its evidence, presence, routes, the validation of recipes, the release of reservations, the steps of
  update rollouts after their creation, package rollouts, which use the components above and are the next ones; HTTP handlers, the command line, the node agent,
  certificates, file-system and process effects, the Rust helpers, and generated code.
\<close>

end
